(* ===== verification/Maxim_Prelude.thy ===== *)
theory Maxim_Prelude
  imports Main "HOL-Library.Word" "HOL-Library.Monad_Syntax" "HOL-Library.Signed_Division"
begin

text \<open>
  Shared types, results and machine arithmetic of the Maxim Protocol model.

  Rust's unsigned integers are words of their width. An \<open>i64\<close> is a 64-bit word read by
  \<open>sint\<close>; its operators are the checked ones, because the release profile of the workspace
  (\<^verbatim>\<open>Cargo.toml\<close>) sets \<^verbatim>\<open>overflow-checks = true\<close>: an overflow is a panic, here \<open>None\<close>. A
  \<^verbatim>\<open>Pubkey\<close> and a \<^verbatim>\<open>[u8; 32]\<close> hash are 256-bit words, with their bytes in little-endian order.
  A Rust \<^verbatim>\<open>String\<close> is the list of its UTF-8 bytes, each a HOL character.
\<close>

section \<open>Types\<close>

type_synonym u8 = "8 word"
type_synonym u32 = "32 word"
type_synonym u64 = "64 word"
type_synonym i64 = "64 word"
type_synonym bytes = "u8 list"
type_synonym pubkey = "256 word"
type_synonym hash256 = "256 word"

abbreviation default_pubkey :: pubkey where
  "default_pubkey \<equiv> 0"

named_theorems result_simps "how a result computation succeeds or fails"
named_theorems ix_simps "when an instruction succeeds, and the state it leaves"
named_theorems i64_simps "reading the checked signed operators"

section \<open>Results: an error or a value\<close>

definition rbind :: "'e + 'a \<Rightarrow> ('a \<Rightarrow> 'e + 'b) \<Rightarrow> 'e + 'b" where
  "rbind m f = (case m of Inl e \<Rightarrow> Inl e | Inr x \<Rightarrow> f x)"

definition require :: "bool \<Rightarrow> 'e \<Rightarrow> 'e + unit" where
  "require c e = (if c then Inr () else Inl e)"

definition ok_or :: "'a option \<Rightarrow> 'e \<Rightarrow> 'e + 'a" where
  "ok_or m e = (case m of None \<Rightarrow> Inl e | Some x \<Rightarrow> Inr x)"

lemma rbind_Inl [simp]: "rbind (Inl e) f = Inl e"
  by (simp add: rbind_def)

lemma rbind_Inr [simp]: "rbind (Inr x) f = f x"
  by (simp add: rbind_def)

lemma require_True [simp]: "require True e = Inr ()"
  by (simp add: require_def)

lemma require_False [simp]: "require False e = Inl e"
  by (simp add: require_def)

lemma ok_or_simps [simp]: "ok_or (Some x) e = Inr x" "ok_or None e = Inl e"
  by (simp_all add: ok_or_def)

lemma rbind_eq_Inr [result_simps]:
  "rbind m f = Inr y \<longleftrightarrow> (\<exists>x. m = Inr x \<and> f x = Inr y)"
  by (cases m) auto

lemma rbind_eq_Inl [result_simps]:
  "rbind m f = Inl e \<longleftrightarrow> m = Inl e \<or> (\<exists>x. m = Inr x \<and> f x = Inl e)"
  by (cases m) auto

lemma require_eq_Inr [result_simps]: "require c e = Inr u \<longleftrightarrow> c"
  by (simp add: require_def)

lemma require_eq_Inl [result_simps]: "require c e = Inl e' \<longleftrightarrow> \<not> c \<and> e = e'"
  by (auto simp: require_def)

lemma ok_or_eq_Inr [result_simps]: "ok_or m e = Inr x \<longleftrightarrow> m = Some x"
  by (cases m) auto

lemma ok_or_eq_Inl [result_simps]: "ok_or m e = Inl e' \<longleftrightarrow> m = None \<and> e = e'"
  by (cases m) auto

section \<open>Unsigned saturating addition\<close>

definition saturating_add :: "'a::len word \<Rightarrow> 'a word \<Rightarrow> 'a word" where
  "saturating_add a b = (if unat a + unat b < 2 ^ LENGTH('a) then a + b else - 1)"

lemma unat_minus_one_word: "unat (- 1 :: 'a::len word) = 2 ^ LENGTH('a) - 1"
  by (simp add: unsigned_minus_1_eq_mask mask_eq_exp_minus_1)

lemma unat_word_add_lt:
  fixes a b :: "'a::len word"
  assumes "unat a + unat b < 2 ^ LENGTH('a)"
  shows "unat (a + b) = unat a + unat b"
  using assms by (simp add: unat_word_ariths)

lemma unat_saturating_add:
  fixes a b :: "'a::len word"
  shows "unat (saturating_add a b) = min (unat a + unat b) (2 ^ LENGTH('a) - 1)"
  by (simp add: saturating_add_def unat_word_add_lt unat_minus_one_word)

lemma saturating_add_exact:
  fixes a b :: "'a::len word"
  assumes "unat a + unat b < 2 ^ LENGTH('a)"
  shows "unat (saturating_add a b) = unat a + unat b"
  using assms by (simp add: saturating_add_def unat_word_add_lt)

lemma saturating_add_ge: "unat a \<le> unat (saturating_add a b)"
proof -
  have "unat a < 2 ^ LENGTH('a)" by (rule unsigned_less)
  then show ?thesis unfolding unat_saturating_add by linarith
qed

lemma saturating_add_mono: "a \<le> b \<Longrightarrow> saturating_add a n \<le> saturating_add b n"
  by (simp add: word_le_nat_alt unat_saturating_add min_le_iff_disj)

lemma saturating_add_full:
  fixes b :: "'a::len word"
  shows "saturating_add (- 1 :: 'a word) b = - 1"
proof -
  have "unat (saturating_add (- 1 :: 'a word) b) = unat (- 1 :: 'a word)"
    by (simp add: unat_saturating_add unat_minus_one_word)
  then show ?thesis by (simp only: word_unat_eq_iff)
qed

section \<open>Signed 64-bit arithmetic with overflow checks\<close>

definition i64_range :: "int \<Rightarrow> bool" where
  "i64_range x \<longleftrightarrow> - (2 ^ 63) \<le> x \<and> x < 2 ^ 63"

definition i64_checked :: "int \<Rightarrow> i64 option" where
  "i64_checked x = (if i64_range x then Some (word_of_int x) else None)"

definition i64_add :: "i64 \<Rightarrow> i64 \<Rightarrow> i64 option" where
  "i64_add a b = i64_checked (sint a + sint b)"

definition i64_sub :: "i64 \<Rightarrow> i64 \<Rightarrow> i64 option" where
  "i64_sub a b = i64_checked (sint a - sint b)"

definition i64_mul :: "i64 \<Rightarrow> i64 \<Rightarrow> i64 option" where
  "i64_mul a b = i64_checked (sint a * sint b)"

definition i64_div :: "i64 \<Rightarrow> i64 \<Rightarrow> i64 option" where
  "i64_div a b = (if sint b = 0 then None else i64_checked (sint a sdiv sint b))"

lemma sint_i64_range: "i64_range (sint (a :: i64))"
  using sint_ge [of a] sint_lt [of a] by (simp add: i64_range_def)

lemma sint_of_i64_range: "i64_range x \<Longrightarrow> sint (word_of_int x :: i64) = x"
  by (simp add: i64_range_def sint_sbintrunc' signed_take_bit_int_eq_self_iff)

lemma i64_checked_eq_Some [i64_simps]:
  "i64_checked x = Some r \<longleftrightarrow> i64_range x \<and> sint r = x"
  by (auto simp: i64_checked_def sint_of_i64_range)

lemma i64_checked_eq_None [i64_simps]: "i64_checked x = None \<longleftrightarrow> \<not> i64_range x"
  by (simp add: i64_checked_def)

lemma i64_ops_Some [i64_simps]:
  "i64_add a b = Some r \<longleftrightarrow> i64_range (sint a + sint b) \<and> sint r = sint a + sint b"
  "i64_sub a b = Some r \<longleftrightarrow> i64_range (sint a - sint b) \<and> sint r = sint a - sint b"
  "i64_mul a b = Some r \<longleftrightarrow> i64_range (sint a * sint b) \<and> sint r = sint a * sint b"
  by (simp_all add: i64_add_def i64_sub_def i64_mul_def i64_simps)

lemma sdiv_nonneg: "0 \<le> a \<Longrightarrow> 0 < b \<Longrightarrow> (a :: int) sdiv b = a div b"
  by (cases "a = 0") (auto simp: signed_divide_int_def)

lemma i64_div_Some [i64_simps]:
  "0 \<le> sint a \<Longrightarrow> 0 < sint b \<Longrightarrow>
     i64_div a b = Some r \<longleftrightarrow> i64_range (sint a div sint b) \<and> sint r = sint a div sint b"
  by (simp add: i64_div_def sdiv_nonneg i64_simps)

lemma i64_range_mono: "i64_range y \<Longrightarrow> 0 \<le> x \<Longrightarrow> x \<le> y \<Longrightarrow> i64_range x"
  by (auto simp: i64_range_def)

lemma i64_range_add: "0 \<le> a \<Longrightarrow> a < 2 ^ 62 \<Longrightarrow> 0 \<le> b \<Longrightarrow> b < 2 ^ 32 \<Longrightarrow> i64_range (a + b)"
  by (simp add: i64_range_def)

lemma i64_add_value:
  assumes "i64_range (sint a + sint b)"
  obtains r where "i64_add a b = Some r" and "sint r = sint a + sint b"
  using assms i64_ops_Some(1) [of a b "word_of_int (sint a + sint b)"] sint_of_i64_range [OF assms]
  by blast

section \<open>Windows of a fixed length\<close>

text \<open>
  The arithmetic of a tumbling window: \<open>Some None\<close> while the window that starts at \<open>start\<close> is open
  at \<open>now\<close>, \<open>Some (Some start')\<close> with the start of the window that holds \<open>now\<close> once it has closed,
  and \<open>None\<close> where an operation overflows.
\<close>

definition window_advance :: "i64 \<Rightarrow> i64 \<Rightarrow> i64 \<Rightarrow> i64 option option" where
  "window_advance start now period = do {
     window_end \<leftarrow> i64_add start period;
     if sint window_end \<le> sint now then do {
       elapsed \<leftarrow> i64_sub now start;
       periods \<leftarrow> i64_div elapsed period;
       delta \<leftarrow> i64_mul periods period;
       start' \<leftarrow> i64_add start delta;
       Some (Some start')
     } else Some None
   }"

lemma map_window_advance:
  "map_option f (window_advance start now period) = do {
     window_end \<leftarrow> i64_add start period;
     if sint window_end \<le> sint now then do {
       elapsed \<leftarrow> i64_sub now start;
       periods \<leftarrow> i64_div elapsed period;
       delta \<leftarrow> i64_mul periods period;
       start' \<leftarrow> i64_add start delta;
       Some (f (Some start'))
     } else Some (f None)
   }"
  by (simp add: window_advance_def map_option_bind comp_def if_distrib [of "map_option f"]
      cong: if_cong)

definition window_start_at :: "int \<Rightarrow> int \<Rightarrow> int \<Rightarrow> int" where
  "window_start_at start now period = start + (now - start) div period * period"

lemma window_start_at_bounds:
  assumes "0 < period"
  shows "window_start_at start now period \<le> now"
    and "now < window_start_at start now period + period"
proof -
  have "(now - start) div period * period + (now - start) mod period = now - start"
    by simp
  moreover have "0 \<le> (now - start) mod period" and "(now - start) mod period < period"
    using assms by simp_all
  ultimately show "window_start_at start now period \<le> now"
    and "now < window_start_at start now period + period"
    unfolding window_start_at_def by linarith+
qed

lemma window_start_at_ge:
  assumes "0 < period" and "start \<le> now"
  shows "start \<le> window_start_at start now period"
  using assms by (simp add: window_start_at_def pos_imp_zdiv_nonneg_iff)

lemma window_advance_value:
  assumes pos: "0 < sint period" and r1: "i64_range (sint start + sint period)"
    and r2: "i64_range (sint now - sint start)"
  shows "window_advance start now period = Some
    (if sint start + sint period \<le> sint now
     then Some (word_of_int (window_start_at (sint start) (sint now) (sint period))) else None)"
proof (cases "sint start + sint period \<le> sint now")
  case True
  let ?d = "(sint now - sint start) div sint period"
  obtain e where e: "i64_add start period = Some e" "sint e = sint start + sint period"
    using r1 by (rule i64_add_value)
  have el: "i64_sub now start = Some (word_of_int (sint now - sint start))"
    and s_el: "sint (word_of_int (sint now - sint start) :: i64) = sint now - sint start"
    using r2 sint_of_i64_range [OF r2] by (simp_all only: i64_sub_def i64_checked_def if_True)
  have d0: "0 \<le> ?d" "?d * sint period \<le> sint now - sint start"
    using True pos window_start_at_bounds(1) [OF pos, of "sint start" "sint now"]
    by (simp_all add: pos_imp_zdiv_nonneg_iff window_start_at_def)
  then have "?d \<le> sint now - sint start"
    using pos mult_left_mono [of 1 "sint period" ?d] by linarith
  then have rd: "i64_range ?d" and rm: "i64_range (?d * sint period)"
    using d0 pos i64_range_mono [OF r2] by simp_all
  have rs: "i64_range (sint start + ?d * sint period)"
    using d0(2) mult_nonneg_nonneg [OF d0(1), of "sint period"] pos
      sint_i64_range [of start] sint_i64_range [of now]
    unfolding i64_range_def by (intro conjI; linarith)
  have dv: "i64_div (word_of_int (sint now - sint start)) period = Some (word_of_int ?d)"
    using True pos rd by (simp only: i64_div_Some s_el sint_of_i64_range)
  have ml: "i64_mul (word_of_int ?d) period = Some (word_of_int (?d * sint period))"
    using rd rm by (simp only: i64_ops_Some sint_of_i64_range simp_thms)
  have st: "i64_add start (word_of_int (?d * sint period))
      = Some (word_of_int (window_start_at (sint start) (sint now) (sint period)))"
    using rs rm by (simp only: i64_ops_Some sint_of_i64_range window_start_at_def simp_thms)
  show ?thesis
    using True by (simp only: window_advance_def e el dv ml st bind.simps if_True)
next
  case False
  obtain e where "i64_add start period = Some e" "sint e = sint start + sint period"
    using r1 by (rule i64_add_value)
  with False show ?thesis
    by (simp add: window_advance_def)
qed

section \<open>Bytes\<close>

definition le_bytes :: "'a::len word \<Rightarrow> bytes" where
  "le_bytes w = map (\<lambda>i. ucast (drop_bit (8 * i) w)) [0..<LENGTH('a) div 8]"

definition str_bytes :: "string \<Rightarrow> bytes" where
  "str_bytes s = map of_char s"

lemma length_le_bytes [simp]: "length (le_bytes (w :: 'a::len word)) = LENGTH('a) div 8"
  by (simp add: le_bytes_def)

lemma length_str_bytes [simp]: "length (str_bytes s) = length s"
  by (simp add: str_bytes_def)

section \<open>Transition systems and invariants\<close>

inductive reach :: "('s \<Rightarrow> bool) \<Rightarrow> ('s \<Rightarrow> 's \<Rightarrow> bool) \<Rightarrow> 's \<Rightarrow> bool"
  for init :: "'s \<Rightarrow> bool" and step :: "'s \<Rightarrow> 's \<Rightarrow> bool" where
  reach_init: "init s \<Longrightarrow> reach init step s"
| reach_step: "reach init step s \<Longrightarrow> step s t \<Longrightarrow> reach init step t"

lemma reach_steps: "reach init step s \<Longrightarrow> step\<^sup>*\<^sup>* s t \<Longrightarrow> reach init step t"
  by (rotate_tac, induction rule: rtranclp_induct) (auto intro: reach_step)

locale invariant_of =
  fixes init :: "'s \<Rightarrow> bool" and step :: "'s \<Rightarrow> 's \<Rightarrow> bool" and inv :: "'s \<Rightarrow> bool"
  assumes init_inv: "init s \<Longrightarrow> inv s"
    and step_inv: "step s t \<Longrightarrow> inv s \<Longrightarrow> inv t"
begin

lemma reach_inv: "reach init step s \<Longrightarrow> inv s"
  by (induction rule: reach.induct) (auto intro: init_inv step_inv)

lemma steps_inv: "step\<^sup>*\<^sup>* s t \<Longrightarrow> inv s \<Longrightarrow> inv t"
  by (induction rule: rtranclp_induct) (auto intro: step_inv)

end

end
