(* ===== verification/Errors.thy ===== *)
theory Errors
  imports Maxim_Prelude
begin

text \<open>
  The error values of the program: \<^verbatim>\<open>errors.rs\<close>, and what else can stop an instruction: a
  failed account check of Anchor, a rejected call into the System or the Token program, a panic.
\<close>

section \<open>The program's own errors (errors.rs)\<close>

datatype MaximError =
    AgentIdTooLong
  | InvalidAgentId
  | AgentNotActive
  | AgentFrozen
  | Unauthorized
  | ZeroPaymentAmount
  | InvalidProtocol
  | DailyBudgetExceeded
  | WeeklyBudgetExceeded
  | MonthlyBudgetExceeded
  | PerCallLimitExceeded
  | RateLimitExceeded
  | DomainNotAllowed
  | DomainBlocked
  | DomainListFull
  | ParentAgentMismatch
  | InvalidOwner
  | OwnerUnchanged
  | InsufficientFunds
  | ProtocolAlreadyInitialised
  | AgentStillActive
  | TokenAccountNotEmpty
  | SequenceMismatch
  | GlobalPaymentCapExceeded

text \<open>
  The variants carry no explicit discriminant, so each is its position in the enum;
  \<^verbatim>\<open>#[error_code]\<close> numbers the codes a client sees from 6000.
\<close>

fun MaximError_discriminant :: "MaximError \<Rightarrow> nat" where
  "MaximError_discriminant AgentIdTooLong = 0"
| "MaximError_discriminant InvalidAgentId = 1"
| "MaximError_discriminant AgentNotActive = 2"
| "MaximError_discriminant AgentFrozen = 3"
| "MaximError_discriminant Unauthorized = 4"
| "MaximError_discriminant ZeroPaymentAmount = 5"
| "MaximError_discriminant InvalidProtocol = 6"
| "MaximError_discriminant DailyBudgetExceeded = 7"
| "MaximError_discriminant WeeklyBudgetExceeded = 8"
| "MaximError_discriminant MonthlyBudgetExceeded = 9"
| "MaximError_discriminant PerCallLimitExceeded = 10"
| "MaximError_discriminant RateLimitExceeded = 11"
| "MaximError_discriminant DomainNotAllowed = 12"
| "MaximError_discriminant DomainBlocked = 13"
| "MaximError_discriminant DomainListFull = 14"
| "MaximError_discriminant ParentAgentMismatch = 15"
| "MaximError_discriminant InvalidOwner = 16"
| "MaximError_discriminant OwnerUnchanged = 17"
| "MaximError_discriminant InsufficientFunds = 18"
| "MaximError_discriminant ProtocolAlreadyInitialised = 19"
| "MaximError_discriminant AgentStillActive = 20"
| "MaximError_discriminant TokenAccountNotEmpty = 21"
| "MaximError_discriminant SequenceMismatch = 22"
| "MaximError_discriminant GlobalPaymentCapExceeded = 23"

definition error_code :: "MaximError \<Rightarrow> nat" where
  "error_code e = 6000 + MaximError_discriminant e"

lemma MaximError_discriminant_inj: "MaximError_discriminant d = MaximError_discriminant e \<longleftrightarrow> d = e"
  by (cases d; cases e; simp)

text \<open>Every error of the program has a code of its own, from 6000 to 6023, and none of them fits the
  single byte in which \<open>record_policy_violation\<close> takes and logs the reason of a violation.\<close>

theorem error_codes_exceed_reason_byte:
  "(error_code d = error_code e \<longleftrightarrow> d = e) \<and> 6000 \<le> error_code e \<and> error_code e \<le> 6023
    \<and> unat (reason :: u8) \<noteq> error_code e"
proof -
  have "unat reason < 2 ^ 8"
    using unsigned_less [of reason] by simp
  moreover have "error_code e \<le> 6023"
    by (cases e) (simp_all add: error_code_def)
  ultimately show ?thesis
    by (auto simp: error_code_def MaximError_discriminant_inj)
qed

text \<open>Errors are ordered by their code.\<close>

instantiation MaximError :: linorder
begin

definition less_eq_MaximError :: "MaximError \<Rightarrow> MaximError \<Rightarrow> bool" where
  "less_eq_MaximError d e \<longleftrightarrow> error_code d \<le> error_code e"

definition less_MaximError :: "MaximError \<Rightarrow> MaximError \<Rightarrow> bool" where
  "less_MaximError d e \<longleftrightarrow> error_code d < error_code e"

instance
  by standard
    (auto simp: less_eq_MaximError_def less_MaximError_def error_code_def MaximError_discriminant_inj)

end

section \<open>Everything that can stop an instruction\<close>

text \<open>
  The checks Anchor derives from an \<^verbatim>\<open>#[derive(Accounts)]\<close> struct, by their error names, and the failure
  to write an account back into its allocation.
\<close>

datatype AnchorError =
    AccountNotInitialized
  | AccountOwnedByWrongProgram
  | AccountDiscriminatorMismatch
  | AccountNotSigner
  | ConstraintSeeds
  | ConstraintRaw
  | ConstraintTokenOwner
  | ConstraintAssociated
  | ConstraintClose
  | TryingToInitPayerAsProgramAccount
  | AccountDidNotSerialize

text \<open>
  \<open>AccountInUse\<close>: the System program refuses to create an account at an occupied address;
  \<open>IllegalOwner\<close>: the Associated Token program refuses an address whose account is not system-owned;
  \<open>InvalidAccountData\<close> and \<open>InvalidSeeds\<close> are the SDK's errors for an account of the right program but
  the wrong layout and for seeds that do not give the address;
  \<open>RentUnfunded\<close>: the payer cannot pay the rent-exempt deposit; \<open>PrivilegeEscalation\<close>: a call into
  another program claims a signature its seeds do not give; \<open>TokenError\<close>: the Token program's
  error; \<open>Panic\<close>: an overflow under \<^verbatim>\<open>overflow-checks\<close>, or the panic of
  \<^verbatim>\<open>find_program_address\<close> when no address exists for its seeds.
\<close>

datatype program_error =
    Maxim MaximError
  | Anchor AnchorError
  | AccountInUse
  | IllegalOwner
  | InvalidAccountData
  | InvalidSeeds
  | RentUnfunded
  | PrivilegeEscalation
  | TokenError nat
  | Panic

end
