(* ===== verification/Agent_Wallet.thy ===== *)
theory Agent_Wallet
  imports Errors
begin

text \<open>
  The registry entry of an agent (state/agent_wallet.rs): its state, its three spend windows and
  the resets. The windows share one contract, the locale \<open>spend_window\<close>, discharged for the daily,
  the weekly and the monthly one.
\<close>

section \<open>State\<close>

definition MAX_AGENT_ID_LEN :: nat where
  "MAX_AGENT_ID_LEN = 64"

definition SECONDS_PER_DAY :: i64 where
  "SECONDS_PER_DAY = 86400"

definition SECONDS_PER_WEEK :: i64 where
  "SECONDS_PER_WEEK = 604800"

definition SECONDS_PER_MONTH :: i64 where
  "SECONDS_PER_MONTH = 2592000"

record AgentWallet =
  aw_agent_id :: string
  aw_owner :: pubkey
  aw_usdc_token_account :: pubkey
  aw_daily_spend :: u64
  aw_daily_window_start :: i64
  aw_weekly_spend :: u64
  aw_weekly_window_start :: i64
  aw_monthly_spend :: u64
  aw_monthly_window_start :: i64
  aw_payment_sequence :: u64
  aw_total_payments :: u64
  aw_total_volume :: u64
  aw_last_payment_at :: i64
  aw_is_active :: bool
  aw_is_frozen :: bool
  aw_bump :: u8

definition AgentWallet_LEN :: nat where
  "AgentWallet_LEN = 8 + (4 + MAX_AGENT_ID_LEN) + 32 + 32
     + 8 + 8 + 8 + 8 + 8 + 8 + 8 + 8 + 8 + 8 + 1 + 1 + 1"

definition zero_AgentWallet :: AgentWallet where
  "zero_AgentWallet =
     \<lparr>aw_agent_id = [], aw_owner = 0, aw_usdc_token_account = 0,
      aw_daily_spend = 0, aw_daily_window_start = 0, aw_weekly_spend = 0,
      aw_weekly_window_start = 0, aw_monthly_spend = 0, aw_monthly_window_start = 0,
      aw_payment_sequence = 0, aw_total_payments = 0, aw_total_volume = 0,
      aw_last_payment_at = 0, aw_is_active = False, aw_is_frozen = False, aw_bump = 0\<rparr>"

section \<open>Operations\<close>

definition is_operational :: "AgentWallet \<Rightarrow> bool" where
  "is_operational w \<longleftrightarrow> aw_is_active w \<and> \<not> aw_is_frozen w"

text \<open>\<open>None\<close> is the panic of an overflowing operation.\<close>

definition reset_daily_window_if_elapsed :: "AgentWallet \<Rightarrow> i64 \<Rightarrow> AgentWallet option" where
  "reset_daily_window_if_elapsed w now = do {
     window_end \<leftarrow> i64_add (aw_daily_window_start w) SECONDS_PER_DAY;
     if sint window_end \<le> sint now then do {
       elapsed \<leftarrow> i64_sub now (aw_daily_window_start w);
       periods \<leftarrow> i64_div elapsed SECONDS_PER_DAY;
       delta \<leftarrow> i64_mul periods SECONDS_PER_DAY;
       start \<leftarrow> i64_add (aw_daily_window_start w) delta;
       Some (w\<lparr>aw_daily_spend := 0, aw_daily_window_start := start\<rparr>)
     } else Some w
   }"

definition reset_weekly_window_if_elapsed :: "AgentWallet \<Rightarrow> i64 \<Rightarrow> AgentWallet option" where
  "reset_weekly_window_if_elapsed w now = do {
     window_end \<leftarrow> i64_add (aw_weekly_window_start w) SECONDS_PER_WEEK;
     if sint window_end \<le> sint now then do {
       elapsed \<leftarrow> i64_sub now (aw_weekly_window_start w);
       periods \<leftarrow> i64_div elapsed SECONDS_PER_WEEK;
       delta \<leftarrow> i64_mul periods SECONDS_PER_WEEK;
       start \<leftarrow> i64_add (aw_weekly_window_start w) delta;
       Some (w\<lparr>aw_weekly_spend := 0, aw_weekly_window_start := start\<rparr>)
     } else Some w
   }"

definition reset_monthly_window_if_elapsed :: "AgentWallet \<Rightarrow> i64 \<Rightarrow> AgentWallet option" where
  "reset_monthly_window_if_elapsed w now = do {
     window_end \<leftarrow> i64_add (aw_monthly_window_start w) SECONDS_PER_MONTH;
     if sint window_end \<le> sint now then do {
       elapsed \<leftarrow> i64_sub now (aw_monthly_window_start w);
       periods \<leftarrow> i64_div elapsed SECONDS_PER_MONTH;
       delta \<leftarrow> i64_mul periods SECONDS_PER_MONTH;
       start \<leftarrow> i64_add (aw_monthly_window_start w) delta;
       Some (w\<lparr>aw_monthly_spend := 0, aw_monthly_window_start := start\<rparr>)
     } else Some w
   }"

section \<open>What a spend window promises\<close>

text \<open>
  A window of a wallet is a spend accumulator, the start of the window it counts in, and a reset.
  \<open>restart\<close> is the state change of a reset that fires. The client lemmas say what a reset leaves:
  the window that holds \<open>now\<close>, a whole number of periods after the old one, and an accumulator that
  is kept while the window is open and zero once it has closed.
\<close>

locale spend_window =
  fixes spend :: "AgentWallet \<Rightarrow> u64"
    and start :: "AgentWallet \<Rightarrow> i64"
    and period :: i64
    and restart :: "AgentWallet \<Rightarrow> i64 \<Rightarrow> AgentWallet"
    and reset :: "AgentWallet \<Rightarrow> i64 \<Rightarrow> AgentWallet option"
  assumes period_pos: "0 < sint period"
    and reset_eq: "reset w now = map_option
      (\<lambda>r. case r of None \<Rightarrow> w | Some s \<Rightarrow> restart w s) (window_advance (start w) now period)"
    and spend_restart: "spend (restart w s) = 0"
    and start_restart: "start (restart w s) = s"
begin

definition in_range :: "AgentWallet \<Rightarrow> i64 \<Rightarrow> bool" where
  "in_range w now \<longleftrightarrow> i64_range (sint (start w) + sint period) \<and> i64_range (sint now - sint (start w))"

definition elapsed :: "AgentWallet \<Rightarrow> i64 \<Rightarrow> bool" where
  "elapsed w now \<longleftrightarrow> sint (start w) + sint period \<le> sint now"

lemma reset_value:
  assumes "in_range w now"
  shows "reset w now = Some (if elapsed w now
    then restart w (word_of_int (window_start_at (sint (start w)) (sint now) (sint period))) else w)"
  using assms window_advance_value [OF period_pos, of "start w" now]
  by (simp add: reset_eq in_range_def elapsed_def)

lemma sint_new_start:
  assumes "elapsed w now"
  shows "sint (word_of_int (window_start_at (sint (start w)) (sint now) (sint period)) :: i64)
    = window_start_at (sint (start w)) (sint now) (sint period)"
proof (rule sint_of_i64_range)
  have "sint (start w) \<le> sint now"
    using assms period_pos by (simp add: elapsed_def)
  then have "sint (start w) \<le> window_start_at (sint (start w)) (sint now) (sint period)"
    and "window_start_at (sint (start w)) (sint now) (sint period) \<le> sint now"
    using period_pos by (auto intro: window_start_at_ge window_start_at_bounds)
  then show "i64_range (window_start_at (sint (start w)) (sint now) (sint period))"
    using sint_i64_range [of "start w"] sint_i64_range [of now]
    unfolding i64_range_def by linarith
qed

lemma window_start_open:
  assumes "\<not> elapsed w now" and "sint (start w) \<le> sint now"
  shows "window_start_at (sint (start w)) (sint now) (sint period) = sint (start w)"
  using assms by (simp add: elapsed_def window_start_at_def div_pos_pos_trivial)

lemma reset_result:
  assumes "in_range w now" and "sint (start w) \<le> sint now" and "reset w now = Some w'"
  shows "sint (start w') = window_start_at (sint (start w)) (sint now) (sint period)"
    and "spend w' = (if elapsed w now then 0 else spend w)"
  using assms
  by (auto simp: reset_value sint_new_start spend_restart start_restart window_start_open
      split: if_splits)

lemma reset_bounds:
  assumes "in_range w now" and "sint (start w) \<le> sint now" and "reset w now = Some w'"
  shows "sint (start w') \<le> sint now" and "sint now < sint (start w') + sint period"
  by (simp_all add: reset_result [OF assms] window_start_at_bounds [OF period_pos])

lemma reset_aligned:
  assumes "in_range w now" and "sint (start w) \<le> sint now" and "reset w now = Some w'"
  shows "sint period dvd sint (start w') - sint (start w)"
  by (simp add: reset_result [OF assms] window_start_at_def)

lemma reset_Some_range:
  assumes "reset w now = Some w'"
  shows "i64_range (sint (start w) + sint period)"
  using assms by (auto simp: reset_eq window_advance_def bind_eq_Some_conv i64_simps)

text \<open>With times that are not negative, no more than success is needed.\<close>

lemma reset_Some_in_range:
  assumes "reset w now = Some w'" and "0 \<le> sint (start w)" and "sint (start w) \<le> sint now"
  shows "in_range w now"
proof -
  have "i64_range (sint now - sint (start w))"
    using i64_range_mono [OF sint_i64_range [of now]] assms(2,3) by simp
  then show ?thesis
    using reset_Some_range [OF assms(1)] by (simp add: in_range_def)
qed

lemma reset_Some_value:
  assumes "reset w now = Some w'"
  shows "w' = (if elapsed w now
    then restart w (word_of_int (window_start_at (sint (start w)) (sint now) (sint period))) else w)"
proof (cases "elapsed w now")
  case True
  have "i64_range (sint now - sint (start w))"
    using assms True
    by (auto simp: reset_eq window_advance_def bind_eq_Some_conv i64_simps elapsed_def)
  then have "in_range w now"
    using reset_Some_range [OF assms] by (simp add: in_range_def)
  then show ?thesis using assms True by (simp add: reset_value)
next
  case False
  then have "window_advance (start w) now period = Some None"
    using assms by (auto simp: reset_eq window_advance_def bind_eq_Some_conv i64_simps elapsed_def
        split: if_splits)
  then show ?thesis using assms False by (simp add: reset_eq)
qed

lemma reset_Some_bounds:
  assumes "reset w now = Some w'" and "0 \<le> sint (start w)" and "sint (start w) \<le> sint now"
  shows "sint (start w) \<le> sint (start w')" and "sint (start w') \<le> sint now"
    and "sint now < sint (start w') + sint period"
    and "spend w' = (if elapsed w now then 0 else spend w)"
proof -
  have r: "in_range w now"
    using assms by (rule reset_Some_in_range)
  show "sint (start w) \<le> sint (start w')"
    by (simp add: reset_result(1) [OF r assms(3,1)] window_start_at_ge period_pos assms(3))
  show "sint (start w') \<le> sint now" "sint now < sint (start w') + sint period"
    using reset_bounds [OF r assms(3,1)] .
  show "spend w' = (if elapsed w now then 0 else spend w)"
    by (rule reset_result(2) [OF r assms(3,1)])
qed

lemma reset_no_panic: "in_range w now \<Longrightarrow> reset w now \<noteq> None"
  by (simp add: reset_value)

lemma reset_tumbles:
  assumes "0 \<le> sint (start w)" and "sint (start w) \<le> sint now"
    and "sint now < 2 ^ 62" and "sint period < 2 ^ 62"
  shows "\<exists>w'. reset w now = Some w'
    \<and> sint (start w') \<le> sint now \<and> sint now < sint (start w') + sint period
    \<and> sint period dvd sint (start w') - sint (start w)
    \<and> spend w' = (if sint now < sint (start w) + sint period then spend w else 0)"
proof -
  have r: "in_range w now"
    using assms period_pos by (simp add: in_range_def i64_range_def)
  then obtain w' where w': "reset w now = Some w'"
    using reset_no_panic by blast
  then show ?thesis
    using reset_bounds [OF r assms(2) w'] reset_aligned [OF r assms(2) w']
      reset_result(2) [OF r assms(2) w']
    by (simp add: elapsed_def not_less [symmetric] del: not_less)
qed

end

lemma sint_periods:
  "sint SECONDS_PER_DAY = 86400" "sint SECONDS_PER_WEEK = 604800" "sint SECONDS_PER_MONTH = 2592000"
  by (simp_all add: SECONDS_PER_DAY_def SECONDS_PER_WEEK_def SECONDS_PER_MONTH_def)

interpretation daily: spend_window aw_daily_spend aw_daily_window_start SECONDS_PER_DAY
  "\<lambda>w s. w\<lparr>aw_daily_spend := 0, aw_daily_window_start := s\<rparr>" reset_daily_window_if_elapsed
  by unfold_locales
    (simp_all add: sint_periods reset_daily_window_if_elapsed_def map_window_advance cong: if_cong)

interpretation weekly: spend_window aw_weekly_spend aw_weekly_window_start SECONDS_PER_WEEK
  "\<lambda>w s. w\<lparr>aw_weekly_spend := 0, aw_weekly_window_start := s\<rparr>" reset_weekly_window_if_elapsed
  by unfold_locales
    (simp_all add: sint_periods reset_weekly_window_if_elapsed_def map_window_advance cong: if_cong)

interpretation monthly: spend_window aw_monthly_spend aw_monthly_window_start SECONDS_PER_MONTH
  "\<lambda>w s. w\<lparr>aw_monthly_spend := 0, aw_monthly_window_start := s\<rparr>" reset_monthly_window_if_elapsed
  by unfold_locales
    (simp_all add: sint_periods reset_monthly_window_if_elapsed_def map_window_advance cong: if_cong)

text \<open>C36: Each of the three spend windows tumbles: at any clock from its start up to 2^62 the reset does
  not panic, leaves a window that contains the clock and starts a whole number of periods (a day, a
  week, 30 days) after the old one, and keeps what was spent while the old window is still open,
  forgetting it once that window has ended.\<close>

theorem window_resets_tumble:
  assumes "0 \<le> sint (aw_daily_window_start w)" "sint (aw_daily_window_start w) \<le> sint now"
    and "0 \<le> sint (aw_weekly_window_start w)" "sint (aw_weekly_window_start w) \<le> sint now"
    and "0 \<le> sint (aw_monthly_window_start w)" "sint (aw_monthly_window_start w) \<le> sint now"
    and "sint now < 2 ^ 62"
  shows "(\<exists>w'. reset_daily_window_if_elapsed w now = Some w'
      \<and> sint (aw_daily_window_start w') \<le> sint now \<and> sint now < sint (aw_daily_window_start w') + 86400
      \<and> 86400 dvd sint (aw_daily_window_start w') - sint (aw_daily_window_start w)
      \<and> aw_daily_spend w' = (if sint now < sint (aw_daily_window_start w) + 86400
                             then aw_daily_spend w else 0))
    \<and> (\<exists>w'. reset_weekly_window_if_elapsed w now = Some w'
      \<and> sint (aw_weekly_window_start w') \<le> sint now \<and> sint now < sint (aw_weekly_window_start w') + 604800
      \<and> 604800 dvd sint (aw_weekly_window_start w') - sint (aw_weekly_window_start w)
      \<and> aw_weekly_spend w' = (if sint now < sint (aw_weekly_window_start w) + 604800
                              then aw_weekly_spend w else 0))
    \<and> (\<exists>w'. reset_monthly_window_if_elapsed w now = Some w'
      \<and> sint (aw_monthly_window_start w') \<le> sint now
      \<and> sint now < sint (aw_monthly_window_start w') + 2592000
      \<and> 2592000 dvd sint (aw_monthly_window_start w') - sint (aw_monthly_window_start w)
      \<and> aw_monthly_spend w' = (if sint now < sint (aw_monthly_window_start w) + 2592000
                               then aw_monthly_spend w else 0))"
  using daily.reset_tumbles [of w now] weekly.reset_tumbles [of w now]
    monthly.reset_tumbles [of w now] assms
  by (simp only: sint_periods) simp

theorem window_resets_tumble_witness:
  "\<exists>w'. reset_daily_window_if_elapsed (zero_AgentWallet\<lparr>aw_daily_spend := 5\<rparr>) 200000 = Some w'
     \<and> sint (aw_daily_window_start w') \<le> 200000 \<and> aw_daily_spend w' = 0"
  using window_resets_tumble [of "zero_AgentWallet\<lparr>aw_daily_spend := 5\<rparr>" 200000]
  by (auto simp: zero_AgentWallet_def)

end
