(* ===== verification/Spend_Policy.thy ===== *)
theory Spend_Policy
  imports Errors
begin

text \<open>
  The spend policy account and its checks (state/spend_policy.rs): the per-call limit, the three
  budget caps, the rate limit and its window. The caps share one contract, stated as the locale
  \<open>budget_cap\<close> and discharged for each of them.
\<close>

section \<open>State\<close>

definition MAX_DOMAIN_ENTRIES :: nat where
  "MAX_DOMAIN_ENTRIES = 32"

record SpendPolicy =
  sp_agent_wallet :: pubkey
  sp_daily_budget :: u64
  sp_weekly_budget :: u64
  sp_monthly_budget :: u64
  sp_per_call_limit :: u64
  sp_rate_limit_calls :: u32
  sp_rate_limit_window_secs :: u32
  sp_rate_limit_call_count :: u32
  sp_rate_limit_window_start :: i64
  sp_high_value_threshold :: u64
  sp_allowed_domain_hashes :: "hash256 list"
  sp_blocked_domain_hashes :: "hash256 list"
  sp_bump :: u8

definition SpendPolicy_LEN :: nat where
  "SpendPolicy_LEN = 8 + 32 + 8 + 8 + 8 + 8 + 4 + 4 + 4 + 8 + 8
     + 4 + (MAX_DOMAIN_ENTRIES * 32) + 4 + (MAX_DOMAIN_ENTRIES * 32) + 1"

definition zero_SpendPolicy :: SpendPolicy where
  "zero_SpendPolicy =
     \<lparr>sp_agent_wallet = 0, sp_daily_budget = 0, sp_weekly_budget = 0, sp_monthly_budget = 0,
      sp_per_call_limit = 0, sp_rate_limit_calls = 0, sp_rate_limit_window_secs = 0,
      sp_rate_limit_call_count = 0, sp_rate_limit_window_start = 0, sp_high_value_threshold = 0,
      sp_allowed_domain_hashes = [], sp_blocked_domain_hashes = [], sp_bump = 0\<rparr>"

section \<open>Operations\<close>

definition within_per_call_limit :: "SpendPolicy \<Rightarrow> u64 \<Rightarrow> bool" where
  "within_per_call_limit p amount \<longleftrightarrow> sp_per_call_limit p = 0 \<or> amount \<le> sp_per_call_limit p"

definition within_daily_budget :: "SpendPolicy \<Rightarrow> u64 \<Rightarrow> u64 \<Rightarrow> bool" where
  "within_daily_budget p current_spend amount \<longleftrightarrow>
     sp_daily_budget p = 0 \<or> saturating_add current_spend amount \<le> sp_daily_budget p"

definition within_weekly_budget :: "SpendPolicy \<Rightarrow> u64 \<Rightarrow> u64 \<Rightarrow> bool" where
  "within_weekly_budget p current_spend amount \<longleftrightarrow>
     sp_weekly_budget p = 0 \<or> saturating_add current_spend amount \<le> sp_weekly_budget p"

definition within_monthly_budget :: "SpendPolicy \<Rightarrow> u64 \<Rightarrow> u64 \<Rightarrow> bool" where
  "within_monthly_budget p current_spend amount \<longleftrightarrow>
     sp_monthly_budget p = 0 \<or> saturating_add current_spend amount \<le> sp_monthly_budget p"

definition within_rate_limit :: "SpendPolicy \<Rightarrow> bool" where
  "within_rate_limit p \<longleftrightarrow>
     sp_rate_limit_calls p = 0 \<or> sp_rate_limit_call_count p < sp_rate_limit_calls p"

text \<open>
  \<^verbatim>\<open>rate_limit_window_secs as i64\<close> extends the unsigned value with zeros. The comparison
  \<^verbatim>\<open>now >= start + secs\<close> is evaluated only when the window is not zero seconds long, as \<^verbatim>\<open>&&\<close> does;
  its addition is the checked one.
\<close>

definition reset_rate_window_if_elapsed :: "SpendPolicy \<Rightarrow> i64 \<Rightarrow> SpendPolicy option" where
  "reset_rate_window_if_elapsed p now =
     (if 0 < sp_rate_limit_window_secs p then
        do {
          window_end \<leftarrow> i64_add (sp_rate_limit_window_start p) (ucast (sp_rate_limit_window_secs p));
          Some (if sint window_end \<le> sint now
                then p\<lparr>sp_rate_limit_call_count := 0, sp_rate_limit_window_start := now\<rparr>
                else p)
        }
      else Some p)"

section \<open>What a budget cap promises\<close>

text \<open>
  A cap is a limit that is off at zero and otherwise compares a saturating sum with it. On natural
  numbers this is the plain comparison, but for one corner: with the cap at the largest \<open>u64\<close> a sum
  beyond the type saturates to the cap and passes.
\<close>

locale budget_cap =
  fixes cap :: "SpendPolicy \<Rightarrow> u64"
    and within :: "SpendPolicy \<Rightarrow> u64 \<Rightarrow> u64 \<Rightarrow> bool"
  assumes within_iff: "within p spent amount \<longleftrightarrow> cap p = 0 \<or> saturating_add spent amount \<le> cap p"
begin

lemma within_off: "cap p = 0 \<Longrightarrow> within p spent amount"
  by (simp add: within_iff)

lemma within_nat:
  "within p spent amount \<longleftrightarrow>
     cap p = 0 \<or> cap p = - 1 \<or> unat spent + unat amount \<le> unat (cap p)"
proof -
  have full: "cap p = - 1 \<longleftrightarrow> unat (cap p) = 2 ^ 64 - 1"
    by (simp add: word_unat_eq_iff unat_minus_one_word)
  have "unat (cap p) < 2 ^ 64"
    using unsigned_less [of "cap p"] by simp
  then have "min (unat spent + unat amount) (2 ^ 64 - 1) \<le> unat (cap p)
      \<longleftrightarrow> unat (cap p) = 2 ^ 64 - 1 \<or> unat spent + unat amount \<le> unat (cap p)"
    by linarith
  then show ?thesis
    by (simp add: within_iff word_le_nat_alt unat_saturating_add full)
qed

lemma within_new_spend:
  assumes "within p spent amount" and "cap p \<noteq> 0"
  shows "saturating_add spent amount \<le> cap p"
  using assms by (simp add: within_iff)

lemma within_mono:
  assumes "within p spent amount" and "spent' \<le> spent"
  shows "within p spent' amount"
proof -
  have "unat (saturating_add spent' amount) \<le> unat (saturating_add spent amount)"
    using assms(2) by (simp add: unat_saturating_add word_le_nat_alt min_le_iff_disj)
  then show ?thesis
    using assms(1) by (auto simp: within_iff word_le_nat_alt)
qed

end

interpretation daily_cap: budget_cap sp_daily_budget within_daily_budget
  by unfold_locales (simp add: within_daily_budget_def)

interpretation weekly_cap: budget_cap sp_weekly_budget within_weekly_budget
  by unfold_locales (simp add: within_weekly_budget_def)

interpretation monthly_cap: budget_cap sp_monthly_budget within_monthly_budget
  by unfold_locales (simp add: within_monthly_budget_def)

lemma within_per_call_limit_nat:
  "within_per_call_limit p amount \<longleftrightarrow>
     sp_per_call_limit p = 0 \<or> unat amount \<le> unat (sp_per_call_limit p)"
  by (simp add: within_per_call_limit_def word_le_nat_alt)

section \<open>The rate-limit window\<close>

lemma within_rate_limit_nat:
  "within_rate_limit p \<longleftrightarrow> sp_rate_limit_calls p = 0
     \<or> unat (sp_rate_limit_call_count p) < unat (sp_rate_limit_calls p)"
  by (simp add: within_rate_limit_def word_less_nat_alt)

lemma sint_ucast_u32: "sint (ucast (n :: u32) :: i64) = uint n"
proof -
  have "uint n \<le> 2 ^ 32"
    using uint_lt2p [of n] by simp
  then have "i64_range (uint n)"
    by (rule i64_range_mono [of "2 ^ 32", rotated 2]) (simp_all add: i64_range_def)
  then have "sint (word_of_int (uint n) :: i64) = uint n"
    by (rule sint_of_i64_range)
  then show ?thesis by (simp only: ucast_eq)
qed

lemma reset_rate_window_cases:
  assumes "reset_rate_window_if_elapsed p now = Some p'"
  shows "p' = p \<or> p' = p\<lparr>sp_rate_limit_call_count := 0, sp_rate_limit_window_start := now\<rparr>"
  using assms
  by (auto simp: reset_rate_window_if_elapsed_def bind_eq_Some_conv split: if_splits)

lemma reset_rate_window_value:
  assumes "i64_range (sint (sp_rate_limit_window_start p) + uint (sp_rate_limit_window_secs p))"
  shows "reset_rate_window_if_elapsed p now = Some
     (if 0 < sp_rate_limit_window_secs p
         \<and> sint (sp_rate_limit_window_start p) + uint (sp_rate_limit_window_secs p) \<le> sint now
      then p\<lparr>sp_rate_limit_call_count := 0, sp_rate_limit_window_start := now\<rparr> else p)"
proof -
  have "i64_range (sint (sp_rate_limit_window_start p)
      + sint (ucast (sp_rate_limit_window_secs p) :: i64))"
    using assms by (simp only: sint_ucast_u32)
  then obtain e where "i64_add (sp_rate_limit_window_start p) (ucast (sp_rate_limit_window_secs p)) = Some e"
    and "sint e = sint (sp_rate_limit_window_start p) + uint (sp_rate_limit_window_secs p)"
    by (rule i64_add_value) (simp add: sint_ucast_u32)
  then show ?thesis
    by (simp add: reset_rate_window_if_elapsed_def)
qed

lemma reset_rate_window_Some:
  assumes "reset_rate_window_if_elapsed p now = Some q"
  shows "q = (if 0 < sp_rate_limit_window_secs p
         \<and> sint (sp_rate_limit_window_start p) + uint (sp_rate_limit_window_secs p) \<le> sint now
      then p\<lparr>sp_rate_limit_call_count := 0, sp_rate_limit_window_start := now\<rparr> else p)"
  using assms
  by (auto simp: reset_rate_window_if_elapsed_def bind_eq_Some_conv i64_simps sint_ucast_u32
      split: if_splits)

text \<open>The five checks of a policy are plain comparisons of numbers: a limit of zero is off; a budget
  compares what was spent plus the amount with itself, except that a budget of the largest u64
  admits any sum, because the addition saturates; the rate limit needs a call left.\<close>

theorem budget_checks_exact:
  "(within_per_call_limit p n \<longleftrightarrow> sp_per_call_limit p = 0 \<or> unat n \<le> unat (sp_per_call_limit p))
   \<and> (within_daily_budget p spent n \<longleftrightarrow> sp_daily_budget p \<in> {0, - 1}
        \<or> unat spent + unat n \<le> unat (sp_daily_budget p))
   \<and> (within_weekly_budget p spent n \<longleftrightarrow> sp_weekly_budget p \<in> {0, - 1}
        \<or> unat spent + unat n \<le> unat (sp_weekly_budget p))
   \<and> (within_monthly_budget p spent n \<longleftrightarrow> sp_monthly_budget p \<in> {0, - 1}
        \<or> unat spent + unat n \<le> unat (sp_monthly_budget p))
   \<and> (within_rate_limit p \<longleftrightarrow> sp_rate_limit_calls p = 0
        \<or> unat (sp_rate_limit_call_count p) < unat (sp_rate_limit_calls p))"
  by (auto simp: within_per_call_limit_nat daily_cap.within_nat weekly_cap.within_nat
      monthly_cap.within_nat within_rate_limit_nat)

end
