(* ===== verification/Payment_Record.thy ===== *)
theory Payment_Record
  imports Errors
begin

text \<open>
  The ledger entry of one payment or violation (state/payment_record.rs).

  The handlers of \<^verbatim>\<open>lib.rs\<close> assign \<^verbatim>\<open>record.memo\<close>, a field the struct of \<^verbatim>\<open>payment_record.rs\<close>
  does not declare. The model keeps both sides as they are written: \<open>PaymentRecord\<close> is the struct
  as declared, and \<open>LedgerEntry\<close> extends it by the field the handlers write. The allocation is the declared
  one, so what the handlers write does not always fit (\<open>write_back\<close>).
\<close>

datatype PaymentProtocol = X402 | Mpp

fun from_discriminant :: "u8 \<Rightarrow> PaymentProtocol option" where
  "from_discriminant v = (if v = 0 then Some X402 else if v = 1 then Some Mpp else None)"

text \<open>\<^verbatim>\<open>#[repr(u8)]\<close>: the discriminant a variant is declared with.\<close>

fun PaymentProtocol_as_u8 :: "PaymentProtocol \<Rightarrow> u8" where
  "PaymentProtocol_as_u8 X402 = 0"
| "PaymentProtocol_as_u8 Mpp = 1"

record PaymentRecord =
  pr_agent_wallet :: pubkey
  pr_sequence :: u64
  pr_endpoint_hash :: hash256
  pr_payee :: pubkey
  pr_amount_usdc :: u64
  pr_protocol :: PaymentProtocol
  pr_settled_at :: i64
  pr_policy_passed :: bool
  pr_parent_payment :: "pubkey option"
  pr_bump :: u8

record LedgerEntry = PaymentRecord +
  le_memo :: "hash256 option"

definition PaymentRecord_LEN :: nat where
  "PaymentRecord_LEN = 8 + 32 + 8 + 32 + 32 + 8 + 1 + 8 + 1 + 1 + 32 + 1"

text \<open>
  The bytes Borsh writes for a record after its 8-byte discriminator \<open>tag\<close>, field by field: integers in
  little-endian order, a \<^verbatim>\<open>bool\<close> and an enum as one byte, an \<^verbatim>\<open>Option\<close> behind a tag byte. An entry with the
  field the handlers add is the record followed by the memo.
\<close>

definition bool_bytes :: "bool \<Rightarrow> bytes" where
  "bool_bytes b = [if b then 1 else 0]"

definition option_bytes :: "'a::len word option \<Rightarrow> bytes" where
  "option_bytes x = (case x of None \<Rightarrow> [0] | Some v \<Rightarrow> 1 # le_bytes v)"

definition PaymentRecord_bytes :: "bytes \<Rightarrow> 'a PaymentRecord_scheme \<Rightarrow> bytes" where
  "PaymentRecord_bytes tag r =
     tag @ le_bytes (pr_agent_wallet r) @ le_bytes (pr_sequence r) @ le_bytes (pr_endpoint_hash r)
     @ le_bytes (pr_payee r) @ le_bytes (pr_amount_usdc r) @ [PaymentProtocol_as_u8 (pr_protocol r)]
     @ le_bytes (pr_settled_at r) @ bool_bytes (pr_policy_passed r)
     @ option_bytes (pr_parent_payment r) @ le_bytes (pr_bump r)"

definition LedgerEntry_bytes :: "bytes \<Rightarrow> LedgerEntry \<Rightarrow> bytes" where
  "LedgerEntry_bytes tag r = PaymentRecord_bytes tag r @ option_bytes (le_memo r)"

text \<open>
  When an instruction returns, Anchor writes the account back into the \<open>PaymentRecord_LEN\<close> bytes it was
  created with, and fails if they are too few.
\<close>

definition write_back :: "LedgerEntry \<Rightarrow> program_error + unit" where
  "write_back r =
     require (length (LedgerEntry_bytes (replicate 8 0) r) \<le> PaymentRecord_LEN)
       (Anchor AccountDidNotSerialize)"

definition is_violation :: "'a PaymentRecord_scheme \<Rightarrow> bool" where
  "is_violation r \<longleftrightarrow> \<not> pr_policy_passed r"

definition is_chained :: "'a PaymentRecord_scheme \<Rightarrow> bool" where
  "is_chained r \<longleftrightarrow> pr_parent_payment r \<noteq> None"

definition zero_LedgerEntry :: LedgerEntry where
  "zero_LedgerEntry =
     \<lparr>pr_agent_wallet = 0, pr_sequence = 0, pr_endpoint_hash = 0, pr_payee = 0, pr_amount_usdc = 0,
      pr_protocol = X402, pr_settled_at = 0, pr_policy_passed = False, pr_parent_payment = None,
      pr_bump = 0, le_memo = None\<rparr>"

lemma length_LedgerEntry_bytes:
  "length (LedgerEntry_bytes tag r) = length tag + 125
     + (if pr_parent_payment r = None then 0 else 32) + (if le_memo r = None then 0 else 32)"
  by (simp add: LedgerEntry_bytes_def PaymentRecord_bytes_def bool_bytes_def option_bytes_def
      split: option.split)

lemma write_back_eq:
  "write_back r = require (pr_parent_payment r = None \<and> le_memo r = None) (Anchor AccountDidNotSerialize)"
  by (simp add: write_back_def require_def length_LedgerEntry_bytes PaymentRecord_LEN_def)

lemma write_back_eq_Inr [result_simps]:
  "write_back r = Inr u \<longleftrightarrow> pr_parent_payment r = None \<and> le_memo r = None"
  by (simp add: write_back_eq require_eq_Inr)

lemma from_discriminant_eq_Some:
  "from_discriminant v = Some p \<longleftrightarrow> v = PaymentProtocol_as_u8 p"
  by (cases p) auto

lemma from_discriminant_eq_None: "from_discriminant v = None \<longleftrightarrow> 2 \<le> unat v"
proof -
  have "v = 0 \<longleftrightarrow> unat v = 0" and "v = 1 \<longleftrightarrow> unat v = 1"
    by (simp_all add: word_unat_eq_iff)
  then show ?thesis by auto
qed

text \<open>The two payment protocols and their one-byte discriminants correspond exactly: a byte is
  accepted if and only if it is the discriminant of the protocol it decodes to, so 0 and 1 are the
  only accepted bytes and no two protocols share one.\<close>

theorem protocol_discriminant_roundtrip:
  "from_discriminant (PaymentProtocol_as_u8 p) = Some p
   \<and> (from_discriminant v = Some q \<longleftrightarrow> v = PaymentProtocol_as_u8 q)
   \<and> (from_discriminant v = None \<longleftrightarrow> 2 \<le> unat v)"
  by (simp only: from_discriminant_eq_Some from_discriminant_eq_None simp_thms)

end
