(* ===== verification/Protocol_Config.thy ===== *)
theory Protocol_Config
  imports Errors
begin

text \<open>The singleton configuration account (state/protocol_config.rs).\<close>

definition PROGRAM_VERSION :: u8 where
  "PROGRAM_VERSION = 2"

record ProtocolConfig =
  pc_admin :: pubkey
  pc_version :: u8
  pc_max_single_payment_usdc :: u64
  pc_bump :: u8

definition ProtocolConfig_LEN :: nat where
  "ProtocolConfig_LEN = 8 + 32 + 1 + 8 + 1"

text \<open>The bytes \<^verbatim>\<open>init\<close> allocates are zero, and so is the account read from them.\<close>

definition zero_ProtocolConfig :: ProtocolConfig where
  "zero_ProtocolConfig = \<lparr>pc_admin = 0, pc_version = 0, pc_max_single_payment_usdc = 0, pc_bump = 0\<rparr>"

end
