(* ===== verification/Events.thy ===== *)
theory Events
  imports Errors
begin

text \<open>
  The events the handlers emit (the event structs of lib.rs) and the parameter structs of the two
  instructions that take one. Each event is a constructor with the struct's fields in order.
\<close>

datatype event =
    PaymentSettled
      (ps_agent_wallet: pubkey) (ps_sequence: u64) (ps_endpoint_hash: hash256) (ps_payee: pubkey)
      (ps_amount_usdc: u64) (ps_protocol: u8) (ps_settled_at: i64)
      (ps_parent_payment: "pubkey option") (ps_memo: "hash256 option")
  | PolicyViolationRecorded
      (pv_agent_wallet: pubkey) (pv_sequence: u64) (pv_endpoint_hash: hash256)
      (pv_amount_usdc: u64) (pv_violation_reason: u8)
  | AgentStatusChanged
      (sc_agent_wallet: pubkey) (sc_agent_id: string) (sc_is_active: bool) (sc_changed_at: i64)
  | AgentFreezeChanged
      (fc_agent_wallet: pubkey) (fc_agent_id: string) (fc_is_frozen: bool) (fc_changed_at: i64)
  | FundsWithdrawn
      (fw_agent_wallet: pubkey) (fw_to: pubkey) (fw_amount_usdc: u64) (fw_withdrawn_at: i64)
  | OwnershipTransferred
      (ot_agent_wallet: pubkey) (ot_old_owner: pubkey) (ot_new_owner: pubkey)
      (ot_transferred_at: i64)
  | SpendPolicyUpdated
      (pu_agent_wallet: pubkey) (pu_daily_budget: u64) (pu_weekly_budget: u64)
      (pu_monthly_budget: u64) (pu_per_call_limit: u64) (pu_high_value_threshold: u64)
      (pu_updated_at: i64)

record SetSpendPolicyParams =
  ssp_daily_budget :: u64
  ssp_weekly_budget :: u64
  ssp_per_call_limit :: u64
  ssp_rate_limit_calls :: u32
  ssp_rate_limit_window_secs :: u32
  ssp_high_value_threshold :: u64
  ssp_monthly_budget :: u64
  ssp_allowed_domain_hashes :: "hash256 list"
  ssp_blocked_domain_hashes :: "hash256 list"

record SettlePaymentParams =
  spp_agent_id :: string
  spp_endpoint_hash :: hash256
  spp_domain_hash :: hash256
  spp_amount_usdc :: u64
  spp_protocol :: u8
  spp_parent_payment :: "pubkey option"
  spp_memo :: "hash256 option"

end
