(* ===== verification/Runtime.thy ===== *)
theory Runtime
  imports Agent_Wallet Spend_Policy Payment_Record Protocol_Config Events
begin

text \<open>
  What the handlers run on: the accounts of the chain, the lamports and the event log as one state;
  the invocation (signers and clock); the platform the program calls but does not define, as a
  record of functions; and the checks and effects the \<^verbatim>\<open>#[account(...)]\<close> attributes stand for.

  The platform's functions are parameters. What the program relies on of them is stated as
  predicates of a platform (\<open>pda_consistent\<close>, \<open>seeds_limited\<close>, \<open>transfer_sound\<close>, \<open>transfer_live\<close>),
  each the documented behaviour of the Solana SDK or of the SPL Token program.
\<close>

section \<open>Chain state\<close>

text \<open>The fields of an SPL token account the program, or the Token program on its behalf, reads.\<close>

record TokenAccount =
  ta_mint :: pubkey
  ta_owner :: pubkey
  ta_amount :: u64
  ta_frozen :: bool

text \<open>
  An account is one of this program's four types (told apart by Anchor's discriminator), an account
  of the Token program, or an account of another program. An address without an account is
  system-owned and empty.
\<close>

datatype account =
    AgentWalletAcc AgentWallet
  | SpendPolicyAcc SpendPolicy
  | PaymentRecordAcc LedgerEntry
  | ProtocolConfigAcc ProtocolConfig
  | TokenAcc TokenAccount
  | MintAcc
  | OtherAcc

type_synonym account_map = "pubkey \<rightharpoonup> account"

record chain =
  accounts :: account_map
  lamports :: "pubkey \<Rightarrow> nat"
  event_log :: "event list"

record invocation =
  iv_signers :: "pubkey list"
  iv_now :: i64

fun is_program_account :: "account \<Rightarrow> bool" where
  "is_program_account (AgentWalletAcc w) = True"
| "is_program_account (SpendPolicyAcc p) = True"
| "is_program_account (PaymentRecordAcc r) = True"
| "is_program_account (ProtocolConfigAcc c) = True"
| "is_program_account a = False"

section \<open>The platform\<close>

text \<open>
  \<open>find_program_address\<close> and \<open>create_program_address\<close> are the functions of \<^verbatim>\<open>Pubkey\<close> at this program's
  id (the bump is the last seed of the second); \<open>get_associated_token_address\<close> takes the authority
  and the mint; \<open>minimum_balance\<close> is the rent-exempt deposit for a number of bytes;
  \<open>native_mint\<close> is the mint of wrapped lamports; \<open>token_transfer\<close> is SPL Token's \<^verbatim>\<open>Transfer\<close> from one
  account to another under an authority that has signed, on the accounts and their lamports.
\<close>

record platform =
  find_program_address :: "bytes list \<Rightarrow> (pubkey \<times> u8) option"
  create_program_address :: "bytes list \<Rightarrow> pubkey option"
  get_associated_token_address :: "pubkey \<Rightarrow> pubkey \<Rightarrow> pubkey"
  minimum_balance :: "nat \<Rightarrow> nat"
  native_mint :: pubkey
  token_transfer :: "account_map \<Rightarrow> (pubkey \<Rightarrow> nat) \<Rightarrow> pubkey \<Rightarrow> pubkey \<Rightarrow> pubkey \<Rightarrow> u64
    \<Rightarrow> nat + account_map \<times> (pubkey \<Rightarrow> nat)"

text \<open>The address found is the one its seeds and bump create.\<close>

definition pda_consistent :: "platform \<Rightarrow> bool" where
  "pda_consistent P \<longleftrightarrow>
     (\<forall>seeds k b. find_program_address P seeds = Some (k, b) \<longrightarrow>
        create_program_address P (seeds @ [[b]]) = Some k)"

text \<open>\<^verbatim>\<open>MAX_SEED_LEN\<close>: there is no address for a seed of more than 32 bytes.\<close>

definition seeds_limited :: "platform \<Rightarrow> bool" where
  "seeds_limited P \<longleftrightarrow>
     (\<forall>seeds. list_ex (\<lambda>x. 32 < length x) seeds \<longrightarrow> find_program_address P seeds = None)"

definition transfer_effect ::
    "account_map \<Rightarrow> pubkey \<Rightarrow> TokenAccount \<Rightarrow> pubkey \<Rightarrow> TokenAccount \<Rightarrow> u64 \<Rightarrow> account_map" where
  "transfer_effect acc src fa dst ta n =
     (if src = dst then acc
      else acc(src \<mapsto> TokenAcc (fa\<lparr>ta_amount := ta_amount fa - n\<rparr>),
               dst \<mapsto> TokenAcc (ta\<lparr>ta_amount := ta_amount ta + n\<rparr>)))"

definition transfer_allowed ::
    "account_map \<Rightarrow> pubkey \<Rightarrow> TokenAccount \<Rightarrow> pubkey \<Rightarrow> TokenAccount \<Rightarrow> u64 \<Rightarrow> bool" where
  "transfer_allowed acc src fa dst ta n \<longleftrightarrow>
     acc src = Some (TokenAcc fa) \<and> acc dst = Some (TokenAcc ta) \<and> ta_mint fa = ta_mint ta
     \<and> n \<le> ta_amount fa \<and> (src \<noteq> dst \<longrightarrow> unat (ta_amount ta) + unat n < 2 ^ 64)"

text \<open>
  An account of the native mint holds wrapped lamports: a transfer between two such accounts moves as
  many lamports as tokens, and needs them to be there.
\<close>

definition moves_lamports :: "platform \<Rightarrow> pubkey \<Rightarrow> TokenAccount \<Rightarrow> pubkey \<Rightarrow> bool" where
  "moves_lamports P src fa dst \<longleftrightarrow> src \<noteq> dst \<and> ta_mint fa = native_mint P"

definition transfer_backed ::
    "platform \<Rightarrow> (pubkey \<Rightarrow> nat) \<Rightarrow> pubkey \<Rightarrow> TokenAccount \<Rightarrow> pubkey \<Rightarrow> u64 \<Rightarrow> bool" where
  "transfer_backed P lam src fa dst n \<longleftrightarrow> (moves_lamports P src fa dst \<longrightarrow> unat n \<le> lam src)"

definition transfer_lamports ::
    "platform \<Rightarrow> (pubkey \<Rightarrow> nat) \<Rightarrow> pubkey \<Rightarrow> TokenAccount \<Rightarrow> pubkey \<Rightarrow> u64 \<Rightarrow> pubkey \<Rightarrow> nat" where
  "transfer_lamports P lam src fa dst n =
     (if moves_lamports P src fa dst
      then lam(src := lam src - unat n, dst := lam dst + unat n) else lam)"

text \<open>
  A transfer that succeeds under the source's owner moves the amount between two accounts of one
  mint, and their lamports with it if that is the native one, and changes nothing else; it succeeds
  whenever it is allowed and backed and neither account is frozen.
\<close>

definition transfer_sound :: "platform \<Rightarrow> bool" where
  "transfer_sound P \<longleftrightarrow>
     (\<forall>acc lam src fa dst n acc' lam'.
        acc src = Some (TokenAcc fa)
        \<and> token_transfer P acc lam src dst (ta_owner fa) n = Inr (acc', lam') \<longrightarrow>
        (\<exists>ta. transfer_allowed acc src fa dst ta n \<and> acc' = transfer_effect acc src fa dst ta n
           \<and> transfer_backed P lam src fa dst n \<and> lam' = transfer_lamports P lam src fa dst n))"

definition transfer_live :: "platform \<Rightarrow> bool" where
  "transfer_live P \<longleftrightarrow>
     (\<forall>acc lam src fa dst ta n.
        transfer_allowed acc src fa dst ta n \<and> transfer_backed P lam src fa dst n
        \<and> \<not> ta_frozen fa \<and> \<not> ta_frozen ta \<longrightarrow>
        (\<exists>acc' lam'. token_transfer P acc lam src dst (ta_owner fa) n = Inr (acc', lam')))"

section \<open>Seeds\<close>

definition protocol_config_seeds :: "bytes list" where
  "protocol_config_seeds = [str_bytes ''protocol_config'']"

definition agent_wallet_seeds :: "string \<Rightarrow> bytes list" where
  "agent_wallet_seeds agent_id = [str_bytes ''agent_wallet'', str_bytes agent_id]"

definition spend_policy_seeds :: "pubkey \<Rightarrow> bytes list" where
  "spend_policy_seeds wallet = [str_bytes ''spend_policy'', le_bytes wallet]"

definition payment_record_seeds :: "pubkey \<Rightarrow> u64 \<Rightarrow> bytes list" where
  "payment_record_seeds wallet sequence =
     [str_bytes ''payment_record'', le_bytes wallet, le_bytes sequence]"

section \<open>Reading an account at its type\<close>

fun as_AgentWallet :: "account \<Rightarrow> program_error + AgentWallet" where
  "as_AgentWallet (AgentWalletAcc w) = Inr w"
| "as_AgentWallet a = Inl (Anchor (if is_program_account a then AccountDiscriminatorMismatch
     else AccountOwnedByWrongProgram))"

fun as_SpendPolicy :: "account \<Rightarrow> program_error + SpendPolicy" where
  "as_SpendPolicy (SpendPolicyAcc p) = Inr p"
| "as_SpendPolicy a = Inl (Anchor (if is_program_account a then AccountDiscriminatorMismatch
     else AccountOwnedByWrongProgram))"

fun as_ProtocolConfig :: "account \<Rightarrow> program_error + ProtocolConfig" where
  "as_ProtocolConfig (ProtocolConfigAcc c) = Inr c"
| "as_ProtocolConfig a = Inl (Anchor (if is_program_account a then AccountDiscriminatorMismatch
     else AccountOwnedByWrongProgram))"

fun as_TokenAccount :: "account \<Rightarrow> program_error + TokenAccount" where
  "as_TokenAccount (TokenAcc t) = Inr t"
| "as_TokenAccount MintAcc = Inl InvalidAccountData"
| "as_TokenAccount a = Inl (Anchor AccountOwnedByWrongProgram)"

fun as_Mint :: "account \<Rightarrow> program_error + unit" where
  "as_Mint MintAcc = Inr ()"
| "as_Mint (TokenAcc t) = Inl InvalidAccountData"
| "as_Mint a = Inl (Anchor AccountOwnedByWrongProgram)"

definition load :: "(account \<Rightarrow> program_error + 'a) \<Rightarrow> chain \<Rightarrow> pubkey \<Rightarrow> program_error + 'a" where
  "load view s k =
     (case accounts s k of
        None \<Rightarrow> Inl (Anchor (if lamports s k = 0 then AccountNotInitialized
                           else AccountOwnedByWrongProgram))
      | Some a \<Rightarrow> view a)"

section \<open>Checks and effects of the account attributes\<close>

definition signed :: "invocation \<Rightarrow> pubkey \<Rightarrow> program_error + unit" where
  "signed iv k = require (k \<in> set (iv_signers iv)) (Anchor AccountNotSigner)"

text \<open>\<^verbatim>\<open>seeds = [..], bump = account.bump\<close>\<close>

definition check_seeds :: "platform \<Rightarrow> pubkey \<Rightarrow> bytes list \<Rightarrow> u8 \<Rightarrow> program_error + unit" where
  "check_seeds P k seeds b =
     require (create_program_address P (seeds @ [[b]]) = Some k) (Anchor ConstraintSeeds)"

text \<open>\<^verbatim>\<open>associated_token::mint = .., associated_token::authority = ..\<close> on an existing account\<close>

definition check_associated ::
    "platform \<Rightarrow> pubkey \<Rightarrow> TokenAccount \<Rightarrow> pubkey \<Rightarrow> pubkey \<Rightarrow> program_error + unit" where
  "check_associated P k t authority mint =
     rbind (require (ta_owner t = authority) (Anchor ConstraintTokenOwner)) (\<lambda>_.
       require (k = get_associated_token_address P authority mint) (Anchor ConstraintAssociated))"

text \<open>Writing an account back when the instruction returns, closing one, and \<^verbatim>\<open>emit!\<close>\<close>

definition store :: "pubkey \<Rightarrow> account \<Rightarrow> chain \<Rightarrow> chain" where
  "store k a s = s\<lparr>accounts := (accounts s)(k \<mapsto> a)\<rparr>"

definition close_account :: "pubkey \<Rightarrow> pubkey \<Rightarrow> chain \<Rightarrow> chain" where
  "close_account k dest s =
     s\<lparr>accounts := (accounts s)(k := None),
       lamports := (lamports s)(dest := lamports s dest + lamports s k, k := 0)\<rparr>"

definition emit :: "event \<Rightarrow> chain \<Rightarrow> chain" where
  "emit e s = s\<lparr>event_log := event_log s @ [e]\<rparr>"

text \<open>
  \<^verbatim>\<open>init\<close>: the System program creates the account; the payer tops its lamports up to the rent-exempt
  minimum for \<open>space\<close> bytes.
\<close>

definition rent_due :: "platform \<Rightarrow> pubkey \<Rightarrow> nat \<Rightarrow> chain \<Rightarrow> nat" where
  "rent_due P k space s = minimum_balance P space - lamports s k"

definition pay_rent :: "platform \<Rightarrow> pubkey \<Rightarrow> pubkey \<Rightarrow> nat \<Rightarrow> chain \<Rightarrow> chain" where
  "pay_rent P payer k space s =
     s\<lparr>lamports := (lamports s)(payer := lamports s payer - rent_due P k space s,
                               k := lamports s k + rent_due P k space s)\<rparr>"

definition create_account ::
    "platform \<Rightarrow> pubkey \<Rightarrow> pubkey \<Rightarrow> nat \<Rightarrow> account \<Rightarrow> chain \<Rightarrow> program_error + chain" where
  "create_account P payer k space a s =
     rbind (require (payer \<noteq> k) (Anchor TryingToInitPayerAsProgramAccount)) (\<lambda>_.
     rbind (require (accounts s k = None) AccountInUse) (\<lambda>_.
     rbind (require (rent_due P k space s \<le> lamports s payer) RentUnfunded) (\<lambda>_.
       Inr (store k a (pay_rent P payer k space s)))))"

text \<open>\<^verbatim>\<open>init, seeds = [..], bump\<close>: the created account and its canonical bump\<close>

definition init_pda ::
    "platform \<Rightarrow> pubkey \<Rightarrow> pubkey \<Rightarrow> bytes list \<Rightarrow> nat \<Rightarrow> account \<Rightarrow> chain
       \<Rightarrow> program_error + u8 \<times> chain" where
  "init_pda P payer k seeds space a s =
     rbind (ok_or (find_program_address P seeds) Panic) (\<lambda>(pda, b).
     rbind (require (k = pda) (Anchor ConstraintSeeds)) (\<lambda>_.
     rbind (create_account P payer k space a s) (\<lambda>s'.
       Inr (b, s'))))"

text \<open>
  \<^verbatim>\<open>init, associated_token::..\<close>: the Associated Token program creates the token account. It is empty, except
  that an account of the native mint counts the lamports its address held beyond the rent.
\<close>

definition token_account_space :: nat where
  "token_account_space = 165"

definition initial_amount :: "platform \<Rightarrow> pubkey \<Rightarrow> pubkey \<Rightarrow> (pubkey \<Rightarrow> nat) \<Rightarrow> u64" where
  "initial_amount P mint k lam =
     (if mint = native_mint P then of_nat (lam k - minimum_balance P token_account_space) else 0)"

definition init_associated ::
    "platform \<Rightarrow> pubkey \<Rightarrow> pubkey \<Rightarrow> pubkey \<Rightarrow> pubkey \<Rightarrow> chain \<Rightarrow> program_error + chain" where
  "init_associated P payer k authority mint s =
     rbind (require (k = get_associated_token_address P authority mint) InvalidSeeds) (\<lambda>_.
     rbind (require (accounts s k = None) IllegalOwner) (\<lambda>_.
       create_account P payer k token_account_space
         (TokenAcc \<lparr>ta_mint = mint, ta_owner = authority,
           ta_amount = initial_amount P mint k (lamports s), ta_frozen = False\<rparr>) s))"

text \<open>
  \<^verbatim>\<open>invoke_signed\<close> of a token transfer: the authority must have signed the transaction or be the
  address the signer seeds create.
\<close>

definition invoke_signed_transfer ::
    "platform \<Rightarrow> invocation \<Rightarrow> bytes list \<Rightarrow> pubkey \<Rightarrow> pubkey \<Rightarrow> pubkey \<Rightarrow> u64 \<Rightarrow> chain
       \<Rightarrow> program_error + chain" where
  "invoke_signed_transfer P iv signer_seeds src dst authority n s =
     rbind (ok_or (create_program_address P signer_seeds) InvalidSeeds) (\<lambda>pda.
     rbind (require (authority = pda \<or> authority \<in> set (iv_signers iv)) PrivilegeEscalation) (\<lambda>_.
       (case token_transfer P (accounts s) (lamports s) src dst authority n of
          Inl e \<Rightarrow> Inl (TokenError e)
        | Inr (acc, lam) \<Rightarrow> Inr (s\<lparr>accounts := acc, lamports := lam\<rparr>))))"

text \<open>\<^verbatim>\<open>cpi_transfer_from_wallet\<close> (lib.rs)\<close>

definition cpi_transfer_from_wallet ::
    "platform \<Rightarrow> invocation \<Rightarrow> pubkey \<Rightarrow> pubkey \<Rightarrow> pubkey \<Rightarrow> string \<Rightarrow> u8 \<Rightarrow> u64 \<Rightarrow> chain
       \<Rightarrow> program_error + chain" where
  "cpi_transfer_from_wallet P iv src dst authority agent_id b amount s =
     (let signer_seeds = [str_bytes ''agent_wallet'', str_bytes agent_id, [b]] in
      invoke_signed_transfer P iv signer_seeds src dst authority amount s)"

section \<open>What these checks and effects establish\<close>

lemma chain_effects [simp]:
  "accounts (store k a s) = (accounts s)(k \<mapsto> a)"
  "lamports (store k a s) = lamports s"
  "event_log (store k a s) = event_log s"
  "accounts (emit e s) = accounts s"
  "lamports (emit e s) = lamports s"
  "event_log (emit e s) = event_log s @ [e]"
  "accounts (pay_rent P payer k space s) = accounts s"
  "event_log (pay_rent P payer k space s) = event_log s"
  "accounts (close_account k dest s) = (accounts s)(k := None)"
  "event_log (close_account k dest s) = event_log s"
  by (simp_all add: store_def emit_def pay_rent_def close_account_def)

lemma as_account_eq_Inr [result_simps]:
  "as_AgentWallet a = Inr w \<longleftrightarrow> a = AgentWalletAcc w"
  "as_SpendPolicy a = Inr p \<longleftrightarrow> a = SpendPolicyAcc p"
  "as_ProtocolConfig a = Inr c \<longleftrightarrow> a = ProtocolConfigAcc c"
  "as_TokenAccount a = Inr t \<longleftrightarrow> a = TokenAcc t"
  "as_Mint a = Inr u \<longleftrightarrow> a = MintAcc"
  by (cases a; simp)+

lemma load_eq_Inr [result_simps]:
  "load view s k = Inr x \<longleftrightarrow> (\<exists>a. accounts s k = Some a \<and> view a = Inr x)"
  by (simp add: load_def split: option.split)

lemma checks_eq_Inr [result_simps]:
  "signed iv k = Inr u \<longleftrightarrow> k \<in> set (iv_signers iv)"
  "check_seeds P k seeds b = Inr u \<longleftrightarrow> create_program_address P (seeds @ [[b]]) = Some k"
  "check_associated P k t authority mint = Inr u \<longleftrightarrow>
     ta_owner t = authority \<and> k = get_associated_token_address P authority mint"
  by (simp_all add: signed_def check_seeds_def check_associated_def result_simps)

lemma create_account_eq_Inr [result_simps]:
  "create_account P payer k space a s = Inr s' \<longleftrightarrow>
     payer \<noteq> k \<and> accounts s k = None \<and> rent_due P k space s \<le> lamports s payer
     \<and> s' = store k a (pay_rent P payer k space s)"
  by (auto simp: create_account_def result_simps)

lemma init_pda_eq_Inr [result_simps]:
  "init_pda P payer k seeds space a s = Inr r \<longleftrightarrow>
     (\<exists>b. find_program_address P seeds = Some (k, b) \<and> payer \<noteq> k \<and> accounts s k = None
        \<and> rent_due P k space s \<le> lamports s payer
        \<and> r = (b, store k a (pay_rent P payer k space s)))"
  by (auto simp: init_pda_def result_simps)

lemma init_associated_eq_Inr [result_simps]:
  "init_associated P payer k authority mint s = Inr s' \<longleftrightarrow>
     k = get_associated_token_address P authority mint \<and> payer \<noteq> k \<and> accounts s k = None
     \<and> rent_due P k token_account_space s \<le> lamports s payer
     \<and> s' = store k (TokenAcc \<lparr>ta_mint = mint, ta_owner = authority,
                ta_amount = initial_amount P mint k (lamports s), ta_frozen = False\<rparr>)
            (pay_rent P payer k token_account_space s)"
  by (auto simp: init_associated_def result_simps)

lemma invoke_signed_transfer_eq_Inr [result_simps]:
  "invoke_signed_transfer P iv signer_seeds src dst authority n s = Inr s' \<longleftrightarrow>
     (\<exists>pda acc lam. create_program_address P signer_seeds = Some pda
        \<and> (authority = pda \<or> authority \<in> set (iv_signers iv))
        \<and> token_transfer P (accounts s) (lamports s) src dst authority n = Inr (acc, lam)
        \<and> s' = s\<lparr>accounts := acc, lamports := lam\<rparr>)"
  by (auto simp: invoke_signed_transfer_def result_simps split: sum.splits)

lemma transfer_soundD:
  assumes "transfer_sound P" and "acc src = Some (TokenAcc fa)" and "ta_owner fa = authority"
    and "token_transfer P acc lam src dst authority n = Inr (acc', lam')"
  obtains ta where "transfer_allowed acc src fa dst ta n"
    and "acc' = transfer_effect acc src fa dst ta n"
    and "transfer_backed P lam src fa dst n"
    and "lam' = transfer_lamports P lam src fa dst n"
  using assms unfolding transfer_sound_def by blast

text \<open>A transfer between token accounts leaves every other account as it is.\<close>

lemma transfer_effect_other:
  assumes "transfer_allowed acc src fa dst ta n" and "\<And>t. acc k \<noteq> Some (TokenAcc t)"
  shows "transfer_effect acc src fa dst ta n k = acc k"
  using assms by (auto simp: transfer_effect_def transfer_allowed_def)

lemma transfer_effect_token:
  assumes "transfer_allowed acc src fa dst ta n" and "acc k = Some (TokenAcc t)"
  shows "\<exists>t'. transfer_effect acc src fa dst ta n k = Some (TokenAcc t')
    \<and> ta_mint t' = ta_mint t \<and> ta_owner t' = ta_owner t \<and> ta_frozen t' = ta_frozen t"
  using assms by (auto simp: transfer_effect_def transfer_allowed_def split: if_splits)

lemma transfer_effect_amounts:
  assumes "transfer_allowed acc src fa dst ta n" and "src \<noteq> dst"
    and "acc' = transfer_effect acc src fa dst ta n"
  obtains fa' ta' where "acc' src = Some (TokenAcc fa')" and "acc' dst = Some (TokenAcc ta')"
    and "unat (ta_amount fa') = unat (ta_amount fa) - unat n"
    and "unat (ta_amount ta') = unat (ta_amount ta) + unat n"
proof -
  have le: "unat n \<le> unat (ta_amount fa)" and lt: "unat (ta_amount ta) + unat n < 2 ^ 64"
    using assms(1,2) by (simp_all add: transfer_allowed_def word_le_nat_alt)
  have "unat (ta_amount fa - n) = unat (ta_amount fa) - unat n"
    using le by (simp add: unat_sub word_le_nat_alt)
  moreover have "unat (ta_amount ta + n) = unat (ta_amount ta) + unat n"
    using lt by (simp add: unat_word_add_lt)
  ultimately show thesis
    using assms(2,3)
    by (intro that [of "fa\<lparr>ta_amount := ta_amount fa - n\<rparr>" "ta\<lparr>ta_amount := ta_amount ta + n\<rparr>"])
      (simp_all add: transfer_effect_def)
qed

text \<open>Rent moves between the payer and the account; the total does not change.\<close>

lemma total_fun_upd2:
  fixes f :: "pubkey \<Rightarrow> nat"
  assumes "i \<noteq> j" and "x + y = f i + f j"
  shows "sum (f(i := x, j := y)) UNIV = sum f UNIV"
proof -
  have split2: "sum g UNIV = g i + g j + sum g (UNIV - {i, j})" for g :: "pubkey \<Rightarrow> nat"
    using assms(1) sum.subset_diff [of "{i, j}" UNIV g] by (simp add: add.commute)
  show ?thesis
    using assms by (simp add: split2)
qed

definition total_lamports :: "chain \<Rightarrow> nat" where
  "total_lamports s = sum (lamports s) UNIV"

lemma total_lamports_simps [simp]:
  "total_lamports (store k a s) = total_lamports s"
  "total_lamports (emit e s) = total_lamports s"
  "total_lamports (s\<lparr>accounts := acc\<rparr>) = total_lamports s"
  by (simp_all add: total_lamports_def)

lemma total_lamports_pay_rent:
  assumes "payer \<noteq> k" and "rent_due P k space s \<le> lamports s payer"
  shows "total_lamports (pay_rent P payer k space s) = total_lamports s"
proof -
  have "lamports (pay_rent P payer k space s) = (lamports s)
      (payer := lamports s payer - rent_due P k space s, k := lamports s k + rent_due P k space s)"
    by (simp add: pay_rent_def)
  then show ?thesis
    using assms by (simp only: total_lamports_def) (rule total_fun_upd2, simp_all)
qed

lemma total_lamports_transfer:
  assumes "transfer_backed P lam src fa dst n"
  shows "sum (transfer_lamports P lam src fa dst n) UNIV = sum lam UNIV"
proof (cases "moves_lamports P src fa dst")
  case True
  then show ?thesis
    using assms total_fun_upd2 [of src dst "lam src - unat n" "lam dst + unat n" lam]
    by (simp add: transfer_lamports_def transfer_backed_def moves_lamports_def)
qed (simp add: transfer_lamports_def)

lemma total_lamports_close:
  assumes "k \<noteq> dest"
  shows "total_lamports (close_account k dest s) = total_lamports s"
proof -
  have "lamports (close_account k dest s) =
      (lamports s)(dest := lamports s dest + lamports s k, k := 0)"
    by (simp add: close_account_def)
  then show ?thesis
    using assms by (simp only: total_lamports_def) (rule total_fun_upd2, simp_all)
qed

end
