(* ===== verification/Settlement.thy ===== *)
theory Settlement
  imports Runtime
begin

text \<open>
  The two instructions that write the ledger: \<^verbatim>\<open>settle_payment\<close> and \<^verbatim>\<open>record_policy_violation\<close> of
  lib.rs, with the account structs \<^verbatim>\<open>SettlePayment\<close> and \<^verbatim>\<open>RecordPolicyViolation\<close>.

  An account struct is the record of the keys a transaction passes, and \<open>.._accounts\<close> is the check
  Anchor derives from its attributes: the accounts that exist are read at their types in field
  order, the \<^verbatim>\<open>init\<close> accounts are created, then the remaining constraints are checked in field
  order. The keys of the Token, Associated Token and System programs and of the Rent sysvar are
  fixed by their types and left out, as is the \<^verbatim>\<open>mut\<close> flag of the transaction's account list.
\<close>

section \<open>settle_payment\<close>

record SettlePayment =
  st_payment_record :: pubkey
  st_agent_wallet :: pubkey
  st_spend_policy :: pubkey
  st_usdc_token_account :: pubkey
  st_payee_token_account :: pubkey
  st_usdc_mint :: pubkey
  st_owner :: pubkey
  st_protocol_config :: pubkey

definition SettlePayment_accounts ::
    "platform \<Rightarrow> invocation \<Rightarrow> SettlePayment \<Rightarrow> u64 \<Rightarrow> SettlePaymentParams \<Rightarrow> chain
       \<Rightarrow> program_error
          + AgentWallet \<times> SpendPolicy \<times> TokenAccount \<times> TokenAccount \<times> ProtocolConfig \<times> u8 \<times> chain"
  where
  "SettlePayment_accounts P iv ctx sequence params s =
     rbind (load as_AgentWallet s (st_agent_wallet ctx)) (\<lambda>wallet.
     rbind (load as_SpendPolicy s (st_spend_policy ctx)) (\<lambda>policy.
     rbind (load as_TokenAccount s (st_usdc_token_account ctx)) (\<lambda>usdc_token_account.
     rbind (load as_TokenAccount s (st_payee_token_account ctx)) (\<lambda>payee_token_account.
     rbind (load as_Mint s (st_usdc_mint ctx)) (\<lambda>_.
     rbind (signed iv (st_owner ctx)) (\<lambda>_.
     rbind (load as_ProtocolConfig s (st_protocol_config ctx)) (\<lambda>config.
     rbind (init_pda P (st_owner ctx) (st_payment_record ctx)
              (payment_record_seeds (st_agent_wallet ctx) sequence) PaymentRecord_LEN
              (PaymentRecordAcc zero_LedgerEntry) s) (\<lambda>(bump, s').
     rbind (check_seeds P (st_agent_wallet ctx) (agent_wallet_seeds (spp_agent_id params))
              (aw_bump wallet)) (\<lambda>_.
     rbind (require (aw_owner wallet = st_owner ctx) (Maxim Unauthorized)) (\<lambda>_.
     rbind (check_seeds P (st_spend_policy ctx) (spend_policy_seeds (st_agent_wallet ctx))
              (sp_bump policy)) (\<lambda>_.
     rbind (require (sp_agent_wallet policy = st_agent_wallet ctx) (Anchor ConstraintRaw)) (\<lambda>_.
     rbind (check_associated P (st_usdc_token_account ctx) usdc_token_account
              (st_agent_wallet ctx) (st_usdc_mint ctx)) (\<lambda>_.
     rbind (check_seeds P (st_protocol_config ctx) protocol_config_seeds (pc_bump config)) (\<lambda>_.
       Inr (wallet, policy, usdc_token_account, payee_token_account, config, bump, s')
     ))))))))))))))"

text \<open>The guards before the wallet is looked at, and the protocol-wide cap.\<close>

definition settle_param_guards ::
    "AgentWallet \<Rightarrow> u64 \<Rightarrow> SettlePaymentParams \<Rightarrow> program_error + unit" where
  "settle_param_guards wallet sequence params =
     rbind (require (0 < spp_amount_usdc params) (Maxim ZeroPaymentAmount)) (\<lambda>_.
     rbind (require (from_discriminant (spp_protocol params) \<noteq> None) (Maxim InvalidProtocol)) (\<lambda>_.
       require (sequence = aw_payment_sequence wallet) (Maxim SequenceMismatch)))"

definition settle_global_cap ::
    "ProtocolConfig \<Rightarrow> SettlePaymentParams \<Rightarrow> program_error + unit" where
  "settle_global_cap config params =
     (if 0 < pc_max_single_payment_usdc config
      then require (spp_amount_usdc params \<le> pc_max_single_payment_usdc config)
             (Maxim GlobalPaymentCapExceeded)
      else Inr ())"

text \<open>Wallet state guards and window resets.\<close>

definition settle_wallet_guards :: "AgentWallet \<Rightarrow> i64 \<Rightarrow> program_error + AgentWallet" where
  "settle_wallet_guards wallet now =
     rbind (require (aw_is_active wallet) (Maxim AgentNotActive)) (\<lambda>_.
     rbind (require (\<not> aw_is_frozen wallet) (Maxim AgentFrozen)) (\<lambda>_.
     rbind (ok_or (reset_daily_window_if_elapsed wallet now) Panic) (\<lambda>wallet.
     rbind (ok_or (reset_weekly_window_if_elapsed wallet now) Panic) (\<lambda>wallet.
       ok_or (reset_monthly_window_if_elapsed wallet now) Panic))))"

text \<open>On-chain policy enforcement for payments at or above the threshold.\<close>

definition enforce_on_chain :: "SpendPolicy \<Rightarrow> SettlePaymentParams \<Rightarrow> bool" where
  "enforce_on_chain policy params \<longleftrightarrow>
     0 < sp_high_value_threshold policy
     \<and> sp_high_value_threshold policy \<le> spp_amount_usdc params"

definition settle_policy_checks ::
    "AgentWallet \<Rightarrow> SpendPolicy \<Rightarrow> SettlePaymentParams \<Rightarrow> i64 \<Rightarrow> program_error + SpendPolicy" where
  "settle_policy_checks wallet policy params now =
     (let amount = spp_amount_usdc params in
      rbind (require (within_per_call_limit policy amount) (Maxim PerCallLimitExceeded)) (\<lambda>_.
      rbind (require (within_daily_budget policy (aw_daily_spend wallet) amount)
               (Maxim DailyBudgetExceeded)) (\<lambda>_.
      rbind (require (within_weekly_budget policy (aw_weekly_spend wallet) amount)
               (Maxim WeeklyBudgetExceeded)) (\<lambda>_.
      rbind (require (within_monthly_budget policy (aw_monthly_spend wallet) amount)
               (Maxim MonthlyBudgetExceeded)) (\<lambda>_.
      rbind (ok_or (reset_rate_window_if_elapsed policy now) Panic) (\<lambda>policy.
      rbind (require (within_rate_limit policy) (Maxim RateLimitExceeded)) (\<lambda>_.
      rbind (if sp_blocked_domain_hashes policy \<noteq> []
             then require (spp_domain_hash params \<notin> set (sp_blocked_domain_hashes policy))
                    (Maxim DomainBlocked)
             else Inr ()) (\<lambda>_.
      rbind (if sp_allowed_domain_hashes policy \<noteq> []
             then require (spp_domain_hash params \<in> set (sp_allowed_domain_hashes policy))
                    (Maxim DomainNotAllowed)
             else Inr ()) (\<lambda>_.
        Inr (policy\<lparr>sp_rate_limit_call_count :=
                      saturating_add (sp_rate_limit_call_count policy) 1\<rparr>))))))))))"

definition settle_policy ::
    "AgentWallet \<Rightarrow> SpendPolicy \<Rightarrow> SettlePaymentParams \<Rightarrow> i64 \<Rightarrow> program_error + SpendPolicy" where
  "settle_policy wallet policy params now =
     (if enforce_on_chain policy params then settle_policy_checks wallet policy params now
      else Inr policy)"

text \<open>Wallet accounting after the transfer.\<close>

definition settle_accounting :: "AgentWallet \<Rightarrow> u64 \<Rightarrow> i64 \<Rightarrow> AgentWallet" where
  "settle_accounting wallet amount now = wallet\<lparr>
     aw_daily_spend := saturating_add (aw_daily_spend wallet) amount,
     aw_weekly_spend := saturating_add (aw_weekly_spend wallet) amount,
     aw_monthly_spend := saturating_add (aw_monthly_spend wallet) amount,
     aw_total_volume := saturating_add (aw_total_volume wallet) amount,
     aw_last_payment_at := now,
     aw_payment_sequence := saturating_add (aw_payment_sequence wallet) 1,
     aw_total_payments := saturating_add (aw_total_payments wallet) 1\<rparr>"

definition settled_record ::
    "pubkey \<Rightarrow> u64 \<Rightarrow> SettlePaymentParams \<Rightarrow> pubkey \<Rightarrow> PaymentProtocol \<Rightarrow> i64 \<Rightarrow> u8 \<Rightarrow> LedgerEntry" where
  "settled_record wallet_key sequence params payee protocol now bump = zero_LedgerEntry\<lparr>
     pr_agent_wallet := wallet_key,
     pr_sequence := sequence,
     pr_endpoint_hash := spp_endpoint_hash params,
     pr_payee := payee,
     pr_amount_usdc := spp_amount_usdc params,
     pr_protocol := protocol,
     pr_settled_at := now,
     pr_policy_passed := True,
     pr_parent_payment := spp_parent_payment params,
     le_memo := spp_memo params,
     pr_bump := bump\<rparr>"

definition settled_event ::
    "pubkey \<Rightarrow> u64 \<Rightarrow> SettlePaymentParams \<Rightarrow> pubkey \<Rightarrow> i64 \<Rightarrow> event" where
  "settled_event wallet_key sequence params payee now =
     PaymentSettled wallet_key sequence (spp_endpoint_hash params) payee (spp_amount_usdc params)
       (spp_protocol params) now (spp_parent_payment params) (spp_memo params)"

text \<open>
  The handler. The accounts it changed are written back when it returns, the record first, and that
  fails for a record larger than its allocation; a wallet and a policy always fit theirs (theory
  \<open>Account_Layout\<close>). The token accounts are changed by the Token program only.
\<close>

definition settle_payment ::
    "platform \<Rightarrow> invocation \<Rightarrow> SettlePayment \<Rightarrow> u64 \<Rightarrow> SettlePaymentParams \<Rightarrow> chain
       \<Rightarrow> program_error + chain" where
  "settle_payment P iv ctx sequence params s =
     rbind (SettlePayment_accounts P iv ctx sequence params s)
       (\<lambda>(wallet, policy, usdc_token_account, payee_token_account, config, bump, s).
     rbind (settle_param_guards wallet sequence params) (\<lambda>_.
     let now = iv_now iv in
     rbind (settle_global_cap config params) (\<lambda>_.
     rbind (settle_wallet_guards wallet now) (\<lambda>wallet.
     rbind (settle_policy wallet policy params now) (\<lambda>policy.
     rbind (invoke_signed_transfer P iv
              [str_bytes ''agent_wallet'', str_bytes (aw_agent_id wallet), [aw_bump wallet]]
              (st_usdc_token_account ctx) (st_payee_token_account ctx) (st_agent_wallet ctx)
              (spp_amount_usdc params) s) (\<lambda>s.
     let wallet = settle_accounting wallet (spp_amount_usdc params) now;
         payee_pubkey = ta_owner payee_token_account in
     rbind (ok_or (from_discriminant (spp_protocol params)) Panic) (\<lambda>protocol.
     let record = settled_record (st_agent_wallet ctx) sequence params payee_pubkey protocol now bump in
     rbind (write_back record) (\<lambda>_. Inr
       (store (st_spend_policy ctx) (SpendPolicyAcc policy)
       (store (st_agent_wallet ctx) (AgentWalletAcc wallet)
       (store (st_payment_record ctx) (PaymentRecordAcc record)
       (emit (settled_event (st_agent_wallet ctx) sequence params payee_pubkey now) s))))))))))))"

section \<open>record_policy_violation\<close>

record RecordPolicyViolation =
  rv_payment_record :: pubkey
  rv_agent_wallet :: pubkey
  rv_owner :: pubkey

definition RecordPolicyViolation_accounts ::
    "platform \<Rightarrow> invocation \<Rightarrow> RecordPolicyViolation \<Rightarrow> u64 \<Rightarrow> SettlePaymentParams \<Rightarrow> chain
       \<Rightarrow> program_error + AgentWallet \<times> u8 \<times> chain" where
  "RecordPolicyViolation_accounts P iv ctx sequence params s =
     rbind (load as_AgentWallet s (rv_agent_wallet ctx)) (\<lambda>wallet.
     rbind (signed iv (rv_owner ctx)) (\<lambda>_.
     rbind (init_pda P (rv_owner ctx) (rv_payment_record ctx)
              (payment_record_seeds (rv_agent_wallet ctx) sequence) PaymentRecord_LEN
              (PaymentRecordAcc zero_LedgerEntry) s) (\<lambda>(bump, s').
     rbind (check_seeds P (rv_agent_wallet ctx) (agent_wallet_seeds (spp_agent_id params))
              (aw_bump wallet)) (\<lambda>_.
     rbind (require (aw_owner wallet = rv_owner ctx) (Maxim Unauthorized)) (\<lambda>_.
       Inr (wallet, bump, s'))))))"

definition violation_accounting :: "AgentWallet \<Rightarrow> AgentWallet" where
  "violation_accounting wallet = wallet\<lparr>
     aw_payment_sequence := saturating_add (aw_payment_sequence wallet) 1,
     aw_total_payments := saturating_add (aw_total_payments wallet) 1\<rparr>"

definition violation_record ::
    "pubkey \<Rightarrow> u64 \<Rightarrow> SettlePaymentParams \<Rightarrow> PaymentProtocol \<Rightarrow> i64 \<Rightarrow> u8 \<Rightarrow> LedgerEntry" where
  "violation_record wallet_key sequence params protocol now bump = zero_LedgerEntry\<lparr>
     pr_agent_wallet := wallet_key,
     pr_sequence := sequence,
     pr_endpoint_hash := spp_endpoint_hash params,
     pr_payee := default_pubkey,
     pr_amount_usdc := spp_amount_usdc params,
     pr_protocol := protocol,
     pr_settled_at := now,
     pr_policy_passed := False,
     pr_parent_payment := None,
     le_memo := spp_memo params,
     pr_bump := bump\<rparr>"

definition record_policy_violation ::
    "platform \<Rightarrow> invocation \<Rightarrow> RecordPolicyViolation \<Rightarrow> u64 \<Rightarrow> SettlePaymentParams \<Rightarrow> u8 \<Rightarrow> chain
       \<Rightarrow> program_error + chain" where
  "record_policy_violation P iv ctx sequence params violation_reason s =
     rbind (RecordPolicyViolation_accounts P iv ctx sequence params s) (\<lambda>(wallet, bump, s).
     rbind (require (from_discriminant (spp_protocol params) \<noteq> None) (Maxim InvalidProtocol)) (\<lambda>_.
     rbind (require (sequence = aw_payment_sequence wallet) (Maxim SequenceMismatch)) (\<lambda>_.
     let now = iv_now iv;
         wallet = violation_accounting wallet in
     rbind (ok_or (from_discriminant (spp_protocol params)) Panic) (\<lambda>protocol.
     let record = violation_record (rv_agent_wallet ctx) sequence params protocol now bump in
     rbind (write_back record) (\<lambda>_. Inr
       (store (rv_agent_wallet ctx) (AgentWalletAcc wallet)
       (store (rv_payment_record ctx) (PaymentRecordAcc record)
       (emit (PolicyViolationRecorded (rv_agent_wallet ctx) sequence (spp_endpoint_hash params)
                (spp_amount_usdc params) violation_reason) s))))))))"

section \<open>What the blocks of settle_payment leave\<close>

lemma settle_param_guards_eq_Inr [result_simps]:
  "settle_param_guards wallet sequence params = Inr u \<longleftrightarrow>
     0 < spp_amount_usdc params \<and> from_discriminant (spp_protocol params) \<noteq> None
     \<and> sequence = aw_payment_sequence wallet"
  by (auto simp: settle_param_guards_def result_simps)

lemma settle_global_cap_eq_Inr [result_simps]:
  "settle_global_cap config params = Inr u \<longleftrightarrow>
     pc_max_single_payment_usdc config = 0
     \<or> spp_amount_usdc params \<le> pc_max_single_payment_usdc config"
  by (auto simp: settle_global_cap_def result_simps word_gt_0)

lemma settle_wallet_guards_eq_Inr:
  "settle_wallet_guards wallet now = Inr w \<longleftrightarrow>
     aw_is_active wallet \<and> \<not> aw_is_frozen wallet
     \<and> (\<exists>w1 w2. reset_daily_window_if_elapsed wallet now = Some w1
          \<and> reset_weekly_window_if_elapsed w1 now = Some w2
          \<and> reset_monthly_window_if_elapsed w2 now = Some w)"
  by (auto simp: settle_wallet_guards_def result_simps)

text \<open>A reset that returns changes its own two fields only.\<close>

lemma reset_shape_open:
  "\<exists>x y. w = w\<lparr>aw_daily_spend := x, aw_daily_window_start := y\<rparr>"
  "\<exists>x y. w = w\<lparr>aw_weekly_spend := x, aw_weekly_window_start := y\<rparr>"
  "\<exists>x y. w = w\<lparr>aw_monthly_spend := x, aw_monthly_window_start := y\<rparr>"
proof -
  have "w = w\<lparr>aw_daily_spend := aw_daily_spend w, aw_daily_window_start := aw_daily_window_start w\<rparr>"
    by simp
  then show "\<exists>x y. w = w\<lparr>aw_daily_spend := x, aw_daily_window_start := y\<rparr>" by blast
  have "w = w\<lparr>aw_weekly_spend := aw_weekly_spend w,
               aw_weekly_window_start := aw_weekly_window_start w\<rparr>"
    by simp
  then show "\<exists>x y. w = w\<lparr>aw_weekly_spend := x, aw_weekly_window_start := y\<rparr>" by blast
  have "w = w\<lparr>aw_monthly_spend := aw_monthly_spend w,
               aw_monthly_window_start := aw_monthly_window_start w\<rparr>"
    by simp
  then show "\<exists>x y. w = w\<lparr>aw_monthly_spend := x, aw_monthly_window_start := y\<rparr>" by blast
qed

lemma reset_shape:
  "reset_daily_window_if_elapsed w now = Some w' \<Longrightarrow>
     \<exists>x y. w' = w\<lparr>aw_daily_spend := x, aw_daily_window_start := y\<rparr>"
  "reset_weekly_window_if_elapsed w now = Some w' \<Longrightarrow>
     \<exists>x y. w' = w\<lparr>aw_weekly_spend := x, aw_weekly_window_start := y\<rparr>"
  "reset_monthly_window_if_elapsed w now = Some w' \<Longrightarrow>
     \<exists>x y. w' = w\<lparr>aw_monthly_spend := x, aw_monthly_window_start := y\<rparr>"
  unfolding daily.reset_eq weekly.reset_eq monthly.reset_eq
  by (auto split: option.splits intro: reset_shape_open)

lemma settle_wallet_guards_frame:
  assumes "settle_wallet_guards wallet now = Inr w"
  shows "aw_is_active wallet" and "\<not> aw_is_frozen wallet"
    and "aw_agent_id w = aw_agent_id wallet" and "aw_owner w = aw_owner wallet"
    and "aw_usdc_token_account w = aw_usdc_token_account wallet"
    and "aw_payment_sequence w = aw_payment_sequence wallet"
    and "aw_total_payments w = aw_total_payments wallet"
    and "aw_total_volume w = aw_total_volume wallet"
    and "aw_last_payment_at w = aw_last_payment_at wallet"
    and "aw_is_active w = aw_is_active wallet" and "aw_is_frozen w = aw_is_frozen wallet"
    and "aw_bump w = aw_bump wallet"
  using assms by (auto simp: settle_wallet_guards_eq_Inr dest!: reset_shape)

text \<open>The resets move each window forward, up to now, and never add to what it has counted.\<close>

lemma settle_guards_windows:
  assumes "settle_wallet_guards w now = Inr w'"
    and "0 \<le> sint (aw_daily_window_start w)" "sint (aw_daily_window_start w) \<le> sint now"
    and "0 \<le> sint (aw_weekly_window_start w)" "sint (aw_weekly_window_start w) \<le> sint now"
    and "0 \<le> sint (aw_monthly_window_start w)" "sint (aw_monthly_window_start w) \<le> sint now"
  shows "0 \<le> sint (aw_daily_window_start w')" "sint (aw_daily_window_start w') \<le> sint now"
    "0 \<le> sint (aw_weekly_window_start w')" "sint (aw_weekly_window_start w') \<le> sint now"
    "0 \<le> sint (aw_monthly_window_start w')" "sint (aw_monthly_window_start w') \<le> sint now"
    "aw_daily_spend w' \<le> aw_daily_spend w" "aw_weekly_spend w' \<le> aw_weekly_spend w"
    "aw_monthly_spend w' \<le> aw_monthly_spend w"
proof -
  obtain wd ww where d: "reset_daily_window_if_elapsed w now = Some wd"
    and ww: "reset_weekly_window_if_elapsed wd now = Some ww"
    and m: "reset_monthly_window_if_elapsed ww now = Some w'"
    using assms(1) by (auto simp: settle_wallet_guards_eq_Inr)
  obtain x y where wd: "wd = w\<lparr>aw_daily_spend := x, aw_daily_window_start := y\<rparr>"
    using reset_shape(1) [OF d] by blast
  obtain x' y' where ww': "ww = wd\<lparr>aw_weekly_spend := x', aw_weekly_window_start := y'\<rparr>"
    using reset_shape(2) [OF ww] by blast
  obtain x'' y'' where w': "w' = ww\<lparr>aw_monthly_spend := x'', aw_monthly_window_start := y''\<rparr>"
    using reset_shape(3) [OF m] by blast
  note D = daily.reset_Some_bounds [OF d assms(2,3)]
  have "0 \<le> sint (aw_weekly_window_start wd)" "sint (aw_weekly_window_start wd) \<le> sint now"
    using assms wd by simp_all
  note W = weekly.reset_Some_bounds [OF ww this]
  have "0 \<le> sint (aw_monthly_window_start ww)" "sint (aw_monthly_window_start ww) \<le> sint now"
    using assms wd ww' by simp_all
  note M = monthly.reset_Some_bounds [OF m this]
  show "0 \<le> sint (aw_daily_window_start w')" "sint (aw_daily_window_start w') \<le> sint now"
    "0 \<le> sint (aw_weekly_window_start w')" "sint (aw_weekly_window_start w') \<le> sint now"
    "0 \<le> sint (aw_monthly_window_start w')" "sint (aw_monthly_window_start w') \<le> sint now"
    "aw_daily_spend w' \<le> aw_daily_spend w" "aw_weekly_spend w' \<le> aw_weekly_spend w"
    "aw_monthly_spend w' \<le> aw_monthly_spend w"
    using D W M assms wd ww' w' by auto
qed

lemma settle_policy_checks_eq_Inr:
  "settle_policy_checks wallet policy params now = Inr policy' \<longleftrightarrow>
     within_per_call_limit policy (spp_amount_usdc params)
     \<and> within_daily_budget policy (aw_daily_spend wallet) (spp_amount_usdc params)
     \<and> within_weekly_budget policy (aw_weekly_spend wallet) (spp_amount_usdc params)
     \<and> within_monthly_budget policy (aw_monthly_spend wallet) (spp_amount_usdc params)
     \<and> (\<exists>p. reset_rate_window_if_elapsed policy now = Some p \<and> within_rate_limit p
          \<and> spp_domain_hash params \<notin> set (sp_blocked_domain_hashes p)
          \<and> (sp_allowed_domain_hashes p = []
             \<or> spp_domain_hash params \<in> set (sp_allowed_domain_hashes p))
          \<and> policy' = p\<lparr>sp_rate_limit_call_count :=
                          saturating_add (sp_rate_limit_call_count p) 1\<rparr>)"
  by (auto simp: settle_policy_checks_def Let_def result_simps)

lemma settle_policy_frame:
  assumes "settle_policy wallet policy params now = Inr policy'"
  shows "sp_agent_wallet policy' = sp_agent_wallet policy"
    and "sp_daily_budget policy' = sp_daily_budget policy"
    and "sp_weekly_budget policy' = sp_weekly_budget policy"
    and "sp_monthly_budget policy' = sp_monthly_budget policy"
    and "sp_per_call_limit policy' = sp_per_call_limit policy"
    and "sp_rate_limit_calls policy' = sp_rate_limit_calls policy"
    and "sp_rate_limit_window_secs policy' = sp_rate_limit_window_secs policy"
    and "sp_high_value_threshold policy' = sp_high_value_threshold policy"
    and "sp_allowed_domain_hashes policy' = sp_allowed_domain_hashes policy"
    and "sp_blocked_domain_hashes policy' = sp_blocked_domain_hashes policy"
    and "sp_bump policy' = sp_bump policy"
  using assms
  by (auto simp: settle_policy_def settle_policy_checks_eq_Inr split: if_splits
      dest!: reset_rate_window_cases)

lemma settle_accounting_fields [simp]:
  "aw_agent_id (settle_accounting w n now) = aw_agent_id w"
  "aw_owner (settle_accounting w n now) = aw_owner w"
  "aw_usdc_token_account (settle_accounting w n now) = aw_usdc_token_account w"
  "aw_daily_spend (settle_accounting w n now) = saturating_add (aw_daily_spend w) n"
  "aw_weekly_spend (settle_accounting w n now) = saturating_add (aw_weekly_spend w) n"
  "aw_monthly_spend (settle_accounting w n now) = saturating_add (aw_monthly_spend w) n"
  "aw_daily_window_start (settle_accounting w n now) = aw_daily_window_start w"
  "aw_weekly_window_start (settle_accounting w n now) = aw_weekly_window_start w"
  "aw_monthly_window_start (settle_accounting w n now) = aw_monthly_window_start w"
  "aw_payment_sequence (settle_accounting w n now) = saturating_add (aw_payment_sequence w) 1"
  "aw_total_payments (settle_accounting w n now) = saturating_add (aw_total_payments w) 1"
  "aw_total_volume (settle_accounting w n now) = saturating_add (aw_total_volume w) n"
  "aw_last_payment_at (settle_accounting w n now) = now"
  "aw_is_active (settle_accounting w n now) = aw_is_active w"
  "aw_is_frozen (settle_accounting w n now) = aw_is_frozen w"
  "aw_bump (settle_accounting w n now) = aw_bump w"
  by (simp_all add: settle_accounting_def)

lemma record_fields [simp]:
  "pr_agent_wallet (settled_record k q params payee protocol now b) = k"
  "pr_sequence (settled_record k q params payee protocol now b) = q"
  "pr_amount_usdc (settled_record k q params payee protocol now b) = spp_amount_usdc params"
  "pr_policy_passed (settled_record k q params payee protocol now b) = True"
  "pr_payee (settled_record k q params payee protocol now b) = payee"
  "pr_agent_wallet (violation_record k q params protocol now b) = k"
  "pr_sequence (violation_record k q params protocol now b) = q"
  "pr_amount_usdc (violation_record k q params protocol now b) = spp_amount_usdc params"
  "pr_policy_passed (violation_record k q params protocol now b) = False"
  "pr_payee (violation_record k q params protocol now b) = 0"
  "pr_parent_payment (settled_record k q params payee protocol now b) = spp_parent_payment params"
  "le_memo (settled_record k q params payee protocol now b) = spp_memo params"
  "pr_parent_payment (violation_record k q params protocol now b) = None"
  "le_memo (violation_record k q params protocol now b) = spp_memo params"
  by (simp_all add: settled_record_def violation_record_def)

section \<open>A successful settlement, taken apart\<close>

lemma settle_paymentE:
  assumes "settle_payment P iv ctx sequence params s = Inr s'"
  obtains wallet policy usdc payee config bump wallet1 policy1 pda acc protocol lam
  where "accounts s (st_agent_wallet ctx) = Some (AgentWalletAcc wallet)"
    and "accounts s (st_spend_policy ctx) = Some (SpendPolicyAcc policy)"
    and "accounts s (st_usdc_token_account ctx) = Some (TokenAcc usdc)"
    and "accounts s (st_payee_token_account ctx) = Some (TokenAcc payee)"
    and "accounts s (st_usdc_mint ctx) = Some MintAcc"
    and "accounts s (st_protocol_config ctx) = Some (ProtocolConfigAcc config)"
    and "accounts s (st_payment_record ctx) = None"
    and "find_program_address P (payment_record_seeds (st_agent_wallet ctx) sequence)
           = Some (st_payment_record ctx, bump)"
    and "st_owner ctx \<noteq> st_payment_record ctx"
    and "rent_due P (st_payment_record ctx) PaymentRecord_LEN s \<le> lamports s (st_owner ctx)"
    and "st_owner ctx \<in> set (iv_signers iv)" and "aw_owner wallet = st_owner ctx"
    and "create_program_address P (agent_wallet_seeds (spp_agent_id params) @ [[aw_bump wallet]])
           = Some (st_agent_wallet ctx)"
    and "create_program_address P (spend_policy_seeds (st_agent_wallet ctx) @ [[sp_bump policy]])
           = Some (st_spend_policy ctx)"
    and "sp_agent_wallet policy = st_agent_wallet ctx"
    and "ta_owner usdc = st_agent_wallet ctx"
    and "st_usdc_token_account ctx =
           get_associated_token_address P (st_agent_wallet ctx) (st_usdc_mint ctx)"
    and "create_program_address P (protocol_config_seeds @ [[pc_bump config]])
           = Some (st_protocol_config ctx)"
    and "0 < spp_amount_usdc params" and "sequence = aw_payment_sequence wallet"
    and "from_discriminant (spp_protocol params) = Some protocol"
    and "pc_max_single_payment_usdc config = 0
           \<or> spp_amount_usdc params \<le> pc_max_single_payment_usdc config"
    and "settle_wallet_guards wallet (iv_now iv) = Inr wallet1"
    and "settle_policy wallet1 policy params (iv_now iv) = Inr policy1"
    and "create_program_address P [str_bytes ''agent_wallet'', str_bytes (aw_agent_id wallet1),
           [aw_bump wallet1]] = Some pda"
    and "st_agent_wallet ctx = pda \<or> st_agent_wallet ctx \<in> set (iv_signers iv)"
    and "token_transfer P ((accounts s)(st_payment_record ctx \<mapsto> PaymentRecordAcc zero_LedgerEntry))
           (lamports (pay_rent P (st_owner ctx) (st_payment_record ctx) PaymentRecord_LEN s))
           (st_usdc_token_account ctx) (st_payee_token_account ctx) (st_agent_wallet ctx)
           (spp_amount_usdc params) = Inr (acc, lam)"
    and "accounts s' = acc(
           st_payment_record ctx \<mapsto> PaymentRecordAcc (settled_record (st_agent_wallet ctx) sequence
             params (ta_owner payee) protocol (iv_now iv) bump),
           st_agent_wallet ctx \<mapsto> AgentWalletAcc
             (settle_accounting wallet1 (spp_amount_usdc params) (iv_now iv)),
           st_spend_policy ctx \<mapsto> SpendPolicyAcc policy1)"
    and "lamports s' = lam"
    and "event_log s' = event_log s @ [settled_event (st_agent_wallet ctx) sequence params
           (ta_owner payee) (iv_now iv)]"
    and "spp_parent_payment params = None" and "spp_memo params = None"
proof -
  obtain wallet policy usdc payee config bump sa where
    acc: "SettlePayment_accounts P iv ctx sequence params s
      = Inr (wallet, policy, usdc, payee, config, bump, sa)"
    using assms by (auto simp: settle_payment_def result_simps)
  note body = assms [unfolded settle_payment_def acc rbind_Inr prod.case Let_def]
  show thesis
    using acc body
    by (auto simp: SettlePayment_accounts_def result_simps intro!: that)
qed

text \<open>Conversely, these conditions are enough.\<close>

lemma settle_paymentI:
  assumes "accounts s (st_agent_wallet ctx) = Some (AgentWalletAcc wallet)"
    and "accounts s (st_spend_policy ctx) = Some (SpendPolicyAcc policy)"
    and "accounts s (st_usdc_token_account ctx) = Some (TokenAcc usdc)"
    and "accounts s (st_payee_token_account ctx) = Some (TokenAcc payee)"
    and "accounts s (st_usdc_mint ctx) = Some MintAcc"
    and "accounts s (st_protocol_config ctx) = Some (ProtocolConfigAcc config)"
    and "accounts s (st_payment_record ctx) = None"
    and "find_program_address P (payment_record_seeds (st_agent_wallet ctx) sequence)
           = Some (st_payment_record ctx, bump)"
    and "st_owner ctx \<noteq> st_payment_record ctx"
    and "rent_due P (st_payment_record ctx) PaymentRecord_LEN s \<le> lamports s (st_owner ctx)"
    and "st_owner ctx \<in> set (iv_signers iv)" and "aw_owner wallet = st_owner ctx"
    and "create_program_address P (agent_wallet_seeds (spp_agent_id params) @ [[aw_bump wallet]])
           = Some (st_agent_wallet ctx)"
    and "create_program_address P (spend_policy_seeds (st_agent_wallet ctx) @ [[sp_bump policy]])
           = Some (st_spend_policy ctx)"
    and "sp_agent_wallet policy = st_agent_wallet ctx"
    and "ta_owner usdc = st_agent_wallet ctx"
    and "st_usdc_token_account ctx =
           get_associated_token_address P (st_agent_wallet ctx) (st_usdc_mint ctx)"
    and "create_program_address P (protocol_config_seeds @ [[pc_bump config]])
           = Some (st_protocol_config ctx)"
    and "settle_param_guards wallet sequence params = Inr ()"
    and "from_discriminant (spp_protocol params) = Some protocol"
    and "settle_global_cap config params = Inr ()"
    and "settle_wallet_guards wallet (iv_now iv) = Inr wallet'"
    and "settle_policy wallet' policy params (iv_now iv) = Inr policy'"
    and "create_program_address P (agent_wallet_seeds (aw_agent_id wallet') @ [[aw_bump wallet']])
           = Some (st_agent_wallet ctx)"
    and "token_transfer P ((accounts s)(st_payment_record ctx \<mapsto> PaymentRecordAcc zero_LedgerEntry))
           (lamports (pay_rent P (st_owner ctx) (st_payment_record ctx) PaymentRecord_LEN s))
           (st_usdc_token_account ctx) (st_payee_token_account ctx) (st_agent_wallet ctx)
           (spp_amount_usdc params) = Inr (acc, lam)"
    and "spp_parent_payment params = None" and "spp_memo params = None"
  shows "settle_payment P iv ctx sequence params s = Inr
      (store (st_spend_policy ctx) (SpendPolicyAcc policy')
       (store (st_agent_wallet ctx)
          (AgentWalletAcc (settle_accounting wallet' (spp_amount_usdc params) (iv_now iv)))
       (store (st_payment_record ctx) (PaymentRecordAcc (settled_record (st_agent_wallet ctx) sequence
             params (ta_owner payee) protocol (iv_now iv) bump))
       (emit (settled_event (st_agent_wallet ctx) sequence params (ta_owner payee) (iv_now iv))
         (pay_rent P (st_owner ctx) (st_payment_record ctx) PaymentRecord_LEN s
           \<lparr>accounts := acc, lamports := lam\<rparr>)))))"
proof -
  have "SettlePayment_accounts P iv ctx sequence params s = Inr (wallet, policy, usdc, payee, config,
    bump, store (st_payment_record ctx) (PaymentRecordAcc zero_LedgerEntry) 
     (pay_rent P (st_owner ctx) (st_payment_record ctx) PaymentRecord_LEN s))"
    using assms(1-18) by (simp add: SettlePayment_accounts_def load_def signed_def init_pda_def create_account_def check_seeds_def check_associated_def)
  with assms(19-) show ?thesis
    by (simp add: settle_payment_def invoke_signed_transfer_def agent_wallet_seeds_def store_def
      emit_def pay_rent_def Let_def write_back_eq)
qed

text \<open>
  The same with a sound Token program: what the instruction leaves of every account.
\<close>

lemma settle_payment_result:
  assumes "transfer_sound P" and "settle_payment P iv ctx sequence params s = Inr s'"
  obtains wallet policy usdc payee config bump wallet' policy' protocol
  where "accounts s (st_agent_wallet ctx) = Some (AgentWalletAcc wallet)"
    and "accounts s (st_spend_policy ctx) = Some (SpendPolicyAcc policy)"
    and "accounts s (st_payment_record ctx) = None"
    and "transfer_allowed (accounts s) (st_usdc_token_account ctx) usdc
           (st_payee_token_account ctx) payee (spp_amount_usdc params)"
    and "accounts s (st_protocol_config ctx) = Some (ProtocolConfigAcc config)"
    and "find_program_address P (payment_record_seeds (st_agent_wallet ctx) sequence)
           = Some (st_payment_record ctx, bump)"
    and "st_owner ctx \<noteq> st_payment_record ctx"
    and "rent_due P (st_payment_record ctx) PaymentRecord_LEN s \<le> lamports s (st_owner ctx)"
    and "st_owner ctx \<in> set (iv_signers iv)" and "aw_owner wallet = st_owner ctx"
    and "ta_owner usdc = st_agent_wallet ctx"
    and "sp_agent_wallet policy = st_agent_wallet ctx"
    and "0 < spp_amount_usdc params" and "sequence = aw_payment_sequence wallet"
    and "from_discriminant (spp_protocol params) = Some protocol"
    and "pc_max_single_payment_usdc config = 0
           \<or> spp_amount_usdc params \<le> pc_max_single_payment_usdc config"
    and "settle_wallet_guards wallet (iv_now iv) = Inr wallet'"
    and "settle_policy wallet' policy params (iv_now iv) = Inr policy'"
    and "accounts s' = (transfer_effect (accounts s) (st_usdc_token_account ctx) usdc
             (st_payee_token_account ctx) payee (spp_amount_usdc params))(
           st_payment_record ctx \<mapsto> PaymentRecordAcc (settled_record (st_agent_wallet ctx) sequence
             params (ta_owner payee) protocol (iv_now iv) bump),
           st_agent_wallet ctx \<mapsto> AgentWalletAcc
             (settle_accounting wallet' (spp_amount_usdc params) (iv_now iv)),
           st_spend_policy ctx \<mapsto> SpendPolicyAcc policy')"
    and "lamports s' = transfer_lamports P
           (lamports (pay_rent P (st_owner ctx) (st_payment_record ctx) PaymentRecord_LEN s))
           (st_usdc_token_account ctx) usdc (st_payee_token_account ctx) (spp_amount_usdc params)"
    and "event_log s' = event_log s @ [settled_event (st_agent_wallet ctx) sequence params
           (ta_owner payee) (iv_now iv)]"
    and "spp_parent_payment params = None" and "spp_memo params = None"
    and "transfer_backed P
           (lamports (pay_rent P (st_owner ctx) (st_payment_record ctx) PaymentRecord_LEN s))
           (st_usdc_token_account ctx) usdc (st_payee_token_account ctx) (spp_amount_usdc params)"
  using assms(2)
proof (rule settle_paymentE, goal_cases)
  case (1 wallet policy usdc payee config bump wallet' policy' pda acc protocol lam)
  let ?acc0 = "(accounts s)(st_payment_record ctx \<mapsto> PaymentRecordAcc zero_LedgerEntry)"
  have "?acc0 (st_usdc_token_account ctx) = Some (TokenAcc usdc)"
    using 1(4,8) by auto
  then obtain ta where ta: "transfer_allowed ?acc0 (st_usdc_token_account ctx) usdc
        (st_payee_token_account ctx) ta (spp_amount_usdc params)"
    and acc: "acc = transfer_effect ?acc0 (st_usdc_token_account ctx) usdc
        (st_payee_token_account ctx) ta (spp_amount_usdc params)"
    and lam: "transfer_backed P
        (lamports (pay_rent P (st_owner ctx) (st_payment_record ctx) PaymentRecord_LEN s))
        (st_usdc_token_account ctx) usdc (st_payee_token_account ctx) (spp_amount_usdc params)"
      "lam = transfer_lamports P
        (lamports (pay_rent P (st_owner ctx) (st_payment_record ctx) PaymentRecord_LEN s))
        (st_usdc_token_account ctx) usdc (st_payee_token_account ctx) (spp_amount_usdc params)"
    using transfer_soundD [OF assms(1) _ 1(17) 1(28)] by blast
  have "ta = payee" and "transfer_allowed (accounts s) (st_usdc_token_account ctx) usdc
        (st_payee_token_account ctx) payee (spp_amount_usdc params)"
    using ta 1(4,5,8) by (auto simp: transfer_allowed_def split: if_splits)
  moreover have "accounts s' = (transfer_effect (accounts s) (st_usdc_token_account ctx) usdc
             (st_payee_token_account ctx) payee (spp_amount_usdc params))(
           st_payment_record ctx \<mapsto> PaymentRecordAcc (settled_record (st_agent_wallet ctx) sequence
             params (ta_owner payee) protocol (iv_now iv) bump),
           st_agent_wallet ctx \<mapsto> AgentWalletAcc
             (settle_accounting wallet' (spp_amount_usdc params) (iv_now iv)),
           st_spend_policy ctx \<mapsto> SpendPolicyAcc policy')"
    using 1(4,5,8,29) acc \<open>ta = payee\<close> by (auto simp: transfer_effect_def fun_eq_iff)
  ultimately show ?case
    using 1 lam by (intro that) simp_all
qed

lemma record_policy_violation_eq_Inr [ix_simps]:
  "record_policy_violation P iv ctx sequence params reason s = Inr s' \<longleftrightarrow>
     (\<exists>wallet bump protocol.
        accounts s (rv_agent_wallet ctx) = Some (AgentWalletAcc wallet)
        \<and> rv_owner ctx \<in> set (iv_signers iv) \<and> aw_owner wallet = rv_owner ctx
        \<and> find_program_address P (payment_record_seeds (rv_agent_wallet ctx) sequence)
            = Some (rv_payment_record ctx, bump)
        \<and> rv_owner ctx \<noteq> rv_payment_record ctx \<and> accounts s (rv_payment_record ctx) = None
        \<and> rent_due P (rv_payment_record ctx) PaymentRecord_LEN s \<le> lamports s (rv_owner ctx)
        \<and> create_program_address P (agent_wallet_seeds (spp_agent_id params) @ [[aw_bump wallet]])
            = Some (rv_agent_wallet ctx)
        \<and> from_discriminant (spp_protocol params) = Some protocol
        \<and> sequence = aw_payment_sequence wallet \<and> spp_memo params = None
        \<and> s' = store (rv_agent_wallet ctx) (AgentWalletAcc (violation_accounting wallet))
                (store (rv_payment_record ctx) (PaymentRecordAcc (violation_record
                   (rv_agent_wallet ctx) sequence params protocol (iv_now iv) bump))
                (emit (PolicyViolationRecorded (rv_agent_wallet ctx) sequence
                   (spp_endpoint_hash params) (spp_amount_usdc params) reason)
                (store (rv_payment_record ctx) (PaymentRecordAcc zero_LedgerEntry)
                (pay_rent P (rv_owner ctx) (rv_payment_record ctx) PaymentRecord_LEN s)))))"
  by (auto simp: record_policy_violation_def RecordPolicyViolation_accounts_def Let_def result_simps)

text \<open>What it leaves of every account.\<close>

lemma violation_result:
  assumes "record_policy_violation P iv ctx sequence params reason s = Inr s'"
  obtains wallet bump protocol where
    "accounts s (rv_agent_wallet ctx) = Some (AgentWalletAcc wallet)"
    and "rv_owner ctx \<in> set (iv_signers iv)" and "aw_owner wallet = rv_owner ctx"
    and "find_program_address P (payment_record_seeds (rv_agent_wallet ctx) sequence)
           = Some (rv_payment_record ctx, bump)"
    and "accounts s (rv_payment_record ctx) = None"
    and "sequence = aw_payment_sequence wallet"
    and "from_discriminant (spp_protocol params) = Some protocol"
    and "accounts s' = (accounts s)(rv_payment_record ctx \<mapsto> PaymentRecordAcc (violation_record
           (rv_agent_wallet ctx) sequence params protocol (iv_now iv) bump),
         rv_agent_wallet ctx \<mapsto> AgentWalletAcc (violation_accounting wallet))"
    and "event_log s' = event_log s @ [PolicyViolationRecorded (rv_agent_wallet ctx) sequence
           (spp_endpoint_hash params) (spp_amount_usdc params) reason]"
    and "spp_memo params = None"
  using assms unfolding record_policy_violation_eq_Inr
  by (elim exE conjE) (rule that, simp_all)

end
