(* ===== verification/Admin_Instructions.thy ===== *)
theory Admin_Instructions
  imports Runtime
begin

text \<open>
  The instructions of the protocol admin (lib.rs): \<^verbatim>\<open>init_protocol\<close>, \<^verbatim>\<open>rotate_protocol_admin\<close>,
  \<^verbatim>\<open>update_protocol_config\<close>, \<^verbatim>\<open>freeze_agent\<close> and \<^verbatim>\<open>unfreeze_agent\<close>, with their account structs.
\<close>

section \<open>init_protocol\<close>

record InitProtocol =
  ip_protocol_config :: pubkey
  ip_payer :: pubkey

definition InitProtocol_accounts ::
    "platform \<Rightarrow> invocation \<Rightarrow> InitProtocol \<Rightarrow> chain \<Rightarrow> program_error + u8 \<times> chain" where
  "InitProtocol_accounts P iv ctx s =
     rbind (signed iv (ip_payer ctx)) (\<lambda>_.
       init_pda P (ip_payer ctx) (ip_protocol_config ctx) protocol_config_seeds ProtocolConfig_LEN
         (ProtocolConfigAcc zero_ProtocolConfig) s)"

definition init_protocol ::
    "platform \<Rightarrow> invocation \<Rightarrow> InitProtocol \<Rightarrow> pubkey \<Rightarrow> chain \<Rightarrow> program_error + chain" where
  "init_protocol P iv ctx admin s =
     rbind (InitProtocol_accounts P iv ctx s) (\<lambda>(bump, s).
     rbind (require (admin \<noteq> default_pubkey) (Maxim InvalidOwner)) (\<lambda>_.
     let config = zero_ProtocolConfig\<lparr>
           pc_admin := admin,
           pc_version := PROGRAM_VERSION,
           pc_max_single_payment_usdc := 0,
           pc_bump := bump\<rparr>
     in Inr (store (ip_protocol_config ctx) (ProtocolConfigAcc config) s)))"

section \<open>rotate_protocol_admin, update_protocol_config\<close>

record RotateProtocolAdmin =
  ra_protocol_config :: pubkey
  ra_admin :: pubkey

definition RotateProtocolAdmin_accounts ::
    "platform \<Rightarrow> invocation \<Rightarrow> RotateProtocolAdmin \<Rightarrow> chain \<Rightarrow> program_error + ProtocolConfig" where
  "RotateProtocolAdmin_accounts P iv ctx s =
     rbind (load as_ProtocolConfig s (ra_protocol_config ctx)) (\<lambda>config.
     rbind (signed iv (ra_admin ctx)) (\<lambda>_.
     rbind (check_seeds P (ra_protocol_config ctx) protocol_config_seeds (pc_bump config)) (\<lambda>_.
     rbind (require (pc_admin config = ra_admin ctx) (Maxim Unauthorized)) (\<lambda>_.
       Inr config))))"

definition rotate_protocol_admin ::
    "platform \<Rightarrow> invocation \<Rightarrow> RotateProtocolAdmin \<Rightarrow> pubkey \<Rightarrow> chain \<Rightarrow> program_error + chain" where
  "rotate_protocol_admin P iv ctx new_admin s =
     rbind (RotateProtocolAdmin_accounts P iv ctx s) (\<lambda>config.
     rbind (require (new_admin \<noteq> default_pubkey) (Maxim InvalidOwner)) (\<lambda>_.
       Inr (store (ra_protocol_config ctx)
              (ProtocolConfigAcc (config\<lparr>pc_admin := new_admin\<rparr>)) s)))"

record UpdateProtocolConfig =
  uc_protocol_config :: pubkey
  uc_admin :: pubkey

definition UpdateProtocolConfig_accounts ::
    "platform \<Rightarrow> invocation \<Rightarrow> UpdateProtocolConfig \<Rightarrow> chain \<Rightarrow> program_error + ProtocolConfig" where
  "UpdateProtocolConfig_accounts P iv ctx s =
     rbind (load as_ProtocolConfig s (uc_protocol_config ctx)) (\<lambda>config.
     rbind (signed iv (uc_admin ctx)) (\<lambda>_.
     rbind (check_seeds P (uc_protocol_config ctx) protocol_config_seeds (pc_bump config)) (\<lambda>_.
     rbind (require (pc_admin config = uc_admin ctx) (Maxim Unauthorized)) (\<lambda>_.
       Inr config))))"

definition update_protocol_config ::
    "platform \<Rightarrow> invocation \<Rightarrow> UpdateProtocolConfig \<Rightarrow> u64 \<Rightarrow> chain \<Rightarrow> program_error + chain" where
  "update_protocol_config P iv ctx max_single_payment_usdc s =
     rbind (UpdateProtocolConfig_accounts P iv ctx s) (\<lambda>config.
       Inr (store (uc_protocol_config ctx)
              (ProtocolConfigAcc (config\<lparr>pc_max_single_payment_usdc := max_single_payment_usdc\<rparr>)) s))"

section \<open>freeze_agent, unfreeze_agent\<close>

record ProtocolManageAgent =
  pm_agent_wallet :: pubkey
  pm_protocol_config :: pubkey
  pm_admin :: pubkey

definition ProtocolManageAgent_accounts ::
    "platform \<Rightarrow> invocation \<Rightarrow> ProtocolManageAgent \<Rightarrow> chain \<Rightarrow> program_error + AgentWallet" where
  "ProtocolManageAgent_accounts P iv ctx s =
     rbind (load as_AgentWallet s (pm_agent_wallet ctx)) (\<lambda>wallet.
     rbind (load as_ProtocolConfig s (pm_protocol_config ctx)) (\<lambda>config.
     rbind (signed iv (pm_admin ctx)) (\<lambda>_.
     rbind (check_seeds P (pm_protocol_config ctx) protocol_config_seeds (pc_bump config)) (\<lambda>_.
     rbind (require (pc_admin config = pm_admin ctx) (Maxim Unauthorized)) (\<lambda>_.
       Inr wallet)))))"

definition freeze_agent ::
    "platform \<Rightarrow> invocation \<Rightarrow> ProtocolManageAgent \<Rightarrow> chain \<Rightarrow> program_error + chain" where
  "freeze_agent P iv ctx s =
     rbind (ProtocolManageAgent_accounts P iv ctx s) (\<lambda>wallet.
       Inr (store (pm_agent_wallet ctx) (AgentWalletAcc (wallet\<lparr>aw_is_frozen := True\<rparr>))
           (emit (AgentFreezeChanged (pm_agent_wallet ctx) (aw_agent_id wallet) True (iv_now iv)) s)))"

definition unfreeze_agent ::
    "platform \<Rightarrow> invocation \<Rightarrow> ProtocolManageAgent \<Rightarrow> chain \<Rightarrow> program_error + chain" where
  "unfreeze_agent P iv ctx s =
     rbind (ProtocolManageAgent_accounts P iv ctx s) (\<lambda>wallet.
       Inr (store (pm_agent_wallet ctx) (AgentWalletAcc (wallet\<lparr>aw_is_frozen := False\<rparr>))
           (emit (AgentFreezeChanged (pm_agent_wallet ctx) (aw_agent_id wallet) False (iv_now iv)) s)))"

section \<open>When they succeed\<close>

lemma init_protocol_eq_Inr [ix_simps]:
  "init_protocol P iv ctx admin s = Inr s' \<longleftrightarrow>
     (\<exists>bump. ip_payer ctx \<in> set (iv_signers iv)
        \<and> find_program_address P protocol_config_seeds = Some (ip_protocol_config ctx, bump)
        \<and> ip_payer ctx \<noteq> ip_protocol_config ctx \<and> accounts s (ip_protocol_config ctx) = None
        \<and> rent_due P (ip_protocol_config ctx) ProtocolConfig_LEN s \<le> lamports s (ip_payer ctx)
        \<and> admin \<noteq> default_pubkey
        \<and> s' = store (ip_protocol_config ctx) (ProtocolConfigAcc
                  \<lparr>pc_admin = admin, pc_version = PROGRAM_VERSION, pc_max_single_payment_usdc = 0,
                   pc_bump = bump\<rparr>)
                (store (ip_protocol_config ctx) (ProtocolConfigAcc zero_ProtocolConfig)
                (pay_rent P (ip_payer ctx) (ip_protocol_config ctx) ProtocolConfig_LEN s)))"
  by (auto simp: init_protocol_def InitProtocol_accounts_def zero_ProtocolConfig_def result_simps)

lemma rotate_protocol_admin_eq_Inr [ix_simps]:
  "rotate_protocol_admin P iv ctx new_admin s = Inr s' \<longleftrightarrow>
     (\<exists>config.
        accounts s (ra_protocol_config ctx) = Some (ProtocolConfigAcc config)
        \<and> ra_admin ctx \<in> set (iv_signers iv) \<and> pc_admin config = ra_admin ctx
        \<and> create_program_address P (protocol_config_seeds @ [[pc_bump config]])
            = Some (ra_protocol_config ctx)
        \<and> new_admin \<noteq> default_pubkey
        \<and> s' = store (ra_protocol_config ctx)
                 (ProtocolConfigAcc (config\<lparr>pc_admin := new_admin\<rparr>)) s)"
  by (auto simp: rotate_protocol_admin_def RotateProtocolAdmin_accounts_def result_simps)

lemma update_protocol_config_eq_Inr [ix_simps]:
  "update_protocol_config P iv ctx cap s = Inr s' \<longleftrightarrow>
     (\<exists>config.
        accounts s (uc_protocol_config ctx) = Some (ProtocolConfigAcc config)
        \<and> uc_admin ctx \<in> set (iv_signers iv) \<and> pc_admin config = uc_admin ctx
        \<and> create_program_address P (protocol_config_seeds @ [[pc_bump config]])
            = Some (uc_protocol_config ctx)
        \<and> s' = store (uc_protocol_config ctx)
                 (ProtocolConfigAcc (config\<lparr>pc_max_single_payment_usdc := cap\<rparr>)) s)"
  by (auto simp: update_protocol_config_def UpdateProtocolConfig_accounts_def result_simps)

lemma freeze_agent_eq_Inr [ix_simps]:
  "freeze_agent P iv ctx s = Inr s' \<longleftrightarrow>
     (\<exists>wallet config. accounts s (pm_agent_wallet ctx) = Some (AgentWalletAcc wallet) \<and>
        accounts s (pm_protocol_config ctx) = Some (ProtocolConfigAcc config)
        \<and> pm_admin ctx \<in> set (iv_signers iv) \<and> pc_admin config = pm_admin ctx
        \<and> create_program_address P (protocol_config_seeds @ [[pc_bump config]])
            = Some (pm_protocol_config ctx)
        \<and> s' = store (pm_agent_wallet ctx) (AgentWalletAcc (wallet\<lparr>aw_is_frozen := True\<rparr>))
                (emit (AgentFreezeChanged (pm_agent_wallet ctx) (aw_agent_id wallet) True (iv_now iv)) s))"
  by (auto simp: freeze_agent_def ProtocolManageAgent_accounts_def result_simps)

lemma unfreeze_agent_eq_Inr [ix_simps]:
  "unfreeze_agent P iv ctx s = Inr s' \<longleftrightarrow>
     (\<exists>wallet config. accounts s (pm_agent_wallet ctx) = Some (AgentWalletAcc wallet) \<and>
        accounts s (pm_protocol_config ctx) = Some (ProtocolConfigAcc config)
        \<and> pm_admin ctx \<in> set (iv_signers iv) \<and> pc_admin config = pm_admin ctx
        \<and> create_program_address P (protocol_config_seeds @ [[pc_bump config]])
            = Some (pm_protocol_config ctx)
        \<and> s' = store (pm_agent_wallet ctx) (AgentWalletAcc (wallet\<lparr>aw_is_frozen := False\<rparr>))
                (emit (AgentFreezeChanged (pm_agent_wallet ctx) (aw_agent_id wallet) False (iv_now iv)) s))"
  by (auto simp: unfreeze_agent_def ProtocolManageAgent_accounts_def result_simps)

end
