(* ===== verification/Wallet_Instructions.thy ===== *)
theory Wallet_Instructions
  imports Runtime
begin

text \<open>
  The life of an agent wallet (lib.rs): \<^verbatim>\<open>register_agent\<close>, \<^verbatim>\<open>set_spend_policy\<close>,
  \<^verbatim>\<open>deactivate_agent\<close>, \<^verbatim>\<open>reactivate_agent\<close>, \<^verbatim>\<open>transfer_ownership\<close> and \<^verbatim>\<open>close_agent\<close>, with their
  account structs.
\<close>

section \<open>register_agent\<close>

record RegisterAgent =
  rg_agent_wallet :: pubkey
  rg_usdc_token_account :: pubkey
  rg_usdc_mint :: pubkey
  rg_owner :: pubkey

definition RegisterAgent_accounts ::
    "platform \<Rightarrow> invocation \<Rightarrow> RegisterAgent \<Rightarrow> string \<Rightarrow> chain \<Rightarrow> program_error + u8 \<times> chain" where
  "RegisterAgent_accounts P iv ctx agent_id s =
     rbind (load as_Mint s (rg_usdc_mint ctx)) (\<lambda>_.
     rbind (signed iv (rg_owner ctx)) (\<lambda>_.
     rbind (init_pda P (rg_owner ctx) (rg_agent_wallet ctx) (agent_wallet_seeds agent_id)
              AgentWallet_LEN (AgentWalletAcc zero_AgentWallet) s) (\<lambda>(bump, s).
     rbind (init_associated P (rg_owner ctx) (rg_usdc_token_account ctx) (rg_agent_wallet ctx)
              (rg_usdc_mint ctx) s) (\<lambda>s.
       Inr (bump, s)))))"

definition is_ascii_alphanumeric :: "char \<Rightarrow> bool" where
  "is_ascii_alphanumeric c \<longleftrightarrow>
     (let b = (of_char c :: nat) in
      (48 \<le> b \<and> b \<le> 57) \<or> (65 \<le> b \<and> b \<le> 90) \<or> (97 \<le> b \<and> b \<le> 122))"

definition valid_agent_id_length :: "string \<Rightarrow> bool" where
  "valid_agent_id_length agent_id \<longleftrightarrow> agent_id \<noteq> [] \<and> length agent_id \<le> MAX_AGENT_ID_LEN"

definition valid_agent_id_chars :: "string \<Rightarrow> bool" where
  "valid_agent_id_chars agent_id \<longleftrightarrow>
     list_all (\<lambda>b. is_ascii_alphanumeric b \<or> b = CHR ''-'' \<or> b = CHR ''_'') agent_id"

definition new_agent_wallet :: "string \<Rightarrow> pubkey \<Rightarrow> pubkey \<Rightarrow> i64 \<Rightarrow> u8 \<Rightarrow> AgentWallet" where
  "new_agent_wallet agent_id owner usdc_token_account now bump = zero_AgentWallet\<lparr>
     aw_agent_id := agent_id,
     aw_owner := owner,
     aw_usdc_token_account := usdc_token_account,
     aw_daily_spend := 0,
     aw_daily_window_start := now,
     aw_weekly_spend := 0,
     aw_weekly_window_start := now,
     aw_monthly_spend := 0,
     aw_monthly_window_start := now,
     aw_payment_sequence := 0,
     aw_last_payment_at := 0,
     aw_total_payments := 0,
     aw_total_volume := 0,
     aw_is_active := True,
     aw_is_frozen := False,
     aw_bump := bump\<rparr>"

definition register_agent ::
    "platform \<Rightarrow> invocation \<Rightarrow> RegisterAgent \<Rightarrow> string \<Rightarrow> chain \<Rightarrow> program_error + chain" where
  "register_agent P iv ctx agent_id s =
     rbind (RegisterAgent_accounts P iv ctx agent_id s) (\<lambda>(bump, s).
     rbind (require (valid_agent_id_length agent_id) (Maxim AgentIdTooLong)) (\<lambda>_.
     rbind (require (valid_agent_id_chars agent_id) (Maxim InvalidAgentId)) (\<lambda>_.
     let wallet = new_agent_wallet agent_id (rg_owner ctx) (rg_usdc_token_account ctx) (iv_now iv) bump
     in Inr (store (rg_agent_wallet ctx) (AgentWalletAcc wallet) s))))"

section \<open>set_spend_policy\<close>

record SetSpendPolicy =
  sy_spend_policy :: pubkey
  sy_agent_wallet :: pubkey
  sy_owner :: pubkey

text \<open>
  \<^verbatim>\<open>init_if_needed\<close>: a policy that does not exist is created from zero bytes, one that does is read
  at its type.
\<close>

definition SetSpendPolicy_accounts ::
    "platform \<Rightarrow> invocation \<Rightarrow> SetSpendPolicy \<Rightarrow> chain \<Rightarrow> program_error + SpendPolicy \<times> u8 \<times> chain" where
  "SetSpendPolicy_accounts P iv ctx s =
     rbind (load as_AgentWallet s (sy_agent_wallet ctx)) (\<lambda>wallet.
     rbind (signed iv (sy_owner ctx)) (\<lambda>_.
     rbind (ok_or (find_program_address P (spend_policy_seeds (sy_agent_wallet ctx))) Panic)
       (\<lambda>(pda, bump).
     rbind (require (sy_spend_policy ctx = pda) (Anchor ConstraintSeeds)) (\<lambda>_.
     rbind (if accounts s (sy_spend_policy ctx) = None
            then rbind (create_account P (sy_owner ctx) (sy_spend_policy ctx) SpendPolicy_LEN
                          (SpendPolicyAcc zero_SpendPolicy) s) (\<lambda>s. Inr (zero_SpendPolicy, s))
            else rbind (load as_SpendPolicy s (sy_spend_policy ctx)) (\<lambda>policy. Inr (policy, s)))
       (\<lambda>(policy, s).
     rbind (require (aw_owner wallet = sy_owner ctx) (Maxim Unauthorized)) (\<lambda>_.
       Inr (policy, bump, s)))))))"

definition updated_policy ::
    "SpendPolicy \<Rightarrow> pubkey \<Rightarrow> SetSpendPolicyParams \<Rightarrow> i64 \<Rightarrow> u8 \<Rightarrow> SpendPolicy" where
  "updated_policy policy wallet_key params now bump = policy\<lparr>
     sp_agent_wallet := wallet_key,
     sp_daily_budget := ssp_daily_budget params,
     sp_weekly_budget := ssp_weekly_budget params,
     sp_monthly_budget := ssp_monthly_budget params,
     sp_per_call_limit := ssp_per_call_limit params,
     sp_rate_limit_calls := ssp_rate_limit_calls params,
     sp_rate_limit_window_secs := ssp_rate_limit_window_secs params,
     sp_rate_limit_call_count := 0,
     sp_rate_limit_window_start := now,
     sp_high_value_threshold := ssp_high_value_threshold params,
     sp_allowed_domain_hashes := ssp_allowed_domain_hashes params,
     sp_blocked_domain_hashes := ssp_blocked_domain_hashes params,
     sp_bump := bump\<rparr>"

definition set_spend_policy ::
    "platform \<Rightarrow> invocation \<Rightarrow> SetSpendPolicy \<Rightarrow> SetSpendPolicyParams \<Rightarrow> chain
       \<Rightarrow> program_error + chain" where
  "set_spend_policy P iv ctx params s =
     rbind (SetSpendPolicy_accounts P iv ctx s) (\<lambda>(policy, bump, s).
     rbind (require (length (ssp_allowed_domain_hashes params) \<le> MAX_DOMAIN_ENTRIES)
              (Maxim DomainListFull)) (\<lambda>_.
     rbind (require (length (ssp_blocked_domain_hashes params) \<le> MAX_DOMAIN_ENTRIES)
              (Maxim DomainListFull)) (\<lambda>_.
     let now = iv_now iv;
         policy = updated_policy policy (sy_agent_wallet ctx) params now bump
     in Inr (store (sy_spend_policy ctx) (SpendPolicyAcc policy)
          (emit (SpendPolicyUpdated (sy_agent_wallet ctx) (ssp_daily_budget params)
             (ssp_weekly_budget params) (ssp_monthly_budget params) (ssp_per_call_limit params)
             (ssp_high_value_threshold params) now) s)))))"

section \<open>deactivate_agent, reactivate_agent\<close>

record ManageAgentStatus =
  ms_agent_wallet :: pubkey
  ms_owner :: pubkey

definition ManageAgentStatus_accounts ::
    "invocation \<Rightarrow> ManageAgentStatus \<Rightarrow> chain \<Rightarrow> program_error + AgentWallet" where
  "ManageAgentStatus_accounts iv ctx s =
     rbind (load as_AgentWallet s (ms_agent_wallet ctx)) (\<lambda>wallet.
     rbind (signed iv (ms_owner ctx)) (\<lambda>_.
     rbind (require (aw_owner wallet = ms_owner ctx) (Maxim Unauthorized)) (\<lambda>_.
       Inr wallet)))"

definition deactivate_agent ::
    "invocation \<Rightarrow> ManageAgentStatus \<Rightarrow> chain \<Rightarrow> program_error + chain" where
  "deactivate_agent iv ctx s =
     rbind (ManageAgentStatus_accounts iv ctx s) (\<lambda>wallet.
       Inr (store (ms_agent_wallet ctx) (AgentWalletAcc (wallet\<lparr>aw_is_active := False\<rparr>))
           (emit (AgentStatusChanged (ms_agent_wallet ctx) (aw_agent_id wallet) False (iv_now iv)) s)))"

definition reactivate_agent ::
    "invocation \<Rightarrow> ManageAgentStatus \<Rightarrow> chain \<Rightarrow> program_error + chain" where
  "reactivate_agent iv ctx s =
     rbind (ManageAgentStatus_accounts iv ctx s) (\<lambda>wallet.
       Inr (store (ms_agent_wallet ctx) (AgentWalletAcc (wallet\<lparr>aw_is_active := True\<rparr>))
           (emit (AgentStatusChanged (ms_agent_wallet ctx) (aw_agent_id wallet) True (iv_now iv)) s)))"

section \<open>transfer_ownership\<close>

record TransferOwnership =
  tro_agent_wallet :: pubkey
  tro_owner :: pubkey

definition TransferOwnership_accounts ::
    "invocation \<Rightarrow> TransferOwnership \<Rightarrow> chain \<Rightarrow> program_error + AgentWallet" where
  "TransferOwnership_accounts iv ctx s =
     rbind (load as_AgentWallet s (tro_agent_wallet ctx)) (\<lambda>wallet.
     rbind (signed iv (tro_owner ctx)) (\<lambda>_.
     rbind (require (aw_owner wallet = tro_owner ctx) (Maxim Unauthorized)) (\<lambda>_.
       Inr wallet)))"

definition transfer_ownership ::
    "invocation \<Rightarrow> TransferOwnership \<Rightarrow> pubkey \<Rightarrow> chain \<Rightarrow> program_error + chain" where
  "transfer_ownership iv ctx new_owner s =
     rbind (TransferOwnership_accounts iv ctx s) (\<lambda>wallet.
     rbind (require (new_owner \<noteq> default_pubkey) (Maxim InvalidOwner)) (\<lambda>_.
     rbind (require (new_owner \<noteq> aw_owner wallet) (Maxim OwnerUnchanged)) (\<lambda>_.
       Inr (store (tro_agent_wallet ctx) (AgentWalletAcc (wallet\<lparr>aw_owner := new_owner\<rparr>))
           (emit (OwnershipTransferred (tro_agent_wallet ctx) (aw_owner wallet) new_owner (iv_now iv))
             s)))))"

section \<open>close_agent\<close>

record CloseAgent =
  ca_agent_wallet :: pubkey
  ca_spend_policy :: pubkey
  ca_usdc_token_account :: pubkey
  ca_usdc_mint :: pubkey
  ca_owner :: pubkey

definition CloseAgent_accounts ::
    "platform \<Rightarrow> invocation \<Rightarrow> CloseAgent \<Rightarrow> chain \<Rightarrow> program_error + unit" where
  "CloseAgent_accounts P iv ctx s =
     rbind (load as_AgentWallet s (ca_agent_wallet ctx)) (\<lambda>wallet.
     rbind (load as_SpendPolicy s (ca_spend_policy ctx)) (\<lambda>policy.
     rbind (load as_TokenAccount s (ca_usdc_token_account ctx)) (\<lambda>usdc_token_account.
     rbind (load as_Mint s (ca_usdc_mint ctx)) (\<lambda>_.
     rbind (signed iv (ca_owner ctx)) (\<lambda>_.
     rbind (require (aw_owner wallet = ca_owner ctx) (Maxim Unauthorized)) (\<lambda>_.
     rbind (require (\<not> aw_is_active wallet) (Maxim AgentStillActive)) (\<lambda>_.
     rbind (require (ca_agent_wallet ctx \<noteq> ca_owner ctx) (Anchor ConstraintClose)) (\<lambda>_.
     rbind (check_seeds P (ca_spend_policy ctx) (spend_policy_seeds (ca_agent_wallet ctx))
              (sp_bump policy)) (\<lambda>_.
     rbind (require (ca_spend_policy ctx \<noteq> ca_owner ctx) (Anchor ConstraintClose)) (\<lambda>_.
     rbind (check_associated P (ca_usdc_token_account ctx) usdc_token_account
              (ca_agent_wallet ctx) (ca_usdc_mint ctx)) (\<lambda>_.
       require (ta_amount usdc_token_account = 0) (Maxim TokenAccountNotEmpty))))))))))))"

text \<open>The handler does nothing; the two \<^verbatim>\<open>close = owner\<close> attributes act when it returns.\<close>

definition close_agent ::
    "platform \<Rightarrow> invocation \<Rightarrow> CloseAgent \<Rightarrow> chain \<Rightarrow> program_error + chain" where
  "close_agent P iv ctx s =
     rbind (CloseAgent_accounts P iv ctx s) (\<lambda>_.
       Inr (close_account (ca_spend_policy ctx) (ca_owner ctx)
           (close_account (ca_agent_wallet ctx) (ca_owner ctx) s)))"

section \<open>When they succeed\<close>

lemma register_agent_eq_Inr [ix_simps]:
  "register_agent P iv ctx agent_id s = Inr s' \<longleftrightarrow>
     (\<exists>bump s1. accounts s (rg_usdc_mint ctx) = Some MintAcc \<and> rg_owner ctx \<in> set (iv_signers iv)
        \<and> find_program_address P (agent_wallet_seeds agent_id) = Some (rg_agent_wallet ctx, bump)
        \<and> rg_usdc_token_account ctx =
            get_associated_token_address P (rg_agent_wallet ctx) (rg_usdc_mint ctx)
        \<and> rg_owner ctx \<noteq> rg_agent_wallet ctx \<and> rg_owner ctx \<noteq> rg_usdc_token_account ctx
        \<and> rg_usdc_token_account ctx \<noteq> rg_agent_wallet ctx
        \<and> accounts s (rg_agent_wallet ctx) = None \<and> accounts s (rg_usdc_token_account ctx) = None
        \<and> rent_due P (rg_agent_wallet ctx) AgentWallet_LEN s \<le> lamports s (rg_owner ctx)
        \<and> s1 = store (rg_agent_wallet ctx) (AgentWalletAcc zero_AgentWallet)
                 (pay_rent P (rg_owner ctx) (rg_agent_wallet ctx) AgentWallet_LEN s)
        \<and> rent_due P (rg_usdc_token_account ctx) token_account_space s1
            \<le> lamports s1 (rg_owner ctx)
        \<and> valid_agent_id_length agent_id \<and> valid_agent_id_chars agent_id
        \<and> s' = store (rg_agent_wallet ctx) (AgentWalletAcc (new_agent_wallet agent_id
                  (rg_owner ctx) (rg_usdc_token_account ctx) (iv_now iv) bump))
                (store (rg_usdc_token_account ctx) (TokenAcc \<lparr>ta_mint = rg_usdc_mint ctx,
                  ta_owner = rg_agent_wallet ctx,
                  ta_amount = initial_amount P (rg_usdc_mint ctx) (rg_usdc_token_account ctx) (lamports s1),
                  ta_frozen = False\<rparr>)
                (pay_rent P (rg_owner ctx) (rg_usdc_token_account ctx) token_account_space s1)))"
  by (auto simp: register_agent_def RegisterAgent_accounts_def Let_def result_simps split: if_splits)

text \<open>What it leaves of every account.\<close>

lemma register_result:
  assumes "register_agent P iv ctx agent_id s = Inr s'"
  obtains b where "rg_owner ctx \<in> set (iv_signers iv)"
    and "find_program_address P (agent_wallet_seeds agent_id) = Some (rg_agent_wallet ctx, b)"
    and "rg_usdc_token_account ctx \<noteq> rg_agent_wallet ctx"
    and "accounts s (rg_agent_wallet ctx) = None" and "accounts s (rg_usdc_token_account ctx) = None"
    and "valid_agent_id_length agent_id" and "valid_agent_id_chars agent_id"
    and "event_log s' = event_log s"
    and "accounts s' = (accounts s)
      (rg_agent_wallet ctx \<mapsto> AgentWalletAcc (new_agent_wallet agent_id (rg_owner ctx)
         (rg_usdc_token_account ctx) (iv_now iv) b),
       rg_usdc_token_account ctx \<mapsto> TokenAcc \<lparr>ta_mint = rg_usdc_mint ctx,
         ta_owner = rg_agent_wallet ctx, ta_amount = initial_amount P (rg_usdc_mint ctx)
           (rg_usdc_token_account ctx) (lamports s), ta_frozen = False\<rparr>)"
proof -
  let ?k = "rg_usdc_token_account ctx"
  from assms obtain b s1 where r: "rg_owner ctx \<in> set (iv_signers iv)"
    "find_program_address P (agent_wallet_seeds agent_id) = Some (rg_agent_wallet ctx, b)"
    "rg_owner ctx \<noteq> ?k" "?k \<noteq> rg_agent_wallet ctx"
    "accounts s (rg_agent_wallet ctx) = None" "accounts s ?k = None"
    "valid_agent_id_length agent_id" "valid_agent_id_chars agent_id"
    and s1: "s1 = store (rg_agent_wallet ctx) (AgentWalletAcc zero_AgentWallet)
       (pay_rent P (rg_owner ctx) (rg_agent_wallet ctx) AgentWallet_LEN s)"
    and s': "s' = store (rg_agent_wallet ctx) (AgentWalletAcc (new_agent_wallet agent_id
         (rg_owner ctx) ?k (iv_now iv) b))
       (store ?k (TokenAcc \<lparr>ta_mint = rg_usdc_mint ctx, ta_owner = rg_agent_wallet ctx,
         ta_amount = initial_amount P (rg_usdc_mint ctx) ?k (lamports s1), ta_frozen = False\<rparr>)
       (pay_rent P (rg_owner ctx) ?k token_account_space s1))"
    unfolding register_agent_eq_Inr by blast
  have "initial_amount P (rg_usdc_mint ctx) ?k (lamports s1)
      = initial_amount P (rg_usdc_mint ctx) ?k (lamports s)"
    using r(3,4) by (simp add: s1 initial_amount_def pay_rent_def)
  with r show thesis
    by (intro that) (auto simp: s' s1 fun_eq_iff)
qed

lemma deactivate_agent_eq_Inr [ix_simps]:
  "deactivate_agent iv ctx s = Inr s' \<longleftrightarrow>
     (\<exists>wallet.
        accounts s (ms_agent_wallet ctx) = Some (AgentWalletAcc wallet)
        \<and> ms_owner ctx \<in> set (iv_signers iv) \<and> aw_owner wallet = ms_owner ctx
        \<and> s' = store (ms_agent_wallet ctx) (AgentWalletAcc (wallet\<lparr>aw_is_active := False\<rparr>))
                (emit (AgentStatusChanged (ms_agent_wallet ctx) (aw_agent_id wallet) False (iv_now iv)) s))"
  by (auto simp: deactivate_agent_def ManageAgentStatus_accounts_def result_simps)

lemma reactivate_agent_eq_Inr [ix_simps]:
  "reactivate_agent iv ctx s = Inr s' \<longleftrightarrow>
     (\<exists>wallet.
        accounts s (ms_agent_wallet ctx) = Some (AgentWalletAcc wallet)
        \<and> ms_owner ctx \<in> set (iv_signers iv) \<and> aw_owner wallet = ms_owner ctx
        \<and> s' = store (ms_agent_wallet ctx) (AgentWalletAcc (wallet\<lparr>aw_is_active := True\<rparr>))
                (emit (AgentStatusChanged (ms_agent_wallet ctx) (aw_agent_id wallet) True (iv_now iv)) s))"
  by (auto simp: reactivate_agent_def ManageAgentStatus_accounts_def result_simps)

lemma transfer_ownership_eq_Inr [ix_simps]:
  "transfer_ownership iv ctx new_owner s = Inr s' \<longleftrightarrow>
     (\<exists>wallet.
        accounts s (tro_agent_wallet ctx) = Some (AgentWalletAcc wallet)
        \<and> tro_owner ctx \<in> set (iv_signers iv) \<and> aw_owner wallet = tro_owner ctx
        \<and> new_owner \<noteq> default_pubkey \<and> new_owner \<noteq> aw_owner wallet
        \<and> s' = store (tro_agent_wallet ctx) (AgentWalletAcc (wallet\<lparr>aw_owner := new_owner\<rparr>))
                (emit (OwnershipTransferred (tro_agent_wallet ctx) (aw_owner wallet) new_owner
                   (iv_now iv)) s))"
  by (auto simp: transfer_ownership_def TransferOwnership_accounts_def result_simps)

lemma close_agent_eq_Inr [ix_simps]:
  "close_agent P iv ctx s = Inr s' \<longleftrightarrow>
     (\<exists>wallet policy usdc.
        accounts s (ca_agent_wallet ctx) = Some (AgentWalletAcc wallet)
        \<and> ca_owner ctx \<in> set (iv_signers iv) \<and> aw_owner wallet = ca_owner ctx
        \<and> accounts s (ca_spend_policy ctx) = Some (SpendPolicyAcc policy)
        \<and> accounts s (ca_usdc_token_account ctx) = Some (TokenAcc usdc)
        \<and> accounts s (ca_usdc_mint ctx) = Some MintAcc
        \<and> \<not> aw_is_active wallet
        \<and> ca_agent_wallet ctx \<noteq> ca_owner ctx \<and> ca_spend_policy ctx \<noteq> ca_owner ctx
        \<and> create_program_address P (spend_policy_seeds (ca_agent_wallet ctx) @ [[sp_bump policy]])
            = Some (ca_spend_policy ctx)
        \<and> ta_owner usdc = ca_agent_wallet ctx
        \<and> ca_usdc_token_account ctx =
            get_associated_token_address P (ca_agent_wallet ctx) (ca_usdc_mint ctx)
        \<and> ta_amount usdc = 0
        \<and> s' = close_account (ca_spend_policy ctx) (ca_owner ctx)
                (close_account (ca_agent_wallet ctx) (ca_owner ctx) s))"
  by (auto simp: close_agent_def CloseAgent_accounts_def result_simps)

lemma set_spend_policy_eq_Inr [ix_simps]:
  "set_spend_policy P iv ctx params s = Inr s' \<longleftrightarrow>
     (\<exists>wallet bump policy s0.
        accounts s (sy_agent_wallet ctx) = Some (AgentWalletAcc wallet)
        \<and> sy_owner ctx \<in> set (iv_signers iv) \<and> aw_owner wallet = sy_owner ctx
        \<and> find_program_address P (spend_policy_seeds (sy_agent_wallet ctx))
            = Some (sy_spend_policy ctx, bump)
        \<and> (accounts s (sy_spend_policy ctx) = None \<and> policy = zero_SpendPolicy
             \<and> sy_owner ctx \<noteq> sy_spend_policy ctx
             \<and> rent_due P (sy_spend_policy ctx) SpendPolicy_LEN s \<le> lamports s (sy_owner ctx)
             \<and> s0 = store (sy_spend_policy ctx) (SpendPolicyAcc zero_SpendPolicy)
                     (pay_rent P (sy_owner ctx) (sy_spend_policy ctx) SpendPolicy_LEN s)
           \<or> accounts s (sy_spend_policy ctx) = Some (SpendPolicyAcc policy) \<and> s0 = s)
        \<and> length (ssp_allowed_domain_hashes params) \<le> MAX_DOMAIN_ENTRIES
        \<and> length (ssp_blocked_domain_hashes params) \<le> MAX_DOMAIN_ENTRIES
        \<and> s' = store (sy_spend_policy ctx) (SpendPolicyAcc
                  (updated_policy policy (sy_agent_wallet ctx) params (iv_now iv) bump))
                (emit (SpendPolicyUpdated (sy_agent_wallet ctx) (ssp_daily_budget params)
                   (ssp_weekly_budget params) (ssp_monthly_budget params)
                   (ssp_per_call_limit params) (ssp_high_value_threshold params) (iv_now iv)) s0))"
  by (auto simp: set_spend_policy_def SetSpendPolicy_accounts_def Let_def result_simps
      split: if_splits)

end
