(* ===== verification/Withdrawal.thy ===== *)
theory Withdrawal
  imports Runtime
begin

text \<open>
  The owner's way out: \<^verbatim>\<open>withdraw_funds\<close> and \<^verbatim>\<open>withdraw_all\<close> of lib.rs, which share the account
  struct \<^verbatim>\<open>WithdrawFunds\<close>.
\<close>

record WithdrawFunds =
  wf_agent_wallet :: pubkey
  wf_usdc_token_account :: pubkey
  wf_owner_token_account :: pubkey
  wf_usdc_mint :: pubkey
  wf_owner :: pubkey

definition WithdrawFunds_accounts ::
    "platform \<Rightarrow> invocation \<Rightarrow> WithdrawFunds \<Rightarrow> chain
       \<Rightarrow> program_error + AgentWallet \<times> TokenAccount \<times> TokenAccount" where
  "WithdrawFunds_accounts P iv ctx s =
     rbind (load as_AgentWallet s (wf_agent_wallet ctx)) (\<lambda>wallet.
     rbind (load as_TokenAccount s (wf_usdc_token_account ctx)) (\<lambda>usdc_token_account.
     rbind (load as_TokenAccount s (wf_owner_token_account ctx)) (\<lambda>owner_token_account.
     rbind (load as_Mint s (wf_usdc_mint ctx)) (\<lambda>_.
     rbind (signed iv (wf_owner ctx)) (\<lambda>_.
     rbind (require (aw_owner wallet = wf_owner ctx) (Maxim Unauthorized)) (\<lambda>_.
     rbind (check_associated P (wf_usdc_token_account ctx) usdc_token_account
              (wf_agent_wallet ctx) (wf_usdc_mint ctx)) (\<lambda>_.
     rbind (check_associated P (wf_owner_token_account ctx) owner_token_account
              (wf_owner ctx) (wf_usdc_mint ctx)) (\<lambda>_.
       Inr (wallet, usdc_token_account, owner_token_account)))))))))"

definition withdraw_funds ::
    "platform \<Rightarrow> invocation \<Rightarrow> WithdrawFunds \<Rightarrow> u64 \<Rightarrow> chain \<Rightarrow> program_error + chain" where
  "withdraw_funds P iv ctx amount s =
     rbind (WithdrawFunds_accounts P iv ctx s) (\<lambda>(wallet, usdc_token_account, owner_token_account).
     rbind (require (0 < amount) (Maxim ZeroPaymentAmount)) (\<lambda>_.
     rbind (require (amount \<le> ta_amount usdc_token_account) (Maxim InsufficientFunds)) (\<lambda>_.
     rbind (cpi_transfer_from_wallet P iv (wf_usdc_token_account ctx) (wf_owner_token_account ctx)
              (wf_agent_wallet ctx) (aw_agent_id wallet) (aw_bump wallet) amount s) (\<lambda>s.
       Inr (emit (FundsWithdrawn (wf_agent_wallet ctx) (ta_owner owner_token_account) amount
                    (iv_now iv)) s)))))"

definition withdraw_all ::
    "platform \<Rightarrow> invocation \<Rightarrow> WithdrawFunds \<Rightarrow> chain \<Rightarrow> program_error + chain" where
  "withdraw_all P iv ctx s =
     rbind (WithdrawFunds_accounts P iv ctx s) (\<lambda>(wallet, usdc_token_account, owner_token_account).
     let amount = ta_amount usdc_token_account in
     rbind (require (0 < amount) (Maxim ZeroPaymentAmount)) (\<lambda>_.
     rbind (cpi_transfer_from_wallet P iv (wf_usdc_token_account ctx) (wf_owner_token_account ctx)
              (wf_agent_wallet ctx) (aw_agent_id wallet) (aw_bump wallet) amount s) (\<lambda>s.
       Inr (emit (FundsWithdrawn (wf_agent_wallet ctx) (ta_owner owner_token_account) amount
                    (iv_now iv)) s))))"

section \<open>When they succeed\<close>

lemma withdraw_funds_eq_Inr [ix_simps]:
  "withdraw_funds P iv ctx amount s = Inr s' \<longleftrightarrow>
     (\<exists>wallet usdc dest pda acc lam.
        accounts s (wf_agent_wallet ctx) = Some (AgentWalletAcc wallet)
        \<and> accounts s (wf_usdc_token_account ctx) = Some (TokenAcc usdc)
        \<and> accounts s (wf_owner_token_account ctx) = Some (TokenAcc dest)
        \<and> accounts s (wf_usdc_mint ctx) = Some MintAcc
        \<and> wf_owner ctx \<in> set (iv_signers iv) \<and> aw_owner wallet = wf_owner ctx
        \<and> ta_owner usdc = wf_agent_wallet ctx
        \<and> wf_usdc_token_account ctx =
            get_associated_token_address P (wf_agent_wallet ctx) (wf_usdc_mint ctx)
        \<and> ta_owner dest = wf_owner ctx
        \<and> wf_owner_token_account ctx =
            get_associated_token_address P (wf_owner ctx) (wf_usdc_mint ctx)
        \<and> create_program_address P [str_bytes ''agent_wallet'', str_bytes (aw_agent_id wallet),
            [aw_bump wallet]] = Some pda
        \<and> (wf_agent_wallet ctx = pda \<or> wf_agent_wallet ctx \<in> set (iv_signers iv))
        \<and> 0 < amount \<and> amount \<le> ta_amount usdc
        \<and> token_transfer P (accounts s) (lamports s) (wf_usdc_token_account ctx)
            (wf_owner_token_account ctx) (wf_agent_wallet ctx) amount = Inr (acc, lam)
        \<and> s' = emit (FundsWithdrawn (wf_agent_wallet ctx) (wf_owner ctx) amount (iv_now iv))
                (s\<lparr>accounts := acc, lamports := lam\<rparr>))"
  by (auto simp: withdraw_funds_def WithdrawFunds_accounts_def cpi_transfer_from_wallet_def Let_def
      result_simps)

lemma withdraw_all_eq_Inr [ix_simps]:
  "withdraw_all P iv ctx s = Inr s' \<longleftrightarrow>
     (\<exists>wallet usdc dest pda acc lam.
        accounts s (wf_agent_wallet ctx) = Some (AgentWalletAcc wallet)
        \<and> accounts s (wf_usdc_token_account ctx) = Some (TokenAcc usdc)
        \<and> accounts s (wf_owner_token_account ctx) = Some (TokenAcc dest)
        \<and> accounts s (wf_usdc_mint ctx) = Some MintAcc
        \<and> wf_owner ctx \<in> set (iv_signers iv) \<and> aw_owner wallet = wf_owner ctx
        \<and> ta_owner usdc = wf_agent_wallet ctx
        \<and> wf_usdc_token_account ctx =
            get_associated_token_address P (wf_agent_wallet ctx) (wf_usdc_mint ctx)
        \<and> ta_owner dest = wf_owner ctx
        \<and> wf_owner_token_account ctx =
            get_associated_token_address P (wf_owner ctx) (wf_usdc_mint ctx)
        \<and> create_program_address P [str_bytes ''agent_wallet'', str_bytes (aw_agent_id wallet),
            [aw_bump wallet]] = Some pda
        \<and> (wf_agent_wallet ctx = pda \<or> wf_agent_wallet ctx \<in> set (iv_signers iv))
        \<and> 0 < ta_amount usdc
        \<and> token_transfer P (accounts s) (lamports s) (wf_usdc_token_account ctx)
            (wf_owner_token_account ctx) (wf_agent_wallet ctx) (ta_amount usdc) = Inr (acc, lam)
        \<and> s' = emit (FundsWithdrawn (wf_agent_wallet ctx) (wf_owner ctx) (ta_amount usdc)
                   (iv_now iv)) (s\<lparr>accounts := acc, lamports := lam\<rparr>))"
  by (auto simp: withdraw_all_def WithdrawFunds_accounts_def cpi_transfer_from_wallet_def Let_def
      result_simps)

end
