(* ===== verification/Program.thy ===== *)
theory Program
  imports Settlement Admin_Instructions Wallet_Instructions Withdrawal
begin

text \<open>
  The program as a whole (\<^verbatim>\<open>#[program] mod maxim_protocol\<close>): one constructor per instruction with its
  accounts and arguments, and the dispatch. A failed instruction changes nothing.
\<close>

datatype instruction =
    IxInitProtocol InitProtocol pubkey
  | IxRotateProtocolAdmin RotateProtocolAdmin pubkey
  | IxUpdateProtocolConfig UpdateProtocolConfig u64
  | IxRegisterAgent RegisterAgent string
  | IxSetSpendPolicy SetSpendPolicy SetSpendPolicyParams
  | IxSettlePayment SettlePayment u64 SettlePaymentParams
  | IxRecordPolicyViolation RecordPolicyViolation u64 SettlePaymentParams u8
  | IxDeactivateAgent ManageAgentStatus
  | IxReactivateAgent ManageAgentStatus
  | IxFreezeAgent ProtocolManageAgent
  | IxUnfreezeAgent ProtocolManageAgent
  | IxWithdrawFunds WithdrawFunds u64
  | IxTransferOwnership TransferOwnership pubkey
  | IxCloseAgent CloseAgent
  | IxWithdrawAll WithdrawFunds

fun process :: "platform \<Rightarrow> invocation \<Rightarrow> instruction \<Rightarrow> chain \<Rightarrow> program_error + chain" where
  "process P iv (IxInitProtocol ctx admin) s = init_protocol P iv ctx admin s"
| "process P iv (IxRotateProtocolAdmin ctx admin) s = rotate_protocol_admin P iv ctx admin s"
| "process P iv (IxUpdateProtocolConfig ctx cap) s = update_protocol_config P iv ctx cap s"
| "process P iv (IxRegisterAgent ctx agent_id) s = register_agent P iv ctx agent_id s"
| "process P iv (IxSetSpendPolicy ctx params) s = set_spend_policy P iv ctx params s"
| "process P iv (IxSettlePayment ctx sequence params) s = settle_payment P iv ctx sequence params s"
| "process P iv (IxRecordPolicyViolation ctx sequence params reason) s =
     record_policy_violation P iv ctx sequence params reason s"
| "process P iv (IxDeactivateAgent ctx) s = deactivate_agent iv ctx s"
| "process P iv (IxReactivateAgent ctx) s = reactivate_agent iv ctx s"
| "process P iv (IxFreezeAgent ctx) s = freeze_agent P iv ctx s"
| "process P iv (IxUnfreezeAgent ctx) s = unfreeze_agent P iv ctx s"
| "process P iv (IxWithdrawFunds ctx amount) s = withdraw_funds P iv ctx amount s"
| "process P iv (IxTransferOwnership ctx new_owner) s = transfer_ownership iv ctx new_owner s"
| "process P iv (IxCloseAgent ctx) s = close_agent P iv ctx s"
| "process P iv (IxWithdrawAll ctx) s = withdraw_all P iv ctx s"

end
