(* ===== verification/Demo_Platform.thy ===== *)
theory Demo_Platform
  imports Program
begin

text \<open>
  A concrete platform, on which the model runs: addresses from a polynomial hash of the seed bytes
  (with the SDK's seed length limit and the bump 255), Solana's rent formula, and the owner transfer
  of SPL Token. It satisfies every assumption the theorems make of a platform, so none of them is
  empty; the witnesses evaluate the program on it.
\<close>

section \<open>Addresses, rent and transfers\<close>

definition demo_hash :: "bytes \<Rightarrow> pubkey" where
  "demo_hash bs = foldl (\<lambda>h b. h * 257 + ucast b + 1) 0 bs"

definition demo_create :: "bytes list \<Rightarrow> pubkey option" where
  "demo_create seeds =
     (if list_ex (\<lambda>x. 32 < length x) seeds then None else Some (demo_hash (concat seeds)))"

definition demo_find :: "bytes list \<Rightarrow> (pubkey \<times> u8) option" where
  "demo_find seeds = map_option (\<lambda>k. (k, 255)) (demo_create (seeds @ [[255]]))"

definition demo_ata :: "pubkey \<Rightarrow> pubkey \<Rightarrow> pubkey" where
  "demo_ata authority mint = authority * 3 + mint * 5 + 7"

definition demo_rent :: "nat \<Rightarrow> nat" where
  "demo_rent space = (128 + space) * 6960"

definition demo_native_mint :: pubkey where
  "demo_native_mint = 501"

definition spl_lamports ::
    "(pubkey \<Rightarrow> nat) \<Rightarrow> pubkey \<Rightarrow> TokenAccount \<Rightarrow> pubkey \<Rightarrow> u64 \<Rightarrow> pubkey \<Rightarrow> nat" where
  "spl_lamports lam src fa dst n =
     (if src \<noteq> dst \<and> ta_mint fa = demo_native_mint
      then lam(src := lam src - unat n, dst := lam dst + unat n) else lam)"

definition spl_transfer ::
    "account_map \<Rightarrow> (pubkey \<Rightarrow> nat) \<Rightarrow> pubkey \<Rightarrow> pubkey \<Rightarrow> pubkey \<Rightarrow> u64
       \<Rightarrow> nat + account_map \<times> (pubkey \<Rightarrow> nat)" where
  "spl_transfer acc lam src dst authority n =
     (case acc src of
        Some (TokenAcc fa) \<Rightarrow>
          (case acc dst of
             Some (TokenAcc ta) \<Rightarrow>
               if ta_frozen fa \<or> ta_frozen ta then Inl 17
               else if ta_amount fa < n then Inl 1
               else if ta_mint fa \<noteq> ta_mint ta then Inl 3
               else if ta_owner fa \<noteq> authority then Inl 4
               else if src \<noteq> dst \<and> 2 ^ 64 \<le> unat (ta_amount ta) + unat n then Inl 14
               else if src \<noteq> dst \<and> ta_mint fa = demo_native_mint \<and> lam src < unat n then Inl 14
               else Inr (transfer_effect acc src fa dst ta n, spl_lamports lam src fa dst n)
           | _ \<Rightarrow> Inl 0)
      | _ \<Rightarrow> Inl 0)"

definition demo :: platform where
  "demo = \<lparr>find_program_address = demo_find, create_program_address = demo_create,
     get_associated_token_address = demo_ata, minimum_balance = demo_rent,
     native_mint = demo_native_mint, token_transfer = spl_transfer\<rparr>"

lemma demo_fields [simp]:
  "find_program_address demo = demo_find" "create_program_address demo = demo_create"
  "get_associated_token_address demo = demo_ata" "minimum_balance demo = demo_rent"
  "native_mint demo = demo_native_mint" "token_transfer demo = spl_transfer"
  by (simp_all add: demo_def)

lemma demo_pda_consistent: "pda_consistent demo"
  by (auto simp: pda_consistent_def demo_find_def)

lemma demo_seeds_limited: "seeds_limited demo"
  by (auto simp: seeds_limited_def demo_find_def demo_create_def)

lemma spl_transfer_eq_Inr:
  assumes "acc src = Some (TokenAcc fa)"
  shows "spl_transfer acc lam src dst (ta_owner fa) n = Inr (acc', lam') \<longleftrightarrow>
    (\<exists>ta. transfer_allowed acc src fa dst ta n \<and> \<not> ta_frozen fa \<and> \<not> ta_frozen ta
       \<and> transfer_backed demo lam src fa dst n
       \<and> acc' = transfer_effect acc src fa dst ta n \<and> lam' = transfer_lamports demo lam src fa dst n)"
proof (cases "\<exists>ta. acc dst = Some (TokenAcc ta)")
  case True
  then obtain ta where "acc dst = Some (TokenAcc ta)" by blast
  with assms show ?thesis
    by (simp add: spl_transfer_def transfer_allowed_def not_less not_le transfer_backed_def
        moves_lamports_def transfer_lamports_def spl_lamports_def) blast
next
  case False
  with assms show ?thesis
    by (simp add: spl_transfer_def transfer_allowed_def split: option.splits account.splits)
qed

lemma demo_transfer_sound: "transfer_sound demo"
  unfolding transfer_sound_def demo_fields by (metis spl_transfer_eq_Inr)

lemma demo_transfer_live: "transfer_live demo"
proof -
  have "\<exists>acc' lam'. spl_transfer acc lam src dst (ta_owner fa) n = Inr (acc', lam')"
    if "transfer_allowed acc src fa dst ta n" "transfer_backed demo lam src fa dst n"
      "\<not> ta_frozen fa" "\<not> ta_frozen ta"
    for acc lam src fa dst ta n
    using that spl_transfer_eq_Inr [of acc src fa] by (auto simp: transfer_allowed_def)
  then show ?thesis
    unfolding transfer_live_def demo_fields by blast
qed

section \<open>A run: registration, policy, settlement\<close>

definition demo_owner :: pubkey where "demo_owner = 100"
definition demo_admin :: pubkey where "demo_admin = 101"
definition demo_mint :: pubkey where "demo_mint = 500"
definition demo_payee_ata :: pubkey where "demo_payee_ata = 600"
definition demo_now :: i64 where "demo_now = 1700000000"

definition demo_iv :: "i64 \<Rightarrow> invocation" where
  "demo_iv now = \<lparr>iv_signers = [demo_owner, demo_admin], iv_now = now\<rparr>"

definition demo_config_key :: pubkey where
  "demo_config_key = demo_hash (concat (protocol_config_seeds @ [[255]]))"
definition demo_wallet_key :: pubkey where
  "demo_wallet_key = demo_hash (concat (agent_wallet_seeds ''bot-1'' @ [[255]]))"
definition demo_policy_key :: pubkey where
  "demo_policy_key = demo_hash (concat (spend_policy_seeds demo_wallet_key @ [[255]]))"
definition demo_record_key :: "u64 \<Rightarrow> pubkey" where
  "demo_record_key sequence = demo_hash (concat (payment_record_seeds demo_wallet_key sequence @ [[255]]))"

lemmas demo_hash_eval =
  demo_hash_def agent_wallet_seeds_def spend_policy_seeds_def payment_record_seeds_def
  protocol_config_seeds_def str_bytes_def le_bytes_def upt_conv_Cons

lemma demo_config_key_value: "demo_config_key = 159881489669309795959480065484723618134"
  by (simp add: demo_config_key_def demo_hash_eval)

lemma demo_wallet_key_value: "demo_wallet_key = 9159792744476986972695012573820062129316779"
  by (simp add: demo_wallet_key_def demo_hash_eval)

lemma demo_policy_key_value:
  "demo_policy_key = 39510793407782624046400602460044692502054142210119162352594240567761989521281"
  by (simp add: demo_policy_key_def demo_wallet_key_value demo_hash_eval)

lemma demo_record_key_value:
  "demo_record_key 0 = 26399133487187119046014197669043738853749224147481782426184276056834162549854"
  by (simp add: demo_record_key_def demo_wallet_key_value demo_hash_eval)

text \<open>
  The chain before anything is registered: a USDC mint, a payee with a token account, lamports for
  the owner and the admin. \<open>demo_funded\<close> is the deposit of a user into the agent's token account.
\<close>

definition demo_genesis :: chain where
  "demo_genesis = \<lparr>
     accounts = [demo_mint \<mapsto> MintAcc,
       demo_payee_ata \<mapsto> TokenAcc \<lparr>ta_mint = demo_mint, ta_owner = 601, ta_amount = 0,
                                   ta_frozen = False\<rparr>],
     lamports = (\<lambda>k. if k = demo_owner \<or> k = demo_admin then 10 ^ 9 else 0),
     event_log = []\<rparr>"

definition demo_usdc_key :: pubkey where
  "demo_usdc_key = demo_ata demo_wallet_key demo_mint"

definition demo_register_ctx :: RegisterAgent where
  "demo_register_ctx = \<lparr>rg_agent_wallet = demo_wallet_key, rg_usdc_token_account = demo_usdc_key,
     rg_usdc_mint = demo_mint, rg_owner = demo_owner\<rparr>"

definition demo_policy_params :: SetSpendPolicyParams where
  "demo_policy_params = \<lparr>ssp_daily_budget = 50000000, ssp_weekly_budget = 200000000,
     ssp_per_call_limit = 40000000, ssp_rate_limit_calls = 2, ssp_rate_limit_window_secs = 3600,
     ssp_high_value_threshold = 10000000, ssp_monthly_budget = 0,
     ssp_allowed_domain_hashes = [], ssp_blocked_domain_hashes = [13]\<rparr>"

definition demo_policy_ctx :: SetSpendPolicy where
  "demo_policy_ctx = \<lparr>sy_spend_policy = demo_policy_key, sy_agent_wallet = demo_wallet_key,
     sy_owner = demo_owner\<rparr>"

definition demo_init_ctx :: InitProtocol where
  "demo_init_ctx = \<lparr>ip_protocol_config = demo_config_key, ip_payer = demo_admin\<rparr>"

definition demo_settle_ctx :: "u64 \<Rightarrow> SettlePayment" where
  "demo_settle_ctx sequence = \<lparr>st_payment_record = demo_record_key sequence,
     st_agent_wallet = demo_wallet_key, st_spend_policy = demo_policy_key,
     st_usdc_token_account = demo_usdc_key, st_payee_token_account = demo_payee_ata,
     st_usdc_mint = demo_mint, st_owner = demo_owner, st_protocol_config = demo_config_key\<rparr>"

definition demo_payment :: "u64 \<Rightarrow> SettlePaymentParams" where
  "demo_payment amount = \<lparr>spp_agent_id = ''bot-1'', spp_endpoint_hash = 11, spp_domain_hash = 12,
     spp_amount_usdc = amount, spp_protocol = 0, spp_parent_payment = None, spp_memo = None\<rparr>"

definition demo_wallet :: AgentWallet where
  "demo_wallet = new_agent_wallet ''bot-1'' demo_owner demo_usdc_key demo_now 255"

definition demo_policy :: SpendPolicy where
  "demo_policy = updated_policy zero_SpendPolicy demo_wallet_key demo_policy_params demo_now 255"

definition demo_config :: ProtocolConfig where
  "demo_config = \<lparr>pc_admin = demo_admin, pc_version = 2, pc_max_single_payment_usdc = 0,
     pc_bump = 255\<rparr>"

definition demo_token :: "pubkey \<Rightarrow> u64 \<Rightarrow> account" where
  "demo_token owner amount =
     TokenAcc \<lparr>ta_mint = demo_mint, ta_owner = owner, ta_amount = amount, ta_frozen = False\<rparr>"

definition demo_funded :: "chain \<Rightarrow> chain" where
  "demo_funded s = store demo_usdc_key (demo_token demo_wallet_key 30000000) s"

lemma demo_usdc_key_value: "demo_usdc_key = 27479378233430960918085037721460186387952844"
  by (simp add: demo_usdc_key_def demo_ata_def demo_wallet_key_value demo_mint_def)

lemma demo_find_config: "demo_find protocol_config_seeds = Some (demo_config_key, 255)"
  by (simp add: demo_find_def demo_create_def demo_config_key_def protocol_config_seeds_def)
lemma demo_find_wallet: "demo_find (agent_wallet_seeds ''bot-1'') = Some (demo_wallet_key, 255)"
  by (simp add: demo_find_def demo_create_def demo_wallet_key_def agent_wallet_seeds_def)
lemma demo_find_policy: "demo_find (spend_policy_seeds demo_wallet_key) = Some (demo_policy_key, 255)"
  by (simp add: demo_find_def demo_create_def demo_policy_key_def spend_policy_seeds_def)
lemma demo_find_record: "demo_find (payment_record_seeds demo_wallet_key n) = Some (demo_record_key n, 255)"
  by (simp add: demo_find_def demo_create_def demo_record_key_def payment_record_seeds_def)

text \<open>Created at the found bump.\<close>
lemma demo_created:
  "demo_create (protocol_config_seeds @ [[255]]) = Some demo_config_key"
  "demo_create (agent_wallet_seeds ''bot-1'' @ [[255]]) = Some demo_wallet_key"
  "demo_create (spend_policy_seeds demo_wallet_key @ [[255]]) = Some demo_policy_key"
  "demo_create [str_bytes ''agent_wallet'', str_bytes ''bot-1'', [255]] = Some demo_wallet_key"
  using demo_find_config demo_find_wallet demo_find_policy
  by (simp_all add: demo_find_def agent_wallet_seeds_def)

lemma not_native [simp]: "demo_mint \<noteq> demo_native_mint"
  by (simp add: demo_mint_def demo_native_mint_def)

lemma initial_amount_demo [simp]: "initial_amount demo demo_mint k lam = 0"
  by (simp add: initial_amount_def)

lemma demo_distinct: "distinct [demo_config_key, demo_wallet_key, demo_policy_key, demo_usdc_key,
    demo_record_key 0, demo_mint, demo_owner, demo_admin, demo_payee_ata]"
  by (simp add: demo_usdc_key_value demo_wallet_key_value demo_policy_key_value demo_config_key_value demo_record_key_value demo_mint_def
  demo_owner_def demo_admin_def demo_payee_ata_def)

lemma demo_neq [simp]:
  "distinct [demo_config_key, demo_wallet_key, demo_policy_key, demo_usdc_key,
    demo_record_key 0, demo_mint, demo_owner, demo_admin, demo_payee_ata]"
  "distinct [demo_payee_ata, demo_admin, demo_owner, demo_mint, demo_record_key 0, demo_usdc_key, demo_policy_key, demo_wallet_key, demo_config_key]"
  using demo_distinct distinct_rev [of "[demo_config_key, demo_wallet_key, demo_policy_key, demo_usdc_key,
    demo_record_key 0, demo_mint, demo_owner, demo_admin, demo_payee_ata]"] by simp_all
declare demo_neq [simplified, simp]

lemmas demo_ctx_defs = demo_init_ctx_def demo_register_ctx_def demo_policy_ctx_def demo_iv_def
lemmas demo_LENs = ProtocolConfig_LEN_def AgentWallet_LEN_def SpendPolicy_LEN_def PaymentRecord_LEN_def
  token_account_space_def MAX_AGENT_ID_LEN_def MAX_DOMAIN_ENTRIES_def
lemmas demo_rents = rent_due_def pay_rent_def demo_rent_def demo_LENs

definition demo_1 :: chain where
  "demo_1 = store demo_config_key (ProtocolConfigAcc demo_config)
     (store demo_config_key (ProtocolConfigAcc zero_ProtocolConfig)
       (pay_rent demo demo_admin demo_config_key ProtocolConfig_LEN demo_genesis))"

lemma demo_1_run: "process demo (demo_iv demo_now) (IxInitProtocol demo_init_ctx demo_admin) demo_genesis = Inr demo_1"
  by (simp add: ix_simps demo_ctx_defs demo_find_config demo_1_def demo_config_def PROGRAM_VERSION_def demo_rents demo_genesis_def)
   (simp add: demo_admin_def)

definition demo_2 :: chain where
  "demo_2 = store demo_wallet_key (AgentWalletAcc demo_wallet)
     (store demo_usdc_key (demo_token demo_wallet_key 0)
     (pay_rent demo demo_owner demo_usdc_key token_account_space
     (store demo_wallet_key (AgentWalletAcc zero_AgentWallet)
     (pay_rent demo demo_owner demo_wallet_key AgentWallet_LEN demo_1))))"

lemma demo_1_facts:
  "accounts demo_1 = (accounts demo_genesis)(demo_config_key \<mapsto> ProtocolConfigAcc demo_config)"
  "lamports demo_1 demo_owner = 1000000000" "lamports demo_1 demo_wallet_key = 0" "lamports demo_1 demo_usdc_key = 0"
  by (simp_all add: demo_1_def demo_genesis_def pay_rent_def)

lemma demo_2_run: "process demo (demo_iv demo_now) (IxRegisterAgent demo_register_ctx ''bot-1'') demo_1 = Inr demo_2"
  by (simp add: ix_simps demo_ctx_defs demo_find_wallet demo_2_def demo_token_def demo_wallet_def
      demo_usdc_key_def [symmetric] valid_agent_id_length_def valid_agent_id_chars_def is_ascii_alphanumeric_def
      MAX_AGENT_ID_LEN_def demo_1_facts demo_genesis_def demo_rents)

lemma demo_2_facts:
  "accounts demo_2 = (accounts demo_1)(demo_usdc_key \<mapsto> demo_token demo_wallet_key 0, demo_wallet_key \<mapsto> AgentWalletAcc demo_wallet)"
  "lamports demo_2 demo_owner = 995517760" "lamports demo_2 demo_policy_key = 0" "lamports demo_2 (demo_record_key 0) = 0"
  by (simp_all add: demo_rents demo_2_def demo_1_def demo_genesis_def fun_eq_iff)

definition demo_3 :: chain where
  "demo_3 = store demo_policy_key (SpendPolicyAcc demo_policy)
     (emit (SpendPolicyUpdated demo_wallet_key 50000000 200000000 0 40000000 10000000 demo_now)
     (store demo_policy_key (SpendPolicyAcc zero_SpendPolicy)
     (pay_rent demo demo_owner demo_policy_key SpendPolicy_LEN demo_2)))"

lemma demo_3_run: "process demo (demo_iv demo_now) (IxSetSpendPolicy demo_policy_ctx demo_policy_params) demo_2 = Inr demo_3"
  unfolding process.simps set_spend_policy_eq_Inr
  by (rule exI [of _ demo_wallet], rule exI [of _ 255], rule exI [of _ zero_SpendPolicy], rule exI, intro conjI)
   (simp_all add: demo_ctx_defs demo_find_policy demo_3_def demo_policy_def demo_policy_params_def MAX_DOMAIN_ENTRIES_def demo_2_facts
     demo_1_facts demo_genesis_def demo_wallet_def new_agent_wallet_def demo_rents)

definition demo_ready :: chain where
  "demo_ready = demo_funded demo_3"

lemma demo_ready_accounts: "accounts demo_ready = [demo_config_key \<mapsto> ProtocolConfigAcc demo_config,
   demo_wallet_key \<mapsto> AgentWalletAcc demo_wallet, demo_policy_key \<mapsto> SpendPolicyAcc demo_policy,
   demo_usdc_key \<mapsto> demo_token demo_wallet_key 30000000, demo_mint \<mapsto> MintAcc, demo_payee_ata \<mapsto> demo_token 601 0]"
  by (simp add: demo_ready_def demo_funded_def demo_3_def demo_2_facts demo_1_facts demo_genesis_def 
   demo_token_def fun_eq_iff)

lemma demo_ready_lamports: "lamports demo_ready demo_owner = 979614160" "lamports demo_ready (demo_record_key 0) = 0" 
  by (simp_all add: demo_ready_def demo_funded_def demo_3_def demo_2_facts demo_rents)

lemma demo_ready_events: "event_log demo_ready = [SpendPolicyUpdated demo_wallet_key 50000000 200000000 0 40000000 10000000 demo_now]"
  by (simp_all add: demo_ready_def demo_funded_def demo_3_def demo_2_def demo_1_def demo_genesis_def)

lemma demo_fields_of_run [simp]:
  "st_payment_record (demo_settle_ctx n) = demo_record_key n"
  "st_agent_wallet (demo_settle_ctx n) = demo_wallet_key"
  "st_spend_policy (demo_settle_ctx n) = demo_policy_key"
  "st_usdc_token_account (demo_settle_ctx n) = demo_usdc_key"
  "st_payee_token_account (demo_settle_ctx n) = demo_payee_ata"
  "st_usdc_mint (demo_settle_ctx n) = demo_mint"
  "st_owner (demo_settle_ctx n) = demo_owner"
  "st_protocol_config (demo_settle_ctx n) = demo_config_key"
  "spp_agent_id (demo_payment m) = ''bot-1''"
  "spp_endpoint_hash (demo_payment m) = 11" "spp_domain_hash (demo_payment m) = 12"
  "spp_amount_usdc (demo_payment m) = m" "spp_protocol (demo_payment m) = 0"
  "spp_parent_payment (demo_payment m) = None" "spp_memo (demo_payment m) = None"
  "iv_signers (demo_iv t) = [demo_owner, demo_admin]" "iv_now (demo_iv t) = t"
  by (simp_all add: demo_settle_ctx_def demo_payment_def demo_iv_def)

lemma demo_account_fields [simp]:
  "aw_agent_id demo_wallet = ''bot-1''" "aw_owner demo_wallet = demo_owner"
  "aw_usdc_token_account demo_wallet = demo_usdc_key" "aw_bump demo_wallet = 255"
  "aw_payment_sequence demo_wallet = 0" "aw_total_payments demo_wallet = 0"
  "aw_total_volume demo_wallet = 0"
  "aw_daily_spend demo_wallet = 0" "aw_weekly_spend demo_wallet = 0" "aw_monthly_spend demo_wallet = 0"
  "aw_daily_window_start demo_wallet = demo_now" "aw_weekly_window_start demo_wallet = demo_now"
  "aw_monthly_window_start demo_wallet = demo_now"
  "aw_is_active demo_wallet" "\<not> aw_is_frozen demo_wallet"
  "sp_agent_wallet demo_policy = demo_wallet_key" "sp_bump demo_policy = 255"
  "sp_daily_budget demo_policy = 50000000" "sp_weekly_budget demo_policy = 200000000"
  "sp_monthly_budget demo_policy = 0" "sp_per_call_limit demo_policy = 40000000"
  "sp_rate_limit_calls demo_policy = 2" "sp_rate_limit_window_secs demo_policy = 3600"
  "sp_rate_limit_call_count demo_policy = 0" "sp_rate_limit_window_start demo_policy = demo_now"
  "sp_high_value_threshold demo_policy = 10000000"
  "sp_allowed_domain_hashes demo_policy = []" "sp_blocked_domain_hashes demo_policy = [13]"
  "pc_admin demo_config = demo_admin" "pc_bump demo_config = 255"
  "pc_max_single_payment_usdc demo_config = 0"
  by (simp_all add: demo_wallet_def new_agent_wallet_def demo_policy_def updated_policy_def
      demo_policy_params_def demo_config_def)

lemma demo_guards: "settle_wallet_guards demo_wallet (demo_now + 60) = Inr demo_wallet"
  by (simp add: settle_wallet_guards_def daily.reset_value weekly.reset_value monthly.reset_value
    daily.in_range_def weekly.in_range_def monthly.in_range_def daily.elapsed_def weekly.elapsed_def monthly.elapsed_def
    sint_periods demo_now_def i64_range_def)

lemma demo_policy_run:
  "settle_policy demo_wallet demo_policy (demo_payment 12000000) (demo_now + 60) = Inr (demo_policy\<lparr>sp_rate_limit_call_count := 1\<rparr>)"
  by (simp add: settle_policy_def enforce_on_chain_def settle_policy_checks_def within_per_call_limit_def
    within_daily_budget_def within_weekly_budget_def within_monthly_budget_def saturating_add_def
     reset_rate_window_value within_rate_limit_def
     sint_periods demo_now_def i64_range_def zero_SpendPolicy_def)

definition demo_after :: chain where
  "demo_after = store demo_policy_key (SpendPolicyAcc (demo_policy\<lparr>sp_rate_limit_call_count := 1\<rparr>))
       (store demo_wallet_key (AgentWalletAcc (settle_accounting demo_wallet 12000000 (demo_now + 60)))
       (store (demo_record_key 0) (PaymentRecordAcc (settled_record demo_wallet_key 0
             (demo_payment 12000000) 601 X402 (demo_now + 60) 255))
       (emit (settled_event demo_wallet_key 0 (demo_payment 12000000) 601 (demo_now + 60))
         (pay_rent demo demo_owner (demo_record_key 0) PaymentRecord_LEN demo_ready
           \<lparr>accounts := (accounts demo_ready)(demo_record_key 0 \<mapsto> PaymentRecordAcc zero_LedgerEntry,
               demo_usdc_key \<mapsto> demo_token demo_wallet_key 18000000, demo_payee_ata \<mapsto> demo_token 601 12000000)\<rparr>))))"

lemma demo_transfer_run:
  "spl_transfer ((accounts demo_ready)(demo_record_key 0 \<mapsto> PaymentRecordAcc zero_LedgerEntry))
     lam demo_usdc_key demo_payee_ata demo_wallet_key 12000000 =
       Inr ((accounts demo_ready)(demo_record_key 0 \<mapsto> PaymentRecordAcc zero_LedgerEntry,
               demo_usdc_key \<mapsto> demo_token demo_wallet_key 18000000, demo_payee_ata \<mapsto> demo_token 601 12000000),
            lam)"
  by (simp add: spl_transfer_def demo_ready_accounts demo_token_def transfer_effect_def spl_lamports_def)

lemma demo_settle_run: "settle_payment demo (demo_iv (demo_now + 60)) (demo_settle_ctx 0) 0 (demo_payment 12000000) demo_ready = Inr demo_after"
  by (rule trans [OF settle_paymentI [where wallet = demo_wallet and policy = demo_policy and config = demo_config
        and usdc = "\<lparr>ta_mint = demo_mint, ta_owner = demo_wallet_key, ta_amount = 30000000, ta_frozen = False\<rparr>"
        and payee = "\<lparr>ta_mint = demo_mint, ta_owner = 601, ta_amount = 0, ta_frozen = False\<rparr>"
        and wallet' = demo_wallet and policy' = "demo_policy\<lparr>sp_rate_limit_call_count := 1\<rparr>"
        and protocol = X402 and bump = 255 
        and acc = "(accounts demo_ready)(demo_record_key 0 \<mapsto> PaymentRecordAcc zero_LedgerEntry,
               demo_usdc_key \<mapsto> demo_token demo_wallet_key 18000000, demo_payee_ata \<mapsto> demo_token 601 12000000)"
        and lam = "lamports (pay_rent demo demo_owner (demo_record_key 0) PaymentRecord_LEN demo_ready)"]])
    (simp_all add: demo_after_def demo_find_record demo_created demo_usdc_key_def [symmetric]
      demo_ready_accounts demo_ready_lamports demo_token_def demo_rents settle_param_guards_def settle_global_cap_def
      demo_guards demo_policy_run demo_transfer_run [unfolded demo_token_def demo_ready_accounts])

end
