(* ===== verification/Executions.thy ===== *)
theory Executions
  imports Program
begin

text \<open>
  Runs of the chain: the instructions of this program, in any order and by anyone, and between them
  whatever other programs do. Then the invariants of every reachable state: what holds of each
  account (\<open>account_ok\<close>) and of each wallet's ledger (\<open>ledger_ok\<close>).
\<close>

section \<open>Steps\<close>

text \<open>
  A world is a chain and the clock of its last block. Another program cannot touch an account this
  program owns, nor this program's events; of the token accounts whose authority is an address of
  this program it can increase the balance, and the mint's freeze authority can freeze and thaw
  them, but none can decrease the balance, close them or change what they are otherwise, since their
  authority signs through this program only.
\<close>

type_synonym world = "chain \<times> i64"

definition program_authority :: "platform \<Rightarrow> pubkey \<Rightarrow> bool" where
  "program_authority P k \<longleftrightarrow> (\<exists>seeds. create_program_address P seeds = Some k)"

definition external_change :: "platform \<Rightarrow> chain \<Rightarrow> chain \<Rightarrow> bool" where
  "external_change P s s' \<longleftrightarrow>
     (\<forall>k a. is_program_account a \<longrightarrow> (accounts s' k = Some a \<longleftrightarrow> accounts s k = Some a))
     \<and> (\<forall>k t. accounts s k = Some (TokenAcc t) \<and> program_authority P (ta_owner t) \<longrightarrow>
          (\<exists>t'. accounts s' k = Some (TokenAcc t') \<and> ta_mint t' = ta_mint t
             \<and> ta_owner t' = ta_owner t \<and> ta_amount t \<le> ta_amount t'))
     \<and> event_log s' = event_log s"

inductive world_step :: "platform \<Rightarrow> world \<Rightarrow> world \<Rightarrow> bool" for P where
  instruction: "process P iv ix s = Inr s' \<Longrightarrow> sint t \<le> sint (iv_now iv) \<Longrightarrow>
    world_step P (s, t) (s', iv_now iv)"
| external: "external_change P s s' \<Longrightarrow> sint t \<le> sint t' \<Longrightarrow> world_step P (s, t) (s', t')"

inductive_cases world_stepE: "world_step P (s, t) w"

text \<open>Before the program is used it owns no account and has emitted nothing.\<close>

definition genesis :: "world \<Rightarrow> bool" where
  "genesis w \<longleftrightarrow>
     (\<forall>k a. accounts (fst w) k = Some a \<longrightarrow> \<not> is_program_account a)
     \<and> event_log (fst w) = [] \<and> 0 \<le> sint (snd w)"

section \<open>The invariants\<close>

definition wallet_ok :: "platform \<Rightarrow> i64 \<Rightarrow> pubkey \<Rightarrow> AgentWallet \<Rightarrow> bool" where
  "wallet_ok P t k w \<longleftrightarrow>
     find_program_address P (agent_wallet_seeds (aw_agent_id w)) = Some (k, aw_bump w)
     \<and> valid_agent_id_length (aw_agent_id w) \<and> valid_agent_id_chars (aw_agent_id w)
     \<and> aw_total_payments w = aw_payment_sequence w
     \<and> 0 \<le> sint (aw_daily_window_start w) \<and> sint (aw_daily_window_start w) \<le> sint t
     \<and> 0 \<le> sint (aw_weekly_window_start w) \<and> sint (aw_weekly_window_start w) \<le> sint t
     \<and> 0 \<le> sint (aw_monthly_window_start w) \<and> sint (aw_monthly_window_start w) \<le> sint t
     \<and> aw_daily_spend w \<le> aw_total_volume w \<and> aw_weekly_spend w \<le> aw_total_volume w
     \<and> aw_monthly_spend w \<le> aw_total_volume w
     \<and> sint (aw_last_payment_at w) \<le> sint t"

definition policy_ok :: "platform \<Rightarrow> i64 \<Rightarrow> pubkey \<Rightarrow> SpendPolicy \<Rightarrow> bool" where
  "policy_ok P t k p \<longleftrightarrow>
     find_program_address P (spend_policy_seeds (sp_agent_wallet p)) = Some (k, sp_bump p)
     \<and> length (sp_allowed_domain_hashes p) \<le> MAX_DOMAIN_ENTRIES
     \<and> length (sp_blocked_domain_hashes p) \<le> MAX_DOMAIN_ENTRIES
     \<and> (sp_rate_limit_calls p \<noteq> 0 \<longrightarrow> sp_rate_limit_call_count p \<le> sp_rate_limit_calls p)
     \<and> 0 \<le> sint (sp_rate_limit_window_start p) \<and> sint (sp_rate_limit_window_start p) \<le> sint t"

definition record_ok :: "platform \<Rightarrow> i64 \<Rightarrow> pubkey \<Rightarrow> LedgerEntry \<Rightarrow> bool" where
  "record_ok P t k r \<longleftrightarrow>
     find_program_address P (payment_record_seeds (pr_agent_wallet r) (pr_sequence r))
       = Some (k, pr_bump r)
     \<and> (if pr_policy_passed r then 0 < pr_amount_usdc r
        else pr_payee r = default_pubkey)
     \<and> pr_parent_payment r = None \<and> le_memo r = None
     \<and> sint (pr_settled_at r) \<le> sint t"

definition config_ok :: "platform \<Rightarrow> pubkey \<Rightarrow> ProtocolConfig \<Rightarrow> bool" where
  "config_ok P k c \<longleftrightarrow>
     find_program_address P protocol_config_seeds = Some (k, pc_bump c)
     \<and> pc_admin c \<noteq> default_pubkey \<and> pc_version c = PROGRAM_VERSION"

fun account_ok :: "platform \<Rightarrow> i64 \<Rightarrow> pubkey \<Rightarrow> account \<Rightarrow> bool" where
  "account_ok P t k (AgentWalletAcc w) = wallet_ok P t k w"
| "account_ok P t k (SpendPolicyAcc p) = policy_ok P t k p"
| "account_ok P t k (PaymentRecordAcc r) = record_ok P t k r"
| "account_ok P t k (ProtocolConfigAcc c) = config_ok P k c"
| "account_ok P t k a = True"

definition accounts_ok :: "platform \<Rightarrow> i64 \<Rightarrow> account_map \<Rightarrow> bool" where
  "accounts_ok P t acc \<longleftrightarrow> (\<forall>k a. acc k = Some a \<longrightarrow> account_ok P t k a)"

text \<open>
  The ledger of a wallet: the record at the address of a sequence number. Every number a wallet has
  used has its record.
\<close>

definition ledger_entry ::
    "platform \<Rightarrow> account_map \<Rightarrow> pubkey \<Rightarrow> u64 \<Rightarrow> LedgerEntry option" where
  "ledger_entry P acc k n =
     (case find_program_address P (payment_record_seeds k n) of
        None \<Rightarrow> None
      | Some (rk, b) \<Rightarrow> (case acc rk of Some (PaymentRecordAcc r) \<Rightarrow> Some r | _ \<Rightarrow> None))"

definition has_record :: "platform \<Rightarrow> account_map \<Rightarrow> pubkey \<Rightarrow> u64 \<Rightarrow> bool" where
  "has_record P acc k n \<longleftrightarrow>
     (\<exists>r. ledger_entry P acc k n = Some r \<and> pr_agent_wallet r = k \<and> pr_sequence r = n)"

definition ledger_ok :: "platform \<Rightarrow> account_map \<Rightarrow> bool" where
  "ledger_ok P acc \<longleftrightarrow>
     (\<forall>k w n. acc k = Some (AgentWalletAcc w) \<and> n < aw_payment_sequence w \<longrightarrow> has_record P acc k n)"

definition world_ok :: "platform \<Rightarrow> world \<Rightarrow> bool" where
  "world_ok P w \<longleftrightarrow>
     accounts_ok P (snd w) (accounts (fst w)) \<and> ledger_ok P (accounts (fst w)) \<and> 0 \<le> sint (snd w)"

section \<open>Later clocks, added accounts\<close>

lemma account_ok_later: "account_ok P t k a \<Longrightarrow> sint t \<le> sint t' \<Longrightarrow> account_ok P t' k a"
  by (cases a) (auto simp: wallet_ok_def policy_ok_def record_ok_def)

lemma accounts_ok_later: "accounts_ok P t acc \<Longrightarrow> sint t \<le> sint t' \<Longrightarrow> accounts_ok P t' acc"
  by (auto simp: accounts_ok_def intro: account_ok_later)

lemma accounts_ok_upd: "accounts_ok P t acc \<Longrightarrow> account_ok P t k a \<Longrightarrow> accounts_ok P t (acc(k \<mapsto> a))"
  by (auto simp: accounts_ok_def)

lemma accounts_ok_delete: "accounts_ok P t acc \<Longrightarrow> accounts_ok P t (acc(k := None))"
  by (auto simp: accounts_ok_def)

lemma accounts_okD: "accounts_ok P t acc \<Longrightarrow> acc k = Some a \<Longrightarrow> account_ok P t k a"
  by (simp add: accounts_ok_def)

lemma accounts_ok_transfer:
  assumes "accounts_ok P t acc"
  shows "accounts_ok P t (transfer_effect acc src fa dst ta n)"
  using assms by (simp add: transfer_effect_def accounts_ok_upd)

text \<open>
  A change that keeps every record and leaves each wallet's sequence as it was, or at zero, or
  advanced past a record, keeps the ledger complete.
\<close>

definition keeps_records :: "account_map \<Rightarrow> account_map \<Rightarrow> bool" where
  "keeps_records acc acc' \<longleftrightarrow>
     (\<forall>k r. acc k = Some (PaymentRecordAcc r) \<longrightarrow> acc' k = Some (PaymentRecordAcc r))"

lemma keeps_records_refl: "keeps_records acc acc"
  by (simp add: keeps_records_def)

lemma keeps_records_trans:
  "keeps_records acc acc' \<Longrightarrow> keeps_records acc' acc'' \<Longrightarrow> keeps_records acc acc''"
  by (simp add: keeps_records_def)

lemma keeps_records_upd:
  "keeps_records acc acc' \<Longrightarrow> (\<And>r. acc k \<noteq> Some (PaymentRecordAcc r)) \<Longrightarrow>
     keeps_records acc (acc'(k := x))"
  by (auto simp: keeps_records_def)

lemma keeps_records_transfer:
  assumes "transfer_allowed acc src fa dst ta n"
  shows "keeps_records acc (transfer_effect acc src fa dst ta n)"
  using assms by (auto simp: keeps_records_def transfer_effect_def transfer_allowed_def)

lemma ledger_entry_eq_Some:
  "ledger_entry P acc k n = Some r \<longleftrightarrow>
     (\<exists>rk b. find_program_address P (payment_record_seeds k n) = Some (rk, b)
        \<and> acc rk = Some (PaymentRecordAcc r))"
  by (auto simp: ledger_entry_def split: option.splits account.splits)

lemma ledger_entry_kept:
  "ledger_entry P acc k n = Some r \<Longrightarrow> keeps_records acc acc' \<Longrightarrow> ledger_entry P acc' k n = Some r"
  unfolding ledger_entry_eq_Some keeps_records_def by blast

lemma has_record_kept: "has_record P acc k n \<Longrightarrow> keeps_records acc acc' \<Longrightarrow> has_record P acc' k n"
  unfolding has_record_def by (blast intro: ledger_entry_kept)

lemma ledger_ok_change:
  assumes ok: "ledger_ok P acc" and kept: "keeps_records acc acc'"
    and wallets: "\<And>k w'. acc' k = Some (AgentWalletAcc w') \<Longrightarrow>
      aw_payment_sequence w' = 0
      \<or> (\<exists>w. acc k = Some (AgentWalletAcc w)
           \<and> (aw_payment_sequence w' = aw_payment_sequence w
              \<or> aw_payment_sequence w' = saturating_add (aw_payment_sequence w) 1
                \<and> has_record P acc' k (aw_payment_sequence w)))"
  shows "ledger_ok P acc'"
  unfolding ledger_ok_def
proof (intro allI impI, elim conjE)
  fix k w' n
  assume w': "acc' k = Some (AgentWalletAcc w')" and n: "n < aw_payment_sequence w'"
  have old: "has_record P acc' k n"
    if "acc k = Some (AgentWalletAcc w)" "n < aw_payment_sequence w" for w
    using ok that kept unfolding ledger_ok_def by (blast intro: has_record_kept)
  consider "aw_payment_sequence w' = 0"
    | w where "acc k = Some (AgentWalletAcc w)" "aw_payment_sequence w' = aw_payment_sequence w"
    | w where "acc k = Some (AgentWalletAcc w)"
        "aw_payment_sequence w' = saturating_add (aw_payment_sequence w) 1"
        "has_record P acc' k (aw_payment_sequence w)"
    using wallets [OF w'] by blast
  then show "has_record P acc' k n"
  proof cases
    case 1
    with n show ?thesis by simp
  next
    case 2
    with n old show ?thesis by simp
  next
    case 3
    have "n < aw_payment_sequence w \<or> n = aw_payment_sequence w"
      using n 3(2) unat_saturating_add [of "aw_payment_sequence w" 1]
      by (auto simp: word_less_nat_alt word_unat_eq_iff)
    with 3 old show ?thesis by blast
  qed
qed

section \<open>What one instruction does to the accounts\<close>

lemma settle_keeps_records:
  assumes "transfer_sound P" and "settle_payment P iv ctx sequence params s = Inr s'"
  shows "keeps_records (accounts s) (accounts s')"
  using assms
  by (rule settle_payment_result)
    (auto intro!: keeps_records_upd keeps_records_transfer)

lemma withdraw_keeps_records:
  assumes "transfer_sound P" and "acc src = Some (TokenAcc fa)" and "ta_owner fa = authority"
    and "token_transfer P acc lam src dst authority n = Inr (acc', lam')"
  shows "keeps_records acc acc'"
  using transfer_soundD [OF assms] keeps_records_transfer by metis

lemma process_keeps_records:
  assumes "transfer_sound P" and "process P iv ix s = Inr s'"
  shows "keeps_records (accounts s) (accounts s')"
proof (cases ix)
  case (IxSettlePayment ctx sequence params)
  with assms show ?thesis by (auto intro: settle_keeps_records)
next
  case (IxWithdrawFunds ctx amount)
  with assms show ?thesis by (auto simp: ix_simps intro: withdraw_keeps_records)
next
  case (IxWithdrawAll ctx)
  with assms show ?thesis by (auto simp: ix_simps intro: withdraw_keeps_records)
qed (use assms(2) in \<open>auto simp: ix_simps keeps_records_refl
  intro!: keeps_records_upd\<close>)

lemma wallet_ok_settle:
  assumes "wallet_ok P t k w" "sint t \<le> sint now" "settle_wallet_guards w now = Inr w'"
  shows "wallet_ok P now k (settle_accounting w' n now)"
proof -
  have le: "sint (aw_daily_window_start w) \<le> sint now" "sint (aw_weekly_window_start w) \<le> sint now"
    "sint (aw_monthly_window_start w) \<le> sint now"
    using assms(1,2) by (auto simp: wallet_ok_def)
  have pos: "0 \<le> sint (aw_daily_window_start w)" "0 \<le> sint (aw_weekly_window_start w)"
    "0 \<le> sint (aw_monthly_window_start w)"
    using assms(1) by (auto simp: wallet_ok_def)
  note win = settle_guards_windows [OF assms(3) pos(1) le(1) pos(2) le(2) pos(3) le(3)]
  show ?thesis
    using assms(1) win settle_wallet_guards_frame [OF assms(3)]
    by (auto simp: wallet_ok_def intro!: saturating_add_mono)
qed

lemma policy_ok_settle:
  assumes "policy_ok P t k p" "sint t \<le> sint now" "0 \<le> sint t" "settle_policy w p params now = Inr p'"
  shows "policy_ok P now k p'"
proof -
  have p: "policy_ok P now k p"
    using account_ok_later [of P t k "SpendPolicyAcc p" now] assms by simp
  have sat: "saturating_add c 1 \<le> l" if "c < l" for c l :: u32
    using that by (simp add: word_less_nat_alt word_le_nat_alt unat_saturating_add)
  show ?thesis
  proof (cases "enforce_on_chain p params")
    case True
    then obtain q where q: "reset_rate_window_if_elapsed p now = Some q" "within_rate_limit q"
      "p' = q\<lparr>sp_rate_limit_call_count := saturating_add (sp_rate_limit_call_count q) 1\<rparr>"
      using assms(4) by (auto simp: settle_policy_def settle_policy_checks_eq_Inr)
    from reset_rate_window_cases [OF q(1)] show ?thesis
      using p q(2,3) assms(2,3) by (auto simp: policy_ok_def within_rate_limit_def sat)
  next
    case False
    with p assms(4) show ?thesis by (simp add: settle_policy_def)
  qed
qed

lemma settle_accounts_ok:
  assumes "transfer_sound P" and run: "settle_payment P iv ctx sequence params s = Inr s'"
    and ok: "accounts_ok P t (accounts s)" and t: "sint t \<le> sint (iv_now iv)" "0 \<le> sint t"
  shows "accounts_ok P (iv_now iv) (accounts s')"
  using assms(1) run
proof (rule settle_payment_result, goal_cases)
  case (1 wallet policy usdc payee config bump wallet' policy' protocol)
  have "wallet_ok P t (st_agent_wallet ctx) wallet" "policy_ok P t (st_spend_policy ctx) policy"
    using accounts_okD [OF ok 1(1)] accounts_okD [OF ok 1(2)] by simp_all
  then have "account_ok P (iv_now iv) (st_agent_wallet ctx) (AgentWalletAcc
        (settle_accounting wallet' (spp_amount_usdc params) (iv_now iv)))"
    and "account_ok P (iv_now iv) (st_spend_policy ctx) (SpendPolicyAcc policy')"
    using wallet_ok_settle [OF _ t(1) 1(17)] policy_ok_settle [OF _ t 1(18)] by simp_all
  moreover have "account_ok P (iv_now iv) (st_payment_record ctx) (PaymentRecordAcc
      (settled_record (st_agent_wallet ctx) sequence params (ta_owner payee) protocol (iv_now iv) bump))"
    using 1(6,13,22,23) by (simp add: record_ok_def settled_record_def)
  ultimately show ?case
    unfolding 1(19) by (intro accounts_ok_upd accounts_ok_transfer accounts_ok_later [OF ok t(1)])
qed

lemma transfer_accounts_ok:
  assumes "transfer_sound P" and "acc src = Some (TokenAcc fa)" and "ta_owner fa = authority"
    and "token_transfer P acc lam src dst authority n = Inr (acc', lam')" and "accounts_ok P t acc"
  shows "accounts_ok P t acc'"
  using transfer_soundD [OF assms(1-4)] accounts_ok_transfer [OF assms(5)] by metis

lemma set_spend_policy_accounts_ok:
  assumes "set_spend_policy P iv ctx params s = Inr s'" and "accounts_ok P (iv_now iv) (accounts s)"
    and "0 \<le> sint (iv_now iv)"
  shows "accounts_ok P (iv_now iv) (accounts s')"
proof -
  have new: "policy_ok P (iv_now iv) k (updated_policy p w params (iv_now iv) b)"
    if "find_program_address P (spend_policy_seeds w) = Some (k, b)"
      "length (ssp_allowed_domain_hashes params) \<le> MAX_DOMAIN_ENTRIES"
      "length (ssp_blocked_domain_hashes params) \<le> MAX_DOMAIN_ENTRIES" for k p w b
    using that assms(3) by (simp add: policy_ok_def updated_policy_def)
  show ?thesis
    using assms(1,2) by (auto simp: ix_simps intro!: accounts_ok_upd new)
qed

lemma register_accounts_ok:
  assumes "register_agent P iv ctx agent_id s = Inr s'" and "accounts_ok P (iv_now iv) (accounts s)"
    and "0 \<le> sint (iv_now iv)"
  shows "accounts_ok P (iv_now iv) (accounts s')"
proof -
  have new: "wallet_ok P (iv_now iv) k (new_agent_wallet agent_id owner usdc (iv_now iv) b)"
    if "find_program_address P (agent_wallet_seeds agent_id) = Some (k, b)"
      "valid_agent_id_length agent_id" "valid_agent_id_chars agent_id" for k b owner usdc
    using that assms(3) by (simp add: wallet_ok_def new_agent_wallet_def)
  show ?thesis
    using assms(1,2) by (auto simp: ix_simps intro!: accounts_ok_upd new)
qed

text \<open>Writing back a wallet or a configuration that stays well-formed.\<close>

lemma accounts_ok_wallet:
  assumes "accounts_ok P t acc" and "acc k = Some (AgentWalletAcc w)"
    and "wallet_ok P t k w \<Longrightarrow> wallet_ok P t k w'"
  shows "accounts_ok P t (acc(k \<mapsto> AgentWalletAcc w'))"
  using assms accounts_okD [OF assms(1,2)] by (simp add: accounts_ok_upd)

lemma accounts_ok_config:
  assumes "accounts_ok P t acc" and "acc k = Some (ProtocolConfigAcc c)"
    and "config_ok P k c \<Longrightarrow> config_ok P k c'"
  shows "accounts_ok P t (acc(k \<mapsto> ProtocolConfigAcc c'))"
  using assms accounts_okD [OF assms(1,2)] by (simp add: accounts_ok_upd)

lemma wallet_ok_flags [simp]:
  "wallet_ok P t k (w\<lparr>aw_is_active := b\<rparr>) = wallet_ok P t k w"
  "wallet_ok P t k (w\<lparr>aw_is_frozen := b\<rparr>) = wallet_ok P t k w"
  "wallet_ok P t k (w\<lparr>aw_owner := o'\<rparr>) = wallet_ok P t k w"
  by (simp_all add: wallet_ok_def)

lemma wallet_ok_violation: "wallet_ok P t k w \<Longrightarrow> wallet_ok P t k (violation_accounting w)"
  by (simp add: wallet_ok_def violation_accounting_def)

lemma violation_accounts_ok:
  assumes "record_policy_violation P iv ctx sequence params reason s = Inr s'"
    and ok: "accounts_ok P (iv_now iv) (accounts s)"
  shows "accounts_ok P (iv_now iv) (accounts s')"
  using assms(1)
proof (rule violation_result, goal_cases)
  case (1 wallet bump protocol)
  have "account_ok P (iv_now iv) (rv_payment_record ctx) (PaymentRecordAcc (violation_record
      (rv_agent_wallet ctx) sequence params protocol (iv_now iv) bump))"
    using 1(4,10) by (simp add: record_ok_def violation_record_def)
  then show ?case
    unfolding 1(8) using 1(1,5)
    by (intro accounts_ok_wallet [where w = wallet] accounts_ok_upd [OF ok])
      (auto intro: wallet_ok_violation)
qed

lemma process_accounts_ok:
  assumes sound: "transfer_sound P" and run: "process P iv ix s = Inr s'"
    and ok: "accounts_ok P t (accounts s)" and t: "sint t \<le> sint (iv_now iv)" "0 \<le> sint t"
  shows "accounts_ok P (iv_now iv) (accounts s')"
proof -
  note now = accounts_ok_later [OF ok t(1)]
  have nonneg: "0 \<le> sint (iv_now iv)" using t by simp
  show ?thesis
  proof (cases ix)
    case (IxInitProtocol ctx admin)
    with run now show ?thesis
      by (auto simp: ix_simps config_ok_def intro!: accounts_ok_upd)
  next
    case (IxRotateProtocolAdmin ctx admin)
    with run now show ?thesis
      by (auto simp: ix_simps config_ok_def intro!: accounts_ok_config)
  next
    case (IxUpdateProtocolConfig ctx cap)
    with run now show ?thesis
      by (auto simp: ix_simps config_ok_def intro!: accounts_ok_config)
  next
    case (IxRegisterAgent ctx agent_id)
    with run now nonneg show ?thesis
      by (auto intro: register_accounts_ok)
  next
    case (IxSetSpendPolicy ctx params)
    with run now nonneg show ?thesis by (auto intro: set_spend_policy_accounts_ok)
  next
    case (IxSettlePayment ctx sequence params)
    with run show ?thesis by (auto intro: settle_accounts_ok [OF sound _ ok t])
  next
    case (IxRecordPolicyViolation ctx sequence params reason)
    with run now show ?thesis by (auto intro: violation_accounts_ok)
  next
    case (IxDeactivateAgent ctx)
    with run now show ?thesis
      by (auto simp: ix_simps intro!: accounts_ok_wallet)
  next
    case (IxReactivateAgent ctx)
    with run now show ?thesis
      by (auto simp: ix_simps intro!: accounts_ok_wallet)
  next
    case (IxFreezeAgent ctx)
    with run now show ?thesis
      by (auto simp: ix_simps intro!: accounts_ok_wallet)
  next
    case (IxUnfreezeAgent ctx)
    with run now show ?thesis
      by (auto simp: ix_simps intro!: accounts_ok_wallet)
  next
    case (IxWithdrawFunds ctx amount)
    with run show ?thesis by (auto simp: ix_simps intro: transfer_accounts_ok [OF sound _ _ _ now])
  next
    case (IxTransferOwnership ctx new_owner)
    with run now show ?thesis
      by (auto simp: ix_simps intro!: accounts_ok_wallet)
  next
    case (IxCloseAgent ctx)
    with run now show ?thesis by (auto simp: ix_simps intro!: accounts_ok_delete)
  next
    case (IxWithdrawAll ctx)
    with run show ?thesis by (auto simp: ix_simps intro: transfer_accounts_ok [OF sound _ _ _ now])
  qed
qed

text \<open>
  What an instruction does to a wallet: it opens one, writes a flag or the owner, settles a payment
  or records a violation; the last two leave a record at the address of the sequence number used.
\<close>

inductive wallet_step ::
    "platform \<Rightarrow> i64 \<Rightarrow> account_map \<Rightarrow> account_map \<Rightarrow> pubkey \<Rightarrow> AgentWallet option \<Rightarrow> AgentWallet
       \<Rightarrow> bool"
  for P now acc acc' k where
  opened: "wallet_step P now acc acc' k None (new_agent_wallet agent_id owner usdc now b)"
| kept: "wallet_step P now acc acc' k (Some w) (w\<lparr>aw_owner := owner, aw_is_active := a, aw_is_frozen := f\<rparr>)"
| settled: "settle_wallet_guards w now = Inr w' \<Longrightarrow>
    ledger_entry P acc k (aw_payment_sequence w) = None \<Longrightarrow>
    ledger_entry P acc' k (aw_payment_sequence w) =
      Some (settled_record k (aw_payment_sequence w) params payee protocol now b) \<Longrightarrow>
    wallet_step P now acc acc' k (Some w) (settle_accounting w' (spp_amount_usdc params) now)"
| violated: "ledger_entry P acc k (aw_payment_sequence w) = None \<Longrightarrow>
    ledger_entry P acc' k (aw_payment_sequence w) =
      Some (violation_record k (aw_payment_sequence w) params protocol now b) \<Longrightarrow>
    wallet_step P now acc acc' k (Some w) (violation_accounting w)"

text \<open>The wallet at an address, if the account there is one.\<close>

definition wallet_at :: "account_map \<Rightarrow> pubkey \<Rightarrow> AgentWallet option" where
  "wallet_at acc k = (case acc k of Some (AgentWalletAcc w) \<Rightarrow> Some w | _ \<Rightarrow> None)"

lemma wallet_at_simps [simp]:
  "acc k = Some (AgentWalletAcc w) \<Longrightarrow> wallet_at acc k = Some w"
  "acc k = None \<Longrightarrow> wallet_at acc k = None"
  by (simp_all add: wallet_at_def)

lemma wallet_at_eq_Some: "wallet_at acc k = Some w \<longleftrightarrow> acc k = Some (AgentWalletAcc w)"
  by (simp add: wallet_at_def split: option.splits account.splits)

lemma wallet_step_same: "wallet_step P now acc acc' k (Some w) w"
  using kept [where w = w and owner = "aw_owner w" and a = "aw_is_active w" and f = "aw_is_frozen w"]
  by simp

lemma wallet_step_flags:
  "wallet_step P now acc acc' k (Some w) (w\<lparr>aw_owner := owner\<rparr>)"
  "wallet_step P now acc acc' k (Some w) (w\<lparr>aw_is_active := a\<rparr>)"
  "wallet_step P now acc acc' k (Some w) (w\<lparr>aw_is_frozen := f\<rparr>)"
  using kept [where w = w and owner = owner and a = "aw_is_active w" and f = "aw_is_frozen w"]
    kept [where w = w and owner = "aw_owner w" and a = a and f = "aw_is_frozen w"]
    kept [where w = w and owner = "aw_owner w" and a = "aw_is_active w" and f = f] by simp_all

lemma transfer_wallet:
  assumes "transfer_allowed acc src fa dst ta n"
    and "transfer_effect acc src fa dst ta n k = Some (AgentWalletAcc w)"
  shows "acc k = Some (AgentWalletAcc w)"
  using assms by (auto simp: transfer_effect_def transfer_allowed_def split: if_splits)

lemma settle_wallet_step:
  assumes "transfer_sound P" and "settle_payment P iv ctx sequence params s = Inr s'"
    and w': "accounts s' k = Some (AgentWalletAcc w')"
  shows "wallet_step P (iv_now iv) (accounts s) (accounts s') k (wallet_at (accounts s) k) w'"
  using assms(1,2)
proof (rule settle_payment_result, goal_cases)
  case (1 wallet policy usdc payee config bump wallet' policy' protocol)
  show ?case
  proof (cases "k = st_agent_wallet ctx")
    case True
    have neq: "st_payment_record ctx \<noteq> st_spend_policy ctx"
      "st_payment_record ctx \<noteq> st_agent_wallet ctx" "st_agent_wallet ctx \<noteq> st_spend_policy ctx"
      using 1(1-3) by auto
    then have "accounts s' (st_payment_record ctx) = Some (PaymentRecordAcc
        (settled_record (st_agent_wallet ctx) sequence params (ta_owner payee) protocol (iv_now iv)
          bump))"
      by (simp add: 1(19))
    then have entry: "ledger_entry P (accounts s') k (aw_payment_sequence wallet) = Some
        (settled_record k (aw_payment_sequence wallet) params (ta_owner payee) protocol (iv_now iv)
          bump)"
      using 1(6,14) True by (auto simp: ledger_entry_eq_Some)
    have w'_eq: "w' = settle_accounting wallet' (spp_amount_usdc params) (iv_now iv)"
      using w' True neq by (simp add: 1(19))
    have "ledger_entry P (accounts s) k (aw_payment_sequence wallet) = None"
      using 1(3,6,14) True by (simp add: ledger_entry_def)
    with w'_eq show ?thesis
      using settled [OF 1(17) _ entry] 1(1) True by simp
  next
    case False
    then have "accounts s k = Some (AgentWalletAcc w')"
      using w' transfer_wallet [OF 1(4)] by (simp add: 1(19) split: if_splits)
    then show ?thesis by (simp add: wallet_step_same)
  qed
qed

lemma violation_wallet_step:
  assumes "record_policy_violation P iv ctx sequence params reason s = Inr s'"
    and w': "accounts s' k = Some (AgentWalletAcc w')"
  shows "wallet_step P (iv_now iv) (accounts s) (accounts s') k (wallet_at (accounts s) k) w'"
  using assms(1)
proof (rule violation_result, goal_cases)
  case (1 wallet bump protocol)
  have neq: "rv_payment_record ctx \<noteq> rv_agent_wallet ctx"
    using 1(1,5) by auto
  then have "accounts s' (rv_payment_record ctx) = Some (PaymentRecordAcc (violation_record
      (rv_agent_wallet ctx) sequence params protocol (iv_now iv) bump))"
    by (simp add: 1(8))
  then have "ledger_entry P (accounts s') (rv_agent_wallet ctx) (aw_payment_sequence wallet) = Some
      (violation_record (rv_agent_wallet ctx) (aw_payment_sequence wallet) params protocol
        (iv_now iv) bump)"
    using 1(4,6) by (auto simp: ledger_entry_eq_Some)
  moreover have "ledger_entry P (accounts s) (rv_agent_wallet ctx) (aw_payment_sequence wallet) = None"
    using 1(4-6) by (simp add: ledger_entry_def)
  ultimately show ?case
    using violated [of P "accounts s" "rv_agent_wallet ctx" wallet "accounts s'"] w' 1(1)
    by (auto simp: 1(8) wallet_step_same split: if_splits)
qed

lemma transfer_wallet_step:
  assumes "transfer_sound P" and "acc src = Some (TokenAcc fa)" and "ta_owner fa = authority"
    and "token_transfer P acc lam src dst authority n = Inr (acc', lam')"
    and "acc' k = Some (AgentWalletAcc w')"
  shows "wallet_step P now acc acc' k (wallet_at acc k) w'"
  using transfer_soundD [OF assms(1-4)] transfer_wallet assms(5)
  by (metis wallet_step_same wallet_at_simps(1))

lemma process_wallet_step:
  assumes "transfer_sound P" and "process P iv ix s = Inr s'"
    and "accounts s' k = Some (AgentWalletAcc w')"
  shows "wallet_step P (iv_now iv) (accounts s) (accounts s') k (wallet_at (accounts s) k) w'"
proof (cases ix)
  case (IxSettlePayment ctx sequence params)
  with assms show ?thesis by (auto intro: settle_wallet_step)
next
  case (IxRecordPolicyViolation ctx sequence params reason)
  with assms show ?thesis by (auto intro: violation_wallet_step)
next
  case (IxWithdrawFunds ctx amount)
  with assms(2,3) show ?thesis by (auto simp: ix_simps intro: transfer_wallet_step [OF assms(1)])
next
  case (IxWithdrawAll ctx)
  with assms(2,3) show ?thesis by (auto simp: ix_simps intro: transfer_wallet_step [OF assms(1)])
qed (use assms(2,3) in \<open>auto simp: ix_simps wallet_step_same wallet_step_flags opened
  split: if_splits\<close>)

text \<open>So every number a wallet used before is below its sequence, or has just got its record.\<close>

lemma wallet_step_sequence:
  assumes "wallet_step P now acc acc' k old w'"
  shows "aw_payment_sequence w' = 0
    \<or> (\<exists>w. old = Some w \<and> (aw_payment_sequence w' = aw_payment_sequence w
         \<or> aw_payment_sequence w' = saturating_add (aw_payment_sequence w) 1
           \<and> has_record P acc' k (aw_payment_sequence w)))"
  using assms
proof cases
  case (settled w w'' params payee protocol b)
  then show ?thesis
    using settle_wallet_guards_frame(6) [OF settled(3)] by (simp add: has_record_def)
qed (simp_all add: new_agent_wallet_def violation_accounting_def has_record_def)

lemma process_ledger_ok:
  assumes "transfer_sound P" and "process P iv ix s = Inr s'" and "ledger_ok P (accounts s)"
  shows "ledger_ok P (accounts s')"
  using assms(3) process_keeps_records [OF assms(1,2)]
proof (rule ledger_ok_change)
  fix k w' assume "accounts s' k = Some (AgentWalletAcc w')"
  from wallet_step_sequence [OF process_wallet_step [OF assms(1,2) this]]
  show "aw_payment_sequence w' = 0 \<or> (\<exists>w. accounts s k = Some (AgentWalletAcc w)
           \<and> (aw_payment_sequence w' = aw_payment_sequence w
              \<or> aw_payment_sequence w' = saturating_add (aw_payment_sequence w) 1
                \<and> has_record P (accounts s') k (aw_payment_sequence w)))"
    unfolding wallet_at_eq_Some .
qed

section \<open>What other programs may do\<close>

lemma external_program_account:
  assumes "external_change P s s'" and "is_program_account a"
  shows "accounts s' k = Some a \<longleftrightarrow> accounts s k = Some a"
  using assms by (simp add: external_change_def)

lemma account_ok_foreign: "\<not> is_program_account a \<Longrightarrow> account_ok P t k a"
  by (cases a) simp_all

lemma external_accounts_ok:
  assumes ext: "external_change P s s'" and "accounts_ok P t (accounts s)"
  shows "accounts_ok P t (accounts s')"
  unfolding accounts_ok_def
proof (intro allI impI)
  fix k a assume a: "accounts s' k = Some a"
  show "account_ok P t k a"
  proof (cases "is_program_account a")
    case True
    then show ?thesis
      using external_program_account [OF ext] a accounts_okD [OF assms(2)] by blast
  qed (rule account_ok_foreign)
qed

lemma external_keeps_records:
  assumes "external_change P s s'"
  shows "keeps_records (accounts s) (accounts s')"
  using external_program_account [OF assms] by (simp add: keeps_records_def)

lemma external_ledger_ok:
  assumes "external_change P s s'" and "ledger_ok P (accounts s)"
  shows "ledger_ok P (accounts s')"
  using assms(2) external_keeps_records [OF assms(1)]
  by (rule ledger_ok_change) (use external_program_account [OF assms(1)] in auto)

section \<open>The invariant of every run\<close>

lemma world_step_keeps_records:
  assumes "transfer_sound P" and "world_step P w w'"
  shows "keeps_records (accounts (fst w)) (accounts (fst w'))"
  using assms(2)
  by cases (auto intro: process_keeps_records [OF assms(1)] external_keeps_records)

lemma world_step_ok:
  assumes "transfer_sound P" and "world_step P w w'" and "world_ok P w"
  shows "world_ok P w'"
  using assms(2,3)
proof (induction rule: world_step.induct)
  case (instruction iv ix s s' t)
  then show ?case
    using process_accounts_ok [OF assms(1) instruction.hyps(1)]
      process_ledger_ok [OF assms(1) instruction.hyps(1)]
    by (auto simp: world_ok_def)
next
  case (external s s' t t')
  then show ?case
    using external_accounts_ok [OF external.hyps(1)] external_ledger_ok [OF external.hyps(1)]
    by (auto simp: world_ok_def intro: accounts_ok_later)
qed

lemma genesis_ok: "genesis w \<Longrightarrow> world_ok P w"
  unfolding genesis_def world_ok_def accounts_ok_def ledger_ok_def
  by (metis account_ok_foreign is_program_account.simps(1))

text \<open>
  The contract of \<open>invariant_of\<close> on this program: the transition system of its runs keeps \<open>world_ok\<close>.
\<close>

interpretation run: invariant_of genesis "world_step P" "\<lambda>w. transfer_sound P \<longrightarrow> world_ok P w" for P
  by unfold_locales (auto intro: genesis_ok world_step_ok)

lemma reachable_ok: "transfer_sound P \<Longrightarrow> reach genesis (world_step P) w \<Longrightarrow> world_ok P w"
  using run.reach_inv by blast

end
