(* ===== verification/Demo_Run.thy ===== *)
theory Demo_Run
  imports Demo_Platform Executions
begin

text \<open>The run of the concrete platform, as a run of the transition system: its two states are reachable.\<close>

lemma demo_start: "genesis (demo_genesis, demo_now)"
  by (auto simp: genesis_def demo_genesis_def demo_now_def split: if_splits)

lemma demo_deposit: "external_change demo demo_3 demo_ready"
proof -
  have acc: "accounts demo_3 demo_usdc_key = Some (demo_token demo_wallet_key 0)"
    by (simp add: demo_3_def demo_2_facts)
  have upd: "accounts demo_ready = (accounts demo_3)
      (demo_usdc_key \<mapsto> demo_token demo_wallet_key 30000000)"
    by (simp add: demo_ready_def demo_funded_def)
  have "\<exists>t'. accounts demo_ready k = Some (TokenAcc t') \<and> ta_mint t' = ta_mint t
      \<and> ta_owner t' = ta_owner t \<and> ta_amount t \<le> ta_amount t'"
    if "accounts demo_3 k = Some (TokenAcc t)" for k t
    using that acc by (cases "k = demo_usdc_key") (auto simp: upd demo_token_def)
  moreover have "accounts demo_ready k = Some a \<longleftrightarrow> accounts demo_3 k = Some a"
    if "is_program_account a" for k a
    using that acc by (auto simp: upd demo_token_def)
  ultimately show ?thesis
    by (simp add: external_change_def demo_ready_def demo_funded_def)
qed

lemma demo_step_1: "world_step demo (demo_genesis, demo_now) (demo_1, demo_now)"
  using world_step.instruction [OF demo_1_run, of demo_now] by simp

lemma demo_steps_ready: "(world_step demo)\<^sup>*\<^sup>* (demo_1, demo_now) (demo_ready, demo_now)"
proof -
  have "world_step demo (demo_1, demo_now) (demo_2, demo_now)"
    "world_step demo (demo_2, demo_now) (demo_3, demo_now)"
    using world_step.instruction [OF demo_2_run, of demo_now]
      world_step.instruction [OF demo_3_run, of demo_now] by simp_all
  moreover have "world_step demo (demo_3, demo_now) (demo_ready, demo_now)"
    by (rule external [OF demo_deposit]) simp
  ultimately show ?thesis by (meson rtranclp.rtrancl_refl rtranclp.rtrancl_into_rtrancl)
qed

lemma demo_reach_ready: "reach genesis (world_step demo) (demo_ready, demo_now)"
proof -
  have "reach genesis (world_step demo) (demo_genesis, demo_now)"
    by (rule reach_init) (rule demo_start)
  then have "reach genesis (world_step demo) (demo_1, demo_now)"
    using demo_step_1 by (rule reach_step)
  then show ?thesis
    using demo_steps_ready by (rule reach_steps)
qed

lemma demo_step_after: "world_step demo (demo_ready, demo_now) (demo_after, demo_now + 60)"
proof -
  have "process demo (demo_iv (demo_now + 60)) (IxSettlePayment (demo_settle_ctx 0) 0
      (demo_payment 12000000)) demo_ready = Inr demo_after"
    by (simp add: demo_settle_run)
  from world_step.instruction [OF this, of demo_now] show ?thesis
    by (simp add: demo_now_def)
qed

lemma demo_reach_after: "reach genesis (world_step demo) (demo_after, demo_now + 60)"
  using demo_reach_ready demo_step_after by (rule reach_step)

text \<open>The wallet after the payment.\<close>

definition demo_paid :: AgentWallet where
  "demo_paid = settle_accounting demo_wallet 12000000 (demo_now + 60)"

lemma demo_after_wallet: "accounts demo_after demo_wallet_key = Some (AgentWalletAcc demo_paid)"
  by (simp add: demo_after_def demo_paid_def)

lemma demo_paid_fields [simp]:
  "aw_agent_id demo_paid = ''bot-1''" "aw_owner demo_paid = demo_owner"
  "aw_usdc_token_account demo_paid = demo_usdc_key" "aw_bump demo_paid = 255"
  "aw_payment_sequence demo_paid = 1" "aw_total_payments demo_paid = 1"
  "aw_total_volume demo_paid = 12000000" "aw_daily_spend demo_paid = 12000000"
  "aw_weekly_spend demo_paid = 12000000" "aw_monthly_spend demo_paid = 12000000"
  "aw_daily_window_start demo_paid = demo_now" "aw_weekly_window_start demo_paid = demo_now"
  "aw_monthly_window_start demo_paid = demo_now" "aw_last_payment_at demo_paid = demo_now + 60"
  "aw_is_active demo_paid" "\<not> aw_is_frozen demo_paid"
  by (simp_all add: demo_paid_def saturating_add_def)

lemma demo_later: "sint demo_now \<le> sint (demo_now + 60)"
  by (simp add: demo_now_def)

section \<open>A frozen wallet, and a token account for its owner\<close>

definition demo_home :: pubkey where
  "demo_home = demo_ata demo_owner demo_mint"

lemma demo_home_value: "demo_home = 2807"
  by (simp add: demo_home_def demo_ata_def demo_owner_def demo_mint_def)

lemma demo_home_neq [simp]:
  "demo_home \<noteq> demo_wallet_key" "demo_home \<noteq> demo_usdc_key" "demo_home \<noteq> demo_policy_key"
  "demo_home \<noteq> demo_config_key" "demo_home \<noteq> demo_record_key 0" "demo_home \<noteq> demo_mint"
  "demo_home \<noteq> demo_payee_ata" "demo_wallet_key \<noteq> demo_home" "demo_usdc_key \<noteq> demo_home"
  "demo_policy_key \<noteq> demo_home" "demo_config_key \<noteq> demo_home" "demo_record_key 0 \<noteq> demo_home"
  "demo_mint \<noteq> demo_home" "demo_payee_ata \<noteq> demo_home"
  by (simp_all add: demo_home_value demo_wallet_key_value demo_usdc_key_value demo_policy_key_value
      demo_config_key_value demo_record_key_value demo_mint_def demo_payee_ata_def)

definition demo_with_home :: chain where
  "demo_with_home = store demo_home (demo_token demo_owner 0) demo_after"

definition demo_frozen_wallet :: AgentWallet where
  "demo_frozen_wallet = demo_paid\<lparr>aw_is_frozen := True\<rparr>"

definition demo_frozen :: chain where
  "demo_frozen = store demo_wallet_key (AgentWalletAcc demo_frozen_wallet)
     (emit (AgentFreezeChanged demo_wallet_key ''bot-1'' True (demo_now + 60)) demo_with_home)"

definition demo_freeze_ctx :: ProtocolManageAgent where
  "demo_freeze_ctx = \<lparr>pm_agent_wallet = demo_wallet_key, pm_protocol_config = demo_config_key,
     pm_admin = demo_admin\<rparr>"

lemma demo_after_accounts:
  "accounts demo_after = (accounts demo_ready)
     (demo_record_key 0 \<mapsto> PaymentRecordAcc (settled_record demo_wallet_key 0
             (demo_payment 12000000) 601 X402 (demo_now + 60) 255),
      demo_usdc_key \<mapsto> demo_token demo_wallet_key 18000000,
      demo_payee_ata \<mapsto> demo_token 601 12000000, demo_wallet_key \<mapsto> AgentWalletAcc demo_paid,
      demo_policy_key \<mapsto> SpendPolicyAcc (demo_policy\<lparr>sp_rate_limit_call_count := 1\<rparr>))"
  by (simp add: demo_after_def demo_paid_def fun_eq_iff)

lemma demo_frozen_accounts:
  "accounts demo_frozen = (accounts demo_after)
     (demo_home \<mapsto> demo_token demo_owner 0, demo_wallet_key \<mapsto> AgentWalletAcc demo_frozen_wallet)"
  by (simp add: demo_frozen_def demo_with_home_def)

lemma demo_steps_frozen: "(world_step demo)\<^sup>*\<^sup>* (demo_after, demo_now + 60) (demo_frozen, demo_now + 60)"
proof -
  have none: "accounts demo_after demo_home = None"
    by (simp add: demo_after_accounts demo_ready_accounts)
  have "external_change demo demo_after demo_with_home"
    using none by (auto simp: external_change_def demo_with_home_def demo_token_def)
  from world_step.external [OF this, of "demo_now + 60" "demo_now + 60"]
  have 1: "world_step demo (demo_after, demo_now + 60) (demo_with_home, demo_now + 60)" by simp
  have "process demo (demo_iv (demo_now + 60)) (IxFreezeAgent demo_freeze_ctx) demo_with_home
      = Inr demo_frozen"
    by (simp add: ix_simps demo_freeze_ctx_def demo_with_home_def demo_after_accounts
        demo_ready_accounts demo_created demo_frozen_def demo_frozen_wallet_def)
  from world_step.instruction [OF this, of "demo_now + 60"]
  have 2: "world_step demo (demo_with_home, demo_now + 60) (demo_frozen, demo_now + 60)" by simp
  from 1 2 show ?thesis by (meson rtranclp.rtrancl_refl rtranclp.rtrancl_into_rtrancl)
qed

lemma demo_reach_frozen: "reach genesis (world_step demo) (demo_frozen, demo_now + 60)"
  by (rule reach_steps [OF demo_reach_after demo_steps_frozen])

definition demo_withdraw_ctx :: WithdrawFunds where
  "demo_withdraw_ctx = \<lparr>wf_agent_wallet = demo_wallet_key, wf_usdc_token_account = demo_usdc_key,
     wf_owner_token_account = demo_home, wf_usdc_mint = demo_mint, wf_owner = demo_owner\<rparr>"

definition demo_status_ctx :: ManageAgentStatus where
  "demo_status_ctx = \<lparr>ms_agent_wallet = demo_wallet_key, ms_owner = demo_owner\<rparr>"

end
