(* ===== verification/Books.thy ===== *)
theory Books
  imports Demo_Run
begin

text \<open>
  The ledger as the specification of the wallet's counters. What a wallet says it has spent, in its
  lifetime and in each of its three windows, is a function of its payment records: the sum of the
  settled amounts, capped at the largest \<open>u64\<close>. That holds in every reachable state until the
  sequence number itself has reached the largest \<open>u64\<close>, and with it the budgets the policy enforces
  bound the payments that were really made.
\<close>

section \<open>Sums over the ledger\<close>

definition settled_amount :: "int \<Rightarrow> LedgerEntry option \<Rightarrow> nat" where
  "settled_amount since e =
     (case e of
        None \<Rightarrow> 0
      | Some r \<Rightarrow> if pr_policy_passed r \<and> since \<le> sint (pr_settled_at r)
                  then unat (pr_amount_usdc r) else 0)"

definition settled_since :: "platform \<Rightarrow> account_map \<Rightarrow> pubkey \<Rightarrow> nat \<Rightarrow> int \<Rightarrow> nat" where
  "settled_since P acc k n since =
     (\<Sum>i<n. settled_amount since (ledger_entry P acc k (of_nat i)))"

definition lifetime :: int where
  "lifetime = - (2 ^ 63)"

definition u64_cap :: "nat \<Rightarrow> nat" where
  "u64_cap n = min n (2 ^ 64 - 1)"

lemma lifetime_le [simp]: "lifetime \<le> sint (t :: i64)"
  using sint_i64_range [of t] by (simp add: lifetime_def i64_range_def)

lemma unat_saturating_add_u64: "unat (saturating_add a b :: u64) = u64_cap (unat a + unat b)"
  by (simp add: u64_cap_def unat_saturating_add)

lemma saturating_add_u64: "saturating_add a b = (of_nat (u64_cap (unat a + unat b)) :: u64)"
proof -
  have "of_nat (unat (saturating_add a b)) = (of_nat (u64_cap (unat a + unat b)) :: u64)"
    by (simp only: unat_saturating_add_u64)
  then show ?thesis by simp
qed

lemma u64_cap_add: "u64_cap (u64_cap m + n) = u64_cap (m + n)"
  by (simp add: u64_cap_def)

lemma settled_since_Suc:
  "settled_since P acc k (Suc n) since =
     settled_since P acc k n since + settled_amount since (ledger_entry P acc k (of_nat n))"
  by (simp add: settled_since_def)

lemma settled_since_0 [simp]: "settled_since P acc k 0 since = 0"
  by (simp add: settled_since_def)

text \<open>Two account maps with the same first entries of a wallet's ledger.\<close>

definition same_entries :: "platform \<Rightarrow> account_map \<Rightarrow> account_map \<Rightarrow> pubkey \<Rightarrow> nat \<Rightarrow> bool" where
  "same_entries P acc acc' k n \<longleftrightarrow>
     (\<forall>i<n. ledger_entry P acc' k (of_nat i) = ledger_entry P acc k (of_nat i))"

lemma settled_since_same:
  assumes "same_entries P acc acc' k n"
  shows "settled_since P acc' k n since = settled_since P acc k n since"
  using assms by (simp add: settled_since_def same_entries_def)

lemma same_entries_kept:
  assumes ok: "ledger_ok P acc" and w: "acc k = Some (AgentWalletAcc w)"
    and kept: "keeps_records acc acc'"
  shows "same_entries P acc acc' k (unat (aw_payment_sequence w))"
  unfolding same_entries_def
proof (intro allI impI)
  fix i assume i: "i < unat (aw_payment_sequence w)"
  then have "(of_nat i :: u64) < aw_payment_sequence w"
    by (simp add: word_less_nat_alt unat_of_nat order.strict_trans1 [OF mod_less_eq_dividend])
  then obtain r where "ledger_entry P acc k (of_nat i) = Some r"
    using ok w unfolding ledger_ok_def has_record_def by blast
  then show "ledger_entry P acc' k (of_nat i) = ledger_entry P acc k (of_nat i)"
    using ledger_entry_kept [OF _ kept] by simp
qed

section \<open>One window\<close>

text \<open>
  The accumulator of a window is the sum of the payments since its start, and no payment of the
  ledger is later than its end.
\<close>

definition window_ok ::
    "platform \<Rightarrow> account_map \<Rightarrow> pubkey \<Rightarrow> nat \<Rightarrow> u64 \<Rightarrow> i64 \<Rightarrow> i64 \<Rightarrow> bool" where
  "window_ok P acc k n spend start period \<longleftrightarrow>
     unat spend = u64_cap (settled_since P acc k n (sint start))
     \<and> (\<forall>i<n. \<forall>r. ledger_entry P acc k (of_nat i) = Some r \<and> pr_policy_passed r \<longrightarrow>
          sint (pr_settled_at r) < sint start + sint period)"

lemma window_ok_0 [simp]: "window_ok P acc k 0 spend start period \<longleftrightarrow> spend = 0"
  by (simp add: window_ok_def u64_cap_def unat_eq_0)

lemma window_ok_same:
  assumes "same_entries P acc acc' k n"
  shows "window_ok P acc' k n spend start period = window_ok P acc k n spend start period"
  using assms settled_since_same [OF assms] by (simp add: window_ok_def same_entries_def)

text \<open>A window whose start moves past every payment counts nothing.\<close>

lemma settled_since_later:
  assumes "\<forall>i<n. \<forall>r. ledger_entry P acc k (of_nat i) = Some r \<and> pr_policy_passed r \<longrightarrow>
    sint (pr_settled_at r) < since"
  shows "settled_since P acc k n since = 0"
proof -
  have "settled_amount since (ledger_entry P acc k (of_nat i)) = 0" if "i < n" for i
    using assms that by (fastforce simp: settled_amount_def split: option.split)
  then show ?thesis by (simp add: settled_since_def)
qed

lemma window_ok_violation:
  assumes "window_ok P acc k n spend start period"
    and "ledger_entry P acc k (of_nat n) = Some r" and "\<not> pr_policy_passed r"
  shows "window_ok P acc k (Suc n) spend start period"
  using assms by (auto simp: window_ok_def settled_since_Suc settled_amount_def less_Suc_eq)

lemma window_ok_settlement:
  assumes "window_ok P acc k n spend start period"
    and "ledger_entry P acc k (of_nat n) = Some r" and "pr_policy_passed r"
    and "sint start \<le> sint (pr_settled_at r)" "sint (pr_settled_at r) < sint start + sint period"
  shows "window_ok P acc k (Suc n) (saturating_add spend (pr_amount_usdc r)) start period"
  using assms
  by (auto simp: window_ok_def settled_since_Suc settled_amount_def less_Suc_eq
      unat_saturating_add_u64 u64_cap_add)

context spend_window
begin

text \<open>A reset keeps the window exact: what it forgets lies before the new start.\<close>

lemma reset_window_ok:
  assumes ok: "window_ok P acc k n (spend w) (start w) period"
    and r: "reset w now = Some w'" "0 \<le> sint (start w)" "sint (start w) \<le> sint now"
  shows "window_ok P acc k n (spend w') (start w') period"
proof (cases "elapsed w now")
  case True
  have inr: "in_range w now" using r by (rule reset_Some_in_range)
  have st: "sint (start w') = window_start_at (sint (start w)) (sint now) (sint period)"
    and sp: "spend w' = 0"
    using reset_result [OF inr r(3,1)] True by simp_all
  have "1 \<le> (sint now - sint (start w)) div sint period"
    using True period_pos zdiv_mono1 [of "sint period" "sint now - sint (start w)" "sint period"]
    by (simp add: elapsed_def)
  then have later: "sint (start w) + sint period \<le> sint (start w')"
    using period_pos mult_right_mono [of 1 _ "sint period"]
    by (simp add: st window_start_at_def)
  then have "\<forall>i<n. \<forall>r. ledger_entry P acc k (of_nat i) = Some r \<and> pr_policy_passed r \<longrightarrow>
      sint (pr_settled_at r) < sint (start w')"
    using ok by (fastforce simp: window_ok_def)
  moreover from this have "\<forall>i<n. \<forall>r. ledger_entry P acc k (of_nat i) = Some r \<and> pr_policy_passed r \<longrightarrow>
      sint (pr_settled_at r) < sint (start w') + sint period"
    using period_pos by fastforce
  ultimately show ?thesis
    by (simp add: window_ok_def sp settled_since_later u64_cap_def)
next
  case False
  have inr: "in_range w now" using r by (rule reset_Some_in_range)
  with False r(1) have "w' = w" by (simp add: reset_value)
  with ok show ?thesis by simp
qed

end

section \<open>The books of a wallet\<close>

definition books_ok :: "platform \<Rightarrow> account_map \<Rightarrow> pubkey \<Rightarrow> AgentWallet \<Rightarrow> bool" where
  "books_ok P acc k w \<longleftrightarrow> (aw_payment_sequence w \<noteq> - 1 \<longrightarrow>
     (let n = unat (aw_payment_sequence w) in
        unat (aw_total_volume w) = u64_cap (settled_since P acc k n lifetime)
        \<and> window_ok P acc k n (aw_daily_spend w) (aw_daily_window_start w) SECONDS_PER_DAY
        \<and> window_ok P acc k n (aw_weekly_spend w) (aw_weekly_window_start w) SECONDS_PER_WEEK
        \<and> window_ok P acc k n (aw_monthly_spend w) (aw_monthly_window_start w) SECONDS_PER_MONTH))"

lemma books_ok_same:
  assumes "same_entries P acc acc' k (unat (aw_payment_sequence w))"
  shows "books_ok P acc' k w = books_ok P acc k w"
  by (simp add: books_ok_def Let_def window_ok_same [OF assms] settled_since_same [OF assms])

lemma books_ok_flags [simp]:
  "books_ok P acc k (w\<lparr>aw_owner := x, aw_is_active := a, aw_is_frozen := f\<rparr>) = books_ok P acc k w"
  by (simp add: books_ok_def)

lemma sequence_next:
  fixes q :: u64
  assumes "saturating_add q 1 \<noteq> - 1"
  shows "q \<noteq> - 1" and "unat (saturating_add q 1) = Suc (unat q)"
proof -
  show "q \<noteq> - 1" using assms saturating_add_full by blast
  have "unat (saturating_add q 1) \<noteq> 2 ^ 64 - 1"
    using assms by (simp add: word_unat_eq_iff unat_minus_one_word)
  then show "unat (saturating_add q 1) = Suc (unat q)"
    using unat_saturating_add [of q 1] by simp
qed

lemma settle_guards_window_ok:
  assumes g: "settle_wallet_guards w now = Inr w'" and ok: "wallet_ok P t k w" "sint t \<le> sint now"
  shows "window_ok P acc k n (aw_daily_spend w) (aw_daily_window_start w) SECONDS_PER_DAY \<Longrightarrow>
      window_ok P acc k n (aw_daily_spend w') (aw_daily_window_start w') SECONDS_PER_DAY"
    and "window_ok P acc k n (aw_weekly_spend w) (aw_weekly_window_start w) SECONDS_PER_WEEK \<Longrightarrow>
      window_ok P acc k n (aw_weekly_spend w') (aw_weekly_window_start w') SECONDS_PER_WEEK"
    and "window_ok P acc k n (aw_monthly_spend w) (aw_monthly_window_start w) SECONDS_PER_MONTH \<Longrightarrow>
      window_ok P acc k n (aw_monthly_spend w') (aw_monthly_window_start w') SECONDS_PER_MONTH"
    and "sint (aw_daily_window_start w') \<le> sint now"
    and "sint now < sint (aw_daily_window_start w') + sint SECONDS_PER_DAY"
    and "sint (aw_weekly_window_start w') \<le> sint now"
    and "sint now < sint (aw_weekly_window_start w') + sint SECONDS_PER_WEEK"
    and "sint (aw_monthly_window_start w') \<le> sint now"
    and "sint now < sint (aw_monthly_window_start w') + sint SECONDS_PER_MONTH"
proof -
  obtain wd ww where d: "reset_daily_window_if_elapsed w now = Some wd"
    and ww: "reset_weekly_window_if_elapsed wd now = Some ww"
    and m: "reset_monthly_window_if_elapsed ww now = Some w'"
    using g by (auto simp: settle_wallet_guards_eq_Inr)
  obtain x y where wd: "wd = w\<lparr>aw_daily_spend := x, aw_daily_window_start := y\<rparr>"
    using reset_shape(1) [OF d] by blast
  obtain x' y' where ww': "ww = wd\<lparr>aw_weekly_spend := x', aw_weekly_window_start := y'\<rparr>"
    using reset_shape(2) [OF ww] by blast
  obtain x'' y'' where w': "w' = ww\<lparr>aw_monthly_spend := x'', aw_monthly_window_start := y''\<rparr>"
    using reset_shape(3) [OF m] by blast
  have Dr: "0 \<le> sint (aw_daily_window_start w)" "sint (aw_daily_window_start w) \<le> sint now"
    using ok by (auto simp: wallet_ok_def)
  have Wr: "0 \<le> sint (aw_weekly_window_start wd)" "sint (aw_weekly_window_start wd) \<le> sint now"
    using ok wd by (auto simp: wallet_ok_def)
  have Mr: "0 \<le> sint (aw_monthly_window_start ww)" "sint (aw_monthly_window_start ww) \<le> sint now"
    using ok wd ww' by (auto simp: wallet_ok_def)
  show "window_ok P acc k n (aw_daily_spend w) (aw_daily_window_start w) SECONDS_PER_DAY \<Longrightarrow>
      window_ok P acc k n (aw_daily_spend w') (aw_daily_window_start w') SECONDS_PER_DAY"
    using daily.reset_window_ok [OF _ d Dr] by (simp add: w' ww')
  show "window_ok P acc k n (aw_weekly_spend w) (aw_weekly_window_start w) SECONDS_PER_WEEK \<Longrightarrow>
      window_ok P acc k n (aw_weekly_spend w') (aw_weekly_window_start w') SECONDS_PER_WEEK"
    using weekly.reset_window_ok [OF _ ww Wr] by (simp add: w' wd)
  show "window_ok P acc k n (aw_monthly_spend w) (aw_monthly_window_start w) SECONDS_PER_MONTH \<Longrightarrow>
      window_ok P acc k n (aw_monthly_spend w') (aw_monthly_window_start w') SECONDS_PER_MONTH"
    using monthly.reset_window_ok [OF _ m Mr] by (simp add: ww' wd)
  show "sint (aw_daily_window_start w') \<le> sint now"
    "sint now < sint (aw_daily_window_start w') + sint SECONDS_PER_DAY"
    using daily.reset_Some_bounds [OF d Dr] by (simp_all add: w' ww')
  show "sint (aw_weekly_window_start w') \<le> sint now"
    "sint now < sint (aw_weekly_window_start w') + sint SECONDS_PER_WEEK"
    using weekly.reset_Some_bounds [OF ww Wr] by (simp_all add: w')
  show "sint (aw_monthly_window_start w') \<le> sint now"
    "sint now < sint (aw_monthly_window_start w') + sint SECONDS_PER_MONTH"
    using monthly.reset_Some_bounds [OF m Mr] by simp_all
qed

lemma books_ok_settled:
  assumes books: "books_ok P acc k w" and same: "same_entries P acc acc' k (unat (aw_payment_sequence w))"
    and ok: "wallet_ok P t k w" "sint t \<le> sint now"
    and g: "settle_wallet_guards w now = Inr w'"
    and e: "ledger_entry P acc' k (aw_payment_sequence w) = Some r"
    and r: "pr_policy_passed r" "pr_amount_usdc r = a" "pr_settled_at r = now"
  shows "books_ok P acc' k (settle_accounting w' a now)"
proof (cases "aw_payment_sequence (settle_accounting w' a now) = - 1")
  case False
  let ?n = "unat (aw_payment_sequence w)"
  note frame = settle_wallet_guards_frame [OF g]
  note q = sequence_next [of "aw_payment_sequence w"]
  have seq: "aw_payment_sequence w \<noteq> - 1" "unat (aw_payment_sequence (settle_accounting w' a now)) = Suc ?n"
    using False q by (simp_all add: frame)
  have B: "unat (aw_total_volume w) = u64_cap (settled_since P acc' k ?n lifetime)"
    "window_ok P acc' k ?n (aw_daily_spend w) (aw_daily_window_start w) SECONDS_PER_DAY"
    "window_ok P acc' k ?n (aw_weekly_spend w) (aw_weekly_window_start w) SECONDS_PER_WEEK"
    "window_ok P acc' k ?n (aw_monthly_spend w) (aw_monthly_window_start w) SECONDS_PER_MONTH"
    using books seq(1) unfolding books_ok_def Let_def settled_since_same [OF same] window_ok_same [OF same]
    by blast+
  have e': "ledger_entry P acc' k (of_nat ?n) = Some r" using e by simp
  note G = settle_guards_window_ok [OF g ok]
  note W = window_ok_settlement [OF _ e' r(1), unfolded r(2,3)]
  show ?thesis
    unfolding books_ok_def Let_def seq(2)
    using W [OF G(1) [OF B(2)] G(4,5)] W [OF G(2) [OF B(3)] G(6,7)] W [OF G(3) [OF B(4)] G(8,9)] B(1)
    by (simp add: frame settled_since_Suc e settled_amount_def r unat_saturating_add_u64 u64_cap_add)
qed (simp add: books_ok_def)

lemma books_ok_violated:
  assumes books: "books_ok P acc k w" and same: "same_entries P acc acc' k (unat (aw_payment_sequence w))"
    and e: "ledger_entry P acc' k (aw_payment_sequence w) = Some r" and r: "\<not> pr_policy_passed r"
  shows "books_ok P acc' k (violation_accounting w)"
proof (cases "aw_payment_sequence (violation_accounting w) = - 1")
  case False
  note q = sequence_next [of "aw_payment_sequence w"]
  have "aw_payment_sequence w \<noteq> - 1"
    "unat (aw_payment_sequence (violation_accounting w)) = Suc (unat (aw_payment_sequence w))"
    using False q by (simp_all add: violation_accounting_def)
  moreover have "ledger_entry P acc' k (of_nat (unat (aw_payment_sequence w))) = Some r"
    using e by simp
  ultimately show ?thesis
    using books r window_ok_violation
    unfolding books_ok_same [OF same, symmetric]
    by (simp add: books_ok_def Let_def violation_accounting_def settled_since_Suc settled_amount_def)
qed (simp add: books_ok_def)

lemma books_ok_opened [simp]: "books_ok P acc k (new_agent_wallet agent_id owner usdc now b)"
  by (simp add: books_ok_def new_agent_wallet_def u64_cap_def)

lemma books_ok_step:
  assumes step: "wallet_step P now acc acc' k (wallet_at acc k) w'"
    and books: "\<And>w. acc k = Some (AgentWalletAcc w) \<Longrightarrow> books_ok P acc k w"
    and ok: "accounts_ok P t acc" "ledger_ok P acc" "keeps_records acc acc'" "sint t \<le> sint now"
  shows "books_ok P acc' k w'"
proof -
  have old: "books_ok P acc k w" "same_entries P acc acc' k (unat (aw_payment_sequence w))"
    "wallet_ok P t k w" if "wallet_at acc k = Some w" for w
    using that books same_entries_kept [OF ok(2) _ ok(3)]
      accounts_okD [OF ok(1), of k "AgentWalletAcc w"]
    by (auto simp: wallet_at_eq_Some)
  from step show ?thesis
  proof cases
    case (kept w owner a f)
    then show ?thesis using old [of w] by (simp add: books_ok_same)
  next
    case (settled w w'' params payee protocol b)
    then show ?thesis
      using books_ok_settled [OF old(1,2) [of w] old(3) ok(4)]
      by (simp add: settled_record_def)
  next
    case (violated w params protocol b)
    then show ?thesis
      using books_ok_violated [OF old(1,2) [of w]] by (simp add: violation_record_def)
  qed simp
qed

definition world_books :: "platform \<Rightarrow> world \<Rightarrow> bool" where
  "world_books P w \<longleftrightarrow> world_ok P w
     \<and> (\<forall>k wl. accounts (fst w) k = Some (AgentWalletAcc wl) \<longrightarrow> books_ok P (accounts (fst w)) k wl)"

lemma world_step_books:
  assumes sound: "transfer_sound P" and "world_step P w w'" and "world_books P w"
  shows "world_books P w'"
proof -
  have ok': "world_ok P w'"
    using assms world_step_ok by (auto simp: world_books_def)
  have ok: "world_ok P w" and books: "\<And>k wl. accounts (fst w) k = Some (AgentWalletAcc wl) \<Longrightarrow>
      books_ok P (accounts (fst w)) k wl"
    using assms(3) by (auto simp: world_books_def)
  from assms(2) show ?thesis
  proof cases
    case (instruction iv ix s s' t)
    then have "books_ok P (accounts s') k wl" if "accounts s' k = Some (AgentWalletAcc wl)" for k wl
      using books_ok_step [OF process_wallet_step [OF sound _ that]] books ok
        process_keeps_records [OF sound] by (auto simp: world_ok_def)
    then show ?thesis using ok' instruction by (simp add: world_books_def)
  next
    case (external s s' t t')
    then have "books_ok P (accounts s') k wl" if "accounts s' k = Some (AgentWalletAcc wl)" for k wl
      using that books [of k wl] ok same_entries_kept [of P "accounts s" k wl "accounts s'"]
        external_program_account [OF external(3), of "AgentWalletAcc wl" k]
        external_keeps_records [OF external(3)]
      by (simp add: world_ok_def books_ok_same)
    then show ?thesis using ok' external by (simp add: world_books_def)
  qed
qed

interpretation books: invariant_of genesis "world_step P" "\<lambda>w. transfer_sound P \<longrightarrow> world_books P w" for P
proof unfold_locales
  fix w assume "genesis w"
  then show "transfer_sound P \<longrightarrow> world_books P w"
    using genesis_ok by (fastforce simp: world_books_def genesis_def)
qed (blast intro: world_step_books)

lemma reachable_books: "transfer_sound P \<Longrightarrow> reach genesis (world_step P) w \<Longrightarrow> world_books P w"
  using books.reach_inv by blast

section \<open>Properties\<close>

text \<open>C3: In every reachable state the counters of a wallet are what its ledger says: the lifetime
  volume, and the daily, weekly and monthly accumulators, are the sums of the settled amounts of the
  wallet's payment records (all of them, or those since the start of the window), capped at the
  largest u64, as long as the sequence number has not reached the largest u64.\<close>

theorem wallet_counters_match_ledger:
  assumes "transfer_sound P" and "reach genesis (world_step P) (s, t)"
    and "accounts s k = Some (AgentWalletAcc w)" and "aw_payment_sequence w \<noteq> - 1"
  defines "spent \<equiv> settled_since P (accounts s) k (unat (aw_payment_sequence w))"
  shows "unat (aw_total_volume w) = u64_cap (spent lifetime)
    \<and> unat (aw_daily_spend w) = u64_cap (spent (sint (aw_daily_window_start w)))
    \<and> unat (aw_weekly_spend w) = u64_cap (spent (sint (aw_weekly_window_start w)))
    \<and> unat (aw_monthly_spend w) = u64_cap (spent (sint (aw_monthly_window_start w)))"
  using reachable_books [OF assms(1,2)] assms(3,4)
  by (auto simp: world_books_def books_ok_def Let_def window_ok_def spent_def)

theorem wallet_counters_match_ledger_witness:
  "settled_since demo (accounts demo_after) demo_wallet_key 1 (sint demo_now) = 12000000"
  using wallet_counters_match_ledger [OF demo_transfer_sound demo_reach_after demo_after_wallet]
  by (simp add: u64_cap_def min_def split: if_splits)

lemma settle_budgets:
  assumes "transfer_sound P" and "settle_payment P iv ctx sequence params s = Inr s'"
    and policy: "accounts s (st_spend_policy ctx) = Some (SpendPolicyAcc policy)"
    and enforced: "enforce_on_chain policy params"
    and wallet: "accounts s' (st_agent_wallet ctx) = Some (AgentWalletAcc w)"
  shows "(sp_daily_budget policy \<noteq> 0 \<longrightarrow> aw_daily_spend w \<le> sp_daily_budget policy)
      \<and> (sp_weekly_budget policy \<noteq> 0 \<longrightarrow> aw_weekly_spend w \<le> sp_weekly_budget policy)
      \<and> (sp_monthly_budget policy \<noteq> 0 \<longrightarrow> aw_monthly_spend w \<le> sp_monthly_budget policy)"
  using assms(1,2)
proof (rule settle_payment_result, goal_cases)
  case (1 wallet policy2 usdc payee config bump wallet' policy' protocol)
  have "st_agent_wallet ctx \<noteq> st_spend_policy ctx" using 1(1,2) by auto
  then have w: "w = settle_accounting wallet' (spp_amount_usdc params) (iv_now iv)"
    using wallet by (simp add: 1(19))
  have p: "policy2 = policy" using 1(2) policy by simp
  from 1(18) enforced have "within_daily_budget policy (aw_daily_spend wallet') (spp_amount_usdc params)"
    "within_weekly_budget policy (aw_weekly_spend wallet') (spp_amount_usdc params)"
    "within_monthly_budget policy (aw_monthly_spend wallet') (spp_amount_usdc params)"
    by (simp_all add: p settle_policy_def settle_policy_checks_eq_Inr)
  then show ?case
    using daily_cap.within_new_spend weekly_cap.within_new_spend monthly_cap.within_new_spend
    by (simp add: w)
qed

lemma cap_on_sum:
  assumes "unat x = u64_cap m" and "x \<le> b" and "b \<noteq> - 1"
  shows "m \<le> unat (b :: u64)"
proof -
  have "unat b < 2 ^ 64"
    using unsigned_less [of b] by simp
  moreover have "unat b \<noteq> 2 ^ 64 - 1"
    using assms(3) by (simp add: word_unat_eq_iff unat_minus_one_word)
  ultimately have "unat b < 2 ^ 64 - 1" by simp
  with assms(1,2) show ?thesis by (simp add: u64_cap_def word_le_nat_alt)
qed

text \<open>C4: After a payment that was enforced on chain, the payments really made in the current daily
  window, by the ledger, do not exceed the daily budget; the same for the week and the month. A
  budget of zero is off. A budget of the largest u64 is left out: its check saturates and always passes.\<close>

theorem enforced_budgets_bound_ledger:
  assumes sound: "transfer_sound P" and reach: "reach genesis (world_step P) (s, t)"
    and run: "settle_payment P iv ctx sequence params s = Inr s'" and t: "sint t \<le> sint (iv_now iv)"
    and policy: "accounts s (st_spend_policy ctx) = Some (SpendPolicyAcc policy)"
    and enforced: "enforce_on_chain policy params"
    and wallet: "accounts s' (st_agent_wallet ctx) = Some (AgentWalletAcc w)"
    and seq: "aw_payment_sequence w \<noteq> - 1"
  defines "spent \<equiv> settled_since P (accounts s') (st_agent_wallet ctx) (unat (aw_payment_sequence w))"
  shows "(sp_daily_budget policy \<notin> {0, - 1} \<longrightarrow>
            spent (sint (aw_daily_window_start w)) \<le> unat (sp_daily_budget policy))
    \<and> (sp_weekly_budget policy \<notin> {0, - 1} \<longrightarrow>
            spent (sint (aw_weekly_window_start w)) \<le> unat (sp_weekly_budget policy))
    \<and> (sp_monthly_budget policy \<notin> {0, - 1} \<longrightarrow>
            spent (sint (aw_monthly_window_start w)) \<le> unat (sp_monthly_budget policy))"
proof -
  have "world_step P (s, t) (s', iv_now iv)"
    by (rule world_step.instruction [of _ _ "IxSettlePayment ctx sequence params"]) (simp_all add: run t)
  with reach have "reach genesis (world_step P) (s', iv_now iv)" by (rule reach_step)
  from reachable_books [OF sound this] wallet seq
  have B: "unat (aw_daily_spend w) = u64_cap (spent (sint (aw_daily_window_start w)))"
    "unat (aw_weekly_spend w) = u64_cap (spent (sint (aw_weekly_window_start w)))"
    "unat (aw_monthly_spend w) = u64_cap (spent (sint (aw_monthly_window_start w)))"
    by (auto simp: world_books_def books_ok_def Let_def window_ok_def spent_def)
  have "(sp_daily_budget policy \<noteq> 0 \<longrightarrow> aw_daily_spend w \<le> sp_daily_budget policy)
      \<and> (sp_weekly_budget policy \<noteq> 0 \<longrightarrow> aw_weekly_spend w \<le> sp_weekly_budget policy)
      \<and> (sp_monthly_budget policy \<noteq> 0 \<longrightarrow> aw_monthly_spend w \<le> sp_monthly_budget policy)"
    by (rule settle_budgets [OF sound run policy enforced wallet])
  then show ?thesis
    using cap_on_sum [OF B(1)] cap_on_sum [OF B(2)] cap_on_sum [OF B(3)] by simp
qed

theorem enforced_budgets_bound_ledger_witness:
  "settled_since demo (accounts demo_after) demo_wallet_key 1 (sint demo_now) \<le> 50000000"
  using enforced_budgets_bound_ledger [OF demo_transfer_sound demo_reach_ready demo_settle_run, of
      demo_policy demo_paid]
  by (simp add: demo_after_wallet demo_ready_accounts enforce_on_chain_def demo_later)

end
