(* ===== verification/Settlement_Spec.thy ===== *)
theory Settlement_Spec
  imports Books
begin

text \<open>
  The specification of a settlement, in plain numbers: a list of conditions in order, each with the
  error of its failure, and what the success leaves. \<open>settle_payment\<close> is shown to be exactly this.
\<close>

section \<open>The checklist\<close>

fun first_failure :: "(bool \<times> 'e) list \<Rightarrow> 'e option" where
  "first_failure [] = None"
| "first_failure ((c, e) # cs) = (if c then first_failure cs else Some e)"

definition checked :: "(bool \<times> MaximError) list \<Rightarrow> program_error + 'a \<Rightarrow> program_error + 'a" where
  "checked cs r = (case first_failure cs of None \<Rightarrow> r | Some e \<Rightarrow> Inl (Maxim e))"

lemma first_failure_append:
  "first_failure (xs @ ys) = (case first_failure xs of None \<Rightarrow> first_failure ys | Some e \<Rightarrow> Some e)"
  by (induction xs rule: first_failure.induct) auto

lemma first_failure_None: "first_failure cs = None \<longleftrightarrow> list_all fst cs"
  by (induction cs rule: first_failure.induct) auto

lemma checked_Nil: "checked [] r = r"
  by (simp add: checked_def)

lemma checked_checked: "checked xs (checked ys r) = checked (xs @ ys) r"
  by (simp add: checked_def first_failure_append split: option.split)

lemma require_checked: "rbind (require c (Maxim e)) (\<lambda>_. r) = checked [(c, e)] r"
  by (simp add: checked_def require_def)

lemma rbind_checked: "rbind (checked cs r) f = checked cs (rbind r f)"
  by (simp add: checked_def split: option.split)

lemmas checklist_simps = require_checked checked_checked rbind_checked append_Cons append_Nil

text \<open>What a window has counted at a time, and what a budget allows.\<close>

definition spend_in_window :: "u64 \<Rightarrow> i64 \<Rightarrow> int \<Rightarrow> i64 \<Rightarrow> nat" where
  "spend_in_window spend start period now =
     (if sint start + period \<le> sint now then 0 else unat spend)"

definition calls_in_window :: "SpendPolicy \<Rightarrow> i64 \<Rightarrow> nat" where
  "calls_in_window policy now =
     (if sp_rate_limit_window_secs policy \<noteq> 0
         \<and> sint (sp_rate_limit_window_start policy) + uint (sp_rate_limit_window_secs policy) \<le> sint now
      then 0 else unat (sp_rate_limit_call_count policy))"

definition limit_allows :: "u64 \<Rightarrow> nat \<Rightarrow> bool" where
  "limit_allows limit n \<longleftrightarrow> limit = 0 \<or> n \<le> unat limit"

definition budget_allows :: "u64 \<Rightarrow> nat \<Rightarrow> bool" where
  "budget_allows budget n \<longleftrightarrow> budget = - 1 \<or> limit_allows budget n"

text \<open>A payment is enforced on chain if the policy has a threshold and the amount reaches it.\<close>

definition enforced :: "SpendPolicy \<Rightarrow> nat \<Rightarrow> bool" where
  "enforced p n \<longleftrightarrow> sp_high_value_threshold p \<noteq> 0 \<and> unat (sp_high_value_threshold p) \<le> n"

lemma enforce_on_chain_iff: "enforce_on_chain p params \<longleftrightarrow> enforced p (unat (spp_amount_usdc params))"
  by (simp add: enforce_on_chain_def enforced_def word_gt_0 word_le_nat_alt)

definition policy_checklist ::
    "AgentWallet \<Rightarrow> SpendPolicy \<Rightarrow> SettlePaymentParams \<Rightarrow> i64 \<Rightarrow> (bool \<times> MaximError) list" where
  "policy_checklist w p params now =
     (let n = unat (spp_amount_usdc params) in
      [(limit_allows (sp_per_call_limit p) n, PerCallLimitExceeded),
       (budget_allows (sp_daily_budget p)
          (spend_in_window (aw_daily_spend w) (aw_daily_window_start w) 86400 now + n),
        DailyBudgetExceeded),
       (budget_allows (sp_weekly_budget p)
          (spend_in_window (aw_weekly_spend w) (aw_weekly_window_start w) 604800 now + n),
        WeeklyBudgetExceeded),
       (budget_allows (sp_monthly_budget p)
          (spend_in_window (aw_monthly_spend w) (aw_monthly_window_start w) 2592000 now + n),
        MonthlyBudgetExceeded),
       (sp_rate_limit_calls p = 0 \<or> calls_in_window p now < unat (sp_rate_limit_calls p),
        RateLimitExceeded),
       (spp_domain_hash params \<notin> set (sp_blocked_domain_hashes p), DomainBlocked),
       (sp_allowed_domain_hashes p = [] \<or> spp_domain_hash params \<in> set (sp_allowed_domain_hashes p),
        DomainNotAllowed)])"

definition settle_checklist ::
    "AgentWallet \<Rightarrow> SpendPolicy \<Rightarrow> ProtocolConfig \<Rightarrow> u64 \<Rightarrow> SettlePaymentParams \<Rightarrow> i64
       \<Rightarrow> (bool \<times> MaximError) list" where
  "settle_checklist w p config sequence params now =
     [(spp_amount_usdc params \<noteq> 0, ZeroPaymentAmount),
      (unat (spp_protocol params) < 2, InvalidProtocol),
      (sequence = aw_payment_sequence w, SequenceMismatch),
      (limit_allows (pc_max_single_payment_usdc config) (unat (spp_amount_usdc params)),
       GlobalPaymentCapExceeded),
      (aw_is_active w, AgentNotActive),
      (\<not> aw_is_frozen w, AgentFrozen)]
     @ (if enforced p (unat (spp_amount_usdc params)) then policy_checklist w p params now else [])"

text \<open>
  What a settlement of \<open>n\<close> units leaves, field by field in plain numbers: the policy, the wallet, the
  record and the event. Counters stop at the largest number of their width.
\<close>

definition rate_window_over :: "SpendPolicy \<Rightarrow> i64 \<Rightarrow> bool" where
  "rate_window_over p now \<longleftrightarrow> sp_rate_limit_window_secs p \<noteq> 0
     \<and> sint (sp_rate_limit_window_start p) + uint (sp_rate_limit_window_secs p) \<le> sint now"

definition settled_policy :: "SpendPolicy \<Rightarrow> nat \<Rightarrow> i64 \<Rightarrow> SpendPolicy" where
  "settled_policy p n now =
     (if enforced p n
      then p\<lparr>sp_rate_limit_call_count := of_nat (min (calls_in_window p now + 1) (2 ^ 32 - 1)),
             sp_rate_limit_window_start :=
               (if rate_window_over p now then now else sp_rate_limit_window_start p)\<rparr>
      else p)"

definition window_start_now :: "i64 \<Rightarrow> int \<Rightarrow> i64 \<Rightarrow> i64" where
  "window_start_now start period now =
     (if sint start + period \<le> sint now
      then word_of_int (sint start + (sint now - sint start) div period * period) else start)"

definition paid_wallet :: "AgentWallet \<Rightarrow> nat \<Rightarrow> i64 \<Rightarrow> AgentWallet" where
  "paid_wallet w n now =
     \<lparr>aw_agent_id = aw_agent_id w, aw_owner = aw_owner w,
      aw_usdc_token_account = aw_usdc_token_account w,
      aw_daily_spend = of_nat (u64_cap
        (spend_in_window (aw_daily_spend w) (aw_daily_window_start w) 86400 now + n)),
      aw_daily_window_start = window_start_now (aw_daily_window_start w) 86400 now,
      aw_weekly_spend = of_nat (u64_cap
        (spend_in_window (aw_weekly_spend w) (aw_weekly_window_start w) 604800 now + n)),
      aw_weekly_window_start = window_start_now (aw_weekly_window_start w) 604800 now,
      aw_monthly_spend = of_nat (u64_cap
        (spend_in_window (aw_monthly_spend w) (aw_monthly_window_start w) 2592000 now + n)),
      aw_monthly_window_start = window_start_now (aw_monthly_window_start w) 2592000 now,
      aw_payment_sequence = of_nat (u64_cap (unat (aw_payment_sequence w) + 1)),
      aw_total_payments = of_nat (u64_cap (unat (aw_total_payments w) + 1)),
      aw_total_volume = of_nat (u64_cap (unat (aw_total_volume w) + n)),
      aw_last_payment_at = now, aw_is_active = aw_is_active w, aw_is_frozen = aw_is_frozen w,
      aw_bump = aw_bump w\<rparr>"

definition paid_record ::
    "pubkey \<Rightarrow> u64 \<Rightarrow> SettlePaymentParams \<Rightarrow> pubkey \<Rightarrow> i64 \<Rightarrow> u8 \<Rightarrow> LedgerEntry" where
  "paid_record k sequence params payee now bump =
     \<lparr>pr_agent_wallet = k, pr_sequence = sequence, pr_endpoint_hash = spp_endpoint_hash params,
      pr_payee = payee, pr_amount_usdc = spp_amount_usdc params,
      pr_protocol = (if spp_protocol params = 0 then X402 else Mpp), pr_settled_at = now,
      pr_policy_passed = True, pr_parent_payment = None, pr_bump = bump, le_memo = None\<rparr>"

section \<open>The resets and the accounting against these numbers\<close>

text \<open>The wallet after its windows are brought up to date.\<close>

definition current_windows :: "AgentWallet \<Rightarrow> i64 \<Rightarrow> AgentWallet" where
  "current_windows w now = w\<lparr>
     aw_daily_spend := of_nat (spend_in_window (aw_daily_spend w) (aw_daily_window_start w) 86400 now),
     aw_daily_window_start := window_start_now (aw_daily_window_start w) 86400 now,
     aw_weekly_spend := of_nat (spend_in_window (aw_weekly_spend w) (aw_weekly_window_start w) 604800 now),
     aw_weekly_window_start := window_start_now (aw_weekly_window_start w) 604800 now,
     aw_monthly_spend :=
       of_nat (spend_in_window (aw_monthly_spend w) (aw_monthly_window_start w) 2592000 now),
     aw_monthly_window_start := window_start_now (aw_monthly_window_start w) 2592000 now\<rparr>"

lemma unat_spend_in_window [simp]:
  "unat (of_nat (spend_in_window x y z now) :: u64) = spend_in_window x y z now"
  by (simp add: spend_in_window_def)

lemma unat_calls_in_window [simp]:
  "unat (of_nat (calls_in_window p now) :: u32) = calls_in_window p now"
  by (simp add: calls_in_window_def)

lemma saturating_add_u32: "saturating_add a b = (of_nat (min (unat a + unat b) (2 ^ 32 - 1)) :: u32)"
proof -
  have "of_nat (unat (saturating_add a b)) = (of_nat (min (unat a + unat b) (2 ^ 32 - 1)) :: u32)"
    by (simp only: unat_saturating_add) simp
  then show ?thesis by simp
qed

lemma settle_accounting_paid:
  "settle_accounting (current_windows w now) n now = paid_wallet w (unat n) now"
  by (cases w) (simp add: settle_accounting_def current_windows_def paid_wallet_def saturating_add_u64)

lemma settled_record_paid:
  assumes "from_discriminant (spp_protocol params) = Some protocol"
    and "spp_parent_payment params = None" and "spp_memo params = None"
  shows "settled_record k sequence params payee protocol now bump
    = paid_record k sequence params payee now bump"
  using assms by (auto simp: settled_record_def paid_record_def zero_LedgerEntry_def split: if_splits)

lemma current_windows_if:
  "current_windows w now = w\<lparr>
     aw_daily_spend := (if daily.elapsed w now then 0 else aw_daily_spend w),
     aw_daily_window_start := (if daily.elapsed w now then word_of_int (window_start_at
        (sint (aw_daily_window_start w)) (sint now) (sint SECONDS_PER_DAY)) else aw_daily_window_start w),
     aw_weekly_spend := (if weekly.elapsed w now then 0 else aw_weekly_spend w),
     aw_weekly_window_start := (if weekly.elapsed w now then word_of_int (window_start_at
        (sint (aw_weekly_window_start w)) (sint now) (sint SECONDS_PER_WEEK)) else aw_weekly_window_start w),
     aw_monthly_spend := (if monthly.elapsed w now then 0 else aw_monthly_spend w),
     aw_monthly_window_start := (if monthly.elapsed w now then word_of_int (window_start_at
        (sint (aw_monthly_window_start w)) (sint now) (sint SECONDS_PER_MONTH)) else aw_monthly_window_start w)\<rparr>"
  by (simp add: current_windows_def spend_in_window_def window_start_now_def window_start_at_def
      daily.elapsed_def weekly.elapsed_def monthly.elapsed_def sint_periods)

text \<open>A settlement that gets past its guards leaves these numbers, at whatever clock.\<close>

lemma settle_guards_value:
  assumes "settle_wallet_guards w now = Inr w'"
  shows "w' = current_windows w now"
proof -
  obtain w1 w2 where r: "reset_daily_window_if_elapsed w now = Some w1"
    "reset_weekly_window_if_elapsed w1 now = Some w2" "reset_monthly_window_if_elapsed w2 now = Some w'"
    using assms by (auto simp: settle_wallet_guards_eq_Inr)
  note 1 = daily.reset_Some_value [OF r(1)]
  note 2 = weekly.reset_Some_value [OF r(2)]
  note 3 = monthly.reset_Some_value [OF r(3)]
  have "weekly.elapsed w1 now = weekly.elapsed w now" "monthly.elapsed w2 now = monthly.elapsed w now"
    by (simp_all add: 1 2 weekly.elapsed_def monthly.elapsed_def)
  then show ?thesis
    unfolding current_windows_if 3 2 1 by simp
qed

lemma settle_policy_value:
  assumes "settle_policy w p params now = Inr p'"
  shows "p' = settled_policy p (unat (spp_amount_usdc params)) now"
proof (cases "enforced p (unat (spp_amount_usdc params))")
  case True
  then obtain q where q: "reset_rate_window_if_elapsed p now = Some q"
    "p' = q\<lparr>sp_rate_limit_call_count := saturating_add (sp_rate_limit_call_count q) 1\<rparr>"
    using assms by (auto simp: settle_policy_def settle_policy_checks_eq_Inr enforce_on_chain_iff)
  then show ?thesis
    using True reset_rate_window_Some [OF q(1)]
    by (simp add: settled_policy_def calls_in_window_def rate_window_over_def word_gt_0
        saturating_add_u32 split: if_splits)
next
  case False
  with assms show ?thesis by (simp add: settle_policy_def enforce_on_chain_iff settled_policy_def)
qed

section \<open>The blocks of the handler against the checklist\<close>

text \<open>Times for which no signed operation of a settlement overflows.\<close>

definition calm_times :: "AgentWallet \<Rightarrow> SpendPolicy \<Rightarrow> i64 \<Rightarrow> bool" where
  "calm_times w p now \<longleftrightarrow> sint now < 2 ^ 62
     \<and> 0 \<le> sint (aw_daily_window_start w) \<and> sint (aw_daily_window_start w) \<le> sint now
     \<and> 0 \<le> sint (aw_weekly_window_start w) \<and> sint (aw_weekly_window_start w) \<le> sint now
     \<and> 0 \<le> sint (aw_monthly_window_start w) \<and> sint (aw_monthly_window_start w) \<le> sint now
     \<and> 0 \<le> sint (sp_rate_limit_window_start p) \<and> sint (sp_rate_limit_window_start p) \<le> sint now"

lemma settle_windows:
  assumes "calm_times w p now" and "aw_is_active w" and "\<not> aw_is_frozen w"
  shows "settle_wallet_guards w now = Inr (current_windows w now)"
proof -
  have r: "daily.in_range w now" "weekly.in_range w' now" "monthly.in_range w'' now"
    if "aw_weekly_window_start w' = aw_weekly_window_start w"
      "aw_monthly_window_start w'' = aw_monthly_window_start w" for w' w''
    using assms(1) that
    by (auto simp: calm_times_def daily.in_range_def weekly.in_range_def monthly.in_range_def
        sint_periods i64_range_def)
  show ?thesis
    unfolding settle_wallet_guards_def
    using assms(2,3)
    by (simp add: daily.reset_value weekly.reset_value monthly.reset_value r
        daily.elapsed_def weekly.elapsed_def monthly.elapsed_def sint_periods
        current_windows_def spend_in_window_def window_start_now_def window_start_at_def)
qed

lemma settle_policy_checks_spec:
  assumes "calm_times w p now"
  shows "settle_policy_checks (current_windows w now) p params now =
    checked (policy_checklist w p params now) (Inr (p\<lparr>sp_rate_limit_call_count :=
                of_nat (min (calls_in_window p now + 1) (2 ^ 32 - 1)),
             sp_rate_limit_window_start :=
               (if rate_window_over p now then now else sp_rate_limit_window_start p)\<rparr>))"
proof -
  let ?n = "spp_amount_usdc params" and ?w = "current_windows w now"
  let ?q = "if 0 < sp_rate_limit_window_secs p
         \<and> sint (sp_rate_limit_window_start p) + uint (sp_rate_limit_window_secs p) \<le> sint now
      then p\<lparr>sp_rate_limit_call_count := 0, sp_rate_limit_window_start := now\<rparr> else p"
  have "i64_range (sint (sp_rate_limit_window_start p) + uint (sp_rate_limit_window_secs p))"
    using assms uint_lt2p [of "sp_rate_limit_window_secs p"]
    by (intro i64_range_add) (simp_all add: calm_times_def)
  from reset_rate_window_value [OF this]
  have rate: "reset_rate_window_if_elapsed p now = Some ?q" .
  have c1: "within_per_call_limit p ?n \<longleftrightarrow> limit_allows (sp_per_call_limit p) (unat ?n)"
    by (simp add: within_per_call_limit_nat limit_allows_def)
  have c2: "within_daily_budget p (aw_daily_spend ?w) ?n \<longleftrightarrow> budget_allows (sp_daily_budget p)
      (spend_in_window (aw_daily_spend w) (aw_daily_window_start w) 86400 now + unat ?n)"
    by (simp add: daily_cap.within_nat budget_allows_def limit_allows_def current_windows_def) blast
  have c3: "within_weekly_budget p (aw_weekly_spend ?w) ?n \<longleftrightarrow> budget_allows (sp_weekly_budget p)
      (spend_in_window (aw_weekly_spend w) (aw_weekly_window_start w) 604800 now + unat ?n)"
    by (simp add: weekly_cap.within_nat budget_allows_def limit_allows_def current_windows_def) blast
  have c4: "within_monthly_budget p (aw_monthly_spend ?w) ?n \<longleftrightarrow> budget_allows (sp_monthly_budget p)
      (spend_in_window (aw_monthly_spend w) (aw_monthly_window_start w) 2592000 now + unat ?n)"
    by (simp add: monthly_cap.within_nat budget_allows_def limit_allows_def current_windows_def) blast
  have c5: "within_rate_limit ?q \<longleftrightarrow>
      sp_rate_limit_calls p = 0 \<or> calls_in_window p now < unat (sp_rate_limit_calls p)"
    by (simp add: within_rate_limit_nat calls_in_window_def word_gt_0)
  have lists: "sp_blocked_domain_hashes ?q = sp_blocked_domain_hashes p"
    "sp_allowed_domain_hashes ?q = sp_allowed_domain_hashes p"
    by simp_all
  have c6: "(if sp_blocked_domain_hashes p \<noteq> []
        then require (spp_domain_hash params \<notin> set (sp_blocked_domain_hashes p)) (Maxim DomainBlocked)
        else Inr ()) =
      require (spp_domain_hash params \<notin> set (sp_blocked_domain_hashes p)) (Maxim DomainBlocked)"
    by simp
  have c7: "(if sp_allowed_domain_hashes p \<noteq> []
        then require (spp_domain_hash params \<in> set (sp_allowed_domain_hashes p)) (Maxim DomainNotAllowed)
        else Inr ()) =
      require (sp_allowed_domain_hashes p = [] \<or> spp_domain_hash params \<in> set (sp_allowed_domain_hashes p))
        (Maxim DomainNotAllowed)"
    by simp
  have "?q\<lparr>sp_rate_limit_call_count := saturating_add (sp_rate_limit_call_count ?q) 1\<rparr> =
      p\<lparr>sp_rate_limit_call_count := of_nat (min (calls_in_window p now + 1) (2 ^ 32 - 1)),
        sp_rate_limit_window_start :=
          (if rate_window_over p now then now else sp_rate_limit_window_start p)\<rparr>"
    by (simp add: calls_in_window_def rate_window_over_def saturating_add_u32 word_gt_0)
  then show ?thesis
    unfolding settle_policy_checks_def policy_checklist_def Let_def c1 c2 c3 c4 rate ok_or_simps
      rbind_Inr c5 lists c6 c7 by (simp only: checklist_simps)
qed

lemma settle_policy_spec:
  assumes "calm_times w p now"
  shows "settle_policy (current_windows w now) p params now =
    checked (if enforced p (unat (spp_amount_usdc params)) then policy_checklist w p params now else [])
      (Inr (settled_policy p (unat (spp_amount_usdc params)) now))"
  by (simp add: settle_policy_def settled_policy_def settle_policy_checks_spec [OF assms] checked_Nil
      enforce_on_chain_iff)

section \<open>The handler against the specification\<close>

text \<open>What Anchor's account checks give the handler.\<close>

lemma SettlePayment_accounts_eq_Inr:
  "SettlePayment_accounts P iv ctx sequence params s =
     Inr (wallet, policy, usdc, payee, config, bump, s1) \<longleftrightarrow>
     accounts s (st_agent_wallet ctx) = Some (AgentWalletAcc wallet)
     \<and> accounts s (st_spend_policy ctx) = Some (SpendPolicyAcc policy)
     \<and> accounts s (st_usdc_token_account ctx) = Some (TokenAcc usdc)
     \<and> accounts s (st_payee_token_account ctx) = Some (TokenAcc payee)
     \<and> accounts s (st_usdc_mint ctx) = Some MintAcc
     \<and> accounts s (st_protocol_config ctx) = Some (ProtocolConfigAcc config)
     \<and> accounts s (st_payment_record ctx) = None
     \<and> find_program_address P (payment_record_seeds (st_agent_wallet ctx) sequence)
         = Some (st_payment_record ctx, bump)
     \<and> st_owner ctx \<noteq> st_payment_record ctx
     \<and> rent_due P (st_payment_record ctx) PaymentRecord_LEN s \<le> lamports s (st_owner ctx)
     \<and> st_owner ctx \<in> set (iv_signers iv) \<and> aw_owner wallet = st_owner ctx
     \<and> create_program_address P (agent_wallet_seeds (spp_agent_id params) @ [[aw_bump wallet]])
         = Some (st_agent_wallet ctx)
     \<and> create_program_address P (spend_policy_seeds (st_agent_wallet ctx) @ [[sp_bump policy]])
         = Some (st_spend_policy ctx)
     \<and> sp_agent_wallet policy = st_agent_wallet ctx
     \<and> ta_owner usdc = st_agent_wallet ctx
     \<and> st_usdc_token_account ctx =
         get_associated_token_address P (st_agent_wallet ctx) (st_usdc_mint ctx)
     \<and> create_program_address P (protocol_config_seeds @ [[pc_bump config]])
         = Some (st_protocol_config ctx)
     \<and> s1 = store (st_payment_record ctx) (PaymentRecordAcc zero_LedgerEntry)
         (pay_rent P (st_owner ctx) (st_payment_record ctx) PaymentRecord_LEN s)"
  by (auto simp: SettlePayment_accounts_def result_simps)

definition settled_chain ::
    "SettlePayment \<Rightarrow> u64 \<Rightarrow> SettlePaymentParams \<Rightarrow> i64 \<Rightarrow> AgentWallet \<Rightarrow> SpendPolicy
       \<Rightarrow> pubkey \<Rightarrow> u8 \<Rightarrow> account_map \<Rightarrow> (pubkey \<Rightarrow> nat) \<Rightarrow> event list \<Rightarrow> chain" where
  "settled_chain ctx sequence params now w p payee bump acc lam log =
     (let n = unat (spp_amount_usdc params) in
      \<lparr>accounts = acc
          (st_payment_record ctx \<mapsto> PaymentRecordAcc
             (paid_record (st_agent_wallet ctx) sequence params payee now bump),
           st_agent_wallet ctx \<mapsto> AgentWalletAcc (paid_wallet w n now),
           st_spend_policy ctx \<mapsto> SpendPolicyAcc (settled_policy p n now)),
       lamports = lam,
       event_log = log @ [PaymentSettled (st_agent_wallet ctx) sequence (spp_endpoint_hash params) payee
          (spp_amount_usdc params) (spp_protocol params) now None None]\<rparr>)"

text \<open>The transfer, and the write-back, which has no room for a memo or a parent payment.\<close>

definition settle_outcome ::
    "platform \<Rightarrow> SettlePayment \<Rightarrow> u64 \<Rightarrow> SettlePaymentParams \<Rightarrow> i64 \<Rightarrow> AgentWallet \<Rightarrow> SpendPolicy
       \<Rightarrow> pubkey \<Rightarrow> u8 \<Rightarrow> chain \<Rightarrow> program_error + chain" where
  "settle_outcome P ctx sequence params now w p payee bump s =
     (case token_transfer P (accounts s) (lamports s) (st_usdc_token_account ctx)
             (st_payee_token_account ctx) (st_agent_wallet ctx) (spp_amount_usdc params) of
        Inl e \<Rightarrow> Inl (TokenError e)
      | Inr (acc, lam) \<Rightarrow>
          if spp_parent_payment params = None \<and> spp_memo params = None
          then Inr (settled_chain ctx sequence params now w p payee bump acc lam (event_log s))
          else Inl (Anchor AccountDidNotSerialize))"

lemma settle_param_guards_spec:
  "rbind (settle_param_guards w sequence params) (\<lambda>_. r) = checked
     [(spp_amount_usdc params \<noteq> 0, ZeroPaymentAmount),
      (unat (spp_protocol params) < 2, InvalidProtocol),
      (sequence = aw_payment_sequence w, SequenceMismatch)] r"
proof -
  have "unat (spp_protocol params) < 2 \<longleftrightarrow> from_discriminant (spp_protocol params) \<noteq> None"
    using from_discriminant_eq_None [of "spp_protocol params"] by linarith
  then show ?thesis
    by (simp add: settle_param_guards_def word_gt_0 require_def checked_def del: from_discriminant.simps)
qed

lemma settle_global_cap_spec:
  "rbind (settle_global_cap config params) (\<lambda>_. r) = checked
     [(limit_allows (pc_max_single_payment_usdc config) (unat (spp_amount_usdc params)),
       GlobalPaymentCapExceeded)] r"
  by (auto simp: settle_global_cap_def limit_allows_def require_def word_gt_0 word_le_nat_alt checked_def)

lemma settle_windows_spec:
  assumes "calm_times w p now"
  shows "rbind (settle_wallet_guards w now) f =
    checked [(aw_is_active w, AgentNotActive), (\<not> aw_is_frozen w, AgentFrozen)]
      (f (current_windows w now))"
proof (cases "aw_is_active w \<and> \<not> aw_is_frozen w")
  case True
  then show ?thesis using settle_windows [OF assms] by (simp add: checked_def)
next
  case False
  then show ?thesis by (auto simp: settle_wallet_guards_def checked_def require_def)
qed

lemma checked_cong:
  "(first_failure cs = None \<Longrightarrow> r = r') \<Longrightarrow> checked cs r = checked cs r'"
  by (simp add: checked_def split: option.split)

text \<open>
  The handler is the checklist followed by the token transfer: the error it returns is that of the
  first condition that fails, and with none failing only the Token program can still refuse.
\<close>

lemma settle_payment_spec:
  assumes acc: "SettlePayment_accounts P iv ctx sequence params s
      = Inr (wallet, policy, usdc, payee, config, bump, s1)"
    and calm: "calm_times wallet policy (iv_now iv)"
    and pda: "create_program_address P (agent_wallet_seeds (aw_agent_id wallet) @ [[aw_bump wallet]])
      = Some (st_agent_wallet ctx)"
  shows "settle_payment P iv ctx sequence params s =
    checked (settle_checklist wallet policy config sequence params (iv_now iv))
      (settle_outcome P ctx sequence params (iv_now iv) wallet policy (ta_owner payee) bump s1)"
proof -
  have id: "aw_agent_id (current_windows wallet (iv_now iv)) = aw_agent_id wallet"
    "aw_bump (current_windows wallet (iv_now iv)) = aw_bump wallet"
    by (simp_all add: current_windows_def)
  have proto: "from_discriminant (spp_protocol params)
      = Some (if spp_protocol params = 0 then X402 else Mpp)" if "unat (spp_protocol params) < 2"
    using that from_discriminant_eq_None [of "spp_protocol params"]
    by (auto split: if_splits)
  show ?thesis
    unfolding settle_payment_def acc rbind_Inr prod.case Let_def settle_param_guards_spec
      settle_global_cap_spec settle_windows_spec [OF calm] settle_policy_spec [OF calm]
      rbind_checked checked_checked id settle_checklist_def append_assoc append_Cons append_Nil
  proof (rule checked_cong, goal_cases)
    case 1
    then have "unat (spp_protocol params) < 2" by (simp split: if_splits)
    then obtain protocol where protocol: "from_discriminant (spp_protocol params) = Some protocol"
      using proto by blast
    show ?case
      using pda settled_record_paid [OF protocol]
      by (simp add: invoke_signed_transfer_def agent_wallet_seeds_def protocol settle_outcome_def
          settled_chain_def settle_accounting_paid write_back_eq settled_event_def require_def Let_def
          store_def emit_def del: from_discriminant.simps split: sum.split)
  qed
qed

section \<open>Properties\<close>

lemma reachable_calm:
  assumes "transfer_sound P" and "reach genesis (world_step P) (s, t)"
    and "sint t \<le> sint now" and "sint now < 2 ^ 62"
    and "accounts s k = Some (AgentWalletAcc w)" and "accounts s j = Some (SpendPolicyAcc p)"
  shows "calm_times w p now"
    and "find_program_address P (agent_wallet_seeds (aw_agent_id w)) = Some (k, aw_bump w)"
proof -
  have ok: "accounts_ok P t (accounts s)"
    using reachable_ok [OF assms(1,2)] by (simp add: world_ok_def)
  have "wallet_ok P t k w" "policy_ok P t j p"
    using accounts_okD [OF ok assms(5)] accounts_okD [OF ok assms(6)] by simp_all
  then show "calm_times w p now"
    and "find_program_address P (agent_wallet_seeds (aw_agent_id w)) = Some (k, aw_bump w)"
    using assms(3,4) by (simp_all add: wallet_ok_def policy_ok_def calm_times_def)
qed


text \<open>C9: What a successful settlement between two different token accounts does, in full and at whatever
  clock. It needs the owner's signature, an active wallet that is not frozen, its current sequence
  number, and neither memo nor parent payment. The amount leaves the agent's token account and arrives
  in the payee's; the record states the payment; the wallet's three windows are brought up to date and
  its counters advance by the amount or by one, each stopping at the largest u64; the policy counts the
  call if the payment is enforced on chain; no other account changes, and the one event states the
  payment. The owner pays the rent of the record; no other lamports change, except that with the
  native mint those of the two token accounts move with the amount.\<close>

theorem settle_payment_effect:
  assumes sound: "transfer_sound P" and run: "settle_payment P iv ctx sequence params s = Inr s'"
    and wallet: "accounts s (st_agent_wallet ctx) = Some (AgentWalletAcc w)"
    and policy: "accounts s (st_spend_policy ctx) = Some (SpendPolicyAcc p)"
    and src: "accounts s (st_usdc_token_account ctx) = Some (TokenAcc usdc)"
    and dst: "accounts s (st_payee_token_account ctx) = Some (TokenAcc payee)"
    and distinct: "st_usdc_token_account ctx \<noteq> st_payee_token_account ctx"
  defines "n \<equiv> unat (spp_amount_usdc params)"
  shows "(aw_owner w \<in> set (iv_signers iv) \<and> aw_is_active w \<and> \<not> aw_is_frozen w
      \<and> sequence = aw_payment_sequence w \<and> ta_owner usdc = st_agent_wallet ctx
      \<and> spp_parent_payment params = None \<and> spp_memo params = None)
    \<and> (\<exists>left arrived b.
      unat left + n = unat (ta_amount usdc) \<and> unat arrived = unat (ta_amount payee) + n
      \<and> accounts s' = (accounts s)
          (st_usdc_token_account ctx \<mapsto> TokenAcc (usdc\<lparr>ta_amount := left\<rparr>),
           st_payee_token_account ctx \<mapsto> TokenAcc (payee\<lparr>ta_amount := arrived\<rparr>),
           st_payment_record ctx \<mapsto> PaymentRecordAcc
             (paid_record (st_agent_wallet ctx) sequence params (ta_owner payee) (iv_now iv) b),
           st_agent_wallet ctx \<mapsto> AgentWalletAcc (paid_wallet w n (iv_now iv)),
           st_spend_policy ctx \<mapsto> SpendPolicyAcc (settled_policy p n (iv_now iv))))
    \<and> event_log s' = event_log s @ [PaymentSettled (st_agent_wallet ctx) sequence
      (spp_endpoint_hash params) (ta_owner payee) (spp_amount_usdc params) (spp_protocol params)
      (iv_now iv) None None]
    \<and> (\<forall>k. k \<notin> {st_owner ctx, st_payment_record ctx} \<and> (ta_mint usdc = native_mint P \<longrightarrow>
        k \<notin> {st_usdc_token_account ctx, st_payee_token_account ctx}) \<longrightarrow> lamports s' k = lamports s k)
    \<and> (ta_mint usdc \<noteq> native_mint P \<longrightarrow>
      lamports s' (st_payment_record ctx)
        = max (lamports s (st_payment_record ctx)) (minimum_balance P PaymentRecord_LEN)
      \<and> lamports s' (st_owner ctx) + lamports s' (st_payment_record ctx)
        = lamports s (st_owner ctx) + lamports s (st_payment_record ctx))"
  using sound run
proof (rule settle_payment_result, goal_cases)
  case (1 wa po us pa config bump wallet' policy' protocol)
  have eq: "wa = w" "po = p" "us = usdc" "pa = payee"
    using 1(1,2,4) wallet policy src dst by (simp_all add: transfer_allowed_def)
  let ?left = "ta_amount usdc - spp_amount_usdc params" and ?arrived = "ta_amount payee + spp_amount_usdc params"
  have amounts: "unat ?left + n = unat (ta_amount usdc)" "unat ?arrived = unat (ta_amount payee) + n"
    using 1(4) distinct
    by (simp_all add: n_def transfer_allowed_def eq unat_sub word_le_nat_alt unat_word_add_lt)
  have acc: "accounts s' = (accounts s)
      (st_usdc_token_account ctx \<mapsto> TokenAcc (usdc\<lparr>ta_amount := ?left\<rparr>),
       st_payee_token_account ctx \<mapsto> TokenAcc (payee\<lparr>ta_amount := ?arrived\<rparr>),
       st_payment_record ctx \<mapsto> PaymentRecordAcc
         (paid_record (st_agent_wallet ctx) sequence params (ta_owner payee) (iv_now iv) bump),
       st_agent_wallet ctx \<mapsto> AgentWalletAcc (paid_wallet w n (iv_now iv)),
       st_spend_policy ctx \<mapsto> SpendPolicyAcc (settled_policy p n (iv_now iv)))"
    using distinct
    by (simp add: 1(19) n_def transfer_effect_def eq settled_record_paid [OF 1(15,22,23)]
        settle_policy_value [OF 1(18)] settle_guards_value [OF 1(17)] settle_accounting_paid)
  show ?case
    using 1(7-11,14,22,23) settle_wallet_guards_frame(1,2) [OF 1(17)] amounts
    by (auto simp: eq acc 1(20,21) settled_event_def pay_rent_def transfer_lamports_def
        moves_lamports_def rent_due_def)
qed

lemma demo_settle_accounts:
  "SettlePayment_accounts demo (demo_iv (demo_now + 60)) (demo_settle_ctx 0) 0 (demo_payment n) demo_ready
     = Inr (demo_wallet, demo_policy,
         \<lparr>ta_mint = demo_mint, ta_owner = demo_wallet_key, ta_amount = 30000000, ta_frozen = False\<rparr>,
         \<lparr>ta_mint = demo_mint, ta_owner = 601, ta_amount = 0, ta_frozen = False\<rparr>, demo_config, 255,
         store (demo_record_key 0) (PaymentRecordAcc zero_LedgerEntry)
           (pay_rent demo demo_owner (demo_record_key 0) PaymentRecord_LEN demo_ready))"
  unfolding SettlePayment_accounts_eq_Inr
  by (simp add: demo_find_record demo_created demo_usdc_key_def [symmetric] demo_ready_accounts
      demo_ready_lamports demo_token_def demo_rents)

lemma demo_checklist_pass:
  assumes "n \<in> {12000000, 29000000, 31000000}"
  shows "list_all fst (settle_checklist demo_wallet demo_policy demo_config 0 (demo_payment n) (demo_now + 60))"
  using assms
  by (auto simp: settle_checklist_def policy_checklist_def limit_allows_def budget_allows_def enforced_def
      spend_in_window_def calls_in_window_def zero_SpendPolicy_def Let_def)


theorem settle_payment_effect_witness:
  "\<exists>left. accounts demo_after demo_usdc_key = Some (TokenAcc \<lparr>ta_mint = demo_mint,
       ta_owner = demo_wallet_key, ta_amount = left, ta_frozen = False\<rparr>)
     \<and> unat left + 12000000 = 30000000
     \<and> accounts demo_after demo_wallet_key = Some (AgentWalletAcc (paid_wallet demo_wallet 12000000 (demo_now + 60)))"
proof -
  have acc: "accounts demo_ready demo_wallet_key = Some (AgentWalletAcc demo_wallet)"
    "accounts demo_ready demo_policy_key = Some (SpendPolicyAcc demo_policy)"
    "accounts demo_ready demo_usdc_key = Some (TokenAcc \<lparr>ta_mint = demo_mint,
       ta_owner = demo_wallet_key, ta_amount = 30000000, ta_frozen = False\<rparr>)"
    "accounts demo_ready demo_payee_ata = Some (TokenAcc \<lparr>ta_mint = demo_mint, ta_owner = 601,
       ta_amount = 0, ta_frozen = False\<rparr>)"
    by (simp_all add: demo_ready_accounts demo_token_def)
  from settle_payment_effect [OF demo_transfer_sound demo_settle_run,
      simplified demo_fields_of_run, OF acc]
  show ?thesis by auto
qed

text \<open>C22: The daily budget is a budget of each window, not of any 24 hours: for every budget there
  are two payments one second apart, each of the whole budget and each enforced on chain, that both
  pass, the first in the last second of a window and the second in the first second of the next.\<close>

theorem daily_budget_spent_twice_in_two_seconds:
  fixes t0 t1 t2 :: i64 and agent_id :: string and owner usdc :: pubkey and bump :: u8 and b :: u64
    and params :: SettlePaymentParams
  assumes "0 \<le> sint t0" and "sint t0 < 2 ^ 61"
    and "sint t1 = sint t0 + 86399" and "sint t2 = sint t0 + 86400" and "0 < b"
  defines "w \<equiv> new_agent_wallet agent_id owner usdc t0 bump"
    and "p \<equiv> zero_SpendPolicy\<lparr>sp_daily_budget := b, sp_high_value_threshold := 1,
                 sp_rate_limit_window_start := t0\<rparr>"
    and "pay \<equiv> params\<lparr>spp_amount_usdc := b\<rparr>"
  shows "enforce_on_chain p pay \<and>
    (\<exists>w1 p1 w2 p2. settle_wallet_guards w t1 = Inr w1 \<and> settle_policy w1 p pay t1 = Inr p1
       \<and> enforce_on_chain p1 pay
       \<and> settle_wallet_guards (settle_accounting w1 b t1) t2 = Inr w2
       \<and> settle_policy w2 p1 pay t2 = Inr p2)"
proof -
  let ?w = "settle_accounting (current_windows w t1) b t1"
  let ?p = "settled_policy p (unat b) t1"
  have amount: "spp_amount_usdc pay = b"
    by (simp add: pay_def)
  have calm1: "calm_times w p t1"
    using assms(1-4) by (simp add: calm_times_def w_def p_def new_agent_wallet_def)
  have start: "window_start_now t0 86400 t1 = t0" "window_start_now t0 604800 t1 = t0"
    "window_start_now t0 2592000 t1 = t0"
    using assms(3) by (simp_all add: window_start_now_def)
  have p1: "sp_rate_limit_window_start ?p = t0" "sp_daily_budget ?p = b" "sp_weekly_budget ?p = 0"
    "sp_monthly_budget ?p = 0" "sp_per_call_limit ?p = 0" "sp_rate_limit_calls ?p = 0"
    "sp_allowed_domain_hashes ?p = []" "sp_blocked_domain_hashes ?p = []"
    "sp_high_value_threshold ?p = 1"
    by (simp_all add: settled_policy_def rate_window_over_def p_def zero_SpendPolicy_def)
  have calm2: "calm_times ?w ?p t2"
    using assms(1-4)
    by (simp add: calm_times_def p1 current_windows_def start w_def new_agent_wallet_def)
  have on: "enforce_on_chain p pay" "enforce_on_chain ?p pay"
    using assms(5) by (simp_all add: enforce_on_chain_def p1)
      (simp_all add: p_def amount word_le_nat_alt word_less_nat_alt Suc_le_eq)
  have "settle_policy (current_windows w t1) p pay t1 = Inr ?p"
    unfolding settle_policy_spec [OF calm1] enforce_on_chain_iff [symmetric] using assms(3)
    by (simp add: on policy_checklist_def checked_def Let_def p_def zero_SpendPolicy_def limit_allows_def
        budget_allows_def spend_in_window_def w_def new_agent_wallet_def amount)
  moreover have "settle_policy (current_windows ?w t2) ?p pay t2 = Inr (settled_policy ?p (unat b) t2)"
    unfolding settle_policy_spec [OF calm2] enforce_on_chain_iff [symmetric] using assms(4)
    by (simp add: on policy_checklist_def checked_def Let_def p1 limit_allows_def budget_allows_def
        spend_in_window_def amount current_windows_def start w_def new_agent_wallet_def)
  moreover have "settle_wallet_guards w t1 = Inr (current_windows w t1)"
    by (rule settle_windows [OF calm1]) (simp_all add: w_def new_agent_wallet_def)
  moreover have "settle_wallet_guards ?w t2 = Inr (current_windows ?w t2)"
    by (rule settle_windows [OF calm2]) (simp_all add: w_def new_agent_wallet_def current_windows_def)
  ultimately show ?thesis using on by blast
qed

theorem daily_budget_spent_twice_in_two_seconds_witness:
  "\<exists>w1. settle_wallet_guards (new_agent_wallet ''bot-1'' demo_owner demo_usdc_key 0 255) 86399 = Inr w1"
  using daily_budget_spent_twice_in_two_seconds 
      [of 0 86399 86400 5 "demo_payment 1" "''bot-1''" demo_owner demo_usdc_key 255]
  by auto

text \<open>C10: Exactly when a payment goes through: in a reachable state, for accounts that pass Anchor's checks
  and token accounts that are not frozen by their mint, a settlement succeeds if and only if every
  condition of the checklist holds, the two token accounts have one mint, the balance covers the amount
  and the destination can hold the sum (and, if the mint is the native one, the lamports of the account
  cover it too), and the payment has neither memo nor parent, with which its record would not fit.\<close>

theorem settlement_succeeds_iff:
  assumes pda: "pda_consistent P" and sound: "transfer_sound P" and live: "transfer_live P"
    and reach: "reach genesis (world_step P) (s, t)"
    and clock: "sint t \<le> sint (iv_now iv)" "sint (iv_now iv) < 2 ^ 62"
    and acc: "SettlePayment_accounts P iv ctx sequence params s
      = Inr (wallet, policy, usdc, payee, config, bump, s1)"
    and thawed: "\<not> ta_frozen usdc" "\<not> ta_frozen payee"
  shows "(\<exists>s'. settle_payment P iv ctx sequence params s = Inr s') \<longleftrightarrow>
    list_all fst (settle_checklist wallet policy config sequence params (iv_now iv))
    \<and> ta_mint usdc = ta_mint payee \<and> spp_amount_usdc params \<le> ta_amount usdc
    \<and> (st_usdc_token_account ctx \<noteq> st_payee_token_account ctx \<longrightarrow>
         unat (ta_amount payee) + unat (spp_amount_usdc params) < 2 ^ 64
         \<and> (ta_mint usdc = native_mint P \<longrightarrow>
              unat (spp_amount_usdc params) \<le> lamports s1 (st_usdc_token_account ctx)))
    \<and> spp_memo params = None \<and> spp_parent_payment params = None"
proof -
  let ?src = "st_usdc_token_account ctx" and ?dst = "st_payee_token_account ctx"
  let ?n = "spp_amount_usdc params"
  have A: "accounts s (st_agent_wallet ctx) = Some (AgentWalletAcc wallet)"
    "accounts s (st_spend_policy ctx) = Some (SpendPolicyAcc policy)"
    "accounts s ?src = Some (TokenAcc usdc)" "accounts s ?dst = Some (TokenAcc payee)"
    "accounts s (st_payment_record ctx) = None" "ta_owner usdc = st_agent_wallet ctx"
    "accounts s1 = (accounts s)(st_payment_record ctx \<mapsto> PaymentRecordAcc zero_LedgerEntry)"
    using acc unfolding SettlePayment_accounts_eq_Inr by (auto simp only: chain_effects)
  then have acc1: "accounts s1 ?src = Some (TokenAcc usdc)" "accounts s1 ?dst = Some (TokenAcc payee)"
    by auto
  note calm = reachable_calm [OF sound reach clock A(1,2)]
  have "create_program_address P (agent_wallet_seeds (aw_agent_id wallet) @ [[aw_bump wallet]])
      = Some (st_agent_wallet ctx)"
    using pda calm(2) by (simp add: pda_consistent_def)
  note spec = settle_payment_spec [OF acc calm(1) this]
  have move: "(\<exists>r. token_transfer P (accounts s1) (lamports s1) ?src ?dst (st_agent_wallet ctx) ?n = Inr r)
      \<longleftrightarrow> transfer_allowed (accounts s1) ?src usdc ?dst payee ?n
        \<and> transfer_backed P (lamports s1) ?src usdc ?dst ?n"
  proof
    assume "\<exists>r. token_transfer P (accounts s1) (lamports s1) ?src ?dst (st_agent_wallet ctx) ?n = Inr r"
    then obtain acc' lam' where
      "token_transfer P (accounts s1) (lamports s1) ?src ?dst (st_agent_wallet ctx) ?n = Inr (acc', lam')"
      by auto
    from transfer_soundD [OF sound acc1(1) A(6) this] acc1(2)
    show "transfer_allowed (accounts s1) ?src usdc ?dst payee ?n
        \<and> transfer_backed P (lamports s1) ?src usdc ?dst ?n"
      by (auto simp: transfer_allowed_def)
  next
    assume "transfer_allowed (accounts s1) ?src usdc ?dst payee ?n
      \<and> transfer_backed P (lamports s1) ?src usdc ?dst ?n"
    with live thawed A(6)
    show "\<exists>r. token_transfer P (accounts s1) (lamports s1) ?src ?dst (st_agent_wallet ctx) ?n = Inr r"
      unfolding transfer_live_def by metis
  qed
  have "(\<exists>s'. settle_payment P iv ctx sequence params s = Inr s') \<longleftrightarrow>
      first_failure (settle_checklist wallet policy config sequence params (iv_now iv)) = None
      \<and> (\<exists>r. token_transfer P (accounts s1) (lamports s1) ?src ?dst (st_agent_wallet ctx) ?n = Inr r)
      \<and> spp_parent_payment params = None \<and> spp_memo params = None"
    unfolding spec by (auto simp: checked_def settle_outcome_def split: option.splits sum.splits)
  also have "\<dots> \<longleftrightarrow> list_all fst (settle_checklist wallet policy config sequence params (iv_now iv))
      \<and> (transfer_allowed (accounts s1) ?src usdc ?dst payee ?n
        \<and> transfer_backed P (lamports s1) ?src usdc ?dst ?n)
      \<and> spp_parent_payment params = None \<and> spp_memo params = None"
    by (simp only: first_failure_None move)
  finally show ?thesis
    using acc1 by (auto simp: transfer_allowed_def transfer_backed_def moves_lamports_def)
qed

theorem settlement_succeeds_iff_witness:
  "\<not> (\<exists>s'. settle_payment demo (demo_iv (demo_now + 60)) (demo_settle_ctx 0) 0 (demo_payment 31000000)
       demo_ready = Inr s')
   \<and> (\<exists>s'. settle_payment demo (demo_iv (demo_now + 60)) (demo_settle_ctx 0) 0 (demo_payment 29000000)
       demo_ready = Inr s')"
  using settlement_succeeds_iff [OF demo_pda_consistent demo_transfer_sound demo_transfer_live
      demo_reach_ready _ _ demo_settle_accounts] demo_checklist_pass demo_later
  by (simp add: demo_now_def)

section \<open>The rate limit\<close>

text \<open>Enforced payments one after the other, as they meet the policy.\<close>

fun enforced_run :: "SpendPolicy \<Rightarrow> (AgentWallet \<times> SettlePaymentParams \<times> i64) list
    \<Rightarrow> program_error + SpendPolicy" where
  "enforced_run p [] = Inr p"
| "enforced_run p ((w, params, now) # xs) =
     rbind (settle_policy_checks w p params now) (\<lambda>p'. enforced_run p' xs)"

text \<open>C20: A policy with a rate limit lets at most that many enforced payments through while its rate
  window is open (or ever, when the window has zero seconds): after a run of accepted payments, the
  count already used plus the length of the run is at most the limit.\<close>

theorem rate_limit_bounds_window:
  assumes "sp_rate_limit_calls p \<noteq> 0" and "enforced_run p xs = Inr p'"
    and "unat (sp_rate_limit_call_count p) \<le> unat (sp_rate_limit_calls p)"
    and "\<forall>(w, params, now) \<in> set xs. sp_rate_limit_window_secs p = 0
      \<or> sint now < sint (sp_rate_limit_window_start p) + uint (sp_rate_limit_window_secs p)"
  shows "unat (sp_rate_limit_call_count p) + length xs \<le> unat (sp_rate_limit_calls p)"
  using assms
proof (induction p xs rule: enforced_run.induct)
  case (1 p)
  then show ?case by simp
next
  case (2 p w params now xs)
  from 2(3) obtain q where q: "settle_policy_checks w p params now = Inr q" "enforced_run q xs = Inr p'"
    by (auto simp: result_simps)
  from q(1) obtain r where r: "reset_rate_window_if_elapsed p now = Some r" "within_rate_limit r"
    "q = r\<lparr>sp_rate_limit_call_count := saturating_add (sp_rate_limit_call_count r) 1\<rparr>"
    by (auto simp: settle_policy_checks_eq_Inr)
  have "r = p"
    using r(1) 2(5)
    by (auto simp: reset_rate_window_if_elapsed_def bind_eq_Some_conv i64_simps sint_ucast_u32
        split: if_splits)
  then have lt: "unat (sp_rate_limit_call_count p) < unat (sp_rate_limit_calls p)"
    using r(2) 2(2) by (simp add: within_rate_limit_nat)
  moreover have "unat (sp_rate_limit_calls p) < 2 ^ 32"
    using unsigned_less [of "sp_rate_limit_calls p"] by simp
  ultimately have "unat (sp_rate_limit_call_count q) = unat (sp_rate_limit_call_count p) + 1"
    using r(3) \<open>r = p\<close> by (simp add: unat_saturating_add)
  with 2(1) [OF _ q(2)] 2(2,5) lt r(3) \<open>r = p\<close> show ?case by simp
qed

theorem rate_limit_bounds_window_witness:
  "unat (sp_rate_limit_call_count demo_policy) + length [(demo_wallet, demo_payment 12000000, demo_now + 60)]
     \<le> unat (sp_rate_limit_calls demo_policy)"
proof (rule rate_limit_bounds_window)
  show "enforced_run demo_policy [(demo_wallet, demo_payment 12000000, demo_now + 60)]
      = Inr (demo_policy\<lparr>sp_rate_limit_call_count := 1\<rparr>)"
    using demo_policy_run by (simp add: settle_policy_def enforce_on_chain_def)
qed (simp_all add: demo_now_def)

section \<open>The guards and the wallet's own predicate\<close>

text \<open>The status checks \<open>settle_payment\<close> spells out agree with the wallet's own predicate: at times
  at which no window overflows, the wallet block of the handler succeeds exactly when
  \<open>is_operational\<close> holds.\<close>

theorem settlement_guard_is_operational:
  assumes "calm_times w p now"
  shows "(\<exists>w'. settle_wallet_guards w now = Inr w') \<longleftrightarrow> is_operational w"
  using settle_windows [OF assms] settle_wallet_guards_frame(1,2) [of w now]
  by (auto simp: is_operational_def)

theorem settlement_guard_is_operational_witness:
  "\<not> (\<exists>w'. settle_wallet_guards demo_frozen_wallet (demo_now + 60) = Inr w')"
proof -
  have "calm_times demo_frozen_wallet demo_policy (demo_now + 60)"
    by (simp add: calm_times_def demo_frozen_wallet_def demo_now_def)
  from settlement_guard_is_operational [OF this] show ?thesis
    by (simp add: is_operational_def demo_frozen_wallet_def)
qed

end
