(* ===== verification/Custody.thy ===== *)
theory Custody
  imports Settlement_Spec
begin

text \<open>
  Who can move the agents' tokens, and what is conserved: the tokens of each mint, and the lamports
  of the chain. The owner can always withdraw, whatever the flags of the wallet say.
\<close>

section \<open>Token movements\<close>

text \<open>
  The one movement an instruction may make, and the authority it needs. A withdrawal goes to a token
  account of the wallet's owner, at the owner's associated address.
\<close>

definition owned_destination :: "platform \<Rightarrow> chain \<Rightarrow> AgentWallet \<Rightarrow> pubkey \<Rightarrow> pubkey \<Rightarrow> bool" where
  "owned_destination P s w mint dst \<longleftrightarrow>
     dst = get_associated_token_address P (aw_owner w) mint
     \<and> (\<exists>td. accounts s dst = Some (TokenAcc td) \<and> ta_owner td = aw_owner w)"

definition moves ::
    "platform \<Rightarrow> chain \<Rightarrow> invocation \<Rightarrow> instruction \<Rightarrow> pubkey \<Rightarrow> TokenAccount \<Rightarrow> pubkey \<Rightarrow> u64 \<Rightarrow> bool"
  where
  "moves P s iv ix src fa dst n \<longleftrightarrow>
     (\<exists>w. accounts s (ta_owner fa) = Some (AgentWalletAcc w) \<and> aw_owner w \<in> set (iv_signers iv)
        \<and> (case ix of
             IxSettlePayment ctx sequence params \<Rightarrow>
               src = st_usdc_token_account ctx \<and> dst = st_payee_token_account ctx
               \<and> n = spp_amount_usdc params \<and> aw_is_active w \<and> \<not> aw_is_frozen w
           | IxWithdrawFunds ctx amount \<Rightarrow>
               src = wf_usdc_token_account ctx \<and> n = amount
               \<and> dst = wf_owner_token_account ctx \<and> owned_destination P s w (wf_usdc_mint ctx) dst
           | IxWithdrawAll ctx \<Rightarrow>
               src = wf_usdc_token_account ctx \<and> n = ta_amount fa
               \<and> dst = wf_owner_token_account ctx \<and> owned_destination P s w (wf_usdc_mint ctx) dst
           | _ \<Rightarrow> False))"

definition tokens_kept :: "account_map \<Rightarrow> account_map \<Rightarrow> bool" where
  "tokens_kept acc acc' \<longleftrightarrow> (\<forall>a t. acc a = Some (TokenAcc t) \<longrightarrow> acc' a = Some (TokenAcc t))"

definition tokens_moved ::
    "account_map \<Rightarrow> account_map \<Rightarrow> pubkey \<Rightarrow> TokenAccount \<Rightarrow> pubkey \<Rightarrow> TokenAccount \<Rightarrow> u64 \<Rightarrow> bool" where
  "tokens_moved acc acc' src fa dst ta n \<longleftrightarrow>
     transfer_allowed acc src fa dst ta n
     \<and> (\<forall>a t. acc a = Some (TokenAcc t) \<longrightarrow> acc' a = transfer_effect acc src fa dst ta n a)"

lemma withdraw_moves:
  assumes "transfer_sound P" and "accounts s src = Some (TokenAcc fa)" and "ta_owner fa = authority"
    and "token_transfer P (accounts s) lam src dst authority n = Inr (acc, lam')"
  shows "\<exists>ta. tokens_moved (accounts s) acc src fa dst ta n"
  using transfer_soundD [OF assms] unfolding tokens_moved_def by metis

lemma process_tokens:
  assumes sound: "transfer_sound P" and run: "process P iv ix s = Inr s'"
  shows "tokens_kept (accounts s) (accounts s')
    \<or> (\<exists>src fa dst ta n. moves P s iv ix src fa dst n
         \<and> tokens_moved (accounts s) (accounts s') src fa dst ta n)"
proof (cases ix)
  case (IxSettlePayment ctx sequence params)
  then have "settle_payment P iv ctx sequence params s = Inr s'" using run by simp
  with sound show ?thesis
  proof (rule settle_payment_result, goal_cases)
    case (1 wallet policy usdc payee config bump wallet' policy' protocol)
    have "accounts s' a = transfer_effect (accounts s) (st_usdc_token_account ctx) usdc
        (st_payee_token_account ctx) payee (spp_amount_usdc params) a"
      if "accounts s a = Some (TokenAcc t)" for a t
      using that 1(1-3) by (auto simp: 1(19))
    then have "tokens_moved (accounts s) (accounts s') (st_usdc_token_account ctx) usdc
        (st_payee_token_account ctx) payee (spp_amount_usdc params)"
      using 1(4) by (simp add: tokens_moved_def)
    moreover have "moves P s iv ix (st_usdc_token_account ctx) usdc (st_payee_token_account ctx)
        (spp_amount_usdc params)"
      using 1(1,9,10,11) settle_wallet_guards_frame(1,2) [OF 1(17)] IxSettlePayment
      by (simp add: moves_def)
    ultimately show ?case by blast
  qed
next
  case (IxWithdrawFunds ctx amount)
  with run obtain wallet usdc dest acc lam where w: "accounts s (wf_agent_wallet ctx) = Some (AgentWalletAcc wallet)"
    "aw_owner wallet \<in> set (iv_signers iv)"
    "accounts s (wf_usdc_token_account ctx) = Some (TokenAcc usdc)" "ta_owner usdc = wf_agent_wallet ctx"
    "wf_owner_token_account ctx = get_associated_token_address P (aw_owner wallet) (wf_usdc_mint ctx)"
    "token_transfer P (accounts s) (lamports s) (wf_usdc_token_account ctx) (wf_owner_token_account ctx)
            (wf_agent_wallet ctx) amount = Inr (acc, lam)" "accounts s' = acc"
    "accounts s (wf_owner_token_account ctx) = Some (TokenAcc dest)" "ta_owner dest = aw_owner wallet"
    by (auto simp: withdraw_funds_eq_Inr)
  have "moves P s iv ix (wf_usdc_token_account ctx) usdc (wf_owner_token_account ctx) amount"
    using w IxWithdrawFunds by (simp add: moves_def owned_destination_def)
  with withdraw_moves [OF sound w(3,4,6)] w(7) show ?thesis by blast
next
  case (IxWithdrawAll ctx)
  with run obtain wallet usdc dest acc lam where w: "accounts s (wf_agent_wallet ctx) = Some (AgentWalletAcc wallet)"
    "aw_owner wallet \<in> set (iv_signers iv)"
    "accounts s (wf_usdc_token_account ctx) = Some (TokenAcc usdc)" "ta_owner usdc = wf_agent_wallet ctx"
    "wf_owner_token_account ctx = get_associated_token_address P (aw_owner wallet) (wf_usdc_mint ctx)"
    "token_transfer P (accounts s) (lamports s) (wf_usdc_token_account ctx) (wf_owner_token_account ctx)
            (wf_agent_wallet ctx) (ta_amount usdc) = Inr (acc, lam)" "accounts s' = acc"
    "accounts s (wf_owner_token_account ctx) = Some (TokenAcc dest)" "ta_owner dest = aw_owner wallet"
    by (auto simp: withdraw_all_eq_Inr)
  have "moves P s iv ix (wf_usdc_token_account ctx) usdc (wf_owner_token_account ctx) (ta_amount usdc)"
    using w IxWithdrawAll by (simp add: moves_def owned_destination_def)
  with withdraw_moves [OF sound w(3,4,6)] w(7) show ?thesis by blast
qed (rule disjI1, use run in \<open>auto simp: ix_simps tokens_kept_def split: if_splits\<close>)

lemma token_account_step:
  assumes "transfer_sound P" and "process P iv ix s = Inr s'"
    and "accounts s a = Some (TokenAcc t)"
  shows "\<exists>t'. accounts s' a = Some (TokenAcc t')
    \<and> ta_mint t' = ta_mint t \<and> ta_owner t' = ta_owner t \<and> ta_frozen t' = ta_frozen t
    \<and> (ta_amount t' < ta_amount t \<longrightarrow>
        (\<exists>dst n d d'. moves P s iv ix a t dst n \<and> unat (ta_amount t') + unat n = unat (ta_amount t)
           \<and> dst \<noteq> a \<and> accounts s dst = Some (TokenAcc d) \<and> accounts s' dst = Some (TokenAcc d')
           \<and> unat (ta_amount d') = unat (ta_amount d) + unat n))"
proof -
  consider "accounts s' a = Some (TokenAcc t)"
    | src fa dst ta n where "moves P s iv ix src fa dst n"
        "tokens_moved (accounts s) (accounts s') src fa dst ta n"
    using process_tokens [OF assms(1,2)] assms(3) unfolding tokens_kept_def by blast
  then show ?thesis
  proof cases
    case 1
    then show ?thesis by simp
  next
    case (2 src fa dst ta n)
    have allowed: "transfer_allowed (accounts s) src fa dst ta n"
      and acc: "accounts s' a = transfer_effect (accounts s) src fa dst ta n a"
      using 2(2) assms(3) by (simp_all add: tokens_moved_def)
    have le: "unat n \<le> unat (ta_amount fa)"
      using allowed by (simp add: transfer_allowed_def word_le_nat_alt)
    show ?thesis
    proof (cases "src = dst \<or> a \<notin> {src, dst}")
      case True
      then show ?thesis using acc assms(3) by (auto simp: transfer_effect_def)
    next
      case False
      then consider "a = src" "src \<noteq> dst" | "a = dst" "src \<noteq> dst" by blast
      then show ?thesis
      proof cases
        case 1
        have t: "t = fa" using allowed assms(3) 1 by (simp add: transfer_allowed_def)
        have "accounts s' a = Some (TokenAcc (fa\<lparr>ta_amount := ta_amount fa - n\<rparr>))"
          using acc 1 by (simp add: transfer_effect_def)
        moreover have "unat (ta_amount fa - n) + unat n = unat (ta_amount fa)"
          using le by (simp add: unat_sub word_le_nat_alt)
        moreover have "accounts s dst = Some (TokenAcc ta)"
          using allowed by (simp add: transfer_allowed_def)
        moreover from this have "accounts s' dst = Some (TokenAcc (ta\<lparr>ta_amount := ta_amount ta + n\<rparr>))"
          using 2(2) 1 by (simp add: tokens_moved_def transfer_effect_def)
        moreover have "unat (ta_amount ta + n) = unat (ta_amount ta) + unat n"
          using allowed 1(2) by (simp add: transfer_allowed_def unat_word_add_lt)
        moreover have "dst \<noteq> src" using 1(2) by simp
        ultimately show ?thesis using 2(1) 1(1) t
          by (intro exI [of _ "fa\<lparr>ta_amount := ta_amount fa - n\<rparr>"] conjI impI exI [of _ dst] exI [of _ n]
              exI [of _ ta] exI [of _ "ta\<lparr>ta_amount := ta_amount ta + n\<rparr>"]) simp_all
      next
        case 2
        have t: "t = ta" using allowed assms(3) 2 by (simp add: transfer_allowed_def)
        have "unat (ta_amount ta + n) = unat (ta_amount ta) + unat n"
          using allowed 2(2) by (simp add: transfer_allowed_def unat_word_add_lt)
        then have "\<not> ta_amount ta + n < ta_amount ta" by (simp add: word_less_nat_alt)
        then show ?thesis using acc 2 t by (simp add: transfer_effect_def)
      qed
    qed
  qed
qed

text \<open>
  So on the whole chain, where other programs act too, the balance of a token account under an
  authority of this program falls only in such an instruction.
\<close>

lemma balance_falls_by_instruction:
  assumes "transfer_sound P" and "world_step P (s, t) (s', t')"
    and "accounts s a = Some (TokenAcc tok)" and "program_authority P (ta_owner tok)"
  shows "\<exists>tok'. accounts s' a = Some (TokenAcc tok')
    \<and> ta_mint tok' = ta_mint tok \<and> ta_owner tok' = ta_owner tok
    \<and> (ta_amount tok' < ta_amount tok \<longrightarrow>
        (\<exists>iv ix dst n. process P iv ix s = Inr s' \<and> moves P s iv ix a tok dst n))"
  using assms(2)
proof cases
  case (instruction iv ix)
  then show ?thesis
    using token_account_step [OF assms(1) instruction(2) assms(3)] by blast
next
  case external
  then show ?thesis
    using assms(3,4) unfolding external_change_def by (metis not_less)
qed

text \<open>C2: Tokens leave an account only with the signature of the registered owner of the agent wallet
  that has authority over it, by the amount the instruction names, and all of that amount arrives in
  the instruction's destination: in a settlement, if the wallet is active and not frozen, the payee's
  account; otherwise, in a withdrawal, a token account that belongs to the wallet's owner and is at the
  owner's associated address. Nothing else about a token account ever changes.\<close>

theorem tokens_leave_only_by_owner:
  assumes "transfer_sound P" and "process P iv ix s = Inr s'"
    and "accounts s a = Some (TokenAcc t)"
  shows "\<exists>t'. accounts s' a = Some (TokenAcc t')
    \<and> ta_mint t' = ta_mint t \<and> ta_owner t' = ta_owner t \<and> ta_frozen t' = ta_frozen t
    \<and> (ta_amount t' < ta_amount t \<longrightarrow>
        (\<exists>dst n d d'. moves P s iv ix a t dst n \<and> unat (ta_amount t') + unat n = unat (ta_amount t)
           \<and> dst \<noteq> a \<and> accounts s dst = Some (TokenAcc d) \<and> accounts s' dst = Some (TokenAcc d')
           \<and> unat (ta_amount d') = unat (ta_amount d) + unat n))"
  by (rule token_account_step [OF assms])

lemma demo_settle_process:
  "process demo (demo_iv (demo_now + 60)) (IxSettlePayment (demo_settle_ctx 0) 0 (demo_payment 12000000))
     demo_ready = Inr demo_after"
  by (simp add: demo_settle_run)

theorem tokens_leave_only_by_owner_witness:
  "\<exists>t' d'. accounts demo_after demo_usdc_key = Some (TokenAcc t') \<and> ta_owner t' = demo_wallet_key
     \<and> accounts demo_after demo_payee_ata = Some (TokenAcc d') \<and> unat (ta_amount t') < 30000000
     \<and> unat (ta_amount d') = 12000000"
proof -
  have "accounts demo_ready demo_usdc_key = Some (TokenAcc \<lparr>ta_mint = demo_mint,
      ta_owner = demo_wallet_key, ta_amount = 30000000, ta_frozen = False\<rparr>)"
    by (simp add: demo_ready_accounts demo_token_def)
  from tokens_leave_only_by_owner [OF demo_transfer_sound demo_settle_process this] show ?thesis
    by (auto simp: demo_after_accounts demo_ready_accounts demo_token_def moves_def)
qed

section \<open>Conservation\<close>

definition token_units :: "pubkey \<Rightarrow> account option \<Rightarrow> nat" where
  "token_units m a =
     (case a of Some (TokenAcc t) \<Rightarrow> if ta_mint t = m then unat (ta_amount t) else 0 | _ \<Rightarrow> 0)"

definition token_supply :: "pubkey \<Rightarrow> account_map \<Rightarrow> nat" where
  "token_supply m acc = (\<Sum>k \<in> UNIV. token_units m (acc k))"

lemma token_units_simps [simp]:
  "token_units m None = 0"
  "token_units m (Some (TokenAcc t)) = (if ta_mint t = m then unat (ta_amount t) else 0)"
  "token_units m (Some (AgentWalletAcc w)) = 0" "token_units m (Some (SpendPolicyAcc p)) = 0"
  "token_units m (Some (PaymentRecordAcc r)) = 0" "token_units m (Some (ProtocolConfigAcc c)) = 0"
  by (simp_all add: token_units_def)

text \<open>Writing an account that holds as many tokens as the old one does not change the supply.\<close>

lemma token_supply_upd:
  assumes "token_units m x = token_units m (acc k)"
  shows "token_supply m (acc(k := x)) = token_supply m acc"
  unfolding token_supply_def using assms by (intro sum.cong) auto

lemma token_supply_transfer:
  assumes "transfer_allowed acc src fa dst ta n"
  shows "token_supply m (transfer_effect acc src fa dst ta n) = token_supply m acc"
proof (cases "src = dst")
  case False
  have le: "unat n \<le> unat (ta_amount fa)" and mint: "ta_mint fa = ta_mint ta"
    using assms by (simp_all add: transfer_allowed_def word_le_nat_alt)
  have amounts: "unat (ta_amount fa - n) + unat (ta_amount ta + n) = unat (ta_amount fa) + unat (ta_amount ta)"
    using assms False le by (simp add: transfer_allowed_def unat_word_add_lt unat_sub word_le_nat_alt)
  have "token_units m \<circ> transfer_effect acc src fa dst ta n = (token_units m \<circ> acc)
      (src := token_units m (Some (TokenAcc (fa\<lparr>ta_amount := ta_amount fa - n\<rparr>))),
       dst := token_units m (Some (TokenAcc (ta\<lparr>ta_amount := ta_amount ta + n\<rparr>))))"
    using False by (auto simp: transfer_effect_def fun_eq_iff)
  moreover have "token_units m (Some (TokenAcc (fa\<lparr>ta_amount := ta_amount fa - n\<rparr>)))
      + token_units m (Some (TokenAcc (ta\<lparr>ta_amount := ta_amount ta + n\<rparr>)))
      = (token_units m \<circ> acc) src + (token_units m \<circ> acc) dst"
    using assms amounts mint by (simp add: transfer_allowed_def)
  ultimately have "sum (token_units m \<circ> transfer_effect acc src fa dst ta n) UNIV
      = sum (token_units m \<circ> acc) UNIV"
    using total_fun_upd2 [OF False] by simp
  then show ?thesis by (simp add: token_supply_def)
qed (simp add: transfer_effect_def)

lemma settle_token_supply:
  assumes "transfer_sound P" and "settle_payment P iv ctx sequence params s = Inr s'"
  shows "token_supply m (accounts s') = token_supply m (accounts s)"
  using assms
proof (rule settle_payment_result, goal_cases)
  case (1 wallet policy usdc payee config bump wallet' policy' protocol)
  let ?acc = "transfer_effect (accounts s) (st_usdc_token_account ctx) usdc
    (st_payee_token_account ctx) payee (spp_amount_usdc params)"
  have keep: "?acc (st_payment_record ctx) = None" "?acc (st_agent_wallet ctx) = Some (AgentWalletAcc wallet)"
    "?acc (st_spend_policy ctx) = Some (SpendPolicyAcc policy)"
    using transfer_effect_other [OF 1(4)] 1(1-3) by simp_all
  show ?case
    unfolding 1(19) using keep
    by (simp add: token_supply_upd token_supply_transfer [OF 1(4)])
qed

lemma transfer_token_supply:
  assumes "transfer_sound P" and "acc src = Some (TokenAcc fa)" and "ta_owner fa = authority"
    and "token_transfer P acc lam src dst authority n = Inr (acc', lam')"
  shows "token_supply m acc' = token_supply m acc"
  using transfer_soundD [OF assms] token_supply_transfer by metis

text \<open>The lamports a registration finds at the address of its token account and wraps.\<close>

definition wrapped_by :: "platform \<Rightarrow> instruction \<Rightarrow> chain \<Rightarrow> pubkey \<Rightarrow> nat" where
  "wrapped_by P ix s mint =
     (case ix of
        IxRegisterAgent ctx agent_id \<Rightarrow>
          if rg_usdc_mint ctx = mint \<and> mint = native_mint P
          then unat (of_nat (lamports s (rg_usdc_token_account ctx)
                  - minimum_balance P token_account_space) :: u64)
          else 0
      | _ \<Rightarrow> 0)"

lemma token_supply_created:
  assumes "acc k = None"
  shows "token_supply m (acc(k \<mapsto> TokenAcc t)) = token_supply m acc + token_units m (Some (TokenAcc t))"
proof -
  have "(\<Sum>j\<in>UNIV. token_units m ((acc(k \<mapsto> TokenAcc t)) j))
      = (\<Sum>j\<in>UNIV. token_units m (acc j) + (if j = k then token_units m (Some (TokenAcc t)) else 0))"
    using assms by (intro sum.cong) auto
  then show ?thesis by (simp add: token_supply_def sum.distrib)
qed

lemma register_token_supply:
  assumes "register_agent P iv ctx agent_id s = Inr s'"
  shows "token_supply m (accounts s') = token_supply m (accounts s) + wrapped_by P (IxRegisterAgent ctx agent_id) s m"
proof -
  from assms obtain w t where acc: "accounts s' = (accounts s)
      (rg_agent_wallet ctx \<mapsto> AgentWalletAcc w, rg_usdc_token_account ctx \<mapsto> TokenAcc t)"
    and t: "ta_mint t = rg_usdc_mint ctx" "ta_amount t
        = initial_amount P (rg_usdc_mint ctx) (rg_usdc_token_account ctx) (lamports s)"
    and none: "accounts s (rg_agent_wallet ctx) = None" "accounts s (rg_usdc_token_account ctx) = None"
      "rg_usdc_token_account ctx \<noteq> rg_agent_wallet ctx"
    by (rule register_result) auto
  have "token_supply m (accounts s') = token_supply m ((accounts s)(rg_agent_wallet ctx \<mapsto> AgentWalletAcc w))
      + token_units m (Some (TokenAcc t))"
    unfolding acc using none by (intro token_supply_created) simp
  also have "token_supply m ((accounts s)(rg_agent_wallet ctx \<mapsto> AgentWalletAcc w)) = token_supply m (accounts s)"
    using none by (intro token_supply_upd) simp
  finally show ?thesis
    by (simp add: t wrapped_by_def initial_amount_def)
qed

text \<open>C15: No instruction creates or destroys tokens: for every mint, the sum of the balances of all
  token accounts is the same before and after. The one exception is of the chain's making: if an
  agent is registered with the native mint, its token account wraps the lamports, beyond the rent, that
  somebody had sent to its address before.\<close>

theorem token_supply_conserved:
  assumes "transfer_sound P" and "process P iv ix s = Inr s'"
  shows "token_supply mint (accounts s') = token_supply mint (accounts s) + wrapped_by P ix s mint"
proof (cases ix)
  case (IxSettlePayment ctx sequence params)
  with assms show ?thesis by (auto simp: wrapped_by_def intro: settle_token_supply)
next
  case (IxRegisterAgent ctx agent_id)
  with assms show ?thesis by (auto intro: register_token_supply)
next
  case (IxWithdrawFunds ctx amount)
  with assms(2) show ?thesis by (auto simp: ix_simps wrapped_by_def intro: transfer_token_supply [OF assms(1)])
next
  case (IxWithdrawAll ctx)
  with assms(2) show ?thesis by (auto simp: ix_simps wrapped_by_def intro: transfer_token_supply [OF assms(1)])
qed (use assms(2) in \<open>auto simp: ix_simps wrapped_by_def token_supply_upd\<close>)

theorem token_supply_conserved_witness:
  "token_supply demo_mint (accounts demo_after) = token_supply demo_mint (accounts demo_ready)"
  using token_supply_conserved [OF demo_transfer_sound demo_settle_process] by (simp add: wrapped_by_def)

text \<open>C16: No instruction creates or destroys lamports: rent deposits, the refunds of \<open>close_agent\<close> and the
  lamports behind tokens of the native mint move between accounts, and the total of the chain stays
  the same.\<close>

theorem lamports_conserved:
  assumes sound: "transfer_sound P" and run: "process P iv ix s = Inr s'"
  shows "total_lamports s' = total_lamports s"
proof -
  have close: "total_lamports (close_account k' d (close_account k d s)) = total_lamports s"
    if "k \<noteq> d" "k' \<noteq> d" for k k' d
    using that by (simp add: total_lamports_close)
  have transfer: "sum lam UNIV = sum (lamports s) UNIV"
    if "accounts s src = Some (TokenAcc fa)" "ta_owner fa = authority"
      "token_transfer P (accounts s) (lamports s) src dst authority n = Inr (acc, lam)"
    for src fa authority dst n acc lam
    using transfer_soundD [OF sound that] total_lamports_transfer by metis
  show ?thesis
  proof (cases ix)
    case (IxSettlePayment ctx sequence params)
    then have "settle_payment P iv ctx sequence params s = Inr s'" using run by simp
    with sound show ?thesis
    proof (rule settle_payment_result, goal_cases)
      case (1 wallet policy usdc payee config bump wallet' policy' protocol)
      show ?case
        using total_lamports_pay_rent [OF 1(7,8)]
        by (simp add: total_lamports_def 1(20) total_lamports_transfer [OF 1(24)])
    qed
  next
    case (IxWithdrawFunds ctx amount)
    with run show ?thesis by (auto simp: ix_simps total_lamports_def intro: transfer)
  next
    case (IxWithdrawAll ctx)
    with run show ?thesis by (auto simp: ix_simps total_lamports_def intro: transfer)
  qed (use run in \<open>auto simp: ix_simps total_lamports_pay_rent close\<close>)
qed

theorem lamports_conserved_witness: "total_lamports demo_after = total_lamports demo_ready"
  by (rule lamports_conserved [OF demo_transfer_sound demo_settle_process])

section \<open>Withdrawal\<close>

text \<open>C14: The owner can always withdraw: in every reachable state, whatever the wallet's active and
  frozen flags are, \<open>withdraw_funds\<close> signed by the registered owner for a positive amount within the
  balance succeeds and moves exactly that amount to the owner's associated token account, provided
  the Token program itself has frozen neither account and the destination can hold the sum (and, for
  the native mint, that the lamports the tokens stand for are there).\<close>

theorem owner_can_always_withdraw:
  assumes pda: "pda_consistent P" and sound: "transfer_sound P" and live: "transfer_live P"
    and reach: "reach genesis (world_step P) (s, t)"
    and w: "accounts s (wf_agent_wallet ctx) = Some (AgentWalletAcc w)"
    and signed: "aw_owner w = wf_owner ctx" "wf_owner ctx \<in> set (iv_signers iv)"
    and src: "accounts s (wf_usdc_token_account ctx) = Some (TokenAcc usdc)"
      "ta_owner usdc = wf_agent_wallet ctx" "ta_mint usdc = wf_usdc_mint ctx" "\<not> ta_frozen usdc"
      "wf_usdc_token_account ctx =
         get_associated_token_address P (wf_agent_wallet ctx) (wf_usdc_mint ctx)"
    and dst: "accounts s (wf_owner_token_account ctx) = Some (TokenAcc dest)"
      "ta_owner dest = wf_owner ctx" "ta_mint dest = wf_usdc_mint ctx" "\<not> ta_frozen dest"
      "wf_owner_token_account ctx = get_associated_token_address P (wf_owner ctx) (wf_usdc_mint ctx)"
    and mint: "accounts s (wf_usdc_mint ctx) = Some MintAcc"
    and amount: "0 < amount" "amount \<le> ta_amount usdc"
      "unat (ta_amount dest) + unat amount < 2 ^ 64"
    and backed: "wf_usdc_mint ctx = native_mint P \<Longrightarrow> unat amount \<le> lamports s (wf_usdc_token_account ctx)"
    and distinct: "wf_usdc_token_account ctx \<noteq> wf_owner_token_account ctx"
  shows "\<exists>s' usdc' dest'. process P iv (IxWithdrawFunds ctx amount) s = Inr s'
    \<and> accounts s' (wf_usdc_token_account ctx) = Some (TokenAcc usdc')
    \<and> accounts s' (wf_owner_token_account ctx) = Some (TokenAcc dest')
    \<and> unat (ta_amount usdc') = unat (ta_amount usdc) - unat amount
    \<and> unat (ta_amount dest') = unat (ta_amount dest) + unat amount
    \<and> (\<forall>k. k \<notin> {wf_usdc_token_account ctx, wf_owner_token_account ctx} \<longrightarrow>
          accounts s' k = accounts s k)
    \<and> event_log s' = event_log s @
        [FundsWithdrawn (wf_agent_wallet ctx) (wf_owner ctx) amount (iv_now iv)]"
proof -
  have allowed: "transfer_allowed (accounts s) (wf_usdc_token_account ctx) usdc
      (wf_owner_token_account ctx) dest amount"
    using src dst amount by (simp add: transfer_allowed_def)
  moreover have "transfer_backed P (lamports s) (wf_usdc_token_account ctx) usdc
      (wf_owner_token_account ctx) amount"
    using src(3) backed by (simp add: transfer_backed_def moves_lamports_def)
  ultimately obtain acc lam where acc: "token_transfer P (accounts s) (lamports s) (wf_usdc_token_account ctx)
      (wf_owner_token_account ctx) (wf_agent_wallet ctx) amount = Inr (acc, lam)"
    using live src dst unfolding transfer_live_def by metis
  from transfer_soundD [OF sound src(1,2) acc] allowed dst(1)
  have eff: "acc = transfer_effect (accounts s) (wf_usdc_token_account ctx) usdc
      (wf_owner_token_account ctx) dest amount"
    unfolding transfer_allowed_def by (metis account.inject(5) option.inject)
  have "accounts_ok P t (accounts s)"
    using reachable_ok [OF sound reach] by (simp add: world_ok_def)
  from accounts_okD [OF this w] have "find_program_address P (agent_wallet_seeds (aw_agent_id w))
      = Some (wf_agent_wallet ctx, aw_bump w)"
    by (simp add: wallet_ok_def)
  then have create: "create_program_address P [str_bytes ''agent_wallet'', str_bytes (aw_agent_id w),
      [aw_bump w]] = Some (wf_agent_wallet ctx)"
    using pda by (fastforce simp: pda_consistent_def agent_wallet_seeds_def)
  have "process P iv (IxWithdrawFunds ctx amount) s = Inr (emit (FundsWithdrawn (wf_agent_wallet ctx)
      (wf_owner ctx) amount (iv_now iv)) (s\<lparr>accounts := acc, lamports := lam\<rparr>))"
    unfolding process.simps withdraw_funds_eq_Inr using w src dst mint signed amount acc create by blast
  moreover obtain fa ta where "acc (wf_usdc_token_account ctx) = Some (TokenAcc fa)"
    "acc (wf_owner_token_account ctx) = Some (TokenAcc ta)"
    "unat (ta_amount fa) = unat (ta_amount usdc) - unat amount"
    "unat (ta_amount ta) = unat (ta_amount dest) + unat amount"
    by (rule transfer_effect_amounts [OF allowed distinct eff])
  moreover have "acc k = accounts s k"
    if "k \<notin> {wf_usdc_token_account ctx, wf_owner_token_account ctx}" for k
    using that by (simp add: eff transfer_effect_def)
  ultimately show ?thesis by (intro exI conjI) (assumption | simp)+
qed

theorem owner_can_always_withdraw_witness:
  "aw_is_frozen demo_frozen_wallet
     \<and> (\<exists>s'. process demo (demo_iv (demo_now + 60)) (IxWithdrawFunds demo_withdraw_ctx 5000000)
          demo_frozen = Inr s')"
proof -
  have acc: "accounts demo_frozen demo_wallet_key = Some (AgentWalletAcc demo_frozen_wallet)"
    "accounts demo_frozen demo_usdc_key = Some (TokenAcc \<lparr>ta_mint = demo_mint,
       ta_owner = demo_wallet_key, ta_amount = 18000000, ta_frozen = False\<rparr>)"
    "accounts demo_frozen demo_home = Some (TokenAcc \<lparr>ta_mint = demo_mint,
       ta_owner = demo_owner, ta_amount = 0, ta_frozen = False\<rparr>)"
    "accounts demo_frozen demo_mint = Some MintAcc"
    by (simp_all add: demo_frozen_accounts demo_after_accounts demo_ready_accounts demo_token_def)
  have frozen: "aw_is_frozen demo_frozen_wallet" "aw_owner demo_frozen_wallet = demo_owner"
    by (simp_all add: demo_frozen_wallet_def)
  from owner_can_always_withdraw [OF demo_pda_consistent demo_transfer_sound demo_transfer_live
      demo_reach_frozen, of demo_withdraw_ctx demo_frozen_wallet "demo_iv (demo_now + 60)"
      "\<lparr>ta_mint = demo_mint, ta_owner = demo_wallet_key, ta_amount = 18000000, ta_frozen = False\<rparr>"
      "\<lparr>ta_mint = demo_mint, ta_owner = demo_owner, ta_amount = 0, ta_frozen = False\<rparr>" 5000000]
  show ?thesis
    using acc frozen
    by (auto simp: demo_withdraw_ctx_def demo_usdc_key_def [symmetric] demo_home_def [symmetric])
qed

section \<open>A payment to oneself\<close>

text \<open>C28: The payee's token account may be the agent's own: such a settlement moves no token at all,
  yet it writes a passed record for the amount, with the wallet itself as payee, and counts the
  amount in the wallet's volume.\<close>

theorem self_payment_moves_nothing:
  assumes "transfer_sound P" and "settle_payment P iv ctx sequence params s = Inr s'"
    and self: "st_payee_token_account ctx = st_usdc_token_account ctx"
    and wallet: "accounts s (st_agent_wallet ctx) = Some (AgentWalletAcc w)"
  shows "(\<forall>a t. accounts s a = Some (TokenAcc t) \<longrightarrow> accounts s' a = Some (TokenAcc t))
    \<and> (\<exists>r w'. accounts s' (st_payment_record ctx) = Some (PaymentRecordAcc r) \<and> pr_policy_passed r
         \<and> pr_amount_usdc r = spp_amount_usdc params \<and> pr_payee r = st_agent_wallet ctx
         \<and> accounts s' (st_agent_wallet ctx) = Some (AgentWalletAcc w')
         \<and> unat (aw_total_volume w') = u64_cap (unat (aw_total_volume w) + unat (spp_amount_usdc params)))"
  using assms(1,2)
proof (rule settle_payment_result, goal_cases)
  case (1 wa policy usdc payee config bump wallet' policy' protocol)
  have eq: "wa = w" "payee = usdc"
    using 1(1,4) wallet self by (auto simp: transfer_allowed_def)
  have neq: "st_payment_record ctx \<noteq> st_agent_wallet ctx" "st_payment_record ctx \<noteq> st_spend_policy ctx"
    "st_agent_wallet ctx \<noteq> st_spend_policy ctx"
    using 1(1-3) by auto
  have "accounts s' a = Some (TokenAcc t)" if "accounts s a = Some (TokenAcc t)" for a t
    using that 1(1-3) self by (auto simp: 1(19) transfer_effect_def)
  moreover have "accounts s' (st_payment_record ctx) = Some (PaymentRecordAcc (settled_record
      (st_agent_wallet ctx) sequence params (st_agent_wallet ctx) protocol (iv_now iv) bump))"
    using neq 1(11) by (simp add: 1(19) eq)
  moreover have "accounts s' (st_agent_wallet ctx) = Some (AgentWalletAcc
      (settle_accounting wallet' (spp_amount_usdc params) (iv_now iv)))"
    using neq by (simp add: 1(19))
  ultimately show ?case
    using settle_wallet_guards_frame(8) [OF 1(17)] by (simp add: eq unat_saturating_add_u64)
qed

definition demo_self_ctx :: SettlePayment where
  "demo_self_ctx = (demo_settle_ctx 0)\<lparr>st_payee_token_account := demo_usdc_key\<rparr>"

lemma demo_self_fields [simp]:
  "st_payment_record demo_self_ctx = demo_record_key 0" "st_agent_wallet demo_self_ctx = demo_wallet_key"
  "st_spend_policy demo_self_ctx = demo_policy_key" "st_usdc_token_account demo_self_ctx = demo_usdc_key"
  "st_payee_token_account demo_self_ctx = demo_usdc_key" "st_usdc_mint demo_self_ctx = demo_mint"
  "st_owner demo_self_ctx = demo_owner" "st_protocol_config demo_self_ctx = demo_config_key"
  by (simp_all add: demo_self_ctx_def)

lemma demo_self_run:
  "\<exists>s'. settle_payment demo (demo_iv (demo_now + 60)) demo_self_ctx 0 (demo_payment 12000000) demo_ready
     = Inr s'"
proof -
  let ?t = "\<lparr>ta_mint = demo_mint, ta_owner = demo_wallet_key, ta_amount = 30000000, ta_frozen = False\<rparr>"
  have acc: "SettlePayment_accounts demo (demo_iv (demo_now + 60)) demo_self_ctx 0 (demo_payment 12000000)
      demo_ready = Inr (demo_wallet, demo_policy, ?t, ?t, demo_config, 255,
        store (demo_record_key 0) (PaymentRecordAcc zero_LedgerEntry)
          (pay_rent demo demo_owner (demo_record_key 0) PaymentRecord_LEN demo_ready))"
    unfolding SettlePayment_accounts_eq_Inr
    by (simp add: demo_find_record demo_created demo_usdc_key_def [symmetric] demo_ready_accounts
        demo_ready_lamports demo_token_def demo_rents)
  have calm: "calm_times demo_wallet demo_policy (iv_now (demo_iv (demo_now + 60)))"
    by (simp add: calm_times_def demo_now_def)
  have pass: "first_failure (settle_checklist demo_wallet demo_policy demo_config 0
      (demo_payment 12000000) (demo_now + 60)) = None"
    using demo_checklist_pass [of 12000000] by (simp add: first_failure_None)
  have "\<exists>acc lam'. spl_transfer ((accounts demo_ready)(demo_record_key 0 \<mapsto> PaymentRecordAcc zero_LedgerEntry))
      (lamports (pay_rent demo demo_owner (demo_record_key 0) PaymentRecord_LEN demo_ready))
      demo_usdc_key demo_usdc_key demo_wallet_key 12000000 = Inr (acc, lam')"
    by (simp add: spl_transfer_def demo_ready_accounts demo_token_def)
  then show ?thesis
    using settle_payment_spec [OF acc calm] pass
    by (auto simp: checked_def demo_created settle_outcome_def)
qed

theorem self_payment_moves_nothing_witness:
  "\<exists>s'. settle_payment demo (demo_iv (demo_now + 60)) demo_self_ctx 0 (demo_payment 12000000) demo_ready
      = Inr s' \<and> accounts s' demo_usdc_key = Some (demo_token demo_wallet_key 30000000)"
proof -
  obtain s' where run: "settle_payment demo (demo_iv (demo_now + 60)) demo_self_ctx 0
      (demo_payment 12000000) demo_ready = Inr s'"
    using demo_self_run by blast
  have "accounts demo_ready (st_agent_wallet demo_self_ctx) = Some (AgentWalletAcc demo_wallet)"
    by (simp add: demo_ready_accounts)
  from self_payment_moves_nothing [OF demo_transfer_sound run _ this] run show ?thesis
    by (auto simp: demo_ready_accounts demo_token_def)
qed

text \<open>C37: \<open>withdraw_all\<close> is \<open>withdraw_funds\<close> of the whole balance, error for error: on every state in
  which the agent's token account holds an amount, both return the same result.\<close>

theorem withdraw_all_is_withdraw_of_balance:
  assumes "accounts s (wf_usdc_token_account ctx) = Some (TokenAcc usdc)"
  shows "withdraw_all P iv ctx s = withdraw_funds P iv ctx (ta_amount usdc) s"
proof (cases "WithdrawFunds_accounts P iv ctx s")
  case (Inl e)
  then show ?thesis by (simp add: withdraw_all_def withdraw_funds_def)
next
  case (Inr r)
  obtain wallet u dest where r: "r = (wallet, u, dest)" by (cases r)
  with Inr assms have "u = usdc"
    by (auto simp: WithdrawFunds_accounts_def result_simps)
  with Inr r show ?thesis
    by (simp add: withdraw_all_def withdraw_funds_def Let_def)
qed

theorem withdraw_all_is_withdraw_of_balance_witness:
  "withdraw_all demo (demo_iv demo_now) demo_withdraw_ctx demo_frozen
     = withdraw_funds demo (demo_iv demo_now) demo_withdraw_ctx 18000000 demo_frozen"
  by (rule trans [OF withdraw_all_is_withdraw_of_balance [where usdc = "\<lparr>ta_mint = demo_mint,
        ta_owner = demo_wallet_key, ta_amount = 18000000, ta_frozen = False\<rparr>"]])
    (simp_all add: demo_withdraw_ctx_def demo_frozen_accounts demo_after_accounts demo_token_def)

end
