(* ===== verification/Access_Control.thy ===== *)
theory Access_Control
  imports Custody
begin

text \<open>
  Who may change what: the wallet and its policy belong to the wallet's owner, the frozen flag and
  the configuration to the admin, and both roles can be handed over only by their holder.
\<close>

section \<open>The authority behind a change\<close>

definition admin_signed :: "platform \<Rightarrow> chain \<Rightarrow> invocation \<Rightarrow> bool" where
  "admin_signed P s iv \<longleftrightarrow>
     (\<exists>k config. accounts s k = Some (ProtocolConfigAcc config)
        \<and> create_program_address P (protocol_config_seeds @ [[pc_bump config]]) = Some k
        \<and> pc_admin config \<in> set (iv_signers iv))"

lemma admin_signedI:
  "accounts s k = Some (ProtocolConfigAcc config) \<Longrightarrow>
     create_program_address P (protocol_config_seeds @ [[pc_bump config]]) = Some k \<Longrightarrow>
     pc_admin config \<in> set (iv_signers iv) \<Longrightarrow> admin_signed P s iv"
  by (auto simp: admin_signed_def)

text \<open>What an instruction may do to one wallet account, under whose signature.\<close>

definition wallet_authorised ::
    "platform \<Rightarrow> chain \<Rightarrow> invocation \<Rightarrow> AgentWallet \<Rightarrow> account option \<Rightarrow> bool" where
  "wallet_authorised P s iv w a \<longleftrightarrow>
     a = Some (AgentWalletAcc w)
     \<or> aw_owner w \<in> set (iv_signers iv)
       \<and> (\<forall>w'. a = Some (AgentWalletAcc w') \<longrightarrow> aw_is_frozen w' = aw_is_frozen w)
     \<or> admin_signed P s iv \<and> (\<exists>b. a = Some (AgentWalletAcc (w\<lparr>aw_is_frozen := b\<rparr>)))"

lemma transfer_keeps_wallet:
  assumes "transfer_sound P" and "acc src = Some (TokenAcc fa)" and "ta_owner fa = authority"
    and "token_transfer P acc lam src dst authority n = Inr (acc', lam')" and "acc k = Some a"
    and "\<And>t. a \<noteq> TokenAcc t"
  shows "acc' k = Some a"
  using transfer_soundD [OF assms(1-4)] transfer_effect_other assms(5,6)
  by (metis option.inject)

lemma settle_authorised:
  assumes "transfer_sound P" and "settle_payment P iv ctx sequence params s = Inr s'"
    and w: "accounts s k = Some (AgentWalletAcc w)"
  shows "wallet_authorised P s iv w (accounts s' k)"
  using assms(1,2)
proof (rule settle_payment_result, goal_cases)
  case (1 wallet policy usdc payee config bump wallet' policy' protocol)
  show ?case
  proof (cases "k = st_agent_wallet ctx")
    case True
    then show ?thesis
      using 1(1,2,9,10) w settle_wallet_guards_frame(11) [OF 1(17)]
      by (auto simp: 1(19) wallet_authorised_def)
  next
    case False
    then have "accounts s' k = Some (AgentWalletAcc w)"
      using 1(1-4) w by (auto simp: 1(19) transfer_effect_def transfer_allowed_def)
    then show ?thesis by (simp add: wallet_authorised_def)
  qed
qed

lemma violation_authorised:
  assumes "record_policy_violation P iv ctx sequence params reason s = Inr s'"
    and w: "accounts s k = Some (AgentWalletAcc w)"
  shows "wallet_authorised P s iv w (accounts s' k)"
  using assms(1)
  by (rule violation_result)
    (use w in \<open>auto simp: wallet_authorised_def violation_accounting_def\<close>)

lemma wallet_authorised_admin:
  assumes "admin_signed P s iv"
    and "accounts s k = Some (AgentWalletAcc w)" and "accounts s j = Some (AgentWalletAcc v)"
  shows "wallet_authorised P s iv w (((accounts s)(j \<mapsto> AgentWalletAcc (v\<lparr>aw_is_frozen := b\<rparr>))) k)"
  using assms by (cases "k = j") (auto simp: wallet_authorised_def)

lemma process_wallet_authorised:
  assumes "transfer_sound P" and "process P iv ix s = Inr s'"
    and w: "accounts s k = Some (AgentWalletAcc w)"
  shows "wallet_authorised P s iv w (accounts s' k)"
proof (cases ix)
  case (IxSettlePayment ctx sequence params)
  with assms show ?thesis by (auto intro: settle_authorised)
next
  case (IxRecordPolicyViolation ctx sequence params reason)
  with assms show ?thesis by (auto intro: violation_authorised)
next
  case (IxWithdrawFunds ctx amount)
  with assms(2) w show ?thesis
    by (auto simp: ix_simps wallet_authorised_def dest: transfer_keeps_wallet [OF assms(1), where acc = "accounts s" and k = k, OF _ _ _ w])
next
  case (IxWithdrawAll ctx)
  with assms(2) w show ?thesis
    by (auto simp: ix_simps wallet_authorised_def dest: transfer_keeps_wallet [OF assms(1), where acc = "accounts s" and k = k, OF _ _ _ w])
next
  case (IxFreezeAgent ctx)
  with assms(2) have "admin_signed P s iv" by (auto simp: ix_simps intro: admin_signedI)
  moreover from IxFreezeAgent assms(2) obtain v where "accounts s (pm_agent_wallet ctx) = Some (AgentWalletAcc v)"
    "accounts s' = (accounts s)(pm_agent_wallet ctx \<mapsto> AgentWalletAcc (v\<lparr>aw_is_frozen := True\<rparr>))"
    by (auto simp: ix_simps)
  ultimately show ?thesis using wallet_authorised_admin w by simp
next
  case (IxUnfreezeAgent ctx)
  with assms(2) have "admin_signed P s iv" by (auto simp: ix_simps intro: admin_signedI)
  moreover from IxUnfreezeAgent assms(2) obtain v where "accounts s (pm_agent_wallet ctx) = Some (AgentWalletAcc v)"
    "accounts s' = (accounts s)(pm_agent_wallet ctx \<mapsto> AgentWalletAcc (v\<lparr>aw_is_frozen := False\<rparr>))"
    by (auto simp: ix_simps)
  ultimately show ?thesis using wallet_authorised_admin w by simp
qed (use assms(2) w in \<open>auto simp: ix_simps wallet_authorised_def split: if_splits\<close>)

text \<open>C12: An agent wallet changes, or is closed, only under the signature of its registered owner, with
  one exception: the frozen flag, which the owner cannot change, and which changes alone, under the
  signature of the protocol admin.\<close>

theorem wallet_changes_are_authorised:
  assumes "transfer_sound P" and "process P iv ix s = Inr s'"
    and "accounts s k = Some (AgentWalletAcc w)" and "accounts s' k \<noteq> Some (AgentWalletAcc w)"
  shows "aw_owner w \<in> set (iv_signers iv)
         \<and> (\<forall>w'. accounts s' k = Some (AgentWalletAcc w') \<longrightarrow> aw_is_frozen w' = aw_is_frozen w)
    \<or> admin_signed P s iv
         \<and> (\<exists>b. accounts s' k = Some (AgentWalletAcc (w\<lparr>aw_is_frozen := b\<rparr>)))"
  using process_wallet_authorised [OF assms(1-3)] assms(4) by (simp add: wallet_authorised_def)

theorem wallet_changes_are_authorised_witness:
  "aw_owner demo_wallet \<in> set (iv_signers (demo_iv (demo_now + 60)))
    \<or> admin_signed demo demo_ready (demo_iv (demo_now + 60))"
proof -
  have "accounts demo_ready demo_wallet_key = Some (AgentWalletAcc demo_wallet)"
    by (simp add: demo_ready_accounts)
  moreover have "accounts demo_after demo_wallet_key \<noteq> Some (AgentWalletAcc demo_wallet)"
    using demo_paid_fields(5) demo_account_fields(5) zero_neq_one [where 'a = u64]
    by (simp only: demo_after_wallet option.inject account.inject) metis
  ultimately show ?thesis
    using wallet_changes_are_authorised [OF demo_transfer_sound demo_settle_process] by blast
qed

lemma settle_policy_authorised:
  assumes "transfer_sound P" and "settle_payment P iv ctx sequence params s = Inr s'"
    and p: "accounts s k = Some (SpendPolicyAcc p)" and "accounts s' k \<noteq> Some (SpendPolicyAcc p)"
  shows "\<exists>j w b. accounts s j = Some (AgentWalletAcc w) \<and> aw_owner w \<in> set (iv_signers iv)
    \<and> create_program_address P (spend_policy_seeds j @ [[b]]) = Some k"
proof -
  have "create_program_address P (spend_policy_seeds (st_agent_wallet ctx) @ [[sp_bump q]])
      = Some (st_spend_policy ctx)" if "accounts s (st_spend_policy ctx) = Some (SpendPolicyAcc q)" for q
    using assms(2) that by (auto elim: settle_paymentE)
  note seeds = this
  show ?thesis
    using assms(1,2)
  proof (rule settle_payment_result, goal_cases)
    case (1 wallet policy usdc payee config bump wallet' policy' protocol)
    have "k = st_spend_policy ctx"
    proof (rule ccontr)
      assume "k \<noteq> st_spend_policy ctx"
      then have "accounts s' k = Some (SpendPolicyAcc p)"
        using 1(1-4) p by (auto simp: 1(19) transfer_effect_def transfer_allowed_def)
      with assms(4) show False by simp
    qed
    then show ?case
      using 1(1,9,10) seeds [OF 1(2)]
      by (intro exI [of _ "st_agent_wallet ctx"] exI [of _ wallet] exI [of _ "sp_bump policy"]) simp
  qed
qed

text \<open>C17: A spend policy changes, or is closed, only under the signature of the registered owner of the
  wallet whose policy address it is.\<close>

theorem policy_changes_are_authorised:
  assumes "transfer_sound P" and "pda_consistent P" and "process P iv ix s = Inr s'"
    and p: "accounts s k = Some (SpendPolicyAcc p)" and diff: "accounts s' k \<noteq> Some (SpendPolicyAcc p)"
  shows "\<exists>j w b. accounts s j = Some (AgentWalletAcc w) \<and> aw_owner w \<in> set (iv_signers iv)
    \<and> create_program_address P (spend_policy_seeds j @ [[b]]) = Some k"
proof (cases ix)
  case (IxSettlePayment ctx sequence params)
  then show ?thesis using settle_policy_authorised [OF assms(1) _ p diff] assms(3) by simp
next
  case (IxRecordPolicyViolation ctx sequence params reason)
  then have "record_policy_violation P iv ctx sequence params reason s = Inr s'"
    using assms(3) by simp
  then show ?thesis by (rule violation_result) (use p diff in \<open>auto split: if_splits\<close>)
next
  case (IxSetSpendPolicy ctx params)
  with assms(3) p diff obtain w b where "accounts s (sy_agent_wallet ctx) = Some (AgentWalletAcc w)"
    "aw_owner w \<in> set (iv_signers iv)"
    "find_program_address P (spend_policy_seeds (sy_agent_wallet ctx)) = Some (k, b)"
    by (auto simp: ix_simps split: if_splits)
  with assms(2) show ?thesis unfolding pda_consistent_def by blast
next
  case (IxCloseAgent ctx)
  with assms(3) p diff obtain w b where "accounts s (ca_agent_wallet ctx) = Some (AgentWalletAcc w)"
    "aw_owner w \<in> set (iv_signers iv)"
    "create_program_address P (spend_policy_seeds (ca_agent_wallet ctx) @ [[b]]) = Some k"
    by (auto simp: ix_simps split: if_splits)
  then show ?thesis by blast
next
  case (IxWithdrawFunds ctx amount)
  with assms(3) diff show ?thesis
    by (auto simp: ix_simps dest: transfer_keeps_wallet [OF assms(1), where acc = "accounts s" and k = k, OF _ _ _ p])
next
  case (IxWithdrawAll ctx)
  with assms(3) diff show ?thesis
    by (auto simp: ix_simps dest: transfer_keeps_wallet [OF assms(1), where acc = "accounts s" and k = k, OF _ _ _ p])
qed (use assms(3) p diff in \<open>auto simp: ix_simps split: if_splits\<close>)

theorem policy_changes_are_authorised_witness:
  "\<exists>j w b. accounts demo_ready j = Some (AgentWalletAcc w) \<and> aw_owner w \<in> {demo_owner, demo_admin}
    \<and> demo_create (spend_policy_seeds j @ [[b]]) = Some demo_policy_key"
proof -
  have "accounts demo_ready demo_policy_key = Some (SpendPolicyAcc demo_policy)"
    by (simp add: demo_ready_accounts)
  moreover have "accounts demo_after demo_policy_key \<noteq> Some (SpendPolicyAcc demo_policy)"
  proof
    assume "accounts demo_after demo_policy_key = Some (SpendPolicyAcc demo_policy)"
    then have "sp_rate_limit_call_count (demo_policy\<lparr>sp_rate_limit_call_count := 1\<rparr>)
        = sp_rate_limit_call_count demo_policy"
      by (simp only: demo_after_accounts) simp
    then show False by simp
  qed
  ultimately show ?thesis
    using policy_changes_are_authorised [OF demo_transfer_sound demo_pda_consistent demo_settle_process]
    by fastforce
qed

section \<open>The configuration\<close>

definition config_authorised :: "invocation \<Rightarrow> ProtocolConfig \<Rightarrow> account option \<Rightarrow> bool" where
  "config_authorised iv c a \<longleftrightarrow>
     a = Some (ProtocolConfigAcc c)
     \<or> pc_admin c \<in> set (iv_signers iv)
       \<and> ((\<exists>admin. admin \<noteq> default_pubkey \<and> a = Some (ProtocolConfigAcc (c\<lparr>pc_admin := admin\<rparr>)))
          \<or> (\<exists>cap. a = Some (ProtocolConfigAcc (c\<lparr>pc_max_single_payment_usdc := cap\<rparr>))))"

lemma settle_keeps_config:
  assumes "transfer_sound P" and "settle_payment P iv ctx sequence params s = Inr s'"
    and c: "accounts s k = Some (ProtocolConfigAcc c)"
  shows "accounts s' k = Some (ProtocolConfigAcc c)"
  using assms(1,2)
  by (rule settle_payment_result)
    (use c in \<open>auto simp: transfer_effect_def transfer_allowed_def\<close>)

lemma process_config_authorised:
  assumes "transfer_sound P" and "process P iv ix s = Inr s'"
    and c: "accounts s k = Some (ProtocolConfigAcc c)"
  shows "config_authorised iv c (accounts s' k)"
proof (cases ix)
  case (IxSettlePayment ctx sequence params)
  then show ?thesis
    using settle_keeps_config [OF assms(1) _ c] assms(2) by (simp add: config_authorised_def)
next
  case (IxRecordPolicyViolation ctx sequence params reason)
  then have "record_policy_violation P iv ctx sequence params reason s = Inr s'"
    using assms(2) by simp
  then show ?thesis by (rule violation_result) (use c in \<open>auto simp: config_authorised_def\<close>)
next
  case (IxWithdrawFunds ctx amount)
  with assms(2) show ?thesis
    by (auto simp: ix_simps config_authorised_def
        dest: transfer_keeps_wallet [OF assms(1), where acc = "accounts s" and k = k, OF _ _ _ c])
next
  case (IxWithdrawAll ctx)
  with assms(2) show ?thesis
    by (auto simp: ix_simps config_authorised_def
        dest: transfer_keeps_wallet [OF assms(1), where acc = "accounts s" and k = k, OF _ _ _ c])
qed (use assms(2) c in \<open>auto simp: ix_simps config_authorised_def split: if_splits\<close>)

text \<open>C18: The protocol configuration is never removed, and it changes only under the signature of its
  current admin: either the admin is replaced, never by the default key, or the global payment cap
  is set, and nothing else.\<close>

theorem config_changes_are_authorised:
  assumes "transfer_sound P" and "process P iv ix s = Inr s'"
    and "accounts s k = Some (ProtocolConfigAcc c)"
  shows "\<exists>c'. accounts s' k = Some (ProtocolConfigAcc c')
    \<and> (c' \<noteq> c \<longrightarrow> pc_admin c \<in> set (iv_signers iv)
         \<and> ((\<exists>admin. admin \<noteq> default_pubkey \<and> c' = c\<lparr>pc_admin := admin\<rparr>)
            \<or> (\<exists>cap. c' = c\<lparr>pc_max_single_payment_usdc := cap\<rparr>)))"
  using process_config_authorised [OF assms] unfolding config_authorised_def by blast

theorem config_changes_are_authorised_witness:
  "\<exists>c. accounts demo_after demo_config_key = Some (ProtocolConfigAcc c)"
proof -
  have "accounts demo_ready demo_config_key = Some (ProtocolConfigAcc demo_config)"
    by (simp add: demo_ready_accounts)
  from config_changes_are_authorised [OF demo_transfer_sound demo_settle_process this] show ?thesis by blast
qed

lemma world_step_config:
  assumes "transfer_sound P" and "world_step P w w'" and "accounts (fst w) k = Some (ProtocolConfigAcc c)"
  shows "\<exists>c'. accounts (fst w') k = Some (ProtocolConfigAcc c')"
  using assms(2)
proof cases
  case (instruction iv ix s s' t)
  then show ?thesis
    using process_config_authorised [OF assms(1) instruction(3)] assms(3)
    by (fastforce simp: config_authorised_def)
next
  case (external s s' t t')
  then show ?thesis
    using assms(3) external_program_account [OF external(3), of "ProtocolConfigAcc c" k] by simp
qed

text \<open>C21: The protocol is initialised once: after \<open>init_protocol\<close> has succeeded, the configuration
  account exists for ever, whatever happens, and no later \<open>init_protocol\<close> succeeds, so nobody can
  make themselves admin that way.\<close>

theorem protocol_initialised_once:
  assumes sound: "transfer_sound P" and init: "init_protocol P iv ctx admin s = Inr s'"
    and steps: "(world_step P)\<^sup>*\<^sup>* (s', t') (s'', t'')"
  shows "(\<exists>c. accounts s'' (ip_protocol_config ctx) = Some (ProtocolConfigAcc c))
    \<and> (\<forall>iv' ctx' admin' x. init_protocol P iv' ctx' admin' s'' \<noteq> Inr x)"
proof -
  have found: "\<exists>b. find_program_address P protocol_config_seeds = Some (ip_protocol_config ctx, b)"
    and "\<exists>c. accounts s' (ip_protocol_config ctx) = Some (ProtocolConfigAcc c)"
    using init by (auto simp: ix_simps)
  then have "\<exists>c. accounts (fst (s', t')) (ip_protocol_config ctx) = Some (ProtocolConfigAcc c)" by simp
  with steps have "\<exists>c. accounts (fst (s'', t'')) (ip_protocol_config ctx) = Some (ProtocolConfigAcc c)"
    by (induction rule: rtranclp_induct) (auto dest: world_step_config [OF sound])
  then show ?thesis
    using found by (auto simp: ix_simps)
qed

theorem protocol_initialised_once_witness:
  "\<forall>iv ctx admin x. init_protocol demo iv ctx admin demo_ready \<noteq> Inr x"
proof -
  have "init_protocol demo (demo_iv demo_now) demo_init_ctx demo_admin demo_genesis = Inr demo_1"
    using demo_1_run by simp
  from protocol_initialised_once [OF demo_transfer_sound this demo_steps_ready] show ?thesis by blast
qed

section \<open>Ownership\<close>

text \<open>C13: Transferring ownership takes effect at once: the handler needs the old owner's signature and
  changes only the owner; and in the state it leaves, no instruction without the new owner's signature
  changes the wallet (but for the admin's frozen flag) or lowers a balance the wallet has authority
  over, whoever else signs, the old owner included.\<close>

theorem transfer_ownership_revokes_old_owner:
  assumes sound: "transfer_sound P" and run: "transfer_ownership iv ctx new_owner s = Inr s'"
    and w: "accounts s (tro_agent_wallet ctx) = Some (AgentWalletAcc w)"
  shows "aw_owner w \<in> set (iv_signers iv) \<and> new_owner \<noteq> default_pubkey \<and> new_owner \<noteq> aw_owner w
    \<and> accounts s' = (accounts s)(tro_agent_wallet ctx \<mapsto> AgentWalletAcc (w\<lparr>aw_owner := new_owner\<rparr>))
    \<and> (\<forall>iv' ix s''. process P iv' ix s' = Inr s'' \<and> new_owner \<notin> set (iv_signers iv') \<longrightarrow>
         (\<exists>b. accounts s'' (tro_agent_wallet ctx)
            = Some (AgentWalletAcc (w\<lparr>aw_owner := new_owner, aw_is_frozen := b\<rparr>)))
         \<and> (\<forall>a t t'. accounts s' a = Some (TokenAcc t) \<and> ta_owner t = tro_agent_wallet ctx
              \<and> accounts s'' a = Some (TokenAcc t') \<longrightarrow> ta_amount t \<le> ta_amount t'))"
proof -
  have base: "aw_owner w \<in> set (iv_signers iv)" "new_owner \<noteq> default_pubkey" "new_owner \<noteq> aw_owner w"
    and acc: "accounts s' = (accounts s)(tro_agent_wallet ctx \<mapsto> AgentWalletAcc (w\<lparr>aw_owner := new_owner\<rparr>))"
    using run w by (auto simp: ix_simps)
  then have w': "accounts s' (tro_agent_wallet ctx) = Some (AgentWalletAcc (w\<lparr>aw_owner := new_owner\<rparr>))"
    by simp
  have "\<exists>b. accounts s'' (tro_agent_wallet ctx)
      = Some (AgentWalletAcc (w\<lparr>aw_owner := new_owner, aw_is_frozen := b\<rparr>))"
    if "process P iv' ix s' = Inr s''" "new_owner \<notin> set (iv_signers iv')" for iv' ix s''
  proof -
    have same: "w\<lparr>aw_owner := new_owner\<rparr> = w\<lparr>aw_owner := new_owner, aw_is_frozen := aw_is_frozen w\<rparr>"
      by simp
    have "accounts s'' (tro_agent_wallet ctx) = Some (AgentWalletAcc (w\<lparr>aw_owner := new_owner\<rparr>))
        \<or> (\<exists>b. accounts s'' (tro_agent_wallet ctx)
             = Some (AgentWalletAcc (w\<lparr>aw_owner := new_owner, aw_is_frozen := b\<rparr>)))"
      using process_wallet_authorised [OF sound that(1) w'] that(2)
      by (auto simp: wallet_authorised_def)
    with same show ?thesis by metis
  qed
  moreover have "ta_amount t \<le> ta_amount t'"
    if "process P iv' ix s' = Inr s''" "new_owner \<notin> set (iv_signers iv')"
      "accounts s' a = Some (TokenAcc t)" "ta_owner t = tro_agent_wallet ctx"
      "accounts s'' a = Some (TokenAcc t')" for iv' ix s'' a t t'
    using token_account_step [OF sound that(1,3)] that(2,4,5) w' by (auto simp: moves_def not_less)
  ultimately show ?thesis using base acc by blast
qed

definition demo_transfer_ctx :: TransferOwnership where
  "demo_transfer_ctx = \<lparr>tro_agent_wallet = demo_wallet_key, tro_owner = demo_owner\<rparr>"

theorem transfer_ownership_revokes_old_owner_witness:
  "\<exists>s'. transfer_ownership (demo_iv demo_now) demo_transfer_ctx 102 demo_ready = Inr s'
     \<and> (\<forall>iv ix s''. process demo iv ix s' = Inr s'' \<and> 102 \<notin> set (iv_signers iv) \<longrightarrow>
          (\<exists>w. accounts s'' demo_wallet_key = Some (AgentWalletAcc w) \<and> aw_owner w = 102))"
proof -
  have w: "accounts demo_ready (tro_agent_wallet demo_transfer_ctx) = Some (AgentWalletAcc demo_wallet)"
    by (simp add: demo_ready_accounts demo_transfer_ctx_def)
  have "\<exists>s'. transfer_ownership (demo_iv demo_now) demo_transfer_ctx 102 demo_ready = Inr s'"
    using w by (simp add: ix_simps demo_transfer_ctx_def) (simp add: demo_owner_def)
  then obtain s' where run: "transfer_ownership (demo_iv demo_now) demo_transfer_ctx 102 demo_ready = Inr s'"
    by blast
  from transfer_ownership_revokes_old_owner [OF demo_transfer_sound run w] run show ?thesis
    by (fastforce simp: demo_transfer_ctx_def)
qed

section \<open>Fields that never move back\<close>

lemma wallet_step_monotone:
  assumes "wallet_step P now acc acc' k (Some w) w'"
  shows "aw_agent_id w' = aw_agent_id w \<and> aw_usdc_token_account w' = aw_usdc_token_account w
    \<and> aw_bump w' = aw_bump w \<and> aw_payment_sequence w \<le> aw_payment_sequence w'
    \<and> aw_total_payments w \<le> aw_total_payments w' \<and> aw_total_volume w \<le> aw_total_volume w'"
proof -
  have ge: "a \<le> saturating_add a b" for a b :: u64
    using saturating_add_ge [of a b] by (simp add: word_le_nat_alt)
  from assms show ?thesis
  proof cases
    case (settled w'' params payee protocol b)
    then show ?thesis using settle_wallet_guards_frame [OF settled(2)] by (simp add: ge)
  qed (simp_all add: violation_accounting_def ge)
qed

text \<open>C35: In every step that leaves a wallet in existence, an instruction or an action of another
  program, its agent id, its registered token account and its bump stay the same, and its sequence
  number, payment count and lifetime volume do not decrease.\<close>

theorem wallet_fields_monotone:
  assumes sound: "transfer_sound P" and "world_step P (s, t) (s', t')"
    and "accounts s k = Some (AgentWalletAcc w)" and "accounts s' k = Some (AgentWalletAcc w')"
  shows "aw_agent_id w' = aw_agent_id w \<and> aw_usdc_token_account w' = aw_usdc_token_account w
    \<and> aw_bump w' = aw_bump w \<and> aw_payment_sequence w \<le> aw_payment_sequence w'
    \<and> aw_total_payments w \<le> aw_total_payments w' \<and> aw_total_volume w \<le> aw_total_volume w'"
  using assms(2)
proof cases
  case (instruction iv ix)
  then have "wallet_step P (iv_now iv) (accounts s) (accounts s') k (Some w) w'"
    using process_wallet_step [OF sound _ assms(4)] assms(3) by fastforce
  then show ?thesis by (rule wallet_step_monotone)
next
  case external
  then show ?thesis
    using assms(3,4) external_program_account [of P s s' "AgentWalletAcc w" k] by simp
qed

theorem wallet_fields_monotone_witness: "aw_total_volume demo_wallet \<le> aw_total_volume demo_paid"
proof -
  have "accounts demo_ready demo_wallet_key = Some (AgentWalletAcc demo_wallet)"
    by (simp add: demo_ready_accounts)
  from wallet_fields_monotone [OF demo_transfer_sound demo_step_after this demo_after_wallet]
  show ?thesis by blast
qed

section \<open>Every account at its address\<close>

text \<open>C23: In every reachable state each account of the program lies at the canonical address its own
  contents derive, with the bump it stores: a wallet at that of its id (well-formed), a policy at that
  of its wallet (with at most 32 hashes a list), a record at that of its wallet and sequence number (a
  violation with no payee and no parent, a payment with a positive amount), the configuration at the
  singleton address with an admin and the program's version.\<close>

theorem accounts_at_derived_addresses:
  assumes "transfer_sound P" and "reach genesis (world_step P) (s, t)"
  shows "(accounts s k = Some (AgentWalletAcc w) \<longrightarrow>
       find_program_address P (agent_wallet_seeds (aw_agent_id w)) = Some (k, aw_bump w)
       \<and> valid_agent_id_length (aw_agent_id w) \<and> valid_agent_id_chars (aw_agent_id w))
    \<and> (accounts s k = Some (SpendPolicyAcc p) \<longrightarrow>
       find_program_address P (spend_policy_seeds (sp_agent_wallet p)) = Some (k, sp_bump p)
       \<and> length (sp_allowed_domain_hashes p) \<le> 32 \<and> length (sp_blocked_domain_hashes p) \<le> 32)
    \<and> (accounts s k = Some (PaymentRecordAcc r) \<longrightarrow>
       find_program_address P (payment_record_seeds (pr_agent_wallet r) (pr_sequence r)) = Some (k, pr_bump r)
       \<and> (if is_violation r then pr_payee r = default_pubkey \<and> \<not> is_chained r else 0 < pr_amount_usdc r))
    \<and> (accounts s k = Some (ProtocolConfigAcc c) \<longrightarrow>
       find_program_address P protocol_config_seeds = Some (k, pc_bump c)
       \<and> pc_admin c \<noteq> default_pubkey \<and> pc_version c = 2)"
proof -
  have "account_ok P t k a" if "accounts s k = Some a" for a
    using reachable_ok [OF assms] that by (auto simp: world_ok_def intro: accounts_okD)
  from this [of "AgentWalletAcc w"] this [of "SpendPolicyAcc p"] this [of "PaymentRecordAcc r"]
    this [of "ProtocolConfigAcc c"]
  show ?thesis
    by (auto simp: wallet_ok_def policy_ok_def record_ok_def config_ok_def MAX_DOMAIN_ENTRIES_def
        PROGRAM_VERSION_def is_violation_def is_chained_def)
qed

theorem accounts_at_derived_addresses_witness:
  "find_program_address demo (agent_wallet_seeds ''bot-1'') = Some (demo_wallet_key, 255)"
  using accounts_at_derived_addresses [OF demo_transfer_sound demo_reach_after, of demo_wallet_key demo_paid]
  by (simp add: demo_after_wallet)

end
