(* ===== verification/Wallet_Automaton.thy ===== *)
theory Wallet_Automaton
  imports Access_Control
begin

text \<open>
  The life cycle of one wallet as an automaton of four phases and a missing one: what the two flags and
  the existence of the account mean together, which role can take each edge, and in which phase a
  payment is possible. Every instruction of the program takes an edge of the automaton.
\<close>

section \<open>Phases\<close>

datatype phase = Absent | Present (active: bool) (frozen: bool)

definition phase_at :: "account_map \<Rightarrow> pubkey \<Rightarrow> phase" where
  "phase_at acc k =
     (case wallet_at acc k of None \<Rightarrow> Absent | Some w \<Rightarrow> Present (aw_is_active w) (aw_is_frozen w))"

definition owner_signed :: "account_map \<Rightarrow> pubkey \<Rightarrow> invocation \<Rightarrow> bool" where
  "owner_signed acc k iv \<longleftrightarrow> (\<exists>w. acc k = Some (AgentWalletAcc w) \<and> aw_owner w \<in> set (iv_signers iv))"

inductive phase_step :: "bool \<Rightarrow> bool \<Rightarrow> phase \<Rightarrow> phase \<Rightarrow> bool" for owner admin where
  stay: "phase_step owner admin p p"
| register: "phase_step owner admin Absent (Present True False)"
| pause: "owner \<Longrightarrow> phase_step owner admin (Present a f) (Present b f)"
| freeze: "admin \<Longrightarrow> phase_step owner admin (Present a f) (Present a g)"
| close: "owner \<Longrightarrow> phase_step owner admin (Present False f) Absent"

inductive_simps phase_step_simps [simp]:
  "phase_step owner admin (Present a f) Absent"
  "phase_step owner admin Absent p"

lemma phase_at_simps [simp]:
  "acc k = Some (AgentWalletAcc w) \<Longrightarrow> phase_at acc k = Present (aw_is_active w) (aw_is_frozen w)"
  "(\<And>w. acc k \<noteq> Some (AgentWalletAcc w)) \<Longrightarrow> phase_at acc k = Absent"
  by (simp_all add: phase_at_def wallet_at_def split: option.split account.split)

lemma wallet_at_cases:
  obtains (some) w where "acc k = Some (AgentWalletAcc w)" "phase_at acc k = Present (aw_is_active w) (aw_is_frozen w)"
  | (none) "\<And>w. acc k \<noteq> Some (AgentWalletAcc w)" "phase_at acc k = Absent" "wallet_at acc k = None"
proof (cases "wallet_at acc k")
  case None
  then have "acc k \<noteq> Some (AgentWalletAcc w)" for w by auto
  with None none show thesis by simp
next
  case (Some w)
  then show thesis using some by (simp add: wallet_at_eq_Some)
qed

text \<open>Only \<open>close_agent\<close> removes a wallet, and only an inactive one.\<close>

lemma active_wallet_kept:
  assumes "transfer_sound P" and "process P iv ix s = Inr s'"
    and w: "accounts s k = Some (AgentWalletAcc w)" and active: "aw_is_active w"
  shows "\<exists>w'. accounts s' k = Some (AgentWalletAcc w')"
proof (cases ix)
  case (IxSettlePayment ctx sequence params)
  then have "settle_payment P iv ctx sequence params s = Inr s'" using assms(2) by simp
  with assms(1) show ?thesis
  proof (rule settle_payment_result, goal_cases)
    case (1 wallet policy usdc payee config bump wallet' policy' protocol)
    show ?case using 1(1-4) w by (auto simp: 1(19) transfer_effect_def transfer_allowed_def)
  qed
next
  case (IxRecordPolicyViolation ctx sequence params reason)
  then have "record_policy_violation P iv ctx sequence params reason s = Inr s'"
    using assms(2) by simp
  then show ?thesis by (rule violation_result) (use w in auto)
next
  case (IxWithdrawFunds ctx amount)
  with assms(2) w show ?thesis
    by (auto simp: ix_simps dest: transfer_keeps_wallet [OF assms(1), where acc = "accounts s" and k = k, OF _ _ _ w])
next
  case (IxWithdrawAll ctx)
  with assms(2) w show ?thesis
    by (auto simp: ix_simps dest: transfer_keeps_wallet [OF assms(1), where acc = "accounts s" and k = k, OF _ _ _ w])
qed (use assms(2) w active in \<open>auto simp: ix_simps split: if_splits\<close>)

lemma process_phase_step:
  assumes sound: "transfer_sound P" and run: "process P iv ix s = Inr s'"
  shows "phase_step (owner_signed (accounts s) k iv) (admin_signed P s iv)
    (phase_at (accounts s) k) (phase_at (accounts s') k)"
proof (cases rule: wallet_at_cases [of "accounts s" k])
  case (some w)
  have auth: "wallet_authorised P s iv w (accounts s' k)"
    by (rule process_wallet_authorised [OF sound run some(1)])
  show ?thesis
  proof (cases rule: wallet_at_cases [of "accounts s'" k])
    case (some w')
    with auth \<open>accounts s k = Some (AgentWalletAcc w)\<close> show ?thesis
      by (auto simp: wallet_authorised_def owner_signed_def intro: phase_step.intros)
  next
    case none
    then have "aw_owner w \<in> set (iv_signers iv)"
      using auth by (auto simp: wallet_authorised_def)
    moreover have "\<not> aw_is_active w"
      using active_wallet_kept [OF sound run some(1)] none(1) by blast
    ultimately show ?thesis using some none by (auto simp: owner_signed_def)
  qed
next
  case none
  show ?thesis
  proof (cases rule: wallet_at_cases [of "accounts s'" k])
    case (some w')
    from process_wallet_step [OF sound run some(1)] none(3)
    have "wallet_step P (iv_now iv) (accounts s) (accounts s') k None w'" by simp
    then have "aw_is_active w' \<and> \<not> aw_is_frozen w'" by cases (simp_all add: new_agent_wallet_def)
    with some none show ?thesis by simp
  next
    case none2: none
    with none show ?thesis by simp
  qed
qed

text \<open>A new record of a passed payment.\<close>

definition pays :: "account_map \<Rightarrow> account_map \<Rightarrow> pubkey \<Rightarrow> bool" where
  "pays acc acc' k \<longleftrightarrow>
     (\<exists>rk r. acc' rk = Some (PaymentRecordAcc r) \<and> acc rk \<noteq> Some (PaymentRecordAcc r)
        \<and> pr_agent_wallet r = k \<and> pr_policy_passed r)"

lemma process_pays:
  assumes sound: "transfer_sound P" and run: "process P iv ix s = Inr s'"
    and pays: "pays (accounts s) (accounts s') k"
  shows "phase_at (accounts s) k = Present True False \<and> owner_signed (accounts s) k iv"
proof -
  from pays obtain rk r where r: "accounts s' rk = Some (PaymentRecordAcc r)"
    "accounts s rk \<noteq> Some (PaymentRecordAcc r)" "pr_agent_wallet r = k" "pr_policy_passed r"
    by (auto simp: pays_def)
  show ?thesis
  proof (cases ix)
    case (IxSettlePayment ctx sequence params)
    then have "settle_payment P iv ctx sequence params s = Inr s'" using run by simp
    with sound show ?thesis
    proof (rule settle_payment_result, goal_cases)
      case (1 wallet policy usdc payee config bump wallet' policy' protocol)
      have "k = st_agent_wallet ctx"
        using r 1(1-4) by (auto simp: 1(19) transfer_effect_def transfer_allowed_def split: if_splits)
      then show ?case
        using 1(1,9,10) settle_wallet_guards_frame(1,2) [OF 1(17)] by (simp add: owner_signed_def)
    qed
  next
    case (IxRecordPolicyViolation ctx sequence params reason)
    then have "record_policy_violation P iv ctx sequence params reason s = Inr s'" using run by simp
    then show ?thesis by (rule violation_result) (use r in \<open>auto split: if_splits\<close>)
  next
    case (IxWithdrawFunds ctx amount)
    with run have "\<exists>usdc acc lam. accounts s (wf_usdc_token_account ctx) = Some (TokenAcc usdc)
        \<and> ta_owner usdc = wf_agent_wallet ctx \<and> accounts s' = acc
        \<and> token_transfer P (accounts s) (lamports s) (wf_usdc_token_account ctx)
            (wf_owner_token_account ctx) (wf_agent_wallet ctx) amount = Inr (acc, lam)"
      by (auto simp: ix_simps)
    then have "accounts s rk = Some (PaymentRecordAcc r)"
      using r(1) by (auto elim!: transfer_soundD [OF sound] simp: transfer_effect_def split: if_splits)
    with r(2) show ?thesis by simp
  next
    case (IxWithdrawAll ctx)
    with run have "\<exists>usdc acc lam. accounts s (wf_usdc_token_account ctx) = Some (TokenAcc usdc)
        \<and> ta_owner usdc = wf_agent_wallet ctx \<and> accounts s' = acc
        \<and> token_transfer P (accounts s) (lamports s) (wf_usdc_token_account ctx)
            (wf_owner_token_account ctx) (wf_agent_wallet ctx) (ta_amount usdc) = Inr (acc, lam)"
      by (auto simp: ix_simps)
    then have "accounts s rk = Some (PaymentRecordAcc r)"
      using r(1) by (auto elim!: transfer_soundD [OF sound] simp: transfer_effect_def split: if_splits)
    with r(2) show ?thesis by simp
  qed (use run r in \<open>auto simp: ix_simps split: if_splits\<close>)
qed

text \<open>C11: The program refines the automaton of a wallet's phases, absent or present with an active and
  a frozen flag. For the wallet at any address and any successful instruction, the phase either stays,
  or an absent wallet is registered, active and unfrozen; or the registered owner signed and the
  active flag changed, or the owner signed and an inactive wallet was closed; or the protocol admin
  signed and the frozen flag changed. No other edge exists: an active wallet is never removed and no
  instruction changes both flags. A new record of a passed payment of that wallet appears only
  when the wallet was active and unfrozen before, under its owner's signature.\<close>

theorem wallet_life_cycle:
  assumes "transfer_sound P" and "process P iv ix s = Inr s'"
  shows "phase_step (owner_signed (accounts s) k iv) (admin_signed P s iv)
      (phase_at (accounts s) k) (phase_at (accounts s') k)
    \<and> (pays (accounts s) (accounts s') k \<longrightarrow>
         phase_at (accounts s) k = Present True False \<and> owner_signed (accounts s) k iv)"
  using process_phase_step [OF assms] process_pays [OF assms] by blast

theorem wallet_life_cycle_witness:
  "phase_step (owner_signed (accounts demo_ready) demo_wallet_key (demo_iv (demo_now + 60)))
     (admin_signed demo demo_ready (demo_iv (demo_now + 60))) (phase_at (accounts demo_ready) demo_wallet_key)
     (phase_at (accounts demo_after) demo_wallet_key)
   \<and> phase_at (accounts demo_ready) demo_wallet_key = Present True False"
proof -
  have "pays (accounts demo_ready) (accounts demo_after) demo_wallet_key"
    unfolding pays_def
    by (rule exI [of _ "demo_record_key 0"]) (simp add: demo_after_accounts demo_ready_accounts settled_record_def)
  then show ?thesis
    using wallet_life_cycle [OF demo_transfer_sound demo_settle_process] by blast
qed

end
