(* ===== verification/Stranded_Tokens.thy ===== *)
theory Stranded_Tokens
  imports Demo_Run
begin

text \<open>
  A run that shows a gap of \<^verbatim>\<open>close_agent\<close>: nothing ties the accounts it is given to the token account
  the wallet was registered with.
\<close>

definition other_mint :: pubkey where "other_mint = 700"
definition third_mint :: pubkey where "third_mint = 701"
definition other_usdc_key :: pubkey where "other_usdc_key = demo_ata demo_wallet_key other_mint"
definition third_usdc_key :: pubkey where "third_usdc_key = demo_ata demo_wallet_key third_mint"
definition stranger_home :: pubkey where "stranger_home = demo_ata demo_admin demo_mint"

lemma gap_key_values:
  "other_mint = 700" "third_mint = 701"
  "other_usdc_key = 27479378233430960918085037721460186387953844"
  "third_usdc_key = 27479378233430960918085037721460186387953849"
  "stranger_home = 2810"
  by (simp_all add: other_mint_def third_mint_def other_usdc_key_def third_usdc_key_def stranger_home_def
      demo_ata_def demo_wallet_key_value demo_admin_def demo_mint_def)

lemmas demo_key_values = gap_key_values demo_wallet_key_value demo_usdc_key_value demo_policy_key_value
  demo_config_key_value demo_record_key_value demo_mint_def demo_payee_ata_def demo_owner_def demo_admin_def

lemma third_mint_amount [simp]: "initial_amount demo third_mint k lam = 0"
  by (simp add: initial_amount_def third_mint_def demo_native_mint_def)

lemma gap_keys_distinct [simp]:
  "distinct [other_mint, third_mint, other_usdc_key, third_usdc_key, stranger_home, demo_config_key,
     demo_wallet_key, demo_policy_key, demo_usdc_key, demo_mint, demo_owner, demo_admin, demo_payee_ata]"
  "distinct [demo_payee_ata, demo_admin, demo_owner, demo_mint, demo_usdc_key, demo_policy_key,
     demo_wallet_key, demo_config_key, stranger_home, third_usdc_key, other_usdc_key, third_mint, other_mint]"
  by (simp_all add: demo_key_values)
declare gap_keys_distinct [simplified, simp]

definition gap_0 :: chain where
  "gap_0 = store other_mint MintAcc (store third_mint MintAcc
     (store other_usdc_key (TokenAcc \<lparr>ta_mint = other_mint, ta_owner = demo_wallet_key, ta_amount = 0,
        ta_frozen = False\<rparr>)
     (store stranger_home (demo_token demo_admin 0) demo_ready)))"

definition gap_1 :: chain where
  "gap_1 = store demo_wallet_key (AgentWalletAcc (demo_wallet\<lparr>aw_is_active := False\<rparr>))
     (emit (AgentStatusChanged demo_wallet_key ''bot-1'' False demo_now) gap_0)"

definition gap_2 :: chain where
  "gap_2 = close_account demo_policy_key demo_owner (close_account demo_wallet_key demo_owner gap_1)"

definition gap_close_ctx :: CloseAgent where
  "gap_close_ctx = \<lparr>ca_agent_wallet = demo_wallet_key, ca_spend_policy = demo_policy_key,
     ca_usdc_token_account = other_usdc_key, ca_usdc_mint = other_mint, ca_owner = demo_owner\<rparr>"

definition gap_register_ctx :: RegisterAgent where
  "gap_register_ctx = \<lparr>rg_agent_wallet = demo_wallet_key, rg_usdc_token_account = third_usdc_key,
     rg_usdc_mint = third_mint, rg_owner = demo_admin\<rparr>"

definition gap_withdraw_ctx :: WithdrawFunds where
  "gap_withdraw_ctx = \<lparr>wf_agent_wallet = demo_wallet_key, wf_usdc_token_account = demo_usdc_key,
     wf_owner_token_account = stranger_home, wf_usdc_mint = demo_mint, wf_owner = demo_admin\<rparr>"

definition stranger_iv :: invocation where
  "stranger_iv = \<lparr>iv_signers = [demo_admin], iv_now = demo_now\<rparr>"

lemma gap_1_accounts: "accounts gap_1 = (accounts demo_ready)
  (stranger_home \<mapsto> demo_token demo_admin 0,
   other_usdc_key \<mapsto> TokenAcc \<lparr>ta_mint = other_mint, ta_owner = demo_wallet_key, ta_amount = 0,
        ta_frozen = False\<rparr>, third_mint \<mapsto> MintAcc, other_mint \<mapsto> MintAcc,
   demo_wallet_key \<mapsto> AgentWalletAcc (demo_wallet\<lparr>aw_is_active := False\<rparr>))"
  by (simp add: gap_1_def gap_0_def)

lemma gap_0_accounts: "accounts gap_0 = (accounts demo_ready)
  (stranger_home \<mapsto> demo_token demo_admin 0,
   other_usdc_key \<mapsto> TokenAcc \<lparr>ta_mint = other_mint, ta_owner = demo_wallet_key, ta_amount = 0,
        ta_frozen = False\<rparr>, third_mint \<mapsto> MintAcc, other_mint \<mapsto> MintAcc)"
  by (simp add: gap_0_def)

lemma gap_0_reach: "reach genesis (world_step demo) (gap_0, demo_now)"
proof -
  have "external_change demo demo_ready gap_0"
    by (auto simp: external_change_def gap_0_def demo_ready_accounts demo_token_def)
  from world_step.external [OF this, of demo_now demo_now]
  have "world_step demo (demo_ready, demo_now) (gap_0, demo_now)" by simp
  with demo_reach_ready show ?thesis by (rule reach_step)
qed

lemma gap_reach: "reach genesis (world_step demo) (gap_1, demo_now)"
proof -
  have "process demo (demo_iv demo_now) (IxDeactivateAgent demo_status_ctx) gap_0 = Inr gap_1"
    by (simp add: ix_simps demo_status_ctx_def gap_1_def gap_0_def demo_ready_accounts)
  from world_step.instruction [OF this, of demo_now]
  have "world_step demo (gap_0, demo_now) (gap_1, demo_now)" by simp
  with gap_0_reach show ?thesis by (rule reach_step)
qed

lemma gap_close: "process demo (demo_iv demo_now) (IxCloseAgent gap_close_ctx) gap_1 = Inr gap_2"
  by (simp add: ix_simps gap_close_ctx_def gap_1_accounts demo_ready_accounts demo_created
      other_usdc_key_def [symmetric] gap_2_def)

lemma gap_2_lamports: "lamports gap_2 demo_admin = 998761120" "lamports gap_2 demo_wallet_key = 0"
  "lamports gap_2 third_usdc_key = 0"
  by (simp_all add: gap_2_def close_account_def gap_1_def gap_0_def demo_ready_def demo_funded_def
      demo_3_def demo_2_def demo_1_def demo_genesis_def demo_rents)

lemma gap_register: "\<exists>s'. process demo stranger_iv (IxRegisterAgent gap_register_ctx ''bot-1'') gap_2 = Inr s'
  \<and> accounts s' = (accounts gap_2)
     (third_usdc_key \<mapsto> TokenAcc \<lparr>ta_mint = third_mint, ta_owner = demo_wallet_key, ta_amount = 0,
        ta_frozen = False\<rparr>,
      demo_wallet_key \<mapsto> AgentWalletAcc (new_agent_wallet ''bot-1'' demo_admin third_usdc_key demo_now 255))"
  by (simp add: ix_simps gap_register_ctx_def stranger_iv_def demo_find_wallet third_usdc_key_def [symmetric]
      valid_agent_id_length_def valid_agent_id_chars_def is_ascii_alphanumeric_def MAX_AGENT_ID_LEN_def
      gap_2_lamports demo_rents fun_eq_iff) (simp add: gap_2_def gap_1_accounts demo_ready_accounts)

text \<open>C26: Closing an agent does not look at the token account it was registered with: its owner can
  close it with the empty token account of another mint, leaving USDC behind at the wallet's address;
  then anyone can register the same id again, with a third mint, and withdraw that USDC to their own
  account. Here the steps are run from a reachable state: the close is signed by the owner, the
  registration and the withdrawal by a stranger alone (here the key of the demo's admin, a role that
  none of these instructions looks at), who ends up with all 30 USDC.\<close>

theorem closed_agent_tokens_can_be_taken:
  "\<exists>s1 s2 s3. reach genesis (world_step demo) (gap_1, demo_now)
     \<and> accounts gap_1 demo_usdc_key = Some (demo_token demo_wallet_key 30000000)
     \<and> demo_admin \<noteq> demo_owner
     \<and> process demo (demo_iv demo_now) (IxCloseAgent gap_close_ctx) gap_1 = Inr s1
     \<and> process demo stranger_iv (IxRegisterAgent gap_register_ctx ''bot-1'') s1 = Inr s2
     \<and> process demo stranger_iv (IxWithdrawAll gap_withdraw_ctx) s2 = Inr s3
     \<and> iv_signers stranger_iv = [demo_admin]
     \<and> accounts s3 stranger_home = Some (demo_token demo_admin 30000000)
     \<and> accounts s3 demo_usdc_key = Some (demo_token demo_wallet_key 0)"
proof -
  obtain s2 where reg: "process demo stranger_iv (IxRegisterAgent gap_register_ctx ''bot-1'') gap_2 = Inr s2"
    and acc2: "accounts s2 = (accounts gap_2)
      (third_usdc_key \<mapsto> TokenAcc \<lparr>ta_mint = third_mint, ta_owner = demo_wallet_key, ta_amount = 0,
        ta_frozen = False\<rparr>,
      demo_wallet_key \<mapsto> AgentWalletAcc (new_agent_wallet ''bot-1'' demo_admin third_usdc_key demo_now 255))"
    using gap_register by blast
  have at: "accounts s2 demo_usdc_key = Some (demo_token demo_wallet_key 30000000)"
    "accounts s2 stranger_home = Some (demo_token demo_admin 0)"
    "accounts s2 demo_mint = Some MintAcc"
    "accounts s2 demo_wallet_key =
       Some (AgentWalletAcc (new_agent_wallet ''bot-1'' demo_admin third_usdc_key demo_now 255))"
    by (simp_all add: acc2 gap_2_def gap_1_accounts demo_ready_accounts)
  let ?acc = "(accounts s2)(demo_usdc_key \<mapsto> demo_token demo_wallet_key 0,
      stranger_home \<mapsto> demo_token demo_admin 30000000)"
  have move: "spl_transfer (accounts s2) (lamports s2) demo_usdc_key stranger_home demo_wallet_key 30000000
      = Inr (?acc, lamports s2)"
    using at by (simp add: spl_transfer_def demo_token_def transfer_effect_def spl_lamports_def)
  have "\<exists>s3. process demo stranger_iv (IxWithdrawAll gap_withdraw_ctx) s2 = Inr s3 \<and> accounts s3 = ?acc"
    using at move
    by (simp add: ix_simps gap_withdraw_ctx_def stranger_iv_def new_agent_wallet_def demo_created
        demo_usdc_key_def [symmetric] stranger_home_def [symmetric] demo_token_def word_gt_0)
  then obtain s3 where "process demo stranger_iv (IxWithdrawAll gap_withdraw_ctx) s2 = Inr s3"
    "accounts s3 = ?acc" by blast
  moreover have "accounts gap_1 demo_usdc_key = Some (demo_token demo_wallet_key 30000000)"
    by (simp add: gap_1_accounts demo_ready_accounts)
  ultimately show ?thesis
    using gap_reach gap_close reg
    by (intro exI [of _ gap_2] exI [of _ s2] exI [of _ s3]) (simp add: stranger_iv_def)
qed

end
