(* ===== verification/Freeze_Escape.thy ===== *)
theory Freeze_Escape
  imports Wallet_Automaton Stranded_Tokens
begin

text \<open>
  A run that shows a way around the admin's freeze: \<^verbatim>\<open>close_agent\<close> does not look at the frozen flag, and
  \<^verbatim>\<open>register_agent\<close> starts every wallet unfrozen.
\<close>

definition owner_iv :: "i64 \<Rightarrow> invocation" where
  "owner_iv t = \<lparr>iv_signers = [demo_owner], iv_now = t\<rparr>"

lemma owner_iv_fields [simp]: "iv_signers (owner_iv t) = [demo_owner]" "iv_now (owner_iv t) = t"
  by (simp_all add: owner_iv_def)

definition esc_register_ctx :: RegisterAgent where
  "esc_register_ctx = gap_register_ctx\<lparr>rg_owner := demo_owner\<rparr>"

definition esc_wallet :: AgentWallet where
  "esc_wallet = demo_wallet\<lparr>aw_usdc_token_account := third_usdc_key\<rparr>"

lemma esc_wallet_new: "new_agent_wallet ''bot-1'' demo_owner third_usdc_key demo_now 255 = esc_wallet"
  by (simp add: esc_wallet_def demo_wallet_def new_agent_wallet_def)

text \<open>The admin freezes the wallet; then its owner pauses it, closes it, registers the id again and sets the policy.\<close>

definition esc_1 :: chain where
  "esc_1 = store demo_wallet_key (AgentWalletAcc (demo_wallet\<lparr>aw_is_frozen := True\<rparr>))
     (emit (AgentFreezeChanged demo_wallet_key ''bot-1'' True demo_now) gap_0)"

definition esc_2 :: chain where
  "esc_2 = store demo_wallet_key (AgentWalletAcc (demo_wallet\<lparr>aw_is_frozen := True, aw_is_active := False\<rparr>))
     (emit (AgentStatusChanged demo_wallet_key ''bot-1'' False demo_now) esc_1)"

definition esc_3 :: chain where
  "esc_3 = close_account demo_policy_key demo_owner (close_account demo_wallet_key demo_owner esc_2)"

definition esc_4 :: chain where
  "esc_4 = store demo_wallet_key (AgentWalletAcc esc_wallet)
     (store third_usdc_key (TokenAcc \<lparr>ta_mint = third_mint, ta_owner = demo_wallet_key, ta_amount = 0,
        ta_frozen = False\<rparr>)
     (pay_rent demo demo_owner third_usdc_key token_account_space
     (store demo_wallet_key (AgentWalletAcc zero_AgentWallet)
     (pay_rent demo demo_owner demo_wallet_key AgentWallet_LEN esc_3))))"

definition esc_5 :: chain where
  "esc_5 = store demo_policy_key (SpendPolicyAcc demo_policy)
     (emit (SpendPolicyUpdated demo_wallet_key 50000000 200000000 0 40000000 10000000 demo_now)
     (store demo_policy_key (SpendPolicyAcc zero_SpendPolicy)
     (pay_rent demo demo_owner demo_policy_key SpendPolicy_LEN esc_4)))"

lemma esc_1_run: "process demo (demo_iv demo_now) (IxFreezeAgent demo_freeze_ctx) gap_0 = Inr esc_1"
  by (simp add: ix_simps demo_freeze_ctx_def gap_0_accounts demo_ready_accounts demo_created esc_1_def)

lemma esc_1_reach: "reach genesis (world_step demo) (esc_1, demo_now)"
  using world_step.instruction [OF esc_1_run, of demo_now] by (intro reach_step [OF gap_0_reach]) simp

lemma esc_2_run: "process demo (owner_iv demo_now) (IxDeactivateAgent demo_status_ctx) esc_1 = Inr esc_2"
  by (simp add: ix_simps demo_status_ctx_def esc_1_def esc_2_def)

lemma esc_2_accounts: "accounts esc_2 = (accounts gap_0)(demo_wallet_key \<mapsto>
    AgentWalletAcc (demo_wallet\<lparr>aw_is_frozen := True, aw_is_active := False\<rparr>))"
  by (simp add: esc_2_def esc_1_def)

lemma esc_3_run: "process demo (owner_iv demo_now) (IxCloseAgent gap_close_ctx) esc_2 = Inr esc_3"
  by (simp add: ix_simps gap_close_ctx_def esc_2_accounts gap_0_accounts demo_ready_accounts demo_created
      other_usdc_key_def [symmetric] esc_3_def)

lemma esc_3_facts:
  "accounts esc_3 = (accounts gap_0)(demo_wallet_key := None, demo_policy_key := None)"
  "lamports esc_3 = (lamports demo_ready)
     (demo_owner := lamports demo_ready demo_owner + lamports demo_ready demo_wallet_key
        + lamports demo_ready demo_policy_key, demo_wallet_key := 0, demo_policy_key := 0)"
  by (simp_all add: esc_3_def esc_2_accounts close_account_def esc_2_def esc_1_def gap_0_def fun_eq_iff)

lemma esc_3_lamports: "lamports esc_3 demo_owner = 997960720"
  "lamports esc_3 demo_wallet_key = 0" "lamports esc_3 third_usdc_key = 0"
  "lamports esc_3 demo_policy_key = 0" "lamports esc_3 (demo_record_key 0) = 0"
  by (simp_all add: esc_3_facts demo_ready_def demo_funded_def
      demo_3_def demo_2_def demo_1_def demo_genesis_def demo_rents)

lemma esc_4_run: "process demo (owner_iv demo_now) (IxRegisterAgent esc_register_ctx ''bot-1'') esc_3 = Inr esc_4"
  by (simp add: ix_simps esc_register_ctx_def gap_register_ctx_def demo_find_wallet third_usdc_key_def [symmetric]
      valid_agent_id_length_def valid_agent_id_chars_def is_ascii_alphanumeric_def MAX_AGENT_ID_LEN_def
      esc_3_lamports esc_3_facts(1) gap_0_accounts demo_ready_accounts esc_wallet_new esc_4_def demo_rents)

lemma esc_keys_distinct:
  "demo_record_key 0 \<notin> {third_usdc_key, stranger_home, other_usdc_key, third_mint, other_mint}"
  "{third_usdc_key, stranger_home, other_usdc_key, third_mint, other_mint} \<inter> {demo_record_key 0} = {}"
  by (simp_all add: demo_key_values)
declare esc_keys_distinct [simplified, simp]

lemma esc_4_facts:
  "accounts esc_4 = (accounts esc_3)(third_usdc_key \<mapsto> TokenAcc \<lparr>ta_mint = third_mint,
     ta_owner = demo_wallet_key, ta_amount = 0, ta_frozen = False\<rparr>, demo_wallet_key \<mapsto> AgentWalletAcc esc_wallet)"
  "lamports esc_4 demo_owner = 993478480" "lamports esc_4 demo_policy_key = 0"
  "lamports esc_4 (demo_record_key 0) = 0"
  by (simp_all add: esc_4_def fun_eq_iff demo_rents esc_3_lamports esc_keys_distinct)

lemma esc_5_run: "process demo (owner_iv demo_now) (IxSetSpendPolicy demo_policy_ctx demo_policy_params) esc_4 = Inr esc_5"
  unfolding process.simps set_spend_policy_eq_Inr
  by (rule exI [of _ esc_wallet], rule exI [of _ 255], rule exI [of _ zero_SpendPolicy], rule exI, intro conjI)
   (simp_all add: demo_policy_ctx_def demo_find_policy esc_5_def demo_policy_def demo_policy_params_def MAX_DOMAIN_ENTRIES_def
     esc_4_facts esc_3_facts(1) demo_wallet_def new_agent_wallet_def esc_wallet_def demo_rents)

lemma esc_5_facts:
  "accounts esc_5 = (accounts esc_4)(demo_policy_key \<mapsto> SpendPolicyAcc demo_policy)"
  "lamports esc_5 demo_owner = 977574880" "lamports esc_5 (demo_record_key 0) = 0"
  by (simp_all add: esc_5_def fun_eq_iff demo_rents esc_4_facts)


lemma esc_5_accounts: "accounts esc_5 = (accounts demo_ready)
  (stranger_home \<mapsto> demo_token demo_admin 0,
   other_usdc_key \<mapsto> TokenAcc \<lparr>ta_mint = other_mint, ta_owner = demo_wallet_key, ta_amount = 0,
        ta_frozen = False\<rparr>, third_mint \<mapsto> MintAcc, other_mint \<mapsto> MintAcc,
   third_usdc_key \<mapsto> TokenAcc \<lparr>ta_mint = third_mint, ta_owner = demo_wallet_key, ta_amount = 0,
        ta_frozen = False\<rparr>, demo_wallet_key \<mapsto> AgentWalletAcc esc_wallet)"
  by (simp add: esc_5_facts(1) esc_4_facts(1) esc_3_facts(1) gap_0_accounts demo_ready_accounts fun_eq_iff)

lemma esc_guards: "settle_wallet_guards esc_wallet (demo_now + 60) = Inr esc_wallet"
  by (simp add: settle_wallet_guards_def daily.reset_value weekly.reset_value monthly.reset_value
    daily.in_range_def weekly.in_range_def monthly.in_range_def daily.elapsed_def weekly.elapsed_def monthly.elapsed_def
    sint_periods demo_now_def i64_range_def esc_wallet_def)

lemma esc_policy_run:
  "settle_policy esc_wallet demo_policy (demo_payment 12000000) (demo_now + 60) = Inr (demo_policy\<lparr>sp_rate_limit_call_count := 1\<rparr>)"
  by (simp add: settle_policy_def enforce_on_chain_def settle_policy_checks_def within_per_call_limit_def
    within_daily_budget_def within_weekly_budget_def within_monthly_budget_def saturating_add_def
    reset_rate_window_value within_rate_limit_def sint_periods demo_now_def i64_range_def zero_SpendPolicy_def
    esc_wallet_def)

lemma esc_settle: "\<exists>s'. process demo (owner_iv (demo_now + 60))
    (IxSettlePayment (demo_settle_ctx 0) 0 (demo_payment 12000000)) esc_5 = Inr s'
  \<and> accounts s' demo_payee_ata = Some (demo_token 601 12000000)"
proof -
  let ?acc = "(accounts esc_5)(demo_record_key 0 \<mapsto> PaymentRecordAcc zero_LedgerEntry,
      demo_usdc_key \<mapsto> demo_token demo_wallet_key 18000000, demo_payee_ata \<mapsto> demo_token 601 12000000)"
  have move: "spl_transfer ((accounts esc_5)(demo_record_key 0 \<mapsto> PaymentRecordAcc zero_LedgerEntry))
      lam demo_usdc_key demo_payee_ata demo_wallet_key 12000000 = Inr (?acc, lam)" for lam
    by (simp add: spl_transfer_def esc_5_accounts demo_ready_accounts demo_token_def transfer_effect_def
        spl_lamports_def)
  have at: "accounts esc_5 demo_wallet_key = Some (AgentWalletAcc esc_wallet)"
    "accounts esc_5 demo_policy_key = Some (SpendPolicyAcc demo_policy)"
    "accounts esc_5 demo_usdc_key = Some (demo_token demo_wallet_key 30000000)"
    "accounts esc_5 demo_payee_ata = Some (demo_token 601 0)"
    "accounts esc_5 demo_mint = Some MintAcc"
    "accounts esc_5 demo_config_key = Some (ProtocolConfigAcc demo_config)"
    "accounts esc_5 (demo_record_key 0) = None"
    by (simp_all add: esc_5_accounts demo_ready_accounts)
  have fields: "aw_owner esc_wallet = demo_owner" "aw_bump esc_wallet = 255" "aw_agent_id esc_wallet = ''bot-1''"
    "aw_payment_sequence esc_wallet = 0"
    by (simp_all add: esc_wallet_def)
  show ?thesis
    by (rule exI, rule conjI, rule trans [OF process.simps(6) settle_paymentI [where wallet = esc_wallet and policy = demo_policy and config = demo_config
        and usdc = "\<lparr>ta_mint = demo_mint, ta_owner = demo_wallet_key, ta_amount = 30000000, ta_frozen = False\<rparr>"
        and payee = "\<lparr>ta_mint = demo_mint, ta_owner = 601, ta_amount = 0, ta_frozen = False\<rparr>"
        and wallet' = esc_wallet and policy' = "demo_policy\<lparr>sp_rate_limit_call_count := 1\<rparr>"
        and protocol = X402 and bump = 255 and acc = ?acc and lam = "lamports (pay_rent demo demo_owner (demo_record_key 0) PaymentRecord_LEN esc_5)"]])
      (simp_all add: at fields esc_5_facts(2,3) demo_find_record demo_created demo_usdc_key_def [symmetric]
        demo_token_def demo_rents settle_param_guards_def settle_global_cap_def
        esc_guards esc_policy_run move [unfolded demo_token_def])
qed

text \<open>C27: The owner of a frozen wallet can be rid of the freeze. Here, from a reachable state in which the
  admin has frozen a funded wallet that has not paid yet, the owner alone deactivates it, closes it
  with the empty token account of another mint, registers the same id again with a third mint and
  sets the policy; the wallet at the same address is active and unfrozen, and its owner settles a
  payment of 12 USDC out of the funds that were frozen.\<close>

theorem owner_escapes_freeze:
  "\<exists>s0 s1 s2 s3 s4 s5. reach genesis (world_step demo) (s0, demo_now)
     \<and> phase_at (accounts s0) demo_wallet_key = Present True True
     \<and> process demo (owner_iv demo_now) (IxDeactivateAgent demo_status_ctx) s0 = Inr s1
     \<and> process demo (owner_iv demo_now) (IxCloseAgent gap_close_ctx) s1 = Inr s2
     \<and> process demo (owner_iv demo_now) (IxRegisterAgent esc_register_ctx ''bot-1'') s2 = Inr s3
     \<and> process demo (owner_iv demo_now) (IxSetSpendPolicy demo_policy_ctx demo_policy_params) s3 = Inr s4
     \<and> phase_at (accounts s4) demo_wallet_key = Present True False
     \<and> process demo (owner_iv (demo_now + 60))
         (IxSettlePayment (demo_settle_ctx 0) 0 (demo_payment 12000000)) s4 = Inr s5
     \<and> accounts s5 demo_payee_ata = Some (demo_token 601 12000000)
     \<and> iv_signers (owner_iv demo_now) = [demo_owner] \<and> demo_owner \<noteq> demo_admin"
proof -
  obtain s5 where "process demo (owner_iv (demo_now + 60))
      (IxSettlePayment (demo_settle_ctx 0) 0 (demo_payment 12000000)) esc_5 = Inr s5"
    "accounts s5 demo_payee_ata = Some (demo_token 601 12000000)"
    using esc_settle by blast
  moreover have "phase_at (accounts esc_1) demo_wallet_key = Present True True"
    "phase_at (accounts esc_5) demo_wallet_key = Present True False"
    by (simp_all add: esc_1_def esc_5_accounts esc_wallet_def)
  moreover have "iv_signers (owner_iv demo_now) = [demo_owner]" "demo_owner \<noteq> demo_admin" by simp_all
  ultimately show ?thesis
    using esc_1_reach esc_2_run esc_3_run esc_4_run esc_5_run by blast
qed

end
