(* ===== verification/Lifecycle.thy ===== *)
theory Lifecycle
  imports Custody Stranded_Tokens
begin

text \<open>
  The life of a wallet and its policy: registration, policy updates, the two flags, violations and
  closing, each with everything it changes.
\<close>

section \<open>Registration\<close>

lemma new_agent_wallet_eq:
  "new_agent_wallet agent_id owner usdc now b =
     \<lparr>aw_agent_id = agent_id, aw_owner = owner, aw_usdc_token_account = usdc,
      aw_daily_spend = 0, aw_daily_window_start = now, aw_weekly_spend = 0, aw_weekly_window_start = now,
      aw_monthly_spend = 0, aw_monthly_window_start = now, aw_payment_sequence = 0,
      aw_total_payments = 0, aw_total_volume = 0, aw_last_payment_at = 0, aw_is_active = True,
      aw_is_frozen = False, aw_bump = b\<rparr>"
  by (simp add: new_agent_wallet_def zero_AgentWallet_def)

lemma updated_policy_eq:
  "updated_policy policy k params now b =
     \<lparr>sp_agent_wallet = k,
      sp_daily_budget = ssp_daily_budget params, sp_weekly_budget = ssp_weekly_budget params,
      sp_monthly_budget = ssp_monthly_budget params, sp_per_call_limit = ssp_per_call_limit params,
      sp_rate_limit_calls = ssp_rate_limit_calls params,
      sp_rate_limit_window_secs = ssp_rate_limit_window_secs params,
      sp_rate_limit_call_count = 0, sp_rate_limit_window_start = now,
      sp_high_value_threshold = ssp_high_value_threshold params,
      sp_allowed_domain_hashes = ssp_allowed_domain_hashes params,
      sp_blocked_domain_hashes = ssp_blocked_domain_hashes params, sp_bump = b\<rparr>"
  by (cases policy) (simp add: updated_policy_def)

text \<open>C29: A successful \<open>register_agent\<close> was signed by the owner, with an id of 1 to 64 ASCII letters,
  digits, hyphens and underscores; it creates the wallet at the id's address, active, not frozen,
  with zero counters and all windows starting now, and the wallet's token account, where neither
  account existed; it changes no other account and emits no event. The token account is empty, unless
  the mint is the native one: then it holds the lamports its address had beyond the rent.\<close>

theorem register_agent_effect:
  assumes "register_agent P iv ctx agent_id s = Inr s'"
  shows "rg_owner ctx \<in> set (iv_signers iv) \<and> 1 \<le> length agent_id \<and> length agent_id \<le> 64
    \<and> list_all (\<lambda>c. is_ascii_alphanumeric c \<or> c \<in> set ''-_'') agent_id
    \<and> accounts s (rg_agent_wallet ctx) = None \<and> accounts s (rg_usdc_token_account ctx) = None
    \<and> (\<exists>b. find_program_address P (agent_wallet_seeds agent_id) = Some (rg_agent_wallet ctx, b)
        \<and> accounts s' = (accounts s)
            (rg_agent_wallet ctx \<mapsto> AgentWalletAcc
               \<lparr>aw_agent_id = agent_id, aw_owner = rg_owner ctx,
                aw_usdc_token_account = rg_usdc_token_account ctx,
                aw_daily_spend = 0, aw_daily_window_start = iv_now iv,
                aw_weekly_spend = 0, aw_weekly_window_start = iv_now iv,
                aw_monthly_spend = 0, aw_monthly_window_start = iv_now iv,
                aw_payment_sequence = 0, aw_total_payments = 0, aw_total_volume = 0,
                aw_last_payment_at = 0, aw_is_active = True, aw_is_frozen = False, aw_bump = b\<rparr>,
             rg_usdc_token_account ctx \<mapsto> TokenAcc \<lparr>ta_mint = rg_usdc_mint ctx,
               ta_owner = rg_agent_wallet ctx, ta_amount =
                 (if rg_usdc_mint ctx = native_mint P
                  then of_nat (lamports s (rg_usdc_token_account ctx) - minimum_balance P 165) else 0),
               ta_frozen = False\<rparr>))
    \<and> event_log s' = event_log s"
  using assms
proof (rule register_result, goal_cases)
  case (1 b)
  have "1 \<le> length agent_id" "length agent_id \<le> 64"
    using 1(6) by (cases agent_id; simp add: valid_agent_id_length_def MAX_AGENT_ID_LEN_def)+
  moreover have "list_all (\<lambda>c. is_ascii_alphanumeric c \<or> c \<in> set ''-_'') agent_id"
    using 1(7) by (simp add: valid_agent_id_chars_def)
  ultimately show ?case
    using 1(1,2,4,5,8,9) unfolding new_agent_wallet_eq initial_amount_def token_account_space_def by blast
qed

text \<open>C30: \<open>register_agent\<close> never succeeds for an id of more than 32 bytes, although ids of up to 64 are
  meant to be allowed, since no address exists for such a seed; nor if an account already exists at
  the wallet's address or at the address of its associated token account, which anyone can create.\<close>

theorem register_agent_refused:
  assumes "seeds_limited P"
    and "32 < length agent_id \<or> accounts s (rg_agent_wallet ctx) \<noteq> None
      \<or> accounts s (get_associated_token_address P (rg_agent_wallet ctx) (rg_usdc_mint ctx)) \<noteq> None"
  shows "register_agent P iv ctx agent_id s \<noteq> Inr s'"
proof
  assume run: "register_agent P iv ctx agent_id s = Inr s'"
  have "find_program_address P (agent_wallet_seeds agent_id) = None" if "32 < length agent_id"
    using assms(1) that unfolding seeds_limited_def by (simp add: agent_wallet_seeds_def)
  then show False using run assms(2) by (auto simp: register_agent_eq_Inr)
qed

theorem register_agent_refused_witness:
  "\<forall>s'. register_agent demo (demo_iv demo_now) demo_register_ctx (replicate 40 (CHR ''a'')) demo_1 \<noteq> Inr s'"
  using register_agent_refused [OF demo_seeds_limited, of "replicate 40 (CHR ''a'')"] by simp

theorem register_agent_effect_witness:
  "accounts demo_1 demo_wallet_key = None \<and> length ''bot-1'' \<le> 64"
  using register_agent_effect [of demo "demo_iv demo_now" demo_register_ctx "''bot-1''" demo_1 demo_2]
    demo_2_run by (simp add: demo_register_ctx_def)

section \<open>Policy\<close>

text \<open>C31: A successful \<open>set_spend_policy\<close> was signed by the wallet's owner and replaces the whole policy
  of the wallet, creating it if there is none: every limit and both domain lists are the given ones
  (at most 32 domains each), and the rate window starts again, empty, now. It changes no other
  account and emits the update.\<close>

theorem set_spend_policy_effect:
  assumes "set_spend_policy P iv ctx params s = Inr s'"
  shows "(\<exists>w. accounts s (sy_agent_wallet ctx) = Some (AgentWalletAcc w)
        \<and> aw_owner w = sy_owner ctx \<and> sy_owner ctx \<in> set (iv_signers iv))
    \<and> length (ssp_allowed_domain_hashes params) \<le> 32 \<and> length (ssp_blocked_domain_hashes params) \<le> 32
    \<and> (\<exists>b. find_program_address P (spend_policy_seeds (sy_agent_wallet ctx)) = Some (sy_spend_policy ctx, b)
        \<and> accounts s' = (accounts s)(sy_spend_policy ctx \<mapsto> SpendPolicyAcc
            \<lparr>sp_agent_wallet = sy_agent_wallet ctx,
             sp_daily_budget = ssp_daily_budget params, sp_weekly_budget = ssp_weekly_budget params,
             sp_monthly_budget = ssp_monthly_budget params,
             sp_per_call_limit = ssp_per_call_limit params,
             sp_rate_limit_calls = ssp_rate_limit_calls params,
             sp_rate_limit_window_secs = ssp_rate_limit_window_secs params,
             sp_rate_limit_call_count = 0, sp_rate_limit_window_start = iv_now iv,
             sp_high_value_threshold = ssp_high_value_threshold params,
             sp_allowed_domain_hashes = ssp_allowed_domain_hashes params,
             sp_blocked_domain_hashes = ssp_blocked_domain_hashes params, sp_bump = b\<rparr>))
    \<and> event_log s' = event_log s @ [SpendPolicyUpdated (sy_agent_wallet ctx) (ssp_daily_budget params)
        (ssp_weekly_budget params) (ssp_monthly_budget params) (ssp_per_call_limit params)
        (ssp_high_value_threshold params) (iv_now iv)]"
  using assms
  by (auto simp: set_spend_policy_eq_Inr MAX_DOMAIN_ENTRIES_def updated_policy_eq)

theorem set_spend_policy_effect_witness:
  "\<exists>p. accounts demo_3 demo_policy_key = Some (SpendPolicyAcc p) \<and> sp_rate_limit_call_count p = 0"
  using set_spend_policy_effect [of demo "demo_iv demo_now" demo_policy_ctx demo_policy_params demo_2 demo_3]
    demo_3_run by (auto simp: demo_policy_ctx_def)

section \<open>Flags\<close>

text \<open>C34: Each of the four status instructions sets its own flag and nothing else: activity by the owner,
  the freeze by the admin, so neither can undo the other's.\<close>

theorem status_instructions_set_one_flag:
  assumes "process P iv ix s = Inr s'"
  shows "(\<forall>ctx w. ix \<in> {IxDeactivateAgent ctx, IxReactivateAgent ctx}
           \<and> accounts s (ms_agent_wallet ctx) = Some (AgentWalletAcc w) \<longrightarrow>
           aw_owner w \<in> set (iv_signers iv) \<and> accounts s' = (accounts s)(ms_agent_wallet ctx \<mapsto>
             AgentWalletAcc (w\<lparr>aw_is_active := (ix = IxReactivateAgent ctx)\<rparr>)))
    \<and> (\<forall>ctx w c. ix \<in> {IxFreezeAgent ctx, IxUnfreezeAgent ctx}
           \<and> accounts s (pm_agent_wallet ctx) = Some (AgentWalletAcc w)
           \<and> accounts s (pm_protocol_config ctx) = Some (ProtocolConfigAcc c) \<longrightarrow>
           pc_admin c \<in> set (iv_signers iv) \<and> accounts s' = (accounts s)(pm_agent_wallet ctx \<mapsto>
             AgentWalletAcc (w\<lparr>aw_is_frozen := (ix = IxFreezeAgent ctx)\<rparr>)))"
  using assms by (auto simp: ix_simps)

theorem status_instructions_set_one_flag_witness:
  "\<exists>s'. process demo (demo_iv demo_now) (IxDeactivateAgent demo_status_ctx) demo_ready = Inr s'
     \<and> accounts s' = (accounts demo_ready)
         (demo_wallet_key \<mapsto> AgentWalletAcc (demo_wallet\<lparr>aw_is_active := False\<rparr>))"
proof -
  have w: "accounts demo_ready (ms_agent_wallet demo_status_ctx) = Some (AgentWalletAcc demo_wallet)"
    by (simp add: demo_status_ctx_def demo_ready_accounts)
  have "\<exists>s'. process demo (demo_iv demo_now) (IxDeactivateAgent demo_status_ctx) demo_ready = Inr s'"
    using w by (simp add: ix_simps demo_status_ctx_def)
  then obtain s' where
    run: "process demo (demo_iv demo_now) (IxDeactivateAgent demo_status_ctx) demo_ready = Inr s'"
    by blast
  from status_instructions_set_one_flag [OF run] w run show ?thesis
    by (auto simp: demo_status_ctx_def)
qed

section \<open>Violations\<close>

text \<open>C32: Recording a violation succeeds exactly when the wallet's registered owner has signed and can pay
  the record's rent, the wallet is at its id's address, the sequence number is the wallet's current one,
  its record does not exist yet, the protocol byte is known and no memo is given: nothing is asked of
  the wallet's flags, nor of any policy or configuration. It moves no token and counts no spend: besides
  the new record, which says the payment did not pass and names no payee, only the wallet's sequence
  number and payment count change, each by one (or staying at the largest u64).\<close>

theorem violation_effect:
  "((\<exists>s'. record_policy_violation P iv ctx sequence params reason s = Inr s') \<longleftrightarrow>
      (\<exists>w b. accounts s (rv_agent_wallet ctx) = Some (AgentWalletAcc w)
        \<and> aw_owner w = rv_owner ctx \<and> rv_owner ctx \<in> set (iv_signers iv)
        \<and> create_program_address P (agent_wallet_seeds (spp_agent_id params) @ [[aw_bump w]])
            = Some (rv_agent_wallet ctx)
        \<and> sequence = aw_payment_sequence w
        \<and> find_program_address P (payment_record_seeds (rv_agent_wallet ctx) sequence)
            = Some (rv_payment_record ctx, b)
        \<and> accounts s (rv_payment_record ctx) = None \<and> rv_owner ctx \<noteq> rv_payment_record ctx
        \<and> minimum_balance P PaymentRecord_LEN - lamports s (rv_payment_record ctx)
            \<le> lamports s (rv_owner ctx)
        \<and> unat (spp_protocol params) < 2 \<and> spp_memo params = None))
   \<and> (\<forall>s'. record_policy_violation P iv ctx sequence params reason s = Inr s' \<longrightarrow>
      (\<exists>w r. accounts s (rv_agent_wallet ctx) = Some (AgentWalletAcc w)
        \<and> accounts s' = (accounts s)
            (rv_payment_record ctx \<mapsto> PaymentRecordAcc r,
             rv_agent_wallet ctx \<mapsto> AgentWalletAcc (w\<lparr>
               aw_payment_sequence := of_nat (u64_cap (unat (aw_payment_sequence w) + 1)),
               aw_total_payments := of_nat (u64_cap (unat (aw_total_payments w) + 1))\<rparr>))
        \<and> pr_agent_wallet r = rv_agent_wallet ctx \<and> pr_sequence r = sequence
        \<and> \<not> pr_policy_passed r \<and> pr_payee r = default_pubkey \<and> pr_parent_payment r = None
        \<and> pr_amount_usdc r = spp_amount_usdc params \<and> pr_endpoint_hash r = spp_endpoint_hash params
        \<and> PaymentProtocol_as_u8 (pr_protocol r) = spp_protocol params
        \<and> pr_settled_at r = iv_now iv \<and> le_memo r = None
        \<and> event_log s' = event_log s @ [PolicyViolationRecorded (rv_agent_wallet ctx) sequence
            (spp_endpoint_hash params) (spp_amount_usdc params) reason]))"
proof (intro conjI allI impI)
  have protocol: "(\<exists>p. from_discriminant v = Some p) \<longleftrightarrow> unat v < 2" for v
    using from_discriminant_eq_None [of v] by (cases "from_discriminant v") auto
  show "(\<exists>s'. record_policy_violation P iv ctx sequence params reason s = Inr s') \<longleftrightarrow>
      (\<exists>w b. accounts s (rv_agent_wallet ctx) = Some (AgentWalletAcc w)
        \<and> aw_owner w = rv_owner ctx \<and> rv_owner ctx \<in> set (iv_signers iv)
        \<and> create_program_address P (agent_wallet_seeds (spp_agent_id params) @ [[aw_bump w]])
            = Some (rv_agent_wallet ctx)
        \<and> sequence = aw_payment_sequence w
        \<and> find_program_address P (payment_record_seeds (rv_agent_wallet ctx) sequence)
            = Some (rv_payment_record ctx, b)
        \<and> accounts s (rv_payment_record ctx) = None \<and> rv_owner ctx \<noteq> rv_payment_record ctx
        \<and> minimum_balance P PaymentRecord_LEN - lamports s (rv_payment_record ctx)
            \<le> lamports s (rv_owner ctx)
        \<and> unat (spp_protocol params) < 2 \<and> spp_memo params = None)"
    unfolding record_policy_violation_eq_Inr rent_due_def protocol [symmetric] by blast
next
  fix s' assume "record_policy_violation P iv ctx sequence params reason s = Inr s'"
  then show "\<exists>w r. accounts s (rv_agent_wallet ctx) = Some (AgentWalletAcc w)
      \<and> accounts s' = (accounts s)
          (rv_payment_record ctx \<mapsto> PaymentRecordAcc r,
           rv_agent_wallet ctx \<mapsto> AgentWalletAcc (w\<lparr>
             aw_payment_sequence := of_nat (u64_cap (unat (aw_payment_sequence w) + 1)),
             aw_total_payments := of_nat (u64_cap (unat (aw_total_payments w) + 1))\<rparr>))
      \<and> pr_agent_wallet r = rv_agent_wallet ctx \<and> pr_sequence r = sequence
      \<and> \<not> pr_policy_passed r \<and> pr_payee r = default_pubkey \<and> pr_parent_payment r = None
      \<and> pr_amount_usdc r = spp_amount_usdc params \<and> pr_endpoint_hash r = spp_endpoint_hash params
      \<and> PaymentProtocol_as_u8 (pr_protocol r) = spp_protocol params
      \<and> pr_settled_at r = iv_now iv \<and> le_memo r = None
      \<and> event_log s' = event_log s @ [PolicyViolationRecorded (rv_agent_wallet ctx) sequence
          (spp_endpoint_hash params) (spp_amount_usdc params) reason]"
  proof (rule violation_result, goal_cases)
    case (1 wallet bump protocol)
    have "PaymentProtocol_as_u8 protocol = spp_protocol params"
      using 1(7) by (simp only: from_discriminant_eq_Some)
    with 1 show ?case
      by (intro exI [of _ wallet] exI [of _ "violation_record (rv_agent_wallet ctx) sequence params
          protocol (iv_now iv) bump"]) (simp add: saturating_add_u64 violation_accounting_def violation_record_def)
  qed
qed

definition demo_violation_ctx :: RecordPolicyViolation where
  "demo_violation_ctx = \<lparr>rv_payment_record = demo_record_key 0, rv_agent_wallet = demo_wallet_key,
     rv_owner = demo_owner\<rparr>"

text \<open>A wallet that is paused and frozen and has no policy.\<close>

definition demo_halted :: chain where
  "demo_halted = store demo_wallet_key
     (AgentWalletAcc (demo_wallet\<lparr>aw_is_active := False, aw_is_frozen := True\<rparr>)) demo_2"

theorem violation_effect_witness:
  "accounts demo_halted demo_policy_key = None
   \<and> (\<exists>s' r. record_policy_violation demo (demo_iv demo_now) demo_violation_ctx 0 (demo_payment 90000000) 7
       demo_halted = Inr s'
     \<and> accounts s' (demo_record_key 0) = Some (PaymentRecordAcc r) \<and> \<not> pr_policy_passed r)"
proof
  show "accounts demo_halted demo_policy_key = None"
    by (simp add: demo_halted_def demo_2_facts demo_1_facts demo_genesis_def)
  have wallet: "accounts demo_halted demo_wallet_key
      = Some (AgentWalletAcc (demo_wallet\<lparr>aw_is_active := False, aw_is_frozen := True\<rparr>))"
    and none: "accounts demo_halted (demo_record_key 0) = None"
    by (simp_all add: demo_halted_def demo_2_facts demo_1_facts demo_genesis_def)
  obtain s' where run: "record_policy_violation demo (demo_iv demo_now) demo_violation_ctx 0
      (demo_payment 90000000) 7 demo_halted = Inr s'"
    using violation_effect [THEN conjunct1, of demo "demo_iv demo_now" demo_violation_ctx 0
        "demo_payment 90000000" 7 demo_halted] wallet none
    by (auto simp: demo_violation_ctx_def demo_find_record demo_created demo_halted_def demo_2_facts demo_rents)
  with violation_effect [THEN conjunct2, rule_format, OF run]
  show "\<exists>s' r. record_policy_violation demo (demo_iv demo_now) demo_violation_ctx 0 (demo_payment 90000000) 7
       demo_halted = Inr s'
     \<and> accounts s' (demo_record_key 0) = Some (PaymentRecordAcc r) \<and> \<not> pr_policy_passed r"
    by (auto simp: demo_violation_ctx_def)
qed

section \<open>Closing\<close>

text \<open>C33: A successful \<open>close_agent\<close> was signed by the owner of an inactive wallet and shown an empty
  token account the wallet has authority over; it removes exactly the wallet and its policy, pays the
  lamports of both to the owner, keeps every payment record and emits no event.\<close>

theorem close_agent_effect:
  assumes "close_agent P iv ctx s = Inr s'"
  shows "(\<exists>w usdc. accounts s (ca_agent_wallet ctx) = Some (AgentWalletAcc w)
        \<and> aw_owner w = ca_owner ctx \<and> ca_owner ctx \<in> set (iv_signers iv) \<and> \<not> aw_is_active w
        \<and> accounts s (ca_usdc_token_account ctx) = Some (TokenAcc usdc)
        \<and> ta_owner usdc = ca_agent_wallet ctx \<and> ta_amount usdc = 0)
    \<and> accounts s' = (accounts s)(ca_agent_wallet ctx := None, ca_spend_policy ctx := None)
    \<and> lamports s' (ca_owner ctx) = lamports s (ca_owner ctx)
        + lamports s (ca_agent_wallet ctx) + lamports s (ca_spend_policy ctx)
    \<and> lamports s' (ca_agent_wallet ctx) = 0 \<and> lamports s' (ca_spend_policy ctx) = 0
    \<and> (\<forall>k. k \<notin> {ca_owner ctx, ca_agent_wallet ctx, ca_spend_policy ctx} \<longrightarrow>
          lamports s' k = lamports s k)
    \<and> (\<forall>k r. accounts s k = Some (PaymentRecordAcc r) \<longrightarrow> accounts s' k = Some (PaymentRecordAcc r))
    \<and> event_log s' = event_log s"
proof -
  from assms obtain w p usdc where r: "accounts s (ca_agent_wallet ctx) = Some (AgentWalletAcc w)"
    "accounts s (ca_spend_policy ctx) = Some (SpendPolicyAcc p)"
    "accounts s (ca_usdc_token_account ctx) = Some (TokenAcc usdc)"
    "aw_owner w = ca_owner ctx" "ca_owner ctx \<in> set (iv_signers iv)" "\<not> aw_is_active w"
    "ta_owner usdc = ca_agent_wallet ctx" "ta_amount usdc = 0"
    and neq: "ca_agent_wallet ctx \<noteq> ca_owner ctx" "ca_spend_policy ctx \<noteq> ca_owner ctx"
    and s': "s' = close_account (ca_spend_policy ctx) (ca_owner ctx)
                (close_account (ca_agent_wallet ctx) (ca_owner ctx) s)"
    unfolding close_agent_eq_Inr by (elim exE conjE) (rule that)
  have "ca_agent_wallet ctx \<noteq> ca_spend_policy ctx" using r(1,2) by auto
  then show ?thesis
    using r neq by (auto simp: s' close_account_def)
qed

theorem close_agent_effect_witness:
  "accounts gap_2 demo_wallet_key = None \<and> accounts gap_2 demo_policy_key = None"
proof -
  have "close_agent demo (demo_iv demo_now) gap_close_ctx gap_1 = Inr gap_2"
    using gap_close by simp
  from close_agent_effect [OF this] show ?thesis by (simp add: gap_close_ctx_def)
qed

end
