(* ===== verification/Ledger.thy ===== *)
theory Ledger
  imports Demo_Run
begin

text \<open>
  The ledger over time: records are permanent and complete, the event log agrees with them, and what
  that permanence does to a wallet whose next sequence number already has a record.
\<close>

section \<open>Records are permanent and complete\<close>

text \<open>C7: A payment record, once written, is never changed and never removed, by any sequence of
  instructions of this program and of actions of other programs.\<close>

theorem payment_records_immutable:
  assumes "transfer_sound P" and "(world_step P)\<^sup>*\<^sup>* (s, t) (s', t')"
    and "accounts s k = Some (PaymentRecordAcc r)"
  shows "accounts s' k = Some (PaymentRecordAcc r)"
proof -
  have "keeps_records (accounts (fst (s, t))) (accounts (fst (s', t')))"
    using assms(2)
    by (induction rule: rtranclp_induct)
      (auto intro: keeps_records_refl keeps_records_trans dest: world_step_keeps_records [OF assms(1)])
  with assms(3) show ?thesis by (simp add: keeps_records_def)
qed

text \<open>C8: In every reachable state the sequence of a wallet counts its records without a gap: its
  total_payments equals its payment_sequence, and every smaller sequence number has a record at its
  derived address that names this wallet and this number.\<close>

theorem ledger_complete:
  assumes "transfer_sound P" and "reach genesis (world_step P) (s, t)"
    and "accounts s k = Some (AgentWalletAcc w)"
  shows "aw_total_payments w = aw_payment_sequence w
    \<and> (\<forall>n < aw_payment_sequence w. \<exists>r. ledger_entry P (accounts s) k n = Some r
          \<and> pr_agent_wallet r = k \<and> pr_sequence r = n)"
proof -
  have "accounts_ok P t (accounts s)" and l: "ledger_ok P (accounts s)"
    using reachable_ok [OF assms(1,2)] by (simp_all add: world_ok_def)
  from accounts_okD [OF this(1) assms(3)] have "aw_total_payments w = aw_payment_sequence w"
    by (simp add: wallet_ok_def)
  with l assms(3) show ?thesis by (auto simp: ledger_ok_def has_record_def)
qed

theorem ledger_complete_witness:
  "\<exists>r. ledger_entry demo (accounts demo_after) demo_wallet_key 0 = Some r
     \<and> pr_agent_wallet r = demo_wallet_key \<and> pr_sequence r = 0"
  using ledger_complete [OF demo_transfer_sound demo_reach_after demo_after_wallet]
  by simp

theorem payment_records_immutable_witness:
  "accounts demo_frozen (demo_record_key 0) = Some (PaymentRecordAcc (settled_record demo_wallet_key 0
     (demo_payment 12000000) 601 X402 (demo_now + 60) 255))"
  by (rule payment_records_immutable [OF demo_transfer_sound demo_steps_frozen])
    (simp add: demo_after_def)

section \<open>The event log and the ledger\<close>

text \<open>The event an indexer sees for a record; the reason of a violation is in the event only.\<close>

definition event_of_record :: "LedgerEntry \<Rightarrow> event \<Rightarrow> bool" where
  "event_of_record r e =
     (if pr_policy_passed r
      then e = PaymentSettled (pr_agent_wallet r) (pr_sequence r) (pr_endpoint_hash r) (pr_payee r)
                 (pr_amount_usdc r) (PaymentProtocol_as_u8 (pr_protocol r)) (pr_settled_at r)
                 (pr_parent_payment r) (le_memo r)
      else (case e of
              PolicyViolationRecorded k n h a reason \<Rightarrow>
                k = pr_agent_wallet r \<and> n = pr_sequence r \<and> h = pr_endpoint_hash r
                \<and> a = pr_amount_usdc r
            | _ \<Rightarrow> False))"

text \<open>The wallet and the sequence number a ledger event is about.\<close>

fun event_slot :: "event \<Rightarrow> (pubkey \<times> u64) option" where
  "event_slot (PaymentSettled k n h y a p t x m) = Some (k, n)"
| "event_slot (PolicyViolationRecorded k n h a reason) = Some (k, n)"
| "event_slot e = None"

lemma event_of_record_slot:
  "event_of_record r e \<Longrightarrow> event_slot e = Some (pr_agent_wallet r, pr_sequence r)"
  by (cases e) (auto simp: event_of_record_def split: if_splits)

lemma event_of_settled:
  assumes "from_discriminant (spp_protocol params) = Some protocol"
  shows "event_of_record (settled_record k n params payee protocol now b)
    (settled_event k n params payee now)"
  using assms
  by (simp only: from_discriminant_eq_Some)
    (simp add: event_of_record_def settled_record_def settled_event_def)

lemma event_of_violation:
  "event_of_record (violation_record k n params protocol now b)
    (PolicyViolationRecorded k n (spp_endpoint_hash params) (spp_amount_usdc params) reason)"
  by (simp add: event_of_record_def violation_record_def)

definition same_records :: "account_map \<Rightarrow> account_map \<Rightarrow> pubkey set \<Rightarrow> bool" where
  "same_records acc acc' K \<longleftrightarrow>
     (\<forall>k r. k \<notin> K \<and> acc' k = Some (PaymentRecordAcc r) \<longrightarrow> acc k = Some (PaymentRecordAcc r))"

text \<open>An instruction writes no record and logs nothing of the ledger, or one record and its event.\<close>

inductive log_step :: "platform \<Rightarrow> chain \<Rightarrow> chain \<Rightarrow> bool" for P s s' where
  no_entry: "event_log s' = event_log s @ es \<Longrightarrow> \<forall>e \<in> set es. event_slot e = None \<Longrightarrow>
    same_records (accounts s) (accounts s') {} \<Longrightarrow> log_step P s s'"
| entry: "event_log s' = event_log s @ [e] \<Longrightarrow> event_of_record r e \<Longrightarrow> accounts s rk = None \<Longrightarrow>
    find_program_address P (payment_record_seeds (pr_agent_wallet r) (pr_sequence r)) = Some (rk, b) \<Longrightarrow>
    accounts s' rk = Some (PaymentRecordAcc r) \<Longrightarrow>
    same_records (accounts s) (accounts s') {rk} \<Longrightarrow> log_step P s s'"

lemma transfer_same_records: "same_records acc (transfer_effect acc src fa dst ta n) {}"
  by (auto simp: same_records_def transfer_effect_def split: if_splits)

lemma settle_log_step:
  assumes "transfer_sound P" and "settle_payment P iv ctx sequence params s = Inr s'"
  shows "log_step P s s'"
  using assms
proof (rule settle_payment_result, goal_cases)
  case (1 wallet policy usdc payee config bump wallet' policy' protocol)
  let ?r = "settled_record (st_agent_wallet ctx) sequence params (ta_owner payee) protocol
    (iv_now iv) bump"
  have neq: "st_payment_record ctx \<noteq> st_spend_policy ctx" "st_payment_record ctx \<noteq> st_agent_wallet ctx"
    using 1(1-3) by auto
  show ?case
  proof (rule entry [OF 1(21) event_of_settled [OF 1(15)] 1(3)])
    show "find_program_address P (payment_record_seeds (pr_agent_wallet ?r) (pr_sequence ?r))
        = Some (st_payment_record ctx, bump)"
      using 1(6) by simp
    show "accounts s' (st_payment_record ctx) = Some (PaymentRecordAcc ?r)"
      using neq by (simp add: 1(19))
    show "same_records (accounts s) (accounts s') {st_payment_record ctx}"
      using transfer_same_records [of "accounts s"] by (auto simp: same_records_def 1(19) split: if_splits)
  qed
qed

lemma violation_log_step:
  assumes "record_policy_violation P iv ctx sequence params reason s = Inr s'"
  shows "log_step P s s'"
  using assms
proof (rule violation_result, goal_cases)
  case (1 wallet bump protocol)
  show ?case
    by (rule entry [where r = "violation_record (rv_agent_wallet ctx) sequence params protocol
          (iv_now iv) bump" and b = bump, OF 1(9) event_of_violation 1(5)])
      (use 1(1,4,5) in \<open>auto simp: 1(8) same_records_def\<close>)
qed

lemma withdraw_log_step:
  assumes "transfer_sound P" and "acc src = Some (TokenAcc fa)" and "ta_owner fa = authority"
    and "token_transfer P acc lam src dst authority n = Inr (acc', lam')"
  shows "same_records acc acc' {}"
  using transfer_soundD [OF assms] transfer_same_records by metis

lemma process_log_step:
  assumes "transfer_sound P" and "process P iv ix s = Inr s'"
  shows "log_step P s s'"
proof (cases ix)
  case (IxSettlePayment ctx sequence params)
  with assms show ?thesis by (auto intro: settle_log_step)
next
  case (IxRecordPolicyViolation ctx sequence params reason)
  with assms show ?thesis by (auto intro: violation_log_step)
next
  case (IxWithdrawFunds ctx amount)
  with assms(2) show ?thesis
    by (auto simp: ix_simps intro!: no_entry dest: withdraw_log_step [OF assms(1)])
next
  case (IxWithdrawAll ctx)
  with assms(2) show ?thesis
    by (auto simp: ix_simps intro!: no_entry dest: withdraw_log_step [OF assms(1)])
qed (use assms(2) in \<open>auto simp: ix_simps same_records_def intro!: no_entry split: if_splits\<close>)

definition log_ok :: "platform \<Rightarrow> chain \<Rightarrow> bool" where
  "log_ok P s \<longleftrightarrow>
     (\<forall>e \<in> set (event_log s). \<forall>k n. event_slot e = Some (k, n) \<longrightarrow>
        (\<exists>r. ledger_entry P (accounts s) k n = Some r \<and> event_of_record r e))
     \<and> (\<forall>rk r. accounts s rk = Some (PaymentRecordAcc r) \<longrightarrow>
        length (filter (event_of_record r) (event_log s)) = 1)"

lemma log_ok_no_entry:
  assumes ok: "log_ok P s" and log: "event_log s' = event_log s @ es" "\<forall>e \<in> set es. event_slot e = None"
    and recs: "same_records (accounts s) (accounts s') {}" "keeps_records (accounts s) (accounts s')"
  shows "log_ok P s'"
proof -
  have none: "filter (event_of_record r) es = []" for r
    using log(2) event_of_record_slot by (fastforce simp: filter_empty_conv)
  have old: "accounts s rk = Some (PaymentRecordAcc r)" if "accounts s' rk = Some (PaymentRecordAcc r)" for rk r
    using recs(1) that by (simp add: same_records_def)
  show ?thesis
    using ok log recs(2)
    unfolding log_ok_def log(1) filter_append none set_append
    by (auto dest!: old) (meson ledger_entry_kept)
qed

lemma log_ok_entry:
  assumes ok: "log_ok P s" "accounts_ok P t (accounts s)"
    and e: "event_log s' = event_log s @ [e]" "event_of_record r e" and new: "accounts s rk = None"
    and pda: "find_program_address P (payment_record_seeds (pr_agent_wallet r) (pr_sequence r)) = Some (rk, b)"
    and acc: "accounts s' rk = Some (PaymentRecordAcc r)"
    and recs: "same_records (accounts s) (accounts s') {rk}" "keeps_records (accounts s) (accounts s')"
  shows "log_ok P s'"
proof -
  note slot = event_of_record_slot
  have entry: "ledger_entry P (accounts s') (pr_agent_wallet r) (pr_sequence r) = Some r"
    using pda acc by (auto simp: ledger_entry_eq_Some)
  have fresh: "\<not> event_of_record r e'" if e': "e' \<in> set (event_log s)" for e'
  proof
    assume "event_of_record r e'"
    then obtain r' where "ledger_entry P (accounts s) (pr_agent_wallet r) (pr_sequence r) = Some r'"
      using ok(1) e' slot unfolding log_ok_def by blast
    with pda new show False by (auto simp: ledger_entry_eq_Some)
  qed
  have other: "\<not> event_of_record r' e" if "accounts s rk' = Some (PaymentRecordAcc r')" for rk' r'
  proof
    assume "event_of_record r' e"
    with slot [OF e(2)] slot [of r' e] have "pr_agent_wallet r' = pr_agent_wallet r"
      "pr_sequence r' = pr_sequence r" by simp_all
    moreover have "find_program_address P (payment_record_seeds (pr_agent_wallet r') (pr_sequence r'))
        = Some (rk', pr_bump r')"
      using accounts_okD [OF ok(2) that] by (simp add: record_ok_def)
    ultimately show False using pda new that by simp
  qed
  have "\<exists>x. ledger_entry P (accounts s') k n = Some x \<and> event_of_record x e'"
    if "e' \<in> set (event_log s')" "event_slot e' = Some (k, n)" for e' k n
    using that e slot [OF e(2)] entry ok(1) ledger_entry_kept [OF _ recs(2)]
    unfolding log_ok_def by auto blast
  moreover have "length (filter (event_of_record x) (event_log s')) = 1"
    if x: "accounts s' rk' = Some (PaymentRecordAcc x)" for rk' x
  proof (cases "rk' = rk")
    case True
    with x acc have "x = r" by simp
    moreover have "filter (event_of_record r) (event_log s) = []"
      using fresh by (simp add: filter_empty_conv)
    ultimately show ?thesis using e by simp
  next
    case False
    with recs(1) x have "accounts s rk' = Some (PaymentRecordAcc x)"
      by (simp add: same_records_def)
    with ok(1) other e show ?thesis by (auto simp: log_ok_def)
  qed
  ultimately show ?thesis by (simp add: log_ok_def)
qed

lemma world_step_log:
  assumes sound: "transfer_sound P" and "world_step P w w'" and "world_ok P w" "log_ok P (fst w)"
  shows "log_ok P (fst w')"
  using assms(2)
proof cases
  case (instruction iv ix s s' t)
  note kept = process_keeps_records [OF sound instruction(3)]
  from process_log_step [OF sound instruction(3)] show ?thesis
  proof cases
    case (no_entry es)
    then show ?thesis using log_ok_no_entry [OF _ no_entry kept] assms(4) instruction by simp
  next
    case (entry e r rk b)
    then show ?thesis using log_ok_entry [OF _ _ entry kept] assms(3,4) instruction
      by (auto simp: world_ok_def)
  qed
next
  case (external s s' t t')
  have "same_records (accounts s) (accounts s') {}"
    using external_program_account [OF external(3)] by (simp add: same_records_def)
  moreover have "event_log s' = event_log s @ []"
    using external(3) by (simp add: external_change_def)
  ultimately show ?thesis
    using log_ok_no_entry [of P s s' "[]"] external_keeps_records [OF external(3)] assms(4) external
    by simp
qed

interpretation logbook: invariant_of genesis "world_step P"
  "\<lambda>w. transfer_sound P \<longrightarrow> world_ok P w \<and> log_ok P (fst w)" for P
proof unfold_locales
  fix w assume "genesis w"
  then show "transfer_sound P \<longrightarrow> world_ok P w \<and> log_ok P (fst w)"
    using genesis_ok by (fastforce simp: log_ok_def genesis_def)
qed (blast intro: world_step_ok world_step_log)

text \<open>C6: In every reachable state the event log and the ledger tell the same story: every
  settlement or violation event is about a record that exists with the same data, and every payment
  record has exactly one such event.\<close>

theorem events_match_records:
  assumes "transfer_sound P" and "reach genesis (world_step P) (s, t)"
  shows "(\<forall>e \<in> set (event_log s). \<forall>k n. event_slot e = Some (k, n) \<longrightarrow>
        (\<exists>r. ledger_entry P (accounts s) k n = Some r \<and> event_of_record r e))
     \<and> (\<forall>rk r. accounts s rk = Some (PaymentRecordAcc r) \<longrightarrow>
        length (filter (event_of_record r) (event_log s)) = 1)"
  using logbook.reach_inv [OF assms(2)] assms(1) by (simp add: log_ok_def)

theorem events_match_records_witness:
  "length (filter (event_of_record (settled_record demo_wallet_key 0 (demo_payment 12000000) 601 X402
     (demo_now + 60) 255)) (event_log demo_after)) = 1"
proof -
  have "accounts demo_after (demo_record_key 0) = Some (PaymentRecordAcc (settled_record
      demo_wallet_key 0 (demo_payment 12000000) 601 X402 (demo_now + 60) 255))"
    by (simp add: demo_after_def)
  with events_match_records [OF demo_transfer_sound demo_reach_after] show ?thesis by blast
qed

section \<open>A sequence number that is already taken\<close>

lemma taken_sequence_kept:
  assumes "wallet_step P now acc acc' k (Some w) w'"
    and "ledger_entry P acc k (aw_payment_sequence w) = Some r"
  shows "aw_payment_sequence w' = aw_payment_sequence w"
  using assms by cases simp_all

text \<open>C25: A wallet whose next sequence number already has a record is stuck: neither a settlement nor
  a violation is recorded for it, and no instruction changes its sequence number or frees the
  address of the record. A wallet whose sequence number has saturated at the largest u64 ends here.\<close>

theorem taken_sequence_blocks_wallet:
  assumes sound: "transfer_sound P" and w: "accounts s k = Some (AgentWalletAcc w)"
    and taken: "ledger_entry P (accounts s) k (aw_payment_sequence w) = Some r"
    and run: "process P iv ix s = Inr s'"
  shows "(\<forall>ctx sequence params. ix = IxSettlePayment ctx sequence params \<longrightarrow> st_agent_wallet ctx \<noteq> k)
    \<and> (\<forall>ctx sequence params reason. ix = IxRecordPolicyViolation ctx sequence params reason \<longrightarrow>
          rv_agent_wallet ctx \<noteq> k)
    \<and> (\<forall>w'. accounts s' k = Some (AgentWalletAcc w') \<longrightarrow>
          aw_payment_sequence w' = aw_payment_sequence w)
    \<and> ledger_entry P (accounts s') k (aw_payment_sequence w) = Some r"
proof -
  obtain rk b where rk: "find_program_address P (payment_record_seeds k (aw_payment_sequence w)) = Some (rk, b)"
    "accounts s rk = Some (PaymentRecordAcc r)"
    using taken by (auto simp: ledger_entry_eq_Some)
  have no_settle: "st_agent_wallet ctx \<noteq> k" if "ix = IxSettlePayment ctx sequence params" for ctx sequence params
  proof
    assume k: "st_agent_wallet ctx = k"
    have "settle_payment P iv ctx sequence params s = Inr s'" using run that by simp
    with sound show False
      by (rule settle_payment_result) (use k w rk in auto)
  qed
  have no_violation: "rv_agent_wallet ctx \<noteq> k"
    if "ix = IxRecordPolicyViolation ctx sequence params reason" for ctx sequence params reason
  proof
    assume k: "rv_agent_wallet ctx = k"
    have "record_policy_violation P iv ctx sequence params reason s = Inr s'" using run that by simp
    then show False
      by (rule violation_result) (use k w rk in auto)
  qed
  have seq: "aw_payment_sequence w' = aw_payment_sequence w" if "accounts s' k = Some (AgentWalletAcc w')" for w'
    using taken_sequence_kept [OF _ taken] process_wallet_step [OF sound run that] w by simp
  show ?thesis
    using no_settle no_violation seq ledger_entry_kept [OF taken process_keeps_records [OF sound run]]
    by blast
qed

lemma stuck_at_zero_step:
  assumes sound: "transfer_sound P" and "world_step P (s, t) (s', t')"
    and r: "ledger_entry P (accounts s) k 0 = Some r"
    and w: "\<forall>w. accounts s k = Some (AgentWalletAcc w) \<longrightarrow> aw_payment_sequence w = 0"
    and w': "accounts s' k = Some (AgentWalletAcc w')"
  shows "aw_payment_sequence w' = 0"
  using assms(2)
proof cases
  case (instruction iv ix)
  then have "wallet_step P (iv_now iv) (accounts s) (accounts s') k (wallet_at (accounts s) k) w'"
    using process_wallet_step [OF sound _ w'] by blast
  then show ?thesis
    using r w by cases (auto simp: wallet_at_eq_Some new_agent_wallet_def)
next
  case external
  then show ?thesis
    using w w' external_program_account [of P s s' "AgentWalletAcc w'" k] by simp
qed

text \<open>C24: An agent id that is registered again after a wallet of the same id has recorded a payment
  or a violation (and was closed) gives a wallet that can never settle a payment or record a
  violation, whatever happens afterwards: its sequence starts at zero again, and record zero still
  exists.\<close>

theorem reregistered_wallet_cannot_pay:
  assumes sound: "transfer_sound P" and reg: "register_agent P iv ctx agent_id s = Inr s'"
    and taken: "ledger_entry P (accounts s) (rg_agent_wallet ctx) 0 = Some r"
    and steps: "(world_step P)\<^sup>*\<^sup>* (s', t') (s'', t'')"
  shows "(\<forall>iv ctx' sequence params x. st_agent_wallet ctx' = rg_agent_wallet ctx \<longrightarrow>
        settle_payment P iv ctx' sequence params s'' \<noteq> Inr x)
    \<and> (\<forall>iv ctx' sequence params reason x. rv_agent_wallet ctx' = rg_agent_wallet ctx \<longrightarrow>
        record_policy_violation P iv ctx' sequence params reason s'' \<noteq> Inr x)"
proof -
  let ?k = "rg_agent_wallet ctx"
  have r': "ledger_entry P (accounts s') ?k 0 = Some r"
    using taken process_keeps_records [OF sound, of iv "IxRegisterAgent ctx agent_id"] reg
    by (auto intro: ledger_entry_kept)
  have "ledger_entry P (accounts (fst x)) ?k 0 = Some r
      \<and> (\<forall>w. accounts (fst x) ?k = Some (AgentWalletAcc w) \<longrightarrow> aw_payment_sequence w = 0)"
    if "(world_step P)\<^sup>*\<^sup>* (s', t') x" for x
    using that
  proof (induction rule: rtranclp_induct)
    case base
    show ?case using r' reg by (auto simp: ix_simps new_agent_wallet_def)
  next
    case (step x y)
    then show ?case
      using ledger_entry_kept [OF _ world_step_keeps_records [OF sound step.hyps(2)]]
        stuck_at_zero_step [OF sound, of "fst x" "snd x" "fst y" "snd y" ?k r]
      by fastforce
  qed
  from this [OF steps] have zero: "ledger_entry P (accounts s'') ?k 0 = Some r"
    "\<And>w. accounts s'' ?k = Some (AgentWalletAcc w) \<Longrightarrow> aw_payment_sequence w = 0"
    by auto
  have "False" if k: "st_agent_wallet ctx' = ?k" and run: "settle_payment P iv ctx' sequence params s'' = Inr x"
    for iv ctx' sequence params x
    using sound run by (rule settle_payment_result) (use zero k in \<open>auto simp: ledger_entry_eq_Some\<close>)
  moreover have "False" if k: "rv_agent_wallet ctx' = ?k"
      and run: "record_policy_violation P iv ctx' sequence params reason s'' = Inr x"
    for iv ctx' sequence params reason x
    using run by (rule violation_result) (use zero k in \<open>auto simp: ledger_entry_eq_Some\<close>)
  ultimately show ?thesis by blast
qed

text \<open>The chain of the demo with record zero already there.\<close>

definition demo_old_record :: LedgerEntry where
  "demo_old_record = settled_record demo_wallet_key 0 (demo_payment 12000000) 601 X402 demo_now 255"

definition demo_used :: "chain \<Rightarrow> chain" where
  "demo_used s = store (demo_record_key 0) (PaymentRecordAcc demo_old_record) s"

lemma demo_used_entry: "ledger_entry demo (accounts (demo_used s)) demo_wallet_key 0 = Some demo_old_record"
  by (simp add: ledger_entry_def demo_find_record demo_used_def)

lemma demo_used_register: "\<exists>s'. register_agent demo (demo_iv demo_now) demo_register_ctx ''bot-1'' (demo_used demo_1) = Inr s'"
  by (simp add: ix_simps demo_ctx_defs demo_find_wallet demo_used_def
      demo_usdc_key_def [symmetric] valid_agent_id_length_def valid_agent_id_chars_def
      is_ascii_alphanumeric_def MAX_AGENT_ID_LEN_def demo_1_facts demo_genesis_def demo_rents)

theorem reregistered_wallet_cannot_pay_witness:
  "\<exists>s'. register_agent demo (demo_iv demo_now) demo_register_ctx ''bot-1'' (demo_used demo_1) = Inr s'
     \<and> (\<forall>iv sequence params x. settle_payment demo iv (demo_settle_ctx 0) sequence params s' \<noteq> Inr x)"
proof -
  obtain s' where s': "register_agent demo (demo_iv demo_now) demo_register_ctx ''bot-1'' (demo_used demo_1) = Inr s'"
    using demo_used_register by blast
  have "ledger_entry demo (accounts (demo_used demo_1)) (rg_agent_wallet demo_register_ctx) 0 = Some demo_old_record"
    by (simp add: demo_used_entry demo_register_ctx_def)
  from reregistered_wallet_cannot_pay [OF demo_transfer_sound s' this rtranclp.rtrancl_refl] s'
  show ?thesis by (auto simp: demo_register_ctx_def)
qed

theorem taken_sequence_blocks_wallet_witness:
  "\<exists>s'. process demo (demo_iv demo_now) (IxDeactivateAgent demo_status_ctx) (demo_used demo_ready) = Inr s'
     \<and> ledger_entry demo (accounts s') demo_wallet_key 0 = Some demo_old_record"
proof -
  have w: "accounts (demo_used demo_ready) demo_wallet_key = Some (AgentWalletAcc demo_wallet)"
    by (simp add: demo_used_def demo_ready_accounts)
  have "\<exists>s'. process demo (demo_iv demo_now) (IxDeactivateAgent demo_status_ctx) (demo_used demo_ready) = Inr s'"
    by (simp add: ix_simps demo_status_ctx_def w)
  then obtain s' where run: "process demo (demo_iv demo_now) (IxDeactivateAgent demo_status_ctx) (demo_used demo_ready) = Inr s'"
    by blast
  from taken_sequence_blocks_wallet [OF demo_transfer_sound w _ run, of demo_old_record] run
  show ?thesis by (simp add: demo_used_entry)
qed

end
