(* ===== verification/Audit_Trail.thy ===== *)
theory Audit_Trail
  imports Custody Ledger
begin

text \<open>
  The event log as an audit trail of the tokens: what the agents' token accounts lose over a run is
  covered by the settlement and withdrawal events of the run.
\<close>

section \<open>What an event says has left a wallet\<close>

fun outflow :: "pubkey \<Rightarrow> event \<Rightarrow> nat" where
  "outflow k (PaymentSettled w n h payee amount p t parent memo) = (if w = k then unat amount else 0)"
| "outflow k (FundsWithdrawn w dest amount t) = (if w = k then unat amount else 0)"
| "outflow k e = 0"

definition outflows :: "pubkey \<Rightarrow> event list \<Rightarrow> nat" where
  "outflows k es = sum_list (map (outflow k) es)"

lemma outflows_append [simp]: "outflows k (es @ fs) = outflows k es + outflows k fs"
  by (simp add: outflows_def)

section \<open>One step\<close>

text \<open>An instruction that moves tokens logs one event, with the amount and the wallet.\<close>

lemma moves_event:
  assumes "process P iv ix s = Inr s'" and "accounts s a = Some (TokenAcc t)"
    and "moves P s iv ix a t dst n"
  obtains e where "event_log s' = event_log s @ [e]" and "outflow (ta_owner t) e = unat n"
proof (cases ix)
  case (IxSettlePayment ctx sequence params)
  then have "settle_payment P iv ctx sequence params s = Inr s'" using assms(1) by simp
  then show thesis
  proof (rule settle_paymentE, goal_cases)
    case (1 wallet policy usdc payee config bump wallet' policy' pda acc protocol)
    have "t = usdc" "n = spp_amount_usdc params"
      using assms(2,3) 1(3) IxSettlePayment by (auto simp: moves_def)
    then show ?case
      using 1(16) by (intro that [OF 1(30)]) (simp add: settled_event_def)
  qed
next
  case (IxWithdrawFunds ctx amount)
  with assms(1) obtain usdc where "accounts s (wf_usdc_token_account ctx) = Some (TokenAcc usdc)"
    "ta_owner usdc = wf_agent_wallet ctx" and log: "event_log s' = event_log s @
      [FundsWithdrawn (wf_agent_wallet ctx) (wf_owner ctx) amount (iv_now iv)]"
    by (auto simp: ix_simps)
  with assms(2,3) IxWithdrawFunds show thesis
    by (intro that [OF log]) (auto simp: moves_def)
next
  case (IxWithdrawAll ctx)
  with assms(1) obtain usdc where "accounts s (wf_usdc_token_account ctx) = Some (TokenAcc usdc)"
    "ta_owner usdc = wf_agent_wallet ctx" and log: "event_log s' = event_log s @
      [FundsWithdrawn (wf_agent_wallet ctx) (wf_owner ctx) (ta_amount usdc) (iv_now iv)]"
    by (auto simp: ix_simps)
  with assms(2,3) IxWithdrawAll show thesis
    by (intro that [OF log]) (auto simp: moves_def)
qed (use assms(3) in \<open>simp_all add: moves_def\<close>)

lemma log_step_append: "log_step P s s' \<Longrightarrow> \<exists>es. event_log s' = event_log s @ es"
  by (erule log_step.cases) auto

lemma world_step_outflow:
  assumes sound: "transfer_sound P" and step: "world_step P (s, t) (s', t')"
    and a: "accounts s a = Some (TokenAcc tok)" and auth: "program_authority P (ta_owner tok)"
  shows "\<exists>tok' es. accounts s' a = Some (TokenAcc tok') \<and> ta_mint tok' = ta_mint tok
    \<and> ta_owner tok' = ta_owner tok \<and> event_log s' = event_log s @ es
    \<and> unat (ta_amount tok) \<le> unat (ta_amount tok') + outflows (ta_owner tok) es"
  using step
proof cases
  case (instruction iv ix)
  obtain tok' where tok': "accounts s' a = Some (TokenAcc tok')" "ta_mint tok' = ta_mint tok"
    "ta_owner tok' = ta_owner tok"
    "ta_amount tok' < ta_amount tok \<Longrightarrow>
      \<exists>dst n. moves P s iv ix a tok dst n \<and> unat (ta_amount tok') + unat n = unat (ta_amount tok)"
    using token_account_step [OF sound instruction(2) a] by blast
  show ?thesis
  proof (cases "ta_amount tok' < ta_amount tok")
    case True
    then obtain dst n where "moves P s iv ix a tok dst n"
      and n: "unat (ta_amount tok') + unat n = unat (ta_amount tok)" using tok'(4) by blast
    from moves_event [OF instruction(2) a this(1)] obtain e where
      "event_log s' = event_log s @ [e]" "outflow (ta_owner tok) e = unat n" .
    then show ?thesis using tok'(1-3) n by (auto simp: outflows_def)
  next
    case False
    moreover obtain es where "event_log s' = event_log s @ es"
      using log_step_append [OF process_log_step [OF sound instruction(2)]] by blast
    ultimately show ?thesis using tok'(1-3) by (auto simp: word_less_nat_alt not_less)
  qed
next
  case external
  then obtain tok' where "accounts s' a = Some (TokenAcc tok')" "ta_mint tok' = ta_mint tok"
    "ta_owner tok' = ta_owner tok" "ta_amount tok \<le> ta_amount tok'" "event_log s' = event_log s"
    using a auth unfolding external_change_def by blast
  then show ?thesis by (auto simp: word_le_nat_alt)
qed

section \<open>Runs\<close>

text \<open>C5: Every token that leaves an agent is accounted for: over any run, with other programs acting too,
  a token account under the authority of an agent wallet keeps its mint and its authority, the event log
  only grows, and what the balance has lost is at most the sum of the amounts of the settlement and
  withdrawal events the run logged for that wallet.\<close>

theorem every_outflow_is_logged:
  assumes sound: "transfer_sound P" and steps: "(world_step P)\<^sup>*\<^sup>* (s, t) (s', t')"
    and a: "accounts s a = Some (TokenAcc tok)" and auth: "program_authority P (ta_owner tok)"
  shows "\<exists>tok' es. accounts s' a = Some (TokenAcc tok') \<and> ta_mint tok' = ta_mint tok
    \<and> ta_owner tok' = ta_owner tok \<and> event_log s' = event_log s @ es
    \<and> unat (ta_amount tok) \<le> unat (ta_amount tok') + outflows (ta_owner tok) es"
proof -
  have "\<exists>tok' es. accounts (fst w) a = Some (TokenAcc tok') \<and> ta_mint tok' = ta_mint tok
    \<and> ta_owner tok' = ta_owner tok \<and> event_log (fst w) = event_log s @ es
    \<and> unat (ta_amount tok) \<le> unat (ta_amount tok') + outflows (ta_owner tok) es"
    if "(world_step P)\<^sup>*\<^sup>* (s, t) w" for w
    using that
  proof (induction rule: rtranclp_induct)
    case base
    show ?case using a by (auto simp: outflows_def)
  next
    case (step w w')
    then obtain tok1 es where 1: "accounts (fst w) a = Some (TokenAcc tok1)" "ta_mint tok1 = ta_mint tok"
      "ta_owner tok1 = ta_owner tok" "event_log (fst w) = event_log s @ es"
      "unat (ta_amount tok) \<le> unat (ta_amount tok1) + outflows (ta_owner tok) es" by blast
    have "world_step P (fst w, snd w) (fst w', snd w')" using step.hyps(2) by simp
    from world_step_outflow [OF sound this 1(1)] auth 1(3) obtain tok2 fs where
      "accounts (fst w') a = Some (TokenAcc tok2)" "ta_mint tok2 = ta_mint tok"
      "ta_owner tok2 = ta_owner tok" "event_log (fst w') = event_log (fst w) @ fs"
      "unat (ta_amount tok1) \<le> unat (ta_amount tok2) + outflows (ta_owner tok) fs"
      by (auto simp: 1(2))
    with 1 show ?case by (intro exI [of _ tok2] exI [of _ "es @ fs"]) simp
  qed
  from this [OF steps] show ?thesis by simp
qed

theorem every_outflow_is_logged_witness:
  "\<exists>es. event_log demo_after = event_log demo_ready @ es \<and> 12000000 \<le> outflows demo_wallet_key es"
proof -
  have a: "accounts demo_ready demo_usdc_key = Some (TokenAcc \<lparr>ta_mint = demo_mint,
      ta_owner = demo_wallet_key, ta_amount = 30000000, ta_frozen = False\<rparr>)"
    by (simp add: demo_ready_accounts demo_token_def)
  have auth: "program_authority demo demo_wallet_key"
    using demo_created(2) unfolding program_authority_def by auto
  from every_outflow_is_logged [OF demo_transfer_sound r_into_rtranclp [of "world_step demo", OF demo_step_after] a] auth
  show ?thesis by (auto simp: demo_after_accounts demo_token_def)
qed

end
