(* ===== verification/Panic_Freedom.thy ===== *)
theory Panic_Freedom
  imports Settlement_Spec
begin

text \<open>
  Which instructions can panic. The release profile checks overflow, so every signed operation is a
  possible panic; so is \<^verbatim>\<open>find_program_address\<close>.
\<close>

section \<open>Where a panic can come from\<close>

text \<open>
  \<^verbatim>\<open>find_program_address\<close> panics only if no bump gives an address off the curve, which the SDK
  documents as practically impossible for seeds within its limits.
\<close>

definition pda_total :: "platform \<Rightarrow> bool" where
  "pda_total P \<longleftrightarrow>
     (\<forall>seeds. length seeds \<le> 15 \<and> list_all (\<lambda>x. length x \<le> 32) seeds \<longrightarrow>
        find_program_address P seeds \<noteq> None)"

lemma pda_total_seeds:
  assumes "pda_total P"
  shows "find_program_address P protocol_config_seeds \<noteq> None"
    and "find_program_address P (spend_policy_seeds k) \<noteq> None"
    and "find_program_address P (payment_record_seeds k n) \<noteq> None"
    and "length agent_id \<le> 32 \<Longrightarrow> find_program_address P (agent_wallet_seeds agent_id) \<noteq> None"
  using assms unfolding pda_total_def
  by (simp_all add: protocol_config_seeds_def spend_policy_seeds_def payment_record_seeds_def
      agent_wallet_seeds_def)

lemma load_no_panic:
  "load as_AgentWallet s k \<noteq> Inl Panic" "load as_SpendPolicy s k \<noteq> Inl Panic"
  "load as_ProtocolConfig s k \<noteq> Inl Panic" "load as_TokenAccount s k \<noteq> Inl Panic"
  "load as_Mint s k \<noteq> Inl Panic"
proof -
  have "as_AgentWallet a \<noteq> Inl Panic" "as_SpendPolicy a \<noteq> Inl Panic"
    "as_ProtocolConfig a \<noteq> Inl Panic" "as_TokenAccount a \<noteq> Inl Panic" "as_Mint a \<noteq> Inl Panic" for a
    by (cases a; simp)+
  then show "load as_AgentWallet s k \<noteq> Inl Panic" "load as_SpendPolicy s k \<noteq> Inl Panic"
    "load as_ProtocolConfig s k \<noteq> Inl Panic" "load as_TokenAccount s k \<noteq> Inl Panic"
    "load as_Mint s k \<noteq> Inl Panic"
    by (simp_all add: load_def split: option.split)
qed

lemma create_account_no_panic: "create_account P payer k space a s \<noteq> Inl Panic"
  by (simp add: create_account_def result_simps)

lemma init_pda_panic:
  "init_pda P payer k seeds space a s = Inl Panic \<longleftrightarrow> find_program_address P seeds = None"
  by (auto simp: init_pda_def result_simps create_account_no_panic)

lemma init_associated_no_panic: "init_associated P payer k authority mint s \<noteq> Inl Panic"
  by (simp add: init_associated_def result_simps create_account_no_panic)

lemma checks_no_panic:
  "signed iv k \<noteq> Inl Panic" "check_seeds P k seeds b \<noteq> Inl Panic"
  "check_associated P k ta authority mint \<noteq> Inl Panic"
  by (simp_all add: signed_def check_seeds_def check_associated_def result_simps)

lemma invoke_signed_transfer_no_panic:
  "invoke_signed_transfer P iv seeds src dst authority n s \<noteq> Inl Panic"
  by (simp add: invoke_signed_transfer_def result_simps split: sum.split)

lemma write_back_no_panic: "write_back r \<noteq> Inl Panic"
  by (simp add: write_back_eq result_simps)

lemmas no_panic = write_back_no_panic load_no_panic create_account_no_panic init_associated_no_panic checks_no_panic
  invoke_signed_transfer_no_panic

lemma SettlePayment_accounts_no_panic:
  assumes "pda_total P"
  shows "SettlePayment_accounts P iv ctx sequence params s \<noteq> Inl Panic"
  using pda_total_seeds(3) [OF assms]
  by (auto simp: SettlePayment_accounts_def result_simps no_panic init_pda_panic)

lemma record_policy_violation_no_panic:
  assumes "pda_total P"
  shows "record_policy_violation P iv ctx sequence params reason s \<noteq> Inl Panic"
  using pda_total_seeds(3) [OF assms]
  by (auto simp: record_policy_violation_def RecordPolicyViolation_accounts_def Let_def result_simps
      no_panic init_pda_panic simp del: from_discriminant.simps)

lemma set_spend_policy_no_panic:
  assumes "pda_total P"
  shows "set_spend_policy P iv ctx params s \<noteq> Inl Panic"
  using pda_total_seeds(2) [OF assms]
  by (auto simp: set_spend_policy_def SetSpendPolicy_accounts_def Let_def result_simps no_panic
      split: if_splits)

lemma admin_no_panic:
  assumes "pda_total P"
  shows "init_protocol P iv ic admin s \<noteq> Inl Panic"
    and "rotate_protocol_admin P iv rc admin s \<noteq> Inl Panic"
    and "update_protocol_config P iv uc cap s \<noteq> Inl Panic"
    and "freeze_agent P iv pc s \<noteq> Inl Panic" and "unfreeze_agent P iv pc s \<noteq> Inl Panic"
  using pda_total_seeds(1) [OF assms]
  by (auto simp: init_protocol_def InitProtocol_accounts_def rotate_protocol_admin_def
      RotateProtocolAdmin_accounts_def update_protocol_config_def UpdateProtocolConfig_accounts_def
      freeze_agent_def unfreeze_agent_def ProtocolManageAgent_accounts_def result_simps no_panic
      init_pda_panic)

lemma owner_no_panic:
  "deactivate_agent iv mc s \<noteq> Inl Panic" "reactivate_agent iv mc s \<noteq> Inl Panic"
  "transfer_ownership iv tc new_owner s \<noteq> Inl Panic" "close_agent P iv cc s \<noteq> Inl Panic"
  "withdraw_funds P iv wc n s \<noteq> Inl Panic" "withdraw_all P iv wc s \<noteq> Inl Panic"
  by (auto simp: deactivate_agent_def reactivate_agent_def ManageAgentStatus_accounts_def
      transfer_ownership_def TransferOwnership_accounts_def close_agent_def CloseAgent_accounts_def
      withdraw_funds_def withdraw_all_def WithdrawFunds_accounts_def cpi_transfer_from_wallet_def Let_def
      result_simps no_panic)

lemma register_agent_panic:
  assumes "pda_total P" and "register_agent P iv ctx agent_id s = Inl Panic"
  shows "32 < length agent_id"
  using pda_total_seeds(4) [OF assms(1), of agent_id] assms(2)
  by (auto simp: register_agent_def RegisterAgent_accounts_def Let_def result_simps no_panic
      init_pda_panic not_le [symmetric])

text \<open>C19: In a reachable state and at a clock below 2^62 no instruction panics, with one exception:
  registering an agent whose id is longer than the 32 bytes a seed may have.\<close>

theorem only_long_ids_panic:
  assumes total: "pda_total P" and pda: "pda_consistent P" and sound: "transfer_sound P"
    and reach: "reach genesis (world_step P) (s, t)"
    and clock: "sint t \<le> sint (iv_now iv)" "sint (iv_now iv) < 2 ^ 62"
    and panic: "process P iv ix s = Inl Panic"
  shows "\<exists>ctx agent_id. ix = IxRegisterAgent ctx agent_id \<and> 32 < length agent_id"
proof (cases ix)
  case (IxSettlePayment ctx sequence params)
  then have run: "settle_payment P iv ctx sequence params s = Inl Panic"
    using panic by simp
  then obtain wallet policy usdc payee config bump s1 where
    acc: "SettlePayment_accounts P iv ctx sequence params s
      = Inr (wallet, policy, usdc, payee, config, bump, s1)"
    using SettlePayment_accounts_no_panic [OF total]
    by (auto simp: settle_payment_def result_simps)
  then have "accounts s (st_agent_wallet ctx) = Some (AgentWalletAcc wallet)"
    "accounts s (st_spend_policy ctx) = Some (SpendPolicyAcc policy)"
    by (simp_all add: SettlePayment_accounts_eq_Inr)
  note calm = reachable_calm [OF sound reach clock this]
  have "create_program_address P (agent_wallet_seeds (aw_agent_id wallet) @ [[aw_bump wallet]])
      = Some (st_agent_wallet ctx)"
    using pda calm(2) by (simp add: pda_consistent_def)
  from settle_payment_spec [OF acc calm(1) this] run show ?thesis
    by (simp add: checked_def settle_outcome_def split: option.splits sum.splits prod.splits if_splits)
qed (use panic record_policy_violation_no_panic [OF total] set_spend_policy_no_panic [OF total]
    admin_no_panic [OF total] owner_no_panic register_agent_panic [OF total] in auto)

text \<open>No address exists for a long id on the demo platform, as on Solana.\<close>

lemma demo_pda_total: "pda_total demo"
  by (auto simp: pda_total_def demo_find_def demo_create_def list_ex_iff list_all_iff not_le [symmetric])

definition demo_long_id :: string where
  "demo_long_id = replicate 33 (CHR ''a'')"

theorem only_long_ids_panic_witness:
  "process demo (demo_iv demo_now) (IxRegisterAgent demo_register_ctx demo_long_id) demo_ready = Inl Panic
     \<and> 32 < length demo_long_id"
proof -
  have "process demo (demo_iv demo_now) (IxRegisterAgent demo_register_ctx demo_long_id) demo_ready = Inl Panic"
    by (simp add: register_agent_def RegisterAgent_accounts_def demo_register_ctx_def load_def
        demo_ready_accounts signed_def demo_long_id_def init_pda_def demo_find_def demo_create_def
        agent_wallet_seeds_def)
  with only_long_ids_panic [OF demo_pda_total demo_pda_consistent demo_transfer_sound demo_reach_ready
      _ _ this]
  show ?thesis by (simp add: demo_now_def)
qed

end
