(* ===== verification/Account_Layout.thy ===== *)
theory Account_Layout
  imports Demo_Run
begin

text \<open>
  The bytes of the accounts. \<^verbatim>\<open>#[account]\<close> serialises a struct with Borsh, field by field in the order of
  the declaration, after an 8-byte discriminator: integers in little-endian order, a \<^verbatim>\<open>bool\<close> and an
  enum as one byte, a \<^verbatim>\<open>String\<close> or \<^verbatim>\<open>Vec\<close> behind a 4-byte length, an \<^verbatim>\<open>Option\<close> behind a tag byte. The
  \<open>LEN\<close> constants of the source allocate the accounts; here they are checked against that layout. The
  bytes of a payment record, which the handlers depend on, are in \<open>Payment_Record\<close>.
\<close>

section \<open>Layout\<close>

definition string_bytes :: "string \<Rightarrow> bytes" where
  "string_bytes s = le_bytes (of_nat (length s) :: u32) @ str_bytes s"

definition hashes_bytes :: "hash256 list \<Rightarrow> bytes" where
  "hashes_bytes hs = le_bytes (of_nat (length hs) :: u32) @ concat (map le_bytes hs)"

definition AgentWallet_bytes :: "bytes \<Rightarrow> AgentWallet \<Rightarrow> bytes" where
  "AgentWallet_bytes tag w =
     tag @ string_bytes (aw_agent_id w) @ le_bytes (aw_owner w) @ le_bytes (aw_usdc_token_account w)
     @ le_bytes (aw_daily_spend w) @ le_bytes (aw_daily_window_start w)
     @ le_bytes (aw_weekly_spend w) @ le_bytes (aw_weekly_window_start w)
     @ le_bytes (aw_monthly_spend w) @ le_bytes (aw_monthly_window_start w)
     @ le_bytes (aw_payment_sequence w) @ le_bytes (aw_total_payments w) @ le_bytes (aw_total_volume w)
     @ le_bytes (aw_last_payment_at w) @ bool_bytes (aw_is_active w) @ bool_bytes (aw_is_frozen w)
     @ le_bytes (aw_bump w)"

definition SpendPolicy_bytes :: "bytes \<Rightarrow> SpendPolicy \<Rightarrow> bytes" where
  "SpendPolicy_bytes tag p =
     tag @ le_bytes (sp_agent_wallet p) @ le_bytes (sp_daily_budget p) @ le_bytes (sp_weekly_budget p)
     @ le_bytes (sp_monthly_budget p) @ le_bytes (sp_per_call_limit p)
     @ le_bytes (sp_rate_limit_calls p) @ le_bytes (sp_rate_limit_window_secs p)
     @ le_bytes (sp_rate_limit_call_count p) @ le_bytes (sp_rate_limit_window_start p)
     @ le_bytes (sp_high_value_threshold p) @ hashes_bytes (sp_allowed_domain_hashes p)
     @ hashes_bytes (sp_blocked_domain_hashes p) @ le_bytes (sp_bump p)"

definition ProtocolConfig_bytes :: "bytes \<Rightarrow> ProtocolConfig \<Rightarrow> bytes" where
  "ProtocolConfig_bytes tag c =
     tag @ le_bytes (pc_admin c) @ le_bytes (pc_version c) @ le_bytes (pc_max_single_payment_usdc c)
     @ le_bytes (pc_bump c)"

section \<open>Properties\<close>

lemma length_hashes_bytes: "length (hashes_bytes hs) = 4 + 32 * length hs"
  by (simp add: hashes_bytes_def length_concat comp_def sum_list_triv)

lemma length_parts:
  "length (bool_bytes b) = 1" "length (string_bytes s) = 4 + length s"
  "length (option_bytes x) = 1 + (case x of None \<Rightarrow> 0 | Some (v :: pubkey) \<Rightarrow> 32)"
  by (simp_all add: bool_bytes_def string_bytes_def option_bytes_def split: option.split)

text \<open>C38: The allocations are large enough: in every reachable state the serialisation of each account
  of the program, as its struct is declared, fits the \<open>LEN\<close> bytes it was created with; the
  configuration fills its allocation exactly.\<close>

theorem account_bytes_fit:
  assumes "transfer_sound P" and "reach genesis (world_step P) (s, t)" and "length tag = 8"
  shows "(\<forall>k w. accounts s k = Some (AgentWalletAcc w) \<longrightarrow>
        length (AgentWallet_bytes tag w) \<le> AgentWallet_LEN)
    \<and> (\<forall>k p. accounts s k = Some (SpendPolicyAcc p) \<longrightarrow>
        length (SpendPolicy_bytes tag p) \<le> SpendPolicy_LEN)
    \<and> (\<forall>k r. accounts s k = Some (PaymentRecordAcc r) \<longrightarrow>
        length (PaymentRecord_bytes tag r) \<le> PaymentRecord_LEN)
    \<and> (\<forall>k c. accounts s k = Some (ProtocolConfigAcc c) \<longrightarrow>
        length (ProtocolConfig_bytes tag c) = ProtocolConfig_LEN)"
proof -
  have ok: "accounts_ok P t (accounts s)"
    using reachable_ok [OF assms(1,2)] by (simp add: world_ok_def)
  have "length (AgentWallet_bytes tag w) \<le> AgentWallet_LEN" if "accounts s k = Some (AgentWalletAcc w)" for k w
    using accounts_okD [OF ok that] assms(3)
    by (simp add: AgentWallet_bytes_def AgentWallet_LEN_def length_parts wallet_ok_def
        valid_agent_id_length_def MAX_AGENT_ID_LEN_def)
  moreover have "length (SpendPolicy_bytes tag p) \<le> SpendPolicy_LEN"
    if "accounts s k = Some (SpendPolicyAcc p)" for k p
    using accounts_okD [OF ok that] assms(3)
    by (simp add: SpendPolicy_bytes_def SpendPolicy_LEN_def length_hashes_bytes policy_ok_def
        MAX_DOMAIN_ENTRIES_def)
  moreover have "length (PaymentRecord_bytes tag r) \<le> PaymentRecord_LEN" for r :: LedgerEntry
    using assms(3)
    by (simp add: PaymentRecord_bytes_def PaymentRecord_LEN_def length_parts split: option.split)
  moreover have "length (ProtocolConfig_bytes tag c) = ProtocolConfig_LEN" for c
    using assms(3) by (simp add: ProtocolConfig_bytes_def ProtocolConfig_LEN_def)
  ultimately show ?thesis by blast
qed

theorem account_bytes_fit_witness:
  "length (AgentWallet_bytes (replicate 8 0) demo_paid) \<le> AgentWallet_LEN"
  using account_bytes_fit [OF demo_transfer_sound demo_reach_after, of "replicate 8 0"] demo_after_wallet
  by simp

text \<open>C39: What is on chain always fits its allocation, memo included: in every reachable state, each
  payment record with the memo the handlers add takes at most the \<open>LEN\<close> bytes it was created with.
  The price is that an instruction whose record would be larger fails when it is written back: no
  settlement with a memo or a parent payment and no violation with a memo ever succeeds, so no record
  on chain has a memo or is chained, although the parameters and the event carry both.\<close>

theorem stored_records_fit:
  assumes sound: "transfer_sound P" and reach: "reach genesis (world_step P) (s, t)"
  shows "(\<forall>k r. accounts s k = Some (PaymentRecordAcc r) \<longrightarrow>
        length (LedgerEntry_bytes (replicate 8 0) r) \<le> PaymentRecord_LEN
        \<and> le_memo r = None \<and> \<not> is_chained r)
    \<and> (\<forall>iv ctx sequence params s'. process P iv (IxSettlePayment ctx sequence params) s = Inr s' \<longrightarrow>
        spp_memo params = None \<and> spp_parent_payment params = None)
    \<and> (\<forall>iv ctx sequence params reason s'.
        process P iv (IxRecordPolicyViolation ctx sequence params reason) s = Inr s' \<longrightarrow>
        spp_memo params = None)"
proof -
  have ok: "accounts_ok P t (accounts s)"
    using reachable_ok [OF sound reach] by (simp add: world_ok_def)
  have "pr_parent_payment r = None \<and> le_memo r = None" if "accounts s k = Some (PaymentRecordAcc r)" for k r
    using accounts_okD [OF ok that] by (simp add: record_ok_def)
  then show ?thesis
    by (auto simp: length_LedgerEntry_bytes PaymentRecord_LEN_def is_chained_def
        elim!: settle_paymentE violation_result)
qed

theorem stored_records_fit_witness:
  "\<exists>r. accounts demo_after (demo_record_key 0) = Some (PaymentRecordAcc r) \<and> \<not> is_chained r
     \<and> length (LedgerEntry_bytes (replicate 8 0) r) \<le> PaymentRecord_LEN"
proof -
  have "accounts demo_after (demo_record_key 0) = Some (PaymentRecordAcc (settled_record demo_wallet_key 0
      (demo_payment 12000000) 601 X402 (demo_now + 60) 255))"
    by (simp add: demo_after_accounts)
  then show ?thesis
    using stored_records_fit [OF demo_transfer_sound demo_reach_after] by blast
qed

text \<open>C40: A payment record leaves no room for the memo the handlers assign: with a memo field of type
  \<open>Option<[u8; 32]>\<close> added, the record is larger than its allocation whenever it has a memo or a
  parent payment.\<close>

theorem no_room_for_memo:
  fixes memo :: "hash256 option"
  assumes "length tag = 8"
  shows "PaymentRecord_LEN < length (PaymentRecord_bytes tag r @ option_bytes memo)
    \<longleftrightarrow> memo \<noteq> None \<or> pr_parent_payment r \<noteq> None"
  using assms
  by (cases memo; cases "pr_parent_payment r")
    (simp_all add: PaymentRecord_bytes_def PaymentRecord_LEN_def length_parts)

theorem no_room_for_memo_witness:
  "PaymentRecord_LEN < length (PaymentRecord_bytes (replicate 8 0)
     (settled_record demo_wallet_key 0 (demo_payment 12000000) 601 X402 demo_now 255)
     @ option_bytes (Some 14 :: hash256 option))"
  using no_room_for_memo [of "replicate 8 0" _ "Some 14"] by simp

end
