(* ===== verification/Spec2Isabelle.thy ===== *)
theory Spec2Isabelle
  imports Freeze_Escape Lifecycle Audit_Trail Panic_Freedom Account_Layout
begin

text \<open>
  The Maxim Protocol program (programs/maxim_protocol), verified.

  \<^bold>\<open>The program.\<close> An Anchor program for Solana that settles the payments of AI agents in USDC. An
  agent has a wallet account and a spend policy account; its USDC lies in a token account the wallet's
  address has authority over. The wallet's owner (a key of the payment gateway) settles payments,
  records violations, sets the policy, pauses, hands over, empties and closes the wallet. Each
  settlement and each violation leaves a payment record at an address derived from the wallet and a
  sequence number: the ledger. One configuration account names the protocol admin, who can freeze
  wallets and cap payments. The handlers interact through these accounts only.

  \<^bold>\<open>Theories and code.\<close> All files are under programs/maxim_protocol/src.
  \<^item> \<open>Maxim_Prelude\<close>: results, Rust's saturating and checked arithmetic on words, the arithmetic of
    tumbling windows, bytes, reachability, the locale \<open>invariant_of\<close> (an invariant of a transition system).
  \<^item> \<open>Errors\<close>: errors.rs, and what else can stop an instruction. \<open>Protocol_Config\<close>, \<open>Payment_Record\<close>,
    \<open>Agent_Wallet\<close>, \<open>Spend_Policy\<close>: the files of state/, a record per struct and a definition per
    method; the locale \<open>spend_window\<close> is the contract of a wallet's window and \<open>budget_cap\<close> that of a
    budget, each interpreted for the daily, the weekly and the monthly one. \<open>Events\<close>: the event and
    parameter structs of lib.rs.
  \<^item> \<open>Runtime\<close>: the chain (accounts, lamports, event log), the invocation (signers, clock), the platform
    as a record of functions, and one definition for each check or effect that an account attribute
    stands for; \<open>cpi_transfer_from_wallet\<close> of lib.rs.
  \<^item> \<open>Settlement\<close>: settle_payment and record_policy_violation. \<open>Admin_Instructions\<close>: init_protocol,
    rotate_protocol_admin, update_protocol_config, freeze_agent, unfreeze_agent.
    \<open>Wallet_Instructions\<close>: register_agent, set_spend_policy, deactivate_agent, reactivate_agent,
    transfer_ownership, close_agent. \<open>Withdrawal\<close>: withdraw_funds, withdraw_all. For each account
    struct \<open>X\<close> there is the record \<open>X\<close> of the keys passed and \<open>X_accounts\<close>, the checks Anchor derives, in
    Anchor's order; for each handler a definition of its name, which returns the new chain or the
    error of the first check that fails. \<open>Program\<close>: the instructions and their dispatch.
  \<^item> \<open>Demo_Platform\<close>, \<open>Demo_Run\<close>: a concrete platform that satisfies every assumption, and a run on it
    (initialisation, registration, policy, deposit, payment, freeze), on which the witnesses evaluate.

  \<^bold>\<open>What the lemmas show.\<close>
  \<^item> \<open>Executions\<close>: the transition system of arbitrary instructions by arbitrary signers, interleaved with
    anything other programs can do, and the invariants of every reachable state: each account is
    well-formed and lies at its derived address, and the ledger of each wallet has no gap.
  \<^item> \<open>Settlement_Spec\<close>: settle_payment is its specification in plain numbers, which uses no definition of
    the handler: a checklist in order, then the transfer, then the new wallet, policy, record and event
    field by field (\<open>paid_wallet\<close>, \<open>settled_policy\<close>, \<open>paid_record\<close>); when exactly it succeeds; what a success
    changes; the rate limit; two budgets in two seconds.
  \<^item> \<open>Books\<close>: the counters of a wallet are the sums over its ledger, so the enforced budgets bound the
    payments really made. \<open>Ledger\<close>: records are permanent, the event log agrees with them, and what that
    permanence does to a taken sequence number.
  \<^item> \<open>Custody\<close>: who can move tokens, conservation of tokens and lamports, the owner can always withdraw.
    \<open>Audit_Trail\<close>: what an agent's token accounts lose over a run is covered by the events of the run.
    \<open>Access_Control\<close>: whose signature each change needs. \<open>Lifecycle\<close>: the full effect of the remaining
    instructions. \<open>Stranded_Tokens\<close>: a run in which a closed agent's USDC is taken by a stranger.
  \<^item> \<open>Wallet_Automaton\<close>: every instruction takes an edge of a small automaton of a wallet's phases, each
    edge under the role that may take it, and payments happen in one phase only. \<open>Freeze_Escape\<close>: a run
    along those edges in which an owner gets around the admin's freeze by closing and registering again.
  \<^item> \<open>Panic_Freedom\<close>: the only panic is that of an id too long for a seed. \<open>Account_Layout\<close>: the accounts
    fit the bytes allocated for them; a record with a memo or a parent payment does not, so no such
    record is ever written.

  \<^bold>\<open>Assumptions on the platform.\<close> Address derivation, associated token addresses, rent and the token
  transfer are functions of a \<open>platform\<close>, a parameter, and so is the native mint, whose token accounts
  hold wrapped lamports: the program accepts any mint, so this one too. Theorems name what they need of it:
  \<open>pda_consistent\<close> (the address found is created by its seeds and bump), \<open>pda_total\<close> and \<open>seeds_limited\<close>
  (an address exists exactly for seeds of at most 32 bytes), \<open>transfer_sound\<close> and \<open>transfer_live\<close> (a token
  transfer moves the amount, with its lamports for the native mint, and nothing else, and succeeds when it may). Nothing is assumed of address
  collisions. Clocks do not go back between steps; where overflow matters the clock is below \<open>2 ^ 62\<close>,
  which leaves room for every sum of a time and a period. Loops and recursion do not occur in the
  program, so no fuel is needed.

  \<^bold>\<open>Not modelled.\<close> scripts/seed.ts and migrations/deploy.ts (clients), the build files; the Borsh
  decoding of instruction data and the account discriminators (an account is read at its type); the
  keys of the Token, Associated Token and System programs and of the Rent sysvar, fixed by their types;
  compute limits; a transaction of several instructions, whose atomicity is the runtime's. The struct
  PaymentRecord has no memo field although the handlers assign one: \<open>PaymentRecord\<close> is the struct as
  declared and \<open>LedgerEntry\<close> adds the field, with the allocation as declared. \<open>write_back\<close> is Anchor's
  write-back of the entry when the two instructions return, which fails for an entry larger than that.
  The other accounts always fit (\<open>account_bytes_fit\<close>), so their write-back is not spelled out.
\<close>

end
